(* ===== verification/Prelude.thy ===== *)
theory Prelude
  imports Main
    "HOL-Library.AList"
    "HOL-Library.Word"
    "HOL-Library.Char_ord"
    "HOL-Library.List_Lexorder"
    "HOL-Library.Product_Lexorder"
begin

text \<open>
  What every component of the development shares: Go errors as values, the result type of a
  fallible stateful Go function and the combinators that mirror Go's
  \<open>if err != nil\<close> idiom, and generic facts on lists and association lists.

  A Go function \<open>func f(...) (T, error)\<close> that reads and writes the state \<open>'s\<close> is a HOL
  function \<open>... \<Rightarrow> 's \<Rightarrow> (error + 'a) \<times> 's\<close>: the state is returned on the error path too, so
  that what a failing call leaves behind is part of the model.
\<close>

named_theorems status_simps \<open>the status constants and their distinctness\<close>
named_theorems run_iff \<open>when a combinator returns, and with what\<close>
named_theorems orm_defs \<open>the definitions of the data access layer\<close>

section \<open>Errors\<close>

text \<open>
  The sentinel errors the code compares against with \<open>errors.Is\<close>, and the gRPC codes it
  returns.
\<close>

datatype sentinel =
    ErrRecordNotFound
  | ErrTaskNotFound
  | ErrTenantNotFound
  | ErrAgentNotFound
  | ErrAgentIdentityConflict
  | DeadlineExceeded
  | Canceled
  | EOF
  | ErrServerStopped
  | ErrServerClosed

datatype code =
    InvalidArgument
  | NotFound
  | PermissionDenied
  | FailedPrecondition
  | Unauthenticated
  | Internal
  | Unimplemented
  | Unknown

text \<open>
  \<open>External\<close> is an error value of code outside the repository (a driver, a client library),
  known by its text only. \<open>Errorf\<close> is \<open>fmt.Errorf\<close> without \<open>%w\<close>, \<open>Wrapf\<close> the same with
  one \<open>%w\<close> operand (the wrapped error), \<open>Statusf\<close> is \<open>status.Errorf\<close>. The format string is the
  source's; the operands are their printed values.
\<close>

datatype error =
    Sentinel sentinel
  | External string
  | Errorf string "string list"
  | Wrapf string "string list" error
  | Statusf code string "string list"

text \<open>\<open>errors.Is(err, target)\<close> follows the chain of wrapped errors.\<close>

primrec errors_Is :: "error \<Rightarrow> sentinel \<Rightarrow> bool" where
  "errors_Is (Sentinel x) t = (x = t)"
| "errors_Is (External m) t = False"
| "errors_Is (Errorf f as) t = False"
| "errors_Is (Wrapf f as e) t = errors_Is e t"
| "errors_Is (Statusf c f as) t = False"

text \<open>\<open>status.Code(err)\<close>: the code of the first gRPC status in the chain, else \<open>Unknown\<close>.\<close>

primrec status_Code :: "error \<Rightarrow> code" where
  "status_Code (Sentinel x) = Unknown"
| "status_Code (External m) = Unknown"
| "status_Code (Errorf f as) = Unknown"
| "status_Code (Wrapf f as e) = status_Code e"
| "status_Code (Statusf c f as) = c"

text \<open>
  \<open>err.Error()\<close>. The formatting verbs the source uses are \<open>%s\<close>, \<open>%v\<close>, \<open>%d\<close> (the printed
  operand), \<open>%q\<close> (the operand in double quotes) and \<open>%w\<close> (the wrapped error's text).
\<close>

definition quote_char :: "char \<Rightarrow> string" where
  "quote_char c =
     (if c = CHR 0x22 then [CHR 0x5C, CHR 0x22]
      else if c = CHR 0x5C then [CHR 0x5C, CHR 0x5C]
      else [c])"

definition quote_string :: "string \<Rightarrow> string" where
  "quote_string s = CHR 0x22 # concat (map quote_char s) @ [CHR 0x22]"

fun sprintf :: "string \<Rightarrow> string list \<Rightarrow> string \<Rightarrow> string" where
  "sprintf [] args w = []"
| "sprintf [c] args w = [c]"
| "sprintf (c # v # fmt) args w =
     (if c \<noteq> CHR ''%'' then c # sprintf (v # fmt) args w
      else if v = CHR ''w'' then w @ sprintf fmt args w
      else case args of
             [] \<Rightarrow> ''%!'' @ v # ''(MISSING)'' @ sprintf fmt [] w
           | a # as \<Rightarrow> (if v = CHR ''q'' then quote_string a else a) @ sprintf fmt as w)"

definition sentinel_text :: "sentinel \<Rightarrow> string" where
  "sentinel_text x = (case x of
       ErrRecordNotFound \<Rightarrow> ''record not found''
     | ErrTaskNotFound \<Rightarrow> ''task not found''
     | ErrTenantNotFound \<Rightarrow> ''tenant not found''
     | ErrAgentNotFound \<Rightarrow> ''agent not found''
     | ErrAgentIdentityConflict \<Rightarrow> ''agent identity conflict''
     | DeadlineExceeded \<Rightarrow> ''context deadline exceeded''
     | Canceled \<Rightarrow> ''context canceled''
     | EOF \<Rightarrow> ''EOF''
     | ErrServerStopped \<Rightarrow> ''grpc: the server has been stopped''
     | ErrServerClosed \<Rightarrow> ''http: Server closed'')"

definition code_text :: "code \<Rightarrow> string" where
  "code_text c = (case c of
       InvalidArgument \<Rightarrow> ''InvalidArgument''
     | NotFound \<Rightarrow> ''NotFound''
     | PermissionDenied \<Rightarrow> ''PermissionDenied''
     | FailedPrecondition \<Rightarrow> ''FailedPrecondition''
     | Unauthenticated \<Rightarrow> ''Unauthenticated''
     | Internal \<Rightarrow> ''Internal''
     | Unimplemented \<Rightarrow> ''Unimplemented''
     | Unknown \<Rightarrow> ''Unknown'')"

primrec error_Error :: "error \<Rightarrow> string" where
  "error_Error (Sentinel x) = sentinel_text x"
| "error_Error (External m) = m"
| "error_Error (Errorf f as) = sprintf f as []"
| "error_Error (Wrapf f as e) = sprintf f as (error_Error e)"
| "error_Error (Statusf c f as) =
     ''rpc error: code = '' @ code_text c @ '' desc = '' @ sprintf f as []"

section \<open>Fallible stateful functions\<close>

type_synonym ('s, 'a) go = "'s \<Rightarrow> (error + 'a) \<times> 's"

definition ret :: "'a \<Rightarrow> ('s, 'a) go" where
  "ret x = (\<lambda>s. (Inr x, s))"

definition raise :: "error \<Rightarrow> ('s, 'a) go" where
  "raise e = (\<lambda>s. (Inl e, s))"

text \<open>\<open>x, err := m(); if err != nil { return err }; ...\<close>\<close>

definition bindE :: "('s, 'a) go \<Rightarrow> ('a \<Rightarrow> ('s, 'b) go) \<Rightarrow> ('s, 'b) go" where
  "bindE m f = (\<lambda>s. case m s of (Inl e, s') \<Rightarrow> (Inl e, s') | (Inr x, s') \<Rightarrow> f x s')"

text \<open>\<open>if err := m(); err != nil { return g(err) }\<close>: the error is replaced, usually wrapped.\<close>

definition mapErr :: "(error \<Rightarrow> error) \<Rightarrow> ('s, 'a) go \<Rightarrow> ('s, 'a) go" where
  "mapErr g m = (\<lambda>s. case m s of (Inl e, s') \<Rightarrow> (Inl (g e), s') | (Inr x, s') \<Rightarrow> (Inr x, s'))"

text \<open>\<open>x, err := m()\<close> with \<open>err\<close> inspected by the code that follows.\<close>

definition tryE :: "('s, 'a) go \<Rightarrow> ('s, error + 'a) go" where
  "tryE m = (\<lambda>s. case m s of (r, s') \<Rightarrow> (Inr r, s'))"

definition getsE :: "('s \<Rightarrow> 'a) \<Rightarrow> ('s, 'a) go" where
  "getsE f = (\<lambda>s. (Inr (f s), s))"

definition modifyE :: "('s \<Rightarrow> 's) \<Rightarrow> ('s, unit) go" where
  "modifyE f = (\<lambda>s. (Inr (), f s))"

text \<open>\<open>for _, x := range xs { if err := f(x); err != nil { return err } }\<close>\<close>

primrec forE :: "'x list \<Rightarrow> ('x \<Rightarrow> ('s, unit) go) \<Rightarrow> ('s, unit) go" where
  "forE [] f = ret ()"
| "forE (x # xs) f = bindE (f x) (\<lambda>_. forE xs f)"

lemma ret_iff [run_iff]: "ret x s = (r, s') \<longleftrightarrow> r = Inr x \<and> s' = s"
  by (auto simp: ret_def)

lemma raise_iff [run_iff]: "raise e s = (r, s') \<longleftrightarrow> r = Inl e \<and> s' = s"
  by (auto simp: raise_def)

lemma getsE_iff [run_iff]: "getsE f s = (r, s') \<longleftrightarrow> r = Inr (f s) \<and> s' = s"
  by (auto simp: getsE_def)

lemma modifyE_iff [run_iff]: "modifyE f s = (r, s') \<longleftrightarrow> r = Inr () \<and> s' = f s"
  by (auto simp: modifyE_def)

lemma bindE_Inr_iff [run_iff]:
  "bindE m f s = (Inr y, s') \<longleftrightarrow> (\<exists>x s1. m s = (Inr x, s1) \<and> f x s1 = (Inr y, s'))"
  by (auto simp: bindE_def split: prod.splits sum.splits)

lemma bindE_Inl_iff [run_iff]:
  "bindE m f s = (Inl e, s') \<longleftrightarrow>
     m s = (Inl e, s') \<or> (\<exists>x s1. m s = (Inr x, s1) \<and> f x s1 = (Inl e, s'))"
  by (auto simp: bindE_def split: prod.splits sum.splits)

lemma mapErr_Inr_iff [run_iff]: "mapErr g m s = (Inr x, s') \<longleftrightarrow> m s = (Inr x, s')"
  by (auto simp: mapErr_def split: prod.splits sum.splits)

lemma mapErr_Inl_iff [run_iff]: "mapErr g m s = (Inl e, s') \<longleftrightarrow> (\<exists>e0. m s = (Inl e0, s') \<and> e = g e0)"
  by (auto simp: mapErr_def split: prod.splits sum.splits)

lemma tryE_iff [run_iff]: "tryE m s = (r, s') \<longleftrightarrow> (\<exists>r0. m s = (r0, s') \<and> r = Inr r0)"
  by (auto simp: tryE_def split: prod.splits)

lemma bindE_tryE_iff:
  "bindE (tryE m) g s = (r, s') \<longleftrightarrow>
     (\<exists>e s1. m s = (Inl e, s1) \<and> g (Inl e) s1 = (r, s')) \<or> (\<exists>x s1. m s = (Inr x, s1) \<and> g (Inr x) s1 = (r, s'))"
  by (cases "m s"; cases "fst (m s)") (auto simp: bindE_def tryE_def)

lemma snd_mapErr [simp]: "snd (mapErr g m s) = snd (m s)"
  by (auto simp: mapErr_def split: prod.splits sum.splits)

lemma snd_tryE [simp]: "snd (tryE m s) = snd (m s)"
  by (auto simp: tryE_def split: prod.splits)

lemma run_simps [simp]:
  "ret x s = (Inr x, s)"
  "raise e s = (Inl e, s)"
  "getsE f s = (Inr (f s), s)"
  "modifyE h s = (Inr (), h s)"
  by (simp_all add: ret_def raise_def getsE_def modifyE_def)

lemma bindE_run:
  "m s = (Inr x, s1) \<Longrightarrow> bindE m f s = f x s1"
  "m s = (Inl e, s1) \<Longrightarrow> bindE m f s = (Inl e, s1)"
  by (simp_all add: bindE_def)

lemma bindE_ret [simp]: "bindE (ret x) f = f x"
  by (simp add: bindE_def ret_def)

lemma bindE_raise [simp]: "bindE (raise e) f = raise e"
  by (simp add: bindE_def raise_def)

lemma bindE_getsE: "bindE (getsE f) g s = g (f s) s"
  by (simp add: bindE_def)

section \<open>How a state may evolve\<close>

text \<open>
  A Go function only moves the part \<open>view\<close> of the state along \<open>R\<close>, whether it returns an error or
  not. With \<open>R\<close> reflexive and transitive every combinator keeps this, so a fact about a
  whole handler needs a proof only for the statements that write.
\<close>

definition evolves :: "('s \<Rightarrow> 'v) \<Rightarrow> ('v \<Rightarrow> 'v \<Rightarrow> bool) \<Rightarrow> ('s, 'a) go \<Rightarrow> bool" where
  "evolves view R m \<longleftrightarrow> (\<forall>s. R (view s) (view (snd (m s))))"

locale evolution =
  fixes view :: "'s \<Rightarrow> 'v"
    and R :: "'v \<Rightarrow> 'v \<Rightarrow> bool"
  assumes R_refl: "R v v"
    and R_trans: "R u v \<Longrightarrow> R v w \<Longrightarrow> R u w"
begin

lemma evolvesD: "evolves view R m \<Longrightarrow> m s = (r, s') \<Longrightarrow> R (view s) (view s')"
  unfolding evolves_def by (metis snd_conv)

lemma evolvesI: "(\<And>s. R (view s) (view (snd (m s)))) \<Longrightarrow> evolves view R m"
  by (simp add: evolves_def)

lemma evolves_ret: "evolves view R (ret x)"
  by (simp add: evolves_def R_refl)

lemma evolves_raise: "evolves view R (raise e)"
  by (simp add: evolves_def R_refl)

lemma evolves_getsE: "evolves view R (getsE f)"
  by (simp add: evolves_def R_refl)

lemma evolves_modifyE: "(\<And>s. view (f s) = view s) \<Longrightarrow> evolves view R (modifyE f)"
  by (simp add: evolves_def R_refl)

text \<open>A continuation that is only run on results the first operation can have.\<close>

lemma evolves_bind_result:
  assumes "evolves view R m" and "\<And>s x s'. m s = (Inr x, s') \<Longrightarrow> evolves view R (f x)"
  shows "evolves view R (bindE m f)"
proof (rule evolvesI)
  fix s
  obtain r s1 where m: "m s = (r, s1)" by fastforce
  have 1: "R (view s) (view s1)" using evolvesD[OF assms(1) m] .
  show "R (view s) (view (snd (bindE m f s)))"
  proof (cases r)
    case (Inl e)
    then show ?thesis using m 1 by (simp add: bindE_def)
  next
    case (Inr x)
    have "R (view s1) (view (snd (f x s1)))" using assms(2) m Inr by (simp add: evolves_def)
    then show ?thesis using m 1 Inr by (auto simp: bindE_def intro: R_trans)
  qed
qed

lemma evolves_bindE:
  "evolves view R m \<Longrightarrow> (\<And>x. evolves view R (f x)) \<Longrightarrow> evolves view R (bindE m f)"
  by (rule evolves_bind_result)

lemma evolves_mapErr: "evolves view R m \<Longrightarrow> evolves view R (mapErr g m)"
  by (simp add: evolves_def)

lemma evolves_tryE: "evolves view R m \<Longrightarrow> evolves view R (tryE m)"
  by (simp add: evolves_def)

lemma evolves_forE: "(\<And>x. evolves view R (f x)) \<Longrightarrow> evolves view R (forE xs f)"
  by (induction xs) (auto intro: evolves_ret evolves_bindE)

lemma evolves_if:
  "(b \<Longrightarrow> evolves view R m) \<Longrightarrow> (\<not> b \<Longrightarrow> evolves view R n) \<Longrightarrow> evolves view R (if b then m else n)"
  by simp

lemma evolves_sum:
  "(\<And>e. r = Inl e \<Longrightarrow> evolves view R (f e)) \<Longrightarrow> (\<And>x. r = Inr x \<Longrightarrow> evolves view R (g x)) \<Longrightarrow>
   evolves view R (case_sum f g r)"
  by (simp split: sum.splits)

lemma evolves_option:
  "(r = None \<Longrightarrow> evolves view R m) \<Longrightarrow> (\<And>x. r = Some x \<Longrightarrow> evolves view R (g x)) \<Longrightarrow>
   evolves view R (case_option m g r)"
  by (simp split: option.splits)

lemma evolves_prod:
  "(\<And>x y. evolves view R (f x y)) \<Longrightarrow> evolves view R (case_prod f p)"
  by (simp split: prod.splits)

lemmas evolves_intros =
  evolves_ret evolves_raise evolves_getsE evolves_bindE evolves_mapErr evolves_tryE
  evolves_forE evolves_if evolves_sum evolves_option evolves_prod

end

section \<open>Lists\<close>

text \<open>The first row of a query, \<open>ErrRecordNotFound\<close> when there is none.\<close>

definition first_row :: "'r list \<Rightarrow> error + 'r" where
  "first_row rs = (case rs of [] \<Rightarrow> Inl (Sentinel ErrRecordNotFound) | r # _ \<Rightarrow> Inr r)"

lemma first_row_Inr: "first_row rs = Inr r \<Longrightarrow> r \<in> set rs"
  by (auto simp: first_row_def split: list.splits)

lemma first_row_Inl_iff: "first_row rs = Inl e \<longleftrightarrow> rs = [] \<and> e = Sentinel ErrRecordNotFound"
  by (auto simp: first_row_def split: list.splits)

text \<open>An \<open>UPDATE ... WHERE\<close>: \<open>f\<close> on the rows that satisfy \<open>p\<close>.\<close>

definition upd_where :: "('r \<Rightarrow> bool) \<Rightarrow> ('r \<Rightarrow> 'r) \<Rightarrow> 'r list \<Rightarrow> 'r list" where
  "upd_where p f rs = map (\<lambda>r. if p r then f r else r) rs"

definition affected :: "('r \<Rightarrow> bool) \<Rightarrow> 'r list \<Rightarrow> nat" where
  "affected p rs = length (filter p rs)"

lemma length_upd_where [simp]: "length (upd_where p f rs) = length rs"
  by (simp add: upd_where_def)

lemma set_upd_where: "set (upd_where p f rs) = (\<lambda>r. if p r then f r else r) ` set rs"
  by (simp add: upd_where_def)

lemma map_upd_where:
  "(\<And>r. r \<in> set rs \<Longrightarrow> p r \<Longrightarrow> g (f r) = g r) \<Longrightarrow> map g (upd_where p f rs) = map g rs"
  by (auto simp: upd_where_def)

lemma affected_0_iff: "affected p rs = 0 \<longleftrightarrow> (\<forall>r\<in>set rs. \<not> p r)"
  by (auto simp: affected_def filter_empty_conv)

lemma upd_where_none: "affected p rs = 0 \<Longrightarrow> upd_where p f rs = rs"
  by (auto simp: affected_0_iff upd_where_def map_idI)

lemma filter_upd_where_other:
  "(\<And>r. r \<in> set rs \<Longrightarrow> p r \<Longrightarrow> \<not> q r \<and> \<not> q (f r)) \<Longrightarrow> filter q (upd_where p f rs) = filter q rs"
  by (induction rs) (auto simp: upd_where_def)

lemma distinct_map_same: "distinct (map k rs) \<Longrightarrow> r \<in> set rs \<Longrightarrow> r' \<in> set rs \<Longrightarrow> k r = k r' \<Longrightarrow> r = r'"
  by (metis distinct_map inj_onD)

section \<open>Association lists\<close>

lemma map_of_AList_update [simp]: "map_of (AList.update k v al) = (map_of al)(k \<mapsto> v)"
  by (rule update_conv')

lemma map_of_AList_delete [simp]: "map_of (AList.delete k al) = (map_of al)(k := None)"
  by (rule delete_conv')

lemma distinct_fst_update [intro]: "distinct (map fst al) \<Longrightarrow> distinct (map fst (AList.update k v al))"
  by (rule distinct_update)

lemma distinct_fst_delete [intro]: "distinct (map fst al) \<Longrightarrow> distinct (map fst (AList.delete k al))"
  by (rule distinct_delete)

end
