(* ===== verification/Model.thy ===== *)
theory Model
  imports Prelude
begin

text \<open>
  The data of the program: the persisted rows of \<open>internal/model\<close>, the in-memory agent of
  \<open>internal/service/agent_service\<close>, the completion hook payload of
  \<open>internal/service/task_service/service.go\<close>, the messages of the control protocol
  (\<open>proto/control.pb.go\<close>) and the Kubernetes objects the provider builds.

  A status is a string in Go and in the database, and agents send arbitrary status strings, so
  a status is a \<open>string\<close> here; the constants keep their Go names. A nullable column
  is an \<open>option\<close>. \<open>time.Time\<close> and \<open>time.Duration\<close> are nanoseconds (\<open>int\<close>), a UUID is a
  128-bit word.
\<close>

type_synonym uuid = "128 word"
type_synonym time = int
type_synonym duration = int

abbreviation uuid_Nil :: uuid where "uuid_Nil \<equiv> 0"

definition Second :: duration where "Second = 1000000000"
definition Minute :: duration where "Minute = 60 * Second"

section \<open>Status constants\<close>

definition TaskStatusPending :: string where "TaskStatusPending = ''PENDING''"
definition TaskStatusWaitingForAgents :: string where "TaskStatusWaitingForAgents = ''WAITING_FOR_AGENTS''"
definition TaskStatusQueued :: string where "TaskStatusQueued = ''QUEUED''"
definition TaskStatusRunning :: string where "TaskStatusRunning = ''RUNNING''"
definition TaskStatusSucceeded :: string where "TaskStatusSucceeded = ''SUCCEEDED''"
definition TaskStatusFailed :: string where "TaskStatusFailed = ''FAILED''"
definition TaskStatusCancelled :: string where "TaskStatusCancelled = ''CANCELLED''"

definition ShardStatusQueued :: string where "ShardStatusQueued = ''QUEUED''"
definition ShardStatusLeased :: string where "ShardStatusLeased = ''LEASED''"
definition ShardStatusRunning :: string where "ShardStatusRunning = ''RUNNING''"
definition ShardStatusSucceeded :: string where "ShardStatusSucceeded = ''SUCCEEDED''"
definition ShardStatusFailed :: string where "ShardStatusFailed = ''FAILED''"
definition ShardStatusCancelled :: string where "ShardStatusCancelled = ''CANCELLED''"

definition ClusterStatusProvisioning :: string where "ClusterStatusProvisioning = ''PROVISIONING''"
definition ClusterStatusActive :: string where "ClusterStatusActive = ''ACTIVE''"
definition ClusterStatusTerminated :: string where "ClusterStatusTerminated = ''TERMINATED''"

definition AgentStatusIdle :: string where "AgentStatusIdle = ''IDLE''"
definition AgentStatusRunning :: string where "AgentStatusRunning = ''RUNNING''"
definition AgentStatusDisconnected :: string where "AgentStatusDisconnected = ''DISCONNECTED''"
definition AgentStatusUnresponsive :: string where "AgentStatusUnresponsive = ''UNRESPONSIVE''"
definition AgentStatusTimedOut :: string where "AgentStatusTimedOut = ''TIMED_OUT''"

definition BackendKindKubernetes :: string where "BackendKindKubernetes = ''kubernetes''"

lemmas task_status_defs =
  TaskStatusPending_def TaskStatusWaitingForAgents_def TaskStatusQueued_def TaskStatusRunning_def
  TaskStatusSucceeded_def TaskStatusFailed_def TaskStatusCancelled_def

lemmas shard_status_defs =
  ShardStatusQueued_def ShardStatusLeased_def ShardStatusRunning_def
  ShardStatusSucceeded_def ShardStatusFailed_def ShardStatusCancelled_def

lemmas cluster_status_defs =
  ClusterStatusProvisioning_def ClusterStatusActive_def ClusterStatusTerminated_def

lemmas agent_status_defs =
  AgentStatusIdle_def AgentStatusRunning_def AgentStatusDisconnected_def
  AgentStatusUnresponsive_def AgentStatusTimedOut_def

section \<open>Persisted rows\<close>

record BaseUUIDModel =
  ID :: uuid
  CreatedAt :: time
  UpdatedAt :: time
  DeletedAt :: "time option"

record Tenant = BaseUUIDModel +
  tenant_Name :: string
  tenant_PrimaryBackendName :: string
  tenant_MaxAgents :: int

record TaskShard = BaseUUIDModel +
  shard_TaskID :: uuid
  shard_ScriptName :: string
  shard_Status :: string
  shard_AssignedAgentID :: "string option"
  shard_OutputOSSKey :: string
  shard_OutputSHA256 :: string
  shard_StartedAt :: "time option"
  shard_FinishedAt :: "time option"
  shard_LastError :: string

record Task = BaseUUIDModel +
  task_TenantID :: uuid
  task_Status :: string
  task_CompletionHookURL :: string
  task_ShardCount :: int
  task_StartedAt :: "time option"
  task_FinishedAt :: "time option"
  task_HookDeliveredAt :: "time option"
  task_HookLastError :: string
  task_LastError :: string
  task_Shards :: "TaskShard list"

record Cluster = BaseUUIDModel +
  cluster_TenantID :: uuid
  cluster_Status :: string
  cluster_BackendName :: string
  cluster_BillingCycleSeconds :: int
  cluster_NextBillingBoundaryAt :: time
  cluster_IdleSince :: "time option"

text \<open>A \<open>NULL\<close> \<open>assigned_agent_id\<close> is scanned into the zero value of the Go string field.\<close>

definition go_string :: "string option \<Rightarrow> string" where
  "go_string v = (case v of None \<Rightarrow> [] | Some x \<Rightarrow> x)"

section \<open>The in-memory agent\<close>

record Agent =
  agent_ID :: string
  agent_TenantID :: uuid
  agent_BackendName :: string
  agent_Status :: string
  agent_PreDisconnectStatus :: string
  agent_CurrentShardID :: "string option"
  agent_LastHeartbeatAt :: "int option"

datatype timer_kind = HeartbeatTimer | GraceTimer

text \<open>A timer created by \<open>time.AfterFunc\<close>: what it calls, for which agent, and when.\<close>

record Timer =
  timer_agent :: string
  timer_calls :: timer_kind
  timer_at :: time

section \<open>Completion hook payload\<close>

record CompletionHookPayload =
  hook_TaskID :: uuid
  hook_TenantID :: uuid
  hook_Status :: string
  hook_LastError :: string
  hook_FinishedAt :: "time option"
  hook_ResultAvailable :: bool
  hook_CompletionHookURL :: string

section \<open>Control protocol messages\<close>

record Register =
  reg_AgentId :: string
  reg_TenantId :: string
  reg_BackendName :: string
  reg_Token :: string
  reg_Version :: string

record Heartbeat =
  hb_AgentId :: string
  hb_Status :: string
  hb_CurrentShardId :: string

record AssignShard =
  as_ShardId :: string
  as_TaskId :: string
  as_ScriptName :: string
  as_BundleDownloadUrl :: string
  as_OutputUploadUrl :: string
  as_OutputOssKey :: string
  as_TotalShards :: "32 word"

record ShardFailed =
  sf_ShardId :: string
  sf_ErrorMessage :: string

record ShardResultReady =
  srr_ShardId :: string
  srr_OutputOssKey :: string
  srr_Sha256 :: string

datatype AgentMessage =
    AM_Register Register
  | AM_Heartbeat Heartbeat
  | AM_ShardAccepted string
  | AM_ShardStarted string
  | AM_ShardFailed ShardFailed
  | AM_ShardResultReady ShardResultReady
  | AM_None

datatype ServerMessage =
    SM_AssignShard AssignShard
  | SM_Drain
  | SM_Shutdown
  | SM_CancelShard string
  | SM_ShardResultStored string

section \<open>URLs, Kubernetes objects\<close>

text \<open>The parts of \<open>net/url.URL\<close> the code reads or writes; \<open>url_Rest\<close> is all the others.\<close>

record URL =
  url_Scheme :: string
  url_Host :: string
  url_Path :: string
  url_Rest :: string

record StatefulSet =
  sts_Name :: string
  sts_Namespace :: string
  sts_Labels :: "(string \<times> string) list"
  sts_Replicas :: "32 word"
  sts_SelectorMatchLabels :: "(string \<times> string) list"
  sts_ServiceName :: string
  sts_TemplateLabels :: "(string \<times> string) list"
  sts_ImagePullSecrets :: "string list"
  sts_ContainerName :: string
  sts_ContainerImage :: string
  sts_ImagePullPolicy :: string
  sts_Env :: "(string \<times> string) list"
  sts_ReadinessPort :: int
  sts_InitialDelaySeconds :: int
  sts_PeriodSeconds :: int
  sts_RestartPolicy :: string

datatype k8s_call =
    K8s_GetNamespace string
  | K8s_CreateNamespace string
  | K8s_GetStatefulSet string string
  | K8s_CreateStatefulSet string StatefulSet
  | K8s_PatchStatefulSet string string string
  | K8s_DeleteStatefulSet string string

text \<open>
  What the API server answers: success, or an error that \<open>apierrors.IsNotFound\<close>,
  \<open>apierrors.IsAlreadyExists\<close> or neither recognises.
\<close>

datatype k8s_answer = K8s_Ok | K8s_NotFound string | K8s_AlreadyExists string | K8s_Error string

section \<open>The statuses are distinct\<close>

lemma task_status_distinct [status_simps, simp]:
  "TaskStatusPending \<noteq> TaskStatusWaitingForAgents" "TaskStatusPending \<noteq> TaskStatusQueued"
  "TaskStatusPending \<noteq> TaskStatusRunning" "TaskStatusPending \<noteq> TaskStatusSucceeded"
  "TaskStatusPending \<noteq> TaskStatusFailed" "TaskStatusPending \<noteq> TaskStatusCancelled"
  "TaskStatusWaitingForAgents \<noteq> TaskStatusPending" "TaskStatusWaitingForAgents \<noteq> TaskStatusQueued"
  "TaskStatusWaitingForAgents \<noteq> TaskStatusRunning" "TaskStatusWaitingForAgents \<noteq> TaskStatusSucceeded"
  "TaskStatusWaitingForAgents \<noteq> TaskStatusFailed" "TaskStatusWaitingForAgents \<noteq> TaskStatusCancelled"
  "TaskStatusQueued \<noteq> TaskStatusPending" "TaskStatusQueued \<noteq> TaskStatusWaitingForAgents"
  "TaskStatusQueued \<noteq> TaskStatusRunning" "TaskStatusQueued \<noteq> TaskStatusSucceeded"
  "TaskStatusQueued \<noteq> TaskStatusFailed" "TaskStatusQueued \<noteq> TaskStatusCancelled"
  "TaskStatusRunning \<noteq> TaskStatusPending" "TaskStatusRunning \<noteq> TaskStatusWaitingForAgents"
  "TaskStatusRunning \<noteq> TaskStatusQueued" "TaskStatusRunning \<noteq> TaskStatusSucceeded"
  "TaskStatusRunning \<noteq> TaskStatusFailed" "TaskStatusRunning \<noteq> TaskStatusCancelled"
  "TaskStatusSucceeded \<noteq> TaskStatusPending" "TaskStatusSucceeded \<noteq> TaskStatusWaitingForAgents"
  "TaskStatusSucceeded \<noteq> TaskStatusQueued" "TaskStatusSucceeded \<noteq> TaskStatusRunning"
  "TaskStatusSucceeded \<noteq> TaskStatusFailed" "TaskStatusSucceeded \<noteq> TaskStatusCancelled"
  "TaskStatusFailed \<noteq> TaskStatusPending" "TaskStatusFailed \<noteq> TaskStatusWaitingForAgents"
  "TaskStatusFailed \<noteq> TaskStatusQueued" "TaskStatusFailed \<noteq> TaskStatusRunning"
  "TaskStatusFailed \<noteq> TaskStatusSucceeded" "TaskStatusFailed \<noteq> TaskStatusCancelled"
  "TaskStatusCancelled \<noteq> TaskStatusPending" "TaskStatusCancelled \<noteq> TaskStatusWaitingForAgents"
  "TaskStatusCancelled \<noteq> TaskStatusQueued" "TaskStatusCancelled \<noteq> TaskStatusRunning"
  "TaskStatusCancelled \<noteq> TaskStatusSucceeded" "TaskStatusCancelled \<noteq> TaskStatusFailed"
  by (simp_all add: task_status_defs)

lemma shard_status_distinct [status_simps, simp]:
  "ShardStatusQueued \<noteq> ShardStatusLeased" "ShardStatusQueued \<noteq> ShardStatusRunning"
  "ShardStatusQueued \<noteq> ShardStatusSucceeded" "ShardStatusQueued \<noteq> ShardStatusFailed"
  "ShardStatusQueued \<noteq> ShardStatusCancelled"
  "ShardStatusLeased \<noteq> ShardStatusQueued" "ShardStatusLeased \<noteq> ShardStatusRunning"
  "ShardStatusLeased \<noteq> ShardStatusSucceeded" "ShardStatusLeased \<noteq> ShardStatusFailed"
  "ShardStatusLeased \<noteq> ShardStatusCancelled"
  "ShardStatusRunning \<noteq> ShardStatusQueued" "ShardStatusRunning \<noteq> ShardStatusLeased"
  "ShardStatusRunning \<noteq> ShardStatusSucceeded" "ShardStatusRunning \<noteq> ShardStatusFailed"
  "ShardStatusRunning \<noteq> ShardStatusCancelled"
  "ShardStatusSucceeded \<noteq> ShardStatusQueued" "ShardStatusSucceeded \<noteq> ShardStatusLeased"
  "ShardStatusSucceeded \<noteq> ShardStatusRunning" "ShardStatusSucceeded \<noteq> ShardStatusFailed"
  "ShardStatusSucceeded \<noteq> ShardStatusCancelled"
  "ShardStatusFailed \<noteq> ShardStatusQueued" "ShardStatusFailed \<noteq> ShardStatusLeased"
  "ShardStatusFailed \<noteq> ShardStatusRunning" "ShardStatusFailed \<noteq> ShardStatusSucceeded"
  "ShardStatusFailed \<noteq> ShardStatusCancelled"
  "ShardStatusCancelled \<noteq> ShardStatusQueued" "ShardStatusCancelled \<noteq> ShardStatusLeased"
  "ShardStatusCancelled \<noteq> ShardStatusRunning" "ShardStatusCancelled \<noteq> ShardStatusSucceeded"
  "ShardStatusCancelled \<noteq> ShardStatusFailed"
  by (simp_all add: shard_status_defs)

lemma cluster_status_distinct [status_simps, simp]:
  "ClusterStatusProvisioning \<noteq> ClusterStatusActive" "ClusterStatusProvisioning \<noteq> ClusterStatusTerminated"
  "ClusterStatusActive \<noteq> ClusterStatusProvisioning" "ClusterStatusActive \<noteq> ClusterStatusTerminated"
  "ClusterStatusTerminated \<noteq> ClusterStatusProvisioning" "ClusterStatusTerminated \<noteq> ClusterStatusActive"
  by (simp_all add: cluster_status_defs)

lemma agent_status_distinct [status_simps, simp]:
  "AgentStatusIdle \<noteq> AgentStatusRunning" "AgentStatusIdle \<noteq> AgentStatusDisconnected"
  "AgentStatusIdle \<noteq> AgentStatusUnresponsive" "AgentStatusIdle \<noteq> AgentStatusTimedOut"
  "AgentStatusRunning \<noteq> AgentStatusIdle" "AgentStatusRunning \<noteq> AgentStatusDisconnected"
  "AgentStatusRunning \<noteq> AgentStatusUnresponsive" "AgentStatusRunning \<noteq> AgentStatusTimedOut"
  "AgentStatusDisconnected \<noteq> AgentStatusIdle" "AgentStatusDisconnected \<noteq> AgentStatusRunning"
  "AgentStatusDisconnected \<noteq> AgentStatusUnresponsive" "AgentStatusDisconnected \<noteq> AgentStatusTimedOut"
  "AgentStatusUnresponsive \<noteq> AgentStatusIdle" "AgentStatusUnresponsive \<noteq> AgentStatusRunning"
  "AgentStatusUnresponsive \<noteq> AgentStatusDisconnected" "AgentStatusUnresponsive \<noteq> AgentStatusTimedOut"
  "AgentStatusTimedOut \<noteq> AgentStatusIdle" "AgentStatusTimedOut \<noteq> AgentStatusRunning"
  "AgentStatusTimedOut \<noteq> AgentStatusDisconnected" "AgentStatusTimedOut \<noteq> AgentStatusUnresponsive"
  by (simp_all add: agent_status_defs)

lemma status_nonempty [status_simps, simp]:
  "AgentStatusIdle \<noteq> []" "AgentStatusRunning \<noteq> []" "AgentStatusDisconnected \<noteq> []"
  "AgentStatusUnresponsive \<noteq> []" "AgentStatusTimedOut \<noteq> []"
  by (simp_all add: agent_status_defs)

lemma go_string_simps [simp]: "go_string None = []" "go_string (Some x) = x"
  by (simp_all add: go_string_def)

end
