(* ===== verification/World.thy ===== *)
theory World
  imports Model
begin

text \<open>
  The state of a running server and the primitive effects the code performs on it.

  Code outside the repository is the field \<open>env\<close> of the state: every answer of the clock, the
  database driver, the UUID generator, the object store, the gRPC stream, the HTTP client
  and the Kubernetes API is a function in \<open>env\<close>, indexed by \<open>tick\<close>, the number of such calls made
  so far, where the answer may differ from call to call. A theorem that says nothing about \<open>env\<close>
  holds for every behaviour of that code; one that relies on documented behaviour has it
  as a hypothesis on \<open>env\<close>.

  \<open>agents\<close> and \<open>timers\<close> are the maps of \<open>agent_service\<close>; \<open>timers\<close> holds references to the timers
  the Go runtime runs (\<open>rt_timers\<close>), and \<open>fired\<close> are the callbacks that have been started but have
  not run yet, which \<open>Stop\<close> can no longer prevent. \<open>sent\<close>, \<open>hooks_pending\<close>, \<open>hook_posts\<close>, \<open>uploads\<close> and
  \<open>k8s_log\<close> record what left the process.

  The database is the explicit store \<open>db\<close>: one list of rows per table, in heap order. A statement
  first asks the driver whether it fails (\<open>db_fault\<close>); if not it filters or maps the rows of its
  table as its \<open>WHERE\<close> and \<open>SET\<close> clauses say. \<open>transaction\<close> restores the rows when the body or the
  commit fails. Transactions are serialised: the statements of two transactions do not interleave.
\<close>

section \<open>The environment\<close>

record env =
  now_at :: "nat \<Rightarrow> time"
  db_fault :: "nat \<Rightarrow> string option"
  uuid_NewV7 :: "nat \<Rightarrow> string + uuid"
  uuid_Parse :: "string \<Rightarrow> string + uuid"
  uuid_String :: "uuid \<Rightarrow> string"
  collate :: "string \<Rightarrow> string"
  url_Parse :: "string \<Rightarrow> string + URL"
  url_String :: "URL \<Rightarrow> string"
  zip_NewReader :: "string \<Rightarrow> string + (string \<times> bool) list"
  oss_New :: "nat \<Rightarrow> string option"
  oss_UploadBytes :: "nat \<Rightarrow> string option"
  oss_GetObjectURL :: "nat \<Rightarrow> string \<Rightarrow> string + string"
  oss_SignPutURL :: "nat \<Rightarrow> string \<Rightarrow> int \<Rightarrow> string + string"
  stream_Send :: "nat \<Rightarrow> error option"
  json_Marshal :: "CompletionHookPayload \<Rightarrow> string + string"
  http_NewRequest :: "string \<Rightarrow> string option"
  http_Do :: "nat \<Rightarrow> string + (int \<times> string)"
  map_order :: "nat \<Rightarrow> uuid list \<Rightarrow> uuid list"
  k8s_answers :: "nat \<Rightarrow> k8s_answer"
  ctx_Err :: "nat \<Rightarrow> sentinel option"

section \<open>The database and the world\<close>

record database =
  tenants :: "Tenant list"
  tasks :: "Task list"
  task_shards :: "TaskShard list"
  clusters :: "Cluster list"

record world =
  env :: env
  tick :: nat
  db_open :: bool
  db :: database
  agents :: "(string \<times> Agent) list"
  timers :: "(string \<times> nat) list"
  rt_timers :: "(nat \<times> Timer) list"
  fired :: "(string \<times> timer_kind) list"
  heartbeatTimeout :: duration
  gracePeriod :: duration
  streams :: "(string \<times> nat) list"
  sent :: "(nat \<times> ServerMessage) list"
  hooks_pending :: "CompletionHookPayload list"
  hook_posts :: "(string \<times> string) list"
  uploads :: "(string \<times> string) list"
  k8s_log :: "k8s_call list"

type_synonym 'a w = "(world, 'a) go"

definition tick_world :: "world \<Rightarrow> world" where
  "tick_world s = s\<lparr>tick := Suc (tick s)\<rparr>"

section \<open>Clock and identifiers\<close>

definition time_Now :: "time w" where
  "time_Now s = (Inr (now_at (env s) (tick s)), tick_world s)"

text \<open>\<open>t.Sub(u)\<close> saturates at the range of \<open>time.Duration\<close>, a signed 64-bit count of nanoseconds.\<close>

definition time_Sub :: "time \<Rightarrow> time \<Rightarrow> duration" where
  "time_Sub t u = max (- (2 ^ 63)) (min (2 ^ 63 - 1) (t - u))"

text \<open>\<open>time.Duration(n) * time.Second\<close> for a Go \<open>int\<close>: 64-bit multiplication, wrapping.\<close>

definition seconds :: "int \<Rightarrow> duration" where
  "seconds n = sint (word_of_int n * word_of_int Second :: 64 word)"

definition time_Unix :: "time \<Rightarrow> int" where
  "time_Unix t = t div Second"

definition uuid_New :: "uuid w" where
  "uuid_New s = (case uuid_NewV7 (env s) (tick s) of
       Inl m \<Rightarrow> (Inl (External m), tick_world s)
     | Inr u \<Rightarrow> (Inr u, tick_world s))"

section \<open>Statements and transactions\<close>

definition stmt :: "(time \<Rightarrow> database \<Rightarrow> (error + 'a) \<times> database) \<Rightarrow> 'a w" where
  "stmt f s = (case db_fault (env s) (tick s) of
       Some m \<Rightarrow> (Inl (External m), tick_world s)
     | None \<Rightarrow> (case f (now_at (env s) (tick s)) (db s) of
                  (r, d) \<Rightarrow> (r, (tick_world s)\<lparr>db := d\<rparr>)))"

text \<open>A row GORM's soft-delete scope lets a query see.\<close>

definition live :: "'a BaseUUIDModel_scheme \<Rightarrow> bool" where
  "live r \<longleftrightarrow> DeletedAt r = None"

definition select :: "(database \<Rightarrow> 'a) \<Rightarrow> 'a w" where
  "select f = stmt (\<lambda>now d. (Inr (f d), d))"

definition select_first :: "(database \<Rightarrow> 'r list) \<Rightarrow> 'r w" where
  "select_first f = stmt (\<lambda>now d. (first_row (f d), d))"

text \<open>
  \<open>Model(&T{}).Where(p).Updates(f)\<close>: the live rows that satisfy \<open>p\<close> get the new
  columns and a new \<open>updated_at\<close>; the result is \<open>RowsAffected\<close>.
\<close>

definition update_stmt ::
  "(database \<Rightarrow> 'a BaseUUIDModel_scheme list) \<Rightarrow>
   ('a BaseUUIDModel_scheme list \<Rightarrow> database \<Rightarrow> database) \<Rightarrow>
   ('a BaseUUIDModel_scheme \<Rightarrow> bool) \<Rightarrow> ('a BaseUUIDModel_scheme \<Rightarrow> 'a BaseUUIDModel_scheme) \<Rightarrow> nat w" where
  "update_stmt rows set_rows p f = stmt (\<lambda>now d.
     (Inr (affected (\<lambda>r. live r \<and> p r) (rows d)),
      set_rows (upd_where (\<lambda>r. live r \<and> p r) (\<lambda>r. (f r)\<lparr>UpdatedAt := now\<rparr>) (rows d)) d))"

text \<open>
  \<open>Create(&row)\<close>: the row is appended with its timestamps, unless it collides with an existing row
  on the primary key or on a unique index (\<open>clash\<close>).
\<close>

definition duplicate_key :: error where
  "duplicate_key = External ''ERROR: duplicate key value violates unique constraint''"

definition insert_stmt ::
  "(database \<Rightarrow> 'a BaseUUIDModel_scheme list) \<Rightarrow>
   ('a BaseUUIDModel_scheme list \<Rightarrow> database \<Rightarrow> database) \<Rightarrow>
   ('a BaseUUIDModel_scheme \<Rightarrow> 'a BaseUUIDModel_scheme \<Rightarrow> bool) \<Rightarrow>
   'a BaseUUIDModel_scheme \<Rightarrow> 'a BaseUUIDModel_scheme w" where
  "insert_stmt rows set_rows clash r = stmt (\<lambda>now d.
     if \<exists>q \<in> set (rows d). ID q = ID r \<or> clash q r then (Inl duplicate_key, d)
     else let r' = r\<lparr>CreatedAt := now, UpdatedAt := now\<rparr>
          in (Inr r', set_rows (rows d @ [r']) d))"

abbreviation set_tenants :: "Tenant list \<Rightarrow> database \<Rightarrow> database" where
  "set_tenants rs \<equiv> tenants_update (\<lambda>_. rs)"
abbreviation set_tasks :: "Task list \<Rightarrow> database \<Rightarrow> database" where
  "set_tasks rs \<equiv> tasks_update (\<lambda>_. rs)"
abbreviation set_task_shards :: "TaskShard list \<Rightarrow> database \<Rightarrow> database" where
  "set_task_shards rs \<equiv> task_shards_update (\<lambda>_. rs)"
abbreviation set_clusters :: "Cluster list \<Rightarrow> database \<Rightarrow> database" where
  "set_clusters rs \<equiv> clusters_update (\<lambda>_. rs)"

definition update_tasks :: "(Task \<Rightarrow> bool) \<Rightarrow> (Task \<Rightarrow> Task) \<Rightarrow> nat w" where
  "update_tasks = update_stmt tasks set_tasks"

definition update_shards :: "(TaskShard \<Rightarrow> bool) \<Rightarrow> (TaskShard \<Rightarrow> TaskShard) \<Rightarrow> nat w" where
  "update_shards = update_stmt task_shards set_task_shards"

definition update_clusters :: "(Cluster \<Rightarrow> bool) \<Rightarrow> (Cluster \<Rightarrow> Cluster) \<Rightarrow> nat w" where
  "update_clusters = update_stmt clusters set_clusters"

text \<open>\<open>db.Transaction(f)\<close>: begin, run, commit; an error anywhere restores the rows.\<close>

definition transaction :: "'a w \<Rightarrow> 'a w" where
  "transaction m s = (case db_fault (env s) (tick s) of
       Some e \<Rightarrow> (Inl (External e), tick_world s)
     | None \<Rightarrow> (case m (tick_world s) of
           (Inl e, s') \<Rightarrow> (Inl e, s'\<lparr>db := db s\<rparr>)
         | (Inr x, s') \<Rightarrow> (case db_fault (env s') (tick s') of
               Some e \<Rightarrow> (Inl (External e), (tick_world s')\<lparr>db := db s\<rparr>)
             | None \<Rightarrow> (Inr x, tick_world s'))))"

section \<open>Ticker loops\<close>

text \<open>
  \<open>for { select { case <-ctx.Done(): return; case <-ticker.C: body } }\<close>, over the list of what \<open>select\<close> has
  received so far. The body says whether it executed a \<open>return\<close>. The result is whether the loop has
  returned; at the end of the list it still waits.
\<close>

datatype select_event = CtxDone | TickerC

primrec ticker_loop :: "bool w \<Rightarrow> select_event list \<Rightarrow> bool w" where
  "ticker_loop body [] = ret False"
| "ticker_loop body (event # rest) =
     (case event of
        CtxDone \<Rightarrow> ret True
      | TickerC \<Rightarrow> bindE body (\<lambda>returned. if returned then ret True else ticker_loop body rest))"

text \<open>\<open>if err := m(); err != nil { log.Error(...) }\<close>\<close>

definition logged :: "'a w \<Rightarrow> unit w" where
  "logged m = bindE (tryE m) (\<lambda>_. ret ())"

section \<open>The gRPC stream\<close>

text \<open>\<open>stream.Send\<close>: the stream either takes the message or returns an error.\<close>

definition stream_send :: "nat \<Rightarrow> ServerMessage \<Rightarrow> unit w" where
  "stream_send ref msg s = (case stream_Send (env s) (tick s) of
       Some e \<Rightarrow> (Inl e, tick_world s)
     | None \<Rightarrow> (Inr (), (tick_world s)\<lparr>sent := sent s @ [(ref, msg)]\<rparr>))"

section \<open>The object store\<close>

definition aliyun_NewOss :: "unit w" where
  "aliyun_NewOss s = (case oss_New (env s) (tick s) of
       Some m \<Rightarrow> (Inl (External m), tick_world s)
     | None \<Rightarrow> (Inr (), tick_world s))"

definition UploadBytes :: "string \<Rightarrow> string \<Rightarrow> unit w" where
  "UploadBytes key bytes s = (case oss_UploadBytes (env s) (tick s) of
       Some m \<Rightarrow> (Inl (External m), tick_world s)
     | None \<Rightarrow> (Inr (), (tick_world s)\<lparr>uploads := uploads s @ [(key, bytes)]\<rparr>))"

definition GetObjectURL :: "string \<Rightarrow> string w" where
  "GetObjectURL key s = (case oss_GetObjectURL (env s) (tick s) key of
       Inl m \<Rightarrow> (Inl (External m), tick_world s)
     | Inr u \<Rightarrow> (Inr u, tick_world s))"

definition SignPutURL :: "string \<Rightarrow> int \<Rightarrow> string w" where
  "SignPutURL key expires s = (case oss_SignPutURL (env s) (tick s) key expires of
       Inl m \<Rightarrow> (Inl (External m), tick_world s)
     | Inr u \<Rightarrow> (Inr u, tick_world s))"

section \<open>What the primitives do to the state\<close>

lemma tick_world_simps [simp]:
  "env (tick_world s) = env s" "tick (tick_world s) = Suc (tick s)"
  "db_open (tick_world s) = db_open s" "db (tick_world s) = db s"
  "agents (tick_world s) = agents s" "timers (tick_world s) = timers s"
  "rt_timers (tick_world s) = rt_timers s" "fired (tick_world s) = fired s"
  "heartbeatTimeout (tick_world s) = heartbeatTimeout s" "gracePeriod (tick_world s) = gracePeriod s"
  "streams (tick_world s) = streams s" "sent (tick_world s) = sent s"
  "hooks_pending (tick_world s) = hooks_pending s"
  "hook_posts (tick_world s) = hook_posts s" "uploads (tick_world s) = uploads s"
  "k8s_log (tick_world s) = k8s_log s"
  by (simp_all add: tick_world_def)

lemma time_Now_iff [run_iff]:
  "time_Now s = (r, s') \<longleftrightarrow> r = Inr (now_at (env s) (tick s)) \<and> s' = tick_world s"
  by (auto simp: time_Now_def)

text \<open>The state a statement leaves: only \<open>tick\<close> and \<open>db\<close> move.\<close>

lemma stmt_frame:
  assumes "stmt f s = (r, s')"
  shows "s' = (tick_world s)\<lparr>db := db s'\<rparr>"
  using assms by (auto simp: stmt_def split: option.splits prod.splits)

lemma stmt_Inr_iff:
  "stmt f s = (Inr x, s') \<longleftrightarrow>
     db_fault (env s) (tick s) = None \<and>
     (\<exists>d. f (now_at (env s) (tick s)) (db s) = (Inr x, d) \<and> s' = (tick_world s)\<lparr>db := d\<rparr>)"
  by (auto simp: stmt_def split: option.splits prod.splits)

lemma select_Inr_iff [run_iff]:
  "select f s = (Inr x, s') \<longleftrightarrow>
     db_fault (env s) (tick s) = None \<and> x = f (db s) \<and> s' = tick_world s"
  by (auto simp: select_def stmt_Inr_iff)

lemma select_Inl_iff [run_iff]:
  "select f s = (Inl e, s') \<longleftrightarrow>
     (\<exists>m. db_fault (env s) (tick s) = Some m \<and> e = External m) \<and> s' = tick_world s"
  by (auto simp: select_def stmt_def split: option.splits)

lemma select_first_Inr_iff [run_iff]:
  "select_first f s = (Inr x, s') \<longleftrightarrow>
     db_fault (env s) (tick s) = None \<and> first_row (f (db s)) = Inr x \<and> s' = tick_world s"
  by (auto simp: select_first_def stmt_Inr_iff)

lemma select_first_Inl_iff [run_iff]:
  "select_first f s = (Inl e, s') \<longleftrightarrow>
     ((\<exists>m. db_fault (env s) (tick s) = Some m \<and> e = External m) \<or>
      db_fault (env s) (tick s) = None \<and> f (db s) = [] \<and> e = Sentinel ErrRecordNotFound) \<and>
     s' = tick_world s"
  by (auto simp: select_first_def stmt_def first_row_Inl_iff split: option.splits)

lemma update_stmt_Inr_iff:
  "update_stmt rows set_rows p f s = (Inr n, s') \<longleftrightarrow>
     db_fault (env s) (tick s) = None \<and>
     n = affected (\<lambda>r. live r \<and> p r) (rows (db s)) \<and>
     s' = (tick_world s)\<lparr>db := set_rows (upd_where (\<lambda>r. live r \<and> p r)
            (\<lambda>r. (f r)\<lparr>UpdatedAt := now_at (env s) (tick s)\<rparr>) (rows (db s))) (db s)\<rparr>"
  by (auto simp: update_stmt_def stmt_Inr_iff)

lemma update_stmt_Inl_iff:
  "update_stmt rows set_rows p f s = (Inl e, s') \<longleftrightarrow>
     (\<exists>m. db_fault (env s) (tick s) = Some m \<and> e = External m) \<and> s' = tick_world s"
  by (auto simp: update_stmt_def stmt_def split: option.splits)

lemma insert_stmt_Inr_iff:
  "insert_stmt rows set_rows clash r s = (Inr r', s') \<longleftrightarrow>
     db_fault (env s) (tick s) = None \<and>
     (\<forall>q \<in> set (rows (db s)). ID q \<noteq> ID r \<and> \<not> clash q r) \<and>
     r' = r\<lparr>CreatedAt := now_at (env s) (tick s), UpdatedAt := now_at (env s) (tick s)\<rparr> \<and>
     s' = (tick_world s)\<lparr>db := set_rows (rows (db s) @ [r']) (db s)\<rparr>"
  by (auto simp: insert_stmt_def stmt_Inr_iff Let_def)

lemma insert_stmt_Inl: "insert_stmt rows set_rows clash r s = (Inl e, s') \<Longrightarrow> s' = tick_world s"
  by (auto simp: insert_stmt_def stmt_def Let_def split: option.splits if_splits)

lemma update_tasks_Inr_iff [run_iff]:
  "update_tasks p f s = (Inr n, s') \<longleftrightarrow>
     db_fault (env s) (tick s) = None \<and>
     n = affected (\<lambda>r. live r \<and> p r) (tasks (db s)) \<and>
     s' = (tick_world s)\<lparr>db := set_tasks (upd_where (\<lambda>r. live r \<and> p r)
            (\<lambda>r. (f r)\<lparr>UpdatedAt := now_at (env s) (tick s)\<rparr>) (tasks (db s))) (db s)\<rparr>"
  by (simp add: update_tasks_def update_stmt_Inr_iff)

lemma update_tasks_Inl_iff [run_iff]:
  "update_tasks p f s = (Inl e, s') \<longleftrightarrow>
     (\<exists>m. db_fault (env s) (tick s) = Some m \<and> e = External m) \<and> s' = tick_world s"
  by (simp add: update_tasks_def update_stmt_Inl_iff)

lemma update_shards_Inr_iff [run_iff]:
  "update_shards p f s = (Inr n, s') \<longleftrightarrow>
     db_fault (env s) (tick s) = None \<and>
     n = affected (\<lambda>r. live r \<and> p r) (task_shards (db s)) \<and>
     s' = (tick_world s)\<lparr>db := set_task_shards (upd_where (\<lambda>r. live r \<and> p r)
            (\<lambda>r. (f r)\<lparr>UpdatedAt := now_at (env s) (tick s)\<rparr>) (task_shards (db s))) (db s)\<rparr>"
  by (simp add: update_shards_def update_stmt_Inr_iff)

lemma update_shards_Inl_iff [run_iff]:
  "update_shards p f s = (Inl e, s') \<longleftrightarrow>
     (\<exists>m. db_fault (env s) (tick s) = Some m \<and> e = External m) \<and> s' = tick_world s"
  by (simp add: update_shards_def update_stmt_Inl_iff)

lemma update_clusters_Inr_iff [run_iff]:
  "update_clusters p f s = (Inr n, s') \<longleftrightarrow>
     db_fault (env s) (tick s) = None \<and>
     n = affected (\<lambda>r. live r \<and> p r) (clusters (db s)) \<and>
     s' = (tick_world s)\<lparr>db := set_clusters (upd_where (\<lambda>r. live r \<and> p r)
            (\<lambda>r. (f r)\<lparr>UpdatedAt := now_at (env s) (tick s)\<rparr>) (clusters (db s))) (db s)\<rparr>"
  by (simp add: update_clusters_def update_stmt_Inr_iff)

lemma update_clusters_Inl_iff [run_iff]:
  "update_clusters p f s = (Inl e, s') \<longleftrightarrow>
     (\<exists>m. db_fault (env s) (tick s) = Some m \<and> e = External m) \<and> s' = tick_world s"
  by (simp add: update_clusters_def update_stmt_Inl_iff)

lemma transaction_Inr_iff:
  "transaction m s = (Inr x, s') \<longleftrightarrow>
     db_fault (env s) (tick s) = None \<and>
     (\<exists>s1. m (tick_world s) = (Inr x, s1) \<and> db_fault (env s1) (tick s1) = None \<and> s' = tick_world s1)"
  by (auto simp: transaction_def split: option.splits prod.splits sum.splits)

text \<open>Atomicity: a transaction that returns an error leaves the rows as they were.\<close>

lemma transaction_Inl_db: "transaction m s = (Inl e, s') \<Longrightarrow> db s' = db s"
  by (auto simp: transaction_def split: option.splits prod.splits sum.splits)

lemma transaction_Inr_db:
  "transaction m s = (Inr x, s') \<Longrightarrow> \<exists>s1. m (tick_world s) = (Inr x, s1) \<and> db s' = db s1"
  by (auto simp: transaction_Inr_iff)

section \<open>Evolution of the rows\<close>

text \<open>
  The interface between the services and the database. \<open>S\<close> is a relation on databases; \<open>under_env S\<close>
  relates two states whose environment generates proper identifiers and whose databases
  are related. Whatever \<open>S\<close> the single statements respect, the combinators and transactions respect.
\<close>

definition uuid_ok :: "env \<Rightarrow> bool" where
  "uuid_ok e \<longleftrightarrow> (\<forall>n. uuid_NewV7 e n \<noteq> Inr uuid_Nil)"

definition under_env ::
  "(database \<Rightarrow> database \<Rightarrow> bool) \<Rightarrow> env \<times> database \<Rightarrow> env \<times> database \<Rightarrow> bool" where
  "under_env S p q \<longleftrightarrow> (uuid_ok (fst p) \<longrightarrow> uuid_ok (fst q) \<and> S (snd p) (snd q))"

definition env_db :: "world \<Rightarrow> env \<times> database" where
  "env_db s = (env s, db s)"

abbreviation moves :: "(database \<Rightarrow> database \<Rightarrow> bool) \<Rightarrow> 'a w \<Rightarrow> bool" where
  "moves S m \<equiv> evolves env_db (under_env S) m"

lemma env_db_simps [simp]:
  "env_db (tick_world s) = env_db s"
  "env_db (s\<lparr>agents := a\<rparr>) = env_db s" "env_db (s\<lparr>timers := b\<rparr>) = env_db s"
  "env_db (s\<lparr>rt_timers := c\<rparr>) = env_db s" "env_db (s\<lparr>fired := f\<rparr>) = env_db s"
  "env_db (s\<lparr>streams := g\<rparr>) = env_db s" "env_db (s\<lparr>sent := h\<rparr>) = env_db s"
  "env_db (s\<lparr>hooks_pending := i\<rparr>) = env_db s" "env_db (s\<lparr>hook_posts := j\<rparr>) = env_db s"
  "env_db (s\<lparr>uploads := k\<rparr>) = env_db s" "env_db (s\<lparr>k8s_log := l\<rparr>) = env_db s"
  "env_db (s\<lparr>heartbeatTimeout := m\<rparr>) = env_db s" "env_db (s\<lparr>gracePeriod := n\<rparr>) = env_db s"
  "env_db (s\<lparr>db := d\<rparr>) = (env s, d)"
  by (simp_all add: env_db_def)

lemma movesD:
  "moves S m \<Longrightarrow> m s = (r, s') \<Longrightarrow> uuid_ok (env s) \<Longrightarrow> uuid_ok (env s') \<and> S (db s) (db s')"
  unfolding evolves_def under_env_def env_db_def by (metis fst_conv snd_conv)

locale db_evolution =
  fixes S :: "database \<Rightarrow> database \<Rightarrow> bool"
  assumes S_refl: "S d d"
    and S_trans: "S a b \<Longrightarrow> S b c \<Longrightarrow> S a c"

sublocale db_evolution \<subseteq> evolution env_db "under_env S"
  by unfold_locales (auto simp: under_env_def intro: S_refl S_trans)

context db_evolution
begin

lemma moves_stmt: "(\<And>now d. S d (snd (f now d))) \<Longrightarrow> moves S (stmt f)"
  by (rule evolvesI) (auto simp: stmt_def env_db_def under_env_def S_refl split: option.splits prod.splits, metis snd_conv)

lemma moves_select: "moves S (select f)"
  unfolding select_def by (rule moves_stmt) (simp add: S_refl)

lemma moves_select_first: "moves S (select_first f)"
  unfolding select_first_def by (rule moves_stmt) (simp add: S_refl)

lemma moves_time_Now: "moves S time_Now"
  by (rule evolvesI) (simp add: time_Now_def R_refl)

lemma moves_uuid_New: "moves S uuid_New"
  by (rule evolvesI) (simp add: uuid_New_def R_refl split: sum.splits)

lemma moves_stream_send: "moves S (stream_send ref msg)"
  by (rule evolvesI) (simp add: stream_send_def R_refl split: option.splits)

lemma moves_oss:
  "moves S aliyun_NewOss" "moves S (UploadBytes key bytes)"
  "moves S (GetObjectURL key)" "moves S (SignPutURL key n)"
  by (rule evolvesI, simp add: aliyun_NewOss_def UploadBytes_def GetObjectURL_def SignPutURL_def R_refl
        split: option.splits sum.splits)+

text \<open>What a query returned is known to the code that follows it.\<close>

lemma moves_bind_known:
  assumes "moves S m" and "\<And>s x s'. uuid_ok (env s) \<Longrightarrow> m s = (Inr x, s') \<Longrightarrow> moves S (g x)"
  shows "moves S (bindE m g)"
proof (rule evolvesI)
  fix s
  obtain r s1 where m: "m s = (r, s1)" by fastforce
  have 1: "under_env S (env_db s) (env_db s1)" using evolvesD[OF assms(1) m] .
  show "under_env S (env_db s) (env_db (snd (bindE m g s)))"
  proof (cases "uuid_ok (env s)")
    case False
    then show ?thesis by (simp add: under_env_def env_db_def)
  next
    case ok: True
    show ?thesis
    proof (cases r)
      case (Inl e)
      then show ?thesis using m 1 by (simp add: bindE_run)
    next
      case (Inr x)
      then have "moves S (g x)" using assms(2)[OF ok] m by simp
      then have "under_env S (env_db s1) (env_db (snd (g x s1)))" by (simp add: evolves_def)
      then show ?thesis using m 1 Inr R_trans by (simp add: bindE_run)
    qed
  qed
qed

lemma moves_select_bind: "(\<And>d. moves S (g (f d))) \<Longrightarrow> moves S (bindE (select f) g)"
  by (rule moves_bind_known[OF moves_select]) (auto simp: select_Inr_iff)

lemma moves_uuid_bind:
  assumes "\<And>u. u \<noteq> uuid_Nil \<Longrightarrow> moves S (g u)"
  shows "moves S (bindE (mapErr h uuid_New) g)"
proof (rule moves_bind_known[OF evolves_mapErr[OF moves_uuid_New]])
  fix s x s'
  assume "uuid_ok (env s)" and "mapErr h uuid_New s = (Inr x, s')"
  then have "x \<noteq> uuid_Nil"
    by (auto simp: mapErr_Inr_iff uuid_New_def uuid_ok_def split: sum.splits)
  then show "moves S (g x)" by (rule assms)
qed

lemma moves_transaction: "moves S m \<Longrightarrow> moves S (transaction m)"
proof (rule evolvesI)
  fix s
  assume m: "moves S m"
  have "under_env S (env_db (tick_world s)) (env_db (snd (m (tick_world s))))"
    using m unfolding evolves_def by blast
  then show "under_env S (env_db s) (env_db (snd (transaction m s)))"
    by (auto simp: transaction_def under_env_def env_db_def S_refl split: option.splits prod.splits sum.splits)
qed

lemma moves_update_tasks:
  "(\<And>now d. S d (set_tasks (upd_where (\<lambda>r. live r \<and> p r) (\<lambda>r. (f r)\<lparr>UpdatedAt := now\<rparr>) (tasks d)) d)) \<Longrightarrow>
   moves S (update_tasks p f)"
  unfolding update_tasks_def update_stmt_def by (rule moves_stmt) simp

lemma moves_update_shards:
  "(\<And>now d. S d (set_task_shards (upd_where (\<lambda>r. live r \<and> p r) (\<lambda>r. (f r)\<lparr>UpdatedAt := now\<rparr>) (task_shards d)) d)) \<Longrightarrow>
   moves S (update_shards p f)"
  unfolding update_shards_def update_stmt_def by (rule moves_stmt) simp

lemma moves_update_clusters:
  "(\<And>now d. S d (set_clusters (upd_where (\<lambda>r. live r \<and> p r) (\<lambda>r. (f r)\<lparr>UpdatedAt := now\<rparr>) (clusters d)) d)) \<Longrightarrow>
   moves S (update_clusters p f)"
  unfolding update_clusters_def update_stmt_def by (rule moves_stmt) simp

lemmas moves_intros =
  evolves_intros moves_select moves_select_first moves_time_Now moves_uuid_New
  moves_stream_send moves_oss

end

end
