(* ===== verification/Orm.thy ===== *)
theory Orm
  imports World
begin

text \<open>
  The data access layer: \<open>internal/orm\<close>, \<open>tenant_orm\<close>, \<open>task_orm\<close> and \<open>task_shard_orm\<close>. Every function
  is one Go function; each \<open>Where\<close> chain is the predicate of its \<open>select\<close> or \<open>update\<close>, each
  \<open>Updates\<close> map the record update, and the order of the calls is the source's. The lemmas
  say what each write does to the rows when it succeeds and that a failed one changes nothing.
\<close>

section \<open>orm and model\<close>

definition orm_GetDB :: "unit w" where
  "orm_GetDB s = (if db_open s then (Inr (), s)
                  else (Inl (Errorf ''orm db is not initialized'' []), s))"

definition BeforeCreate :: "'a BaseUUIDModel_scheme \<Rightarrow> 'a BaseUUIDModel_scheme w" where
  "BeforeCreate m =
     (if ID m = uuid_Nil then bindE uuid_New (\<lambda>u. ret (m\<lparr>ID := u\<rparr>)) else ret m)"

section \<open>tenant_orm\<close>

definition tenant_orm_Create :: "Tenant \<Rightarrow> Tenant w" where
  "tenant_orm_Create tenant =
     (if tenant_Name tenant = [] then raise (Errorf ''tenant name is required'' [])
      else bindE (BeforeCreate tenant) (\<lambda>t.
        insert_stmt tenants set_tenants (\<lambda>q r. tenant_Name q = tenant_Name r) t))"

definition tenant_orm_GetById :: "uuid \<Rightarrow> Tenant w" where
  "tenant_orm_GetById tenantID =
     select_first (\<lambda>d. filter (\<lambda>r. live r \<and> ID r = tenantID) (tenants d))"

definition tenant_orm_GetByName :: "string \<Rightarrow> Tenant w" where
  "tenant_orm_GetByName name =
     (if name = [] then raise (Errorf ''tenant name is required'' [])
      else select_first (\<lambda>d. filter (\<lambda>r. live r \<and> tenant_Name r = name) (tenants d)))"

section \<open>task_orm\<close>

definition task_orm_Create :: "Task \<Rightarrow> unit w" where
  "task_orm_Create task = mapErr (Wrapf ''create task: %w'' [])
     (bindE (BeforeCreate task) (\<lambda>t.
      bindE (insert_stmt tasks set_tasks (\<lambda>q r. False) t) (\<lambda>_. ret ())))"

definition preload_Shards :: "(string \<Rightarrow> string) \<Rightarrow> uuid \<Rightarrow> database \<Rightarrow> TaskShard list" where
  "preload_Shards coll taskID d =
     sort_key (\<lambda>r. coll (shard_ScriptName r))
       (filter (\<lambda>r. live r \<and> shard_TaskID r = taskID) (task_shards d))"

definition task_orm_GetByID :: "uuid \<Rightarrow> Task w" where
  "task_orm_GetByID taskID = mapErr (Wrapf ''get task by id: %w'' [])
     (bindE (select_first (\<lambda>d. filter (\<lambda>r. live r \<and> ID r = taskID) (tasks d))) (\<lambda>task.
      bindE (getsE (\<lambda>s. collate (env s))) (\<lambda>coll.
      bindE (select (preload_Shards coll (ID task))) (\<lambda>shards.
      ret (task\<lparr>task_Shards := shards\<rparr>)))))"

definition GetPendingTaskList :: "Task list w" where
  "GetPendingTaskList = select (\<lambda>d.
     sort_key CreatedAt (filter (\<lambda>r. live r \<and> task_Status r = TaskStatusPending) (tasks d)))"

definition ListTasksByTenant :: "uuid \<Rightarrow> string \<Rightarrow> Task list w" where
  "ListTasksByTenant tenant_id status = mapErr (Wrapf ''list tasks by tenant: %w'' [])
     (bindE (select (\<lambda>d. sort_key (\<lambda>r. - CreatedAt r)
        (filter (\<lambda>r. live r \<and> task_TenantID r = tenant_id \<and>
                     (status \<noteq> [] \<longrightarrow> task_Status r = status)) (tasks d)))) (\<lambda>found.
      bindE (getsE (\<lambda>s. collate (env s))) (\<lambda>coll.
      if found = [] then ret []
      else select (\<lambda>d. map (\<lambda>r. r\<lparr>task_Shards := preload_Shards coll (ID r) d\<rparr>) found))))"

definition MarkTasksStatus :: "uuid list \<Rightarrow> string \<Rightarrow> string \<Rightarrow> unit w" where
  "MarkTasksStatus taskIDs status lastError =
     (if taskIDs = [] then ret ()
      else bindE (mapErr (Wrapf ''mark tasks %s: %w'' [status])
             (update_tasks (\<lambda>r. ID r \<in> set taskIDs \<and> task_Status r = TaskStatusPending)
                (\<lambda>r. r\<lparr>task_Status := status, task_LastError := lastError\<rparr>))) (\<lambda>_. ret ()))"

definition RollbackTaskToWaiting :: "uuid \<Rightarrow> unit w" where
  "RollbackTaskToWaiting taskID =
     bindE (mapErr (Wrapf ''rollback task to waiting: %w'' [])
       (update_tasks (\<lambda>r. ID r = taskID \<and> task_Status r = TaskStatusQueued)
          (\<lambda>r. r\<lparr>task_Status := TaskStatusWaitingForAgents\<rparr>))) (\<lambda>n.
     if n > 0 then ret () else raise (Sentinel ErrRecordNotFound))"

definition task_terminal_statuses :: "string list" where
  "task_terminal_statuses = [TaskStatusSucceeded, TaskStatusFailed, TaskStatusCancelled]"

definition CancelTaskById :: "uuid \<Rightarrow> uuid \<Rightarrow> unit w" where
  "CancelTaskById tenant_id task_id =
     bindE time_Now (\<lambda>now.
     bindE (mapErr (Wrapf ''cancel task: %w'' [])
       (update_tasks (\<lambda>r. task_TenantID r = tenant_id \<and> ID r = task_id \<and>
                          task_Status r \<notin> set task_terminal_statuses)
          (\<lambda>r. r\<lparr>task_Status := TaskStatusCancelled, task_FinishedAt := Some now,
                 task_LastError := []\<rparr>))) (\<lambda>n.
     if n = 0 then
       bindE (mapErr (Wrapf ''cancel task: %w'' [])
         (select_first (\<lambda>d. filter (\<lambda>r. live r \<and> task_TenantID r = tenant_id \<and> ID r = task_id) (tasks d))))
         (\<lambda>task. raise (Errorf ''cancel task: task status %q is terminal'' [task_Status task]))
     else ret ()))"

definition active_task_statuses :: "string list" where
  "active_task_statuses =
     [TaskStatusPending, TaskStatusWaitingForAgents, TaskStatusQueued, TaskStatusRunning]"

text \<open>\<open>Table("tasks")\<close> names no model, so this query has no soft-delete scope.\<close>

definition CountActiveTasks :: "uuid \<Rightarrow> nat w" where
  "CountActiveTasks tenantID = select (\<lambda>d.
     length (filter (\<lambda>r. task_TenantID r = tenantID \<and> task_Status r \<in> set active_task_statuses) (tasks d)))"

section \<open>task_shard_orm\<close>

definition task_shard_orm_Create :: "TaskShard \<Rightarrow> unit w" where
  "task_shard_orm_Create shard = mapErr (Wrapf ''create shard: %w'' [])
     (bindE (BeforeCreate shard) (\<lambda>r.
      bindE (insert_stmt task_shards set_task_shards (\<lambda>q r. False) r) (\<lambda>_. ret ())))"

definition task_shard_orm_GetByID :: "uuid \<Rightarrow> TaskShard w" where
  "task_shard_orm_GetByID shardID = mapErr (Wrapf ''get shard: %w'' [])
     (select_first (\<lambda>d. filter (\<lambda>r. live r \<and> ID r = shardID) (task_shards d)))"

definition shard_terminal_statuses :: "string list" where
  "shard_terminal_statuses = [ShardStatusSucceeded, ShardStatusFailed, ShardStatusCancelled]"

definition shard_active_statuses :: "string list" where
  "shard_active_statuses = [ShardStatusLeased, ShardStatusRunning]"

definition CancelTaskShardsByTaskId :: "uuid \<Rightarrow> unit w" where
  "CancelTaskShardsByTaskId task_id =
     bindE time_Now (\<lambda>now.
     bindE (mapErr (Wrapf ''cancel shards: %w'' [])
       (update_shards (\<lambda>r. shard_TaskID r = task_id \<and> shard_Status r \<notin> set shard_terminal_statuses)
          (\<lambda>r. r\<lparr>shard_Status := ShardStatusCancelled, shard_FinishedAt := Some now,
                 shard_AssignedAgentID := None, shard_StartedAt := None, shard_LastError := []\<rparr>)))
     (\<lambda>_. ret ()))"

definition GetActiveTaskShardByAgent :: "string \<Rightarrow> TaskShard list w" where
  "GetActiveTaskShardByAgent agentID = select (\<lambda>d.
     filter (\<lambda>r. live r \<and> shard_AssignedAgentID r = Some agentID \<and>
                 shard_Status r \<in> set shard_active_statuses) (task_shards d))"

definition FindOrphanShards :: "string list \<Rightarrow> TaskShard list w" where
  "FindOrphanShards registeredAgentIDs = select (\<lambda>d.
     filter (\<lambda>r. live r \<and> shard_Status r \<in> set shard_active_statuses \<and>
                 (case shard_AssignedAgentID r of
                    None \<Rightarrow> False
                  | Some a \<Rightarrow> a \<noteq> [] \<and> (registeredAgentIDs \<noteq> [] \<longrightarrow> a \<notin> set registeredAgentIDs)))
       (task_shards d))"

record ShardTaskOwner =
  owner_TaskID :: uuid
  owner_TenantID :: uuid
  owner_PrimaryBackendName :: string

text \<open>
  \<open>Raw(...).Scan(&owner)\<close> leaves the zero value and returns no error when the join has no row;
  the raw query has no soft-delete scope.
\<close>

definition GetShardTaskOwner :: "uuid \<Rightarrow> ShardTaskOwner w" where
  "GetShardTaskOwner shardTaskID = mapErr (Wrapf ''get shard task owner: %w'' [])
     (select (\<lambda>d.
        case [(t, n). t \<leftarrow> tasks d, ID t = shardTaskID, n \<leftarrow> tenants d, ID n = task_TenantID t] of
          [] \<Rightarrow> \<lparr>owner_TaskID = uuid_Nil, owner_TenantID = uuid_Nil, owner_PrimaryBackendName = []\<rparr>
        | (t, n) # _ \<Rightarrow> \<lparr>owner_TaskID = ID t, owner_TenantID = task_TenantID t,
                         owner_PrimaryBackendName = tenant_PrimaryBackendName n\<rparr>))"

definition RollbackShardLease :: "uuid \<Rightarrow> string \<Rightarrow> unit w" where
  "RollbackShardLease shardID agentID =
     bindE (mapErr (Wrapf ''rollback shard lease: %w'' [])
       (update_shards (\<lambda>r. ID r = shardID \<and> shard_Status r = ShardStatusLeased \<and>
                           shard_AssignedAgentID r = Some agentID)
          (\<lambda>r. r\<lparr>shard_Status := ShardStatusQueued, shard_AssignedAgentID := Some []\<rparr>))) (\<lambda>n.
     if n = 0 then raise (Sentinel ErrRecordNotFound) else ret ())"

text \<open>\<open>%v\<close> of a \<open>[]string\<close>.\<close>

definition list_text :: "string list \<Rightarrow> string" where
  "list_text xs = ''['' @ (case xs of [] \<Rightarrow> [] | x # ys \<Rightarrow> x @ concat (map (\<lambda>y. CHR '' '' # y) ys)) @ '']''"

definition transitionStatus ::
  "uuid \<Rightarrow> string \<Rightarrow> string list \<Rightarrow> (TaskShard \<Rightarrow> TaskShard) \<Rightarrow> unit w" where
  "transitionStatus shardID targetStatus currentStatuses updates =
     bindE (mapErr (Wrapf ''transition shard to %s: %w'' [targetStatus])
       (update_shards (\<lambda>r. ID r = shardID \<and> shard_Status r \<in> set currentStatuses)
          (\<lambda>r. (updates r)\<lparr>shard_Status := targetStatus\<rparr>))) (\<lambda>n.
     if n = 0 then
       bindE (mapErr (Wrapf ''transition shard to %s: %w'' [targetStatus])
         (select_first (\<lambda>d. filter (\<lambda>r. live r \<and> ID r = shardID) (task_shards d)))) (\<lambda>shard.
       bindE (getsE (\<lambda>s. uuid_String (env s) shardID)) (\<lambda>idText.
       raise (Errorf ''transition shard to %s: shard %s is %s, expected one of %v''
                [targetStatus, idText, shard_Status shard, list_text currentStatuses])))
     else ret ())"

definition MarkRunning :: "uuid \<Rightarrow> unit w" where
  "MarkRunning shardID = bindE time_Now (\<lambda>now.
     transitionStatus shardID ShardStatusRunning [ShardStatusLeased]
       (\<lambda>r. r\<lparr>shard_StartedAt := Some now\<rparr>))"

definition MarkSucceeded :: "uuid \<Rightarrow> unit w" where
  "MarkSucceeded shardID = bindE time_Now (\<lambda>now.
     transitionStatus shardID ShardStatusSucceeded [ShardStatusRunning]
       (\<lambda>r. r\<lparr>shard_FinishedAt := Some now\<rparr>))"

definition MarkFailed :: "uuid \<Rightarrow> string \<Rightarrow> unit w" where
  "MarkFailed shardID lastError = bindE time_Now (\<lambda>now.
     transitionStatus shardID ShardStatusFailed [ShardStatusRunning]
       (\<lambda>r. r\<lparr>shard_FinishedAt := Some now, shard_LastError := lastError\<rparr>))"

definition RollbackToQueued :: "uuid \<Rightarrow> string list \<Rightarrow> unit w" where
  "RollbackToQueued shardID currentStatuses =
     transitionStatus shardID ShardStatusQueued currentStatuses
       (\<lambda>r. r\<lparr>shard_AssignedAgentID := None\<rparr>)"

definition RollbackShardWithTask :: "uuid \<Rightarrow> string list \<Rightarrow> Task \<Rightarrow> unit w" where
  "RollbackShardWithTask shardID currentStatuses task =
     bindE (RollbackToQueued shardID currentStatuses) (\<lambda>_.
     if task_Status task = TaskStatusWaitingForAgents then
       bindE (tryE (RollbackTaskToWaiting (ID task))) (\<lambda>r.
       case r of
         Inl err \<Rightarrow> if \<not> errors_Is err ErrRecordNotFound then raise err else ret ()
       | Inr _ \<Rightarrow> ret ())
     else ret ())"

text \<open>
  \<open>CleanupOrphanShards\<close>: the loop body for one orphan adds one to \<open>RolledBack\<close> when its transaction
  commits; every error only skips the shard.
\<close>

definition cleanup_orphan :: "time \<Rightarrow> TaskShard \<Rightarrow> nat \<Rightarrow> nat w" where
  "cleanup_orphan cutoff shard rolledBack =
     (case shard_StartedAt shard of
        None \<Rightarrow> ret rolledBack
      | Some st \<Rightarrow>
          if st < cutoff then
            bindE (tryE (select_first (\<lambda>d. filter (\<lambda>r. live r \<and> ID r = shard_TaskID shard) (tasks d)))) (\<lambda>r.
            case r of
              Inl err \<Rightarrow> ret rolledBack
            | Inr task \<Rightarrow>
                bindE (tryE (transaction
                  (RollbackShardWithTask (ID shard) shard_active_statuses task))) (\<lambda>r2.
                case r2 of Inl err \<Rightarrow> ret rolledBack | Inr _ \<Rightarrow> ret (Suc rolledBack)))
          else ret rolledBack)"

primrec cleanup_orphans_loop :: "time \<Rightarrow> TaskShard list \<Rightarrow> nat \<Rightarrow> nat w" where
  "cleanup_orphans_loop cutoff [] n = ret n"
| "cleanup_orphans_loop cutoff (shard # shards) n =
     bindE (cleanup_orphan cutoff shard n) (\<lambda>n'. cleanup_orphans_loop cutoff shards n')"

definition task_shard_orm_CleanupOrphanShards :: "string list \<Rightarrow> duration \<Rightarrow> nat w" where
  "task_shard_orm_CleanupOrphanShards registeredAgentIDs threshold =
     bindE (FindOrphanShards registeredAgentIDs) (\<lambda>shards.
     bindE time_Now (\<lambda>now.
     cleanup_orphans_loop (now - threshold) shards 0))"

end
