(* ===== verification/Task_Reports.thy ===== *)
theory Task_Reports
  imports Orm
begin

text \<open>
  \<open>task_service\<close>, the reporting side: the completion hook
  (\<open>dispatch_completion_hook.go\<close>), the task status derived from its shards
  (\<open>recompute_task_status.go\<close>), the report of a shard's progress (\<open>report_shard_status.go\<close>)
  and the validation of a report (\<open>validate_shard.go\<close>).

  \<open>go fn()\<close> for a hook appends the payload to \<open>hooks_pending\<close>; \<open>run_completion_hook\<close> is the
  goroutine's body, run whenever the scheduler picks it. The test-only hook variables are nil in
  production and left out, and so is logging.
\<close>

section \<open>Completion hooks\<close>

text \<open>\<open>cloneTimePtr\<close> returns the pointer it is given; a pointer to a time is an option here, so both are the value.\<close>

definition cloneTimePtr :: "time option \<Rightarrow> time option" where
  "cloneTimePtr value = (case value of None \<Rightarrow> None | Some t \<Rightarrow> value)"

lemma cloneTimePtr_same [simp]: "cloneTimePtr value = value"
  by (simp add: cloneTimePtr_def split: option.split)

definition newCompletionHookPayload ::
  "Task \<Rightarrow> string \<Rightarrow> string \<Rightarrow> time option \<Rightarrow> bool \<Rightarrow> CompletionHookPayload option" where
  "newCompletionHookPayload task status lastError finishedAt resultAvailable =
     (if task_CompletionHookURL task = [] then None
      else Some \<lparr>hook_TaskID = ID task, hook_TenantID = task_TenantID task, hook_Status = status,
                 hook_LastError = lastError, hook_FinishedAt = cloneTimePtr finishedAt,
                 hook_ResultAvailable = resultAvailable,
                 hook_CompletionHookURL = task_CompletionHookURL task\<rparr>)"

definition dispatchCompletionHook :: "CompletionHookPayload \<Rightarrow> unit w" where
  "dispatchCompletionHook payload =
     bindE (getsE env) (\<lambda>e.
     case json_Marshal e payload of
       Inl m \<Rightarrow> raise (Wrapf ''marshal completion hook payload: %w'' [] (External m))
     | Inr body \<Rightarrow>
        (case http_NewRequest e (hook_CompletionHookURL payload) of
           Some m \<Rightarrow> raise (Wrapf ''build completion hook request: %w'' [] (External m))
         | None \<Rightarrow>
            bindE (getsE (\<lambda>s. http_Do e (tick s))) (\<lambda>answer.
            bindE (modifyE (\<lambda>s. (tick_world s)\<lparr>hook_posts :=
                     hook_posts s @ [(hook_CompletionHookURL payload, body)]\<rparr>)) (\<lambda>_.
            case answer of
              Inl m \<Rightarrow> raise (Wrapf ''send completion hook request: %w'' [] (External m))
            | Inr (statusCode, status) \<Rightarrow>
                if statusCode div 100 \<noteq> 2
                then raise (Errorf ''completion hook returned status %s'' [status])
                else ret ()))))"

definition dispatchCompletionHookAsync :: "CompletionHookPayload \<Rightarrow> unit w" where
  "dispatchCompletionHookAsync payload =
     (if hook_CompletionHookURL payload = [] then ret ()
      else modifyE (\<lambda>s. s\<lparr>hooks_pending := hooks_pending s @ [payload]\<rparr>))"

definition recordCompletionHookResult :: "uuid \<Rightarrow> error option \<Rightarrow> unit w" where
  "recordCompletionHookResult taskID dispatchErr =
     bindE orm_GetDB (\<lambda>_.
     bindE (case dispatchErr of
              Some err \<Rightarrow> ret (\<lambda>r. r\<lparr>task_HookDeliveredAt := None, task_HookLastError := error_Error err\<rparr>)
            | None \<Rightarrow> bindE time_Now (\<lambda>deliveredAt.
                ret (\<lambda>r. r\<lparr>task_HookDeliveredAt := Some deliveredAt, task_HookLastError := []\<rparr>))) (\<lambda>updates.
     bindE (mapErr (Wrapf ''update completion hook bookkeeping: %w'' [])
       (update_tasks (\<lambda>r. ID r = taskID \<and> task_HookDeliveredAt r = None) updates)) (\<lambda>_. ret ())))"

definition run_completion_hook :: "CompletionHookPayload \<Rightarrow> unit w" where
  "run_completion_hook payload =
     bindE (tryE (dispatchCompletionHook payload)) (\<lambda>r.
     bindE (tryE (recordCompletionHookResult (hook_TaskID payload)
              (case r of Inl err \<Rightarrow> Some err | Inr _ \<Rightarrow> None))) (\<lambda>_. ret ()))"

section \<open>The status of a task\<close>

text \<open>
  \<open>ORDER BY finished_at DESC, updated_at DESC, id\<close>: PostgreSQL sorts \<open>NULL\<close> first in descending
  order, and \<open>First\<close> adds the primary key.
\<close>

definition desc_nulls_first :: "time option \<Rightarrow> int \<times> int" where
  "desc_nulls_first v = (case v of None \<Rightarrow> (0, 0) | Some t \<Rightarrow> (1, - t))"

definition failed_shards_latest_first :: "uuid \<Rightarrow> database \<Rightarrow> TaskShard list" where
  "failed_shards_latest_first taskID d =
     sort_key (\<lambda>r. (desc_nulls_first (shard_FinishedAt r), - UpdatedAt r, ID r))
       (filter (\<lambda>r. live r \<and> shard_TaskID r = taskID \<and> shard_Status r = ShardStatusFailed \<and>
                    shard_LastError r \<noteq> []) (task_shards d))"

definition resolveTaskFailureLastError :: "uuid \<Rightarrow> string \<Rightarrow> string w" where
  "resolveTaskFailureLastError taskID fallback =
     bindE (tryE (select_first (failed_shards_latest_first taskID))) (\<lambda>r.
     case r of
       Inr failedShard \<Rightarrow> ret (shard_LastError failedShard)
     | Inl err \<Rightarrow>
         if \<not> errors_Is err ErrRecordNotFound
         then raise (Wrapf ''load failed shard last error: %w'' [] err)
         else if fallback \<noteq> [] then ret fallback
         else ret ''task failed because one or more shards failed'')"

definition updateTaskTerminalStatus :: "uuid \<Rightarrow> (Task \<Rightarrow> Task) \<Rightarrow> string list \<Rightarrow> bool w" where
  "updateTaskTerminalStatus taskID updates terminalStatuses =
     bindE (mapErr (Wrapf ''refresh task status: %w'' [])
       (update_tasks (\<lambda>r. ID r = taskID \<and> task_Status r \<notin> set terminalStatuses) updates)) (\<lambda>n.
     if n = 0 then
       bindE (mapErr (Wrapf ''refresh task status: %w'' [])
         (select_first (\<lambda>d. filter (\<lambda>r. live r \<and> ID r = taskID) (tasks d)))) (\<lambda>current.
       bindE (getsE (\<lambda>s. uuid_String (env s) taskID)) (\<lambda>idText.
       if task_Status current = TaskStatusCancelled
       then raise (Errorf ''refresh task status: task %q is cancelled'' [idText])
       else if task_Status current = TaskStatusSucceeded \<or> task_Status current = TaskStatusFailed
       then ret False
       else raise (Errorf ''refresh task status: task %q update conflicted; current status %q''
                     [idText, task_Status current])))
     else ret True)"

text \<open>The terminal update of \<open>RecomputeTaskStatus\<close> and the payload it returns when it took effect.\<close>

definition finish_task ::
  "uuid \<Rightarrow> Task \<Rightarrow> string \<Rightarrow> string \<Rightarrow> time \<Rightarrow> bool \<Rightarrow> CompletionHookPayload option w" where
  "finish_task taskID task status lastError finishedAt resultAvailable =
     bindE (updateTaskTerminalStatus taskID
              (\<lambda>r. r\<lparr>task_FinishedAt := Some finishedAt, task_Status := status,
                     task_LastError := lastError\<rparr>) task_terminal_statuses) (\<lambda>updated.
     if updated
     then ret (newCompletionHookPayload task status lastError (Some finishedAt) resultAvailable)
     else ret None)"

definition RecomputeTaskStatus :: "uuid \<Rightarrow> string \<Rightarrow> CompletionHookPayload option w" where
  "RecomputeTaskStatus taskID lastError =
     bindE (mapErr (Wrapf ''load task: %w'' [])
       (select_first (\<lambda>d. filter (\<lambda>r. live r \<and> ID r = taskID) (tasks d)))) (\<lambda>task.
     if task_Status task = TaskStatusCancelled then
       bindE (getsE (\<lambda>s. uuid_String (env s) taskID)) (\<lambda>idText.
       raise (Errorf ''refresh task status: task %q is cancelled'' [idText]))
     else if task_Status task = TaskStatusSucceeded \<or> task_Status task = TaskStatusFailed then ret None
     else
     bindE (mapErr (Wrapf ''count active shards: %w'' [])
       (select (\<lambda>d. length (filter (\<lambda>r. live r \<and> shard_TaskID r = taskID \<and>
                             shard_Status r \<notin> set shard_terminal_statuses) (task_shards d))))) (\<lambda>activeCount.
     if activeCount > 0 then ret None
     else
     bindE (mapErr (Wrapf ''count failed shards: %w'' [])
       (select (\<lambda>d. length (filter (\<lambda>r. live r \<and> shard_TaskID r = taskID \<and>
                             shard_Status r = ShardStatusFailed) (task_shards d))))) (\<lambda>failedCount.
     bindE time_Now (\<lambda>finishedAt.
     if failedCount > 0 then
       bindE (resolveTaskFailureLastError taskID lastError) (\<lambda>resolvedLastError.
       finish_task taskID task TaskStatusFailed resolvedLastError finishedAt False)
     else finish_task taskID task TaskStatusSucceeded [] finishedAt True))))"

section \<open>Reporting a shard\<close>

record ReportShardStatusParams =
  rp_ShardID :: uuid
  rp_ShardStatus :: string
  rp_ErrorMessage :: "string option"
  rp_OutputOSSKey :: string
  rp_OutputSHA256 :: string

definition report_transition :: "ReportShardStatusParams \<Rightarrow> unit w" where
  "report_transition params =
     (if rp_ShardStatus params = ShardStatusRunning then
        mapErr (Wrapf ''report shard running: %w'' []) (MarkRunning (rp_ShardID params))
      else if rp_ShardStatus params = ShardStatusSucceeded then
        mapErr (Wrapf ''report shard succeeded: %w'' []) (MarkSucceeded (rp_ShardID params))
      else if rp_ShardStatus params = ShardStatusFailed then
        mapErr (Wrapf ''report shard failed: %w'' [])
          (MarkFailed (rp_ShardID params) (go_string (rp_ErrorMessage params)))
      else ret ())"

definition report_output :: "ReportShardStatusParams \<Rightarrow> unit w" where
  "report_output params =
     (if rp_ShardStatus params = ShardStatusSucceeded then
        bindE (mapErr (Wrapf ''update shard oss output: %w'' [])
          (update_shards (\<lambda>r. ID r = rp_ShardID params)
             (\<lambda>r. r\<lparr>shard_OutputOSSKey := rp_OutputOSSKey params,
                    shard_OutputSHA256 := rp_OutputSHA256 params\<rparr>))) (\<lambda>_. ret ())
      else ret ())"

definition report_task ::
  "ReportShardStatusParams \<Rightarrow> TaskShard \<Rightarrow> Task \<Rightarrow> time \<Rightarrow> CompletionHookPayload option w" where
  "report_task params shard task now =
     (if rp_ShardStatus params = ShardStatusRunning then
        bindE (mapErr (Wrapf ''mark task running: %w'' [])
          (update_tasks (\<lambda>r. ID r = shard_TaskID shard \<and> task_Status r \<noteq> TaskStatusCancelled)
             (\<lambda>r. (if task_StartedAt task = None then r\<lparr>task_StartedAt := Some now\<rparr> else r)
                   \<lparr>task_Status := TaskStatusRunning\<rparr>))) (\<lambda>n.
        if n = 0 then
          bindE (getsE (\<lambda>s. uuid_String (env s) (shard_TaskID shard))) (\<lambda>idText.
          raise (Errorf ''mark task running: task %q is cancelled'' [idText]))
        else ret None)
      else if rp_ShardStatus params = ShardStatusSucceeded \<or> rp_ShardStatus params = ShardStatusFailed then
        mapErr (Wrapf ''recompute task status after shard %s: %w'' [rp_ShardStatus params])
          (RecomputeTaskStatus (shard_TaskID shard) (go_string (rp_ErrorMessage params)))
      else ret None)"

definition report_body :: "ReportShardStatusParams \<Rightarrow> time \<Rightarrow> CompletionHookPayload option w" where
  "report_body params now =
     bindE (mapErr (Wrapf ''load shard: %w'' []) (task_shard_orm_GetByID (rp_ShardID params))) (\<lambda>shard.
     bindE (mapErr (Wrapf ''load task: %w'' [])
       (select_first (\<lambda>d. filter (\<lambda>r. live r \<and> ID r = shard_TaskID shard) (tasks d)))) (\<lambda>task.
     if rp_ShardStatus params = ShardStatusSucceeded \<and> shard_Status shard = ShardStatusSucceeded \<and>
        shard_OutputOSSKey shard \<noteq> [] then ret None
     else if task_Status task = TaskStatusCancelled then
       bindE (getsE (\<lambda>s. uuid_String (env s) (shard_TaskID shard))) (\<lambda>idText.
       raise (Errorf ''report shard %s: task %q is cancelled'' [rp_ShardStatus params, idText]))
     else
     bindE (report_transition params) (\<lambda>_.
     bindE (report_output params) (\<lambda>_.
     report_task params shard task now))))"

definition ReportShardStatus :: "ReportShardStatusParams \<Rightarrow> unit w" where
  "ReportShardStatus params =
     bindE orm_GetDB (\<lambda>_.
     bindE time_Now (\<lambda>now.
     bindE (transaction (report_body params now)) (\<lambda>hookPayload.
     case hookPayload of
       None \<Rightarrow> ret ()
     | Some payload \<Rightarrow> dispatchCompletionHookAsync payload)))"

section \<open>Validating a report\<close>

definition LoadValidatedShard :: "uuid \<Rightarrow> string \<Rightarrow> uuid \<Rightarrow> string \<Rightarrow> TaskShard w" where
  "LoadValidatedShard shardID agentID tenantID backendName =
     bindE (getsE (\<lambda>s. uuid_String (env s))) (\<lambda>str.
     bindE (mapErr (\<lambda>err. Statusf FailedPrecondition ''%v'' [error_Error err]) orm_GetDB) (\<lambda>_.
     if shardID = uuid_Nil then raise (Statusf InvalidArgument ''shard_id is required'' [])
     else
     bindE (mapErr (\<lambda>err.
         if errors_Is err ErrRecordNotFound then Statusf NotFound ''shard %s not found'' [str shardID]
         else Statusf Internal ''load shard %s: %v'' [str shardID, error_Error err])
       (task_shard_orm_GetByID shardID)) (\<lambda>shard.
     if go_string (shard_AssignedAgentID shard) \<noteq> agentID \<and>
        shard_Status shard \<notin> {ShardStatusCancelled, ShardStatusFailed, ShardStatusSucceeded} then
       raise (Statusf PermissionDenied ''shard %s is assigned to agent %s, not %s''
                [str shardID, go_string (shard_AssignedAgentID shard), agentID])
     else
     bindE (mapErr (\<lambda>err.
         if errors_Is err ErrRecordNotFound
         then Statusf NotFound ''task %s not found'' [str (shard_TaskID shard)]
         else Statusf Internal ''load shard task %s: %v'' [str (shard_TaskID shard), error_Error err])
       (GetShardTaskOwner (shard_TaskID shard))) (\<lambda>owner.
     if owner_TenantID owner \<noteq> tenantID then
       raise (Statusf PermissionDenied ''shard %s belongs to tenant %s, not %s''
                [str shardID, str (owner_TenantID owner), str tenantID])
     else if owner_PrimaryBackendName owner \<noteq> backendName then
       raise (Statusf PermissionDenied ''shard %s belongs to backend %s, not %s''
                [str shardID, owner_PrimaryBackendName owner, backendName])
     else ret shard))))"

definition ValidateShardReport ::
  "uuid \<Rightarrow> string \<Rightarrow> uuid \<Rightarrow> string \<Rightarrow> string \<Rightarrow> string \<Rightarrow> unit w" where
  "ValidateShardReport shardID agentID tenantID backendName requiredStatus action =
     bindE (getsE (\<lambda>s. uuid_String (env s))) (\<lambda>str.
     bindE (LoadValidatedShard shardID agentID tenantID backendName) (\<lambda>shard.
     if shard_Status shard \<noteq> requiredStatus then
       raise (Statusf FailedPrecondition ''%s requires shard %s to be %s, got %s''
                [action, str shardID, requiredStatus, shard_Status shard])
     else ret ()))"

end
