(* ===== verification/Task_Leases.thy ===== *)
theory Task_Leases
  imports Task_Reports
begin

text \<open>
  \<open>task_service\<close>, the scheduling side: leasing the next shard to an agent
  (\<open>lease_next_shard.go\<close>), rolling shards back (\<open>rollback_shard.go\<close>) and the cleanup of orphans
  (\<open>cleanup_orphan_shards.go\<close>).
\<close>

section \<open>LeaseNextShard\<close>

definition shardQueryStatuses :: "string list" where
  "shardQueryStatuses = [TaskStatusWaitingForAgents, TaskStatusQueued, TaskStatusRunning]"

text \<open>
  The joined query: the soft-delete scope covers the model's table \<open>task_shards\<close> only, and \<open>Take\<close>
  adds no order of its own.
\<close>

definition lease_candidates :: "(string \<Rightarrow> string) \<Rightarrow> uuid \<Rightarrow> string \<Rightarrow> database \<Rightarrow> (Task \<times> TaskShard) list" where
  "lease_candidates coll tenantID backendName d =
     sort_key (\<lambda>(t, r). (CreatedAt t, coll (shard_ScriptName r)))
       [(t, r). r \<leftarrow> task_shards d, live r, shard_Status r = ShardStatusQueued,
                t \<leftarrow> tasks d, ID t = shard_TaskID r, task_TenantID t = tenantID,
                task_Status t \<in> set shardQueryStatuses,
                n \<leftarrow> tenants d, ID n = task_TenantID t, tenant_PrimaryBackendName n = backendName]"

text \<open>\<open>WAITING_FOR_AGENTS\<close> becomes \<open>QUEUED\<close>, in the row and in the loaded task.\<close>

definition promote_task :: "Task \<Rightarrow> Task w" where
  "promote_task task =
     (if task_Status task = TaskStatusWaitingForAgents then
        bindE (mapErr (Wrapf ''promote task to queued: %w'' [])
          (update_tasks (\<lambda>r. ID r = ID task \<and> task_Status r = TaskStatusWaitingForAgents)
             (\<lambda>r. r\<lparr>task_Status := TaskStatusQueued\<rparr>))) (\<lambda>_.
        ret (task\<lparr>task_Status := TaskStatusQueued\<rparr>))
      else ret task)"

text \<open>The guarded update that gives the shard to the agent; \<open>None\<close> is the \<open>continue\<close> of the loop.\<close>

definition take_shard :: "string \<Rightarrow> Task \<Rightarrow> TaskShard \<Rightarrow> (Task \<times> TaskShard) option w" where
  "take_shard agentID task shard =
     bindE (mapErr (Wrapf ''lease shard: %w'' [])
       (update_shards (\<lambda>r. ID r = ID shard \<and> shard_Status r = ShardStatusQueued)
          (\<lambda>r. r\<lparr>shard_Status := ShardStatusLeased, shard_AssignedAgentID := Some agentID\<rparr>))) (\<lambda>n.
     if n = 0 then ret None
     else ret (Some (task, shard\<lparr>shard_Status := ShardStatusLeased,
                                 shard_AssignedAgentID := Some agentID\<rparr>)))"

text \<open>One iteration of the loop.\<close>

definition lease_attempt :: "uuid \<Rightarrow> string \<Rightarrow> string \<Rightarrow> (Task \<times> TaskShard) option w" where
  "lease_attempt tenantID backendName agentID =
     bindE (getsE (\<lambda>s. collate (env s))) (\<lambda>coll.
     bindE (select_first (\<lambda>d. map snd (lease_candidates coll tenantID backendName d))) (\<lambda>shard.
     bindE (mapErr (Wrapf ''load shard task: %w'' [])
       (select_first (\<lambda>d. filter (\<lambda>r. live r \<and> task_TenantID r = tenantID \<and> ID r = shard_TaskID shard)
                          (tasks d)))) (\<lambda>loaded.
     bindE (promote_task loaded) (\<lambda>task.
     if task_Status task \<notin> set shardQueryStatuses then ret None
     else take_shard agentID task shard))))"

definition maxRetries :: nat where "maxRetries = 100"

primrec lease_loop :: "nat \<Rightarrow> uuid \<Rightarrow> string \<Rightarrow> string \<Rightarrow> (Task \<times> TaskShard) w" where
  "lease_loop 0 tenantID backendName agentID =
     raise (Errorf ''lease next shard: exhausted %d retry attempts'' [''100''])"
| "lease_loop (Suc i) tenantID backendName agentID =
     bindE (lease_attempt tenantID backendName agentID) (\<lambda>r.
     case r of None \<Rightarrow> lease_loop i tenantID backendName agentID | Some leased \<Rightarrow> ret leased)"

definition LeaseNextShard :: "uuid \<Rightarrow> string \<Rightarrow> string \<Rightarrow> (Task \<times> TaskShard) w" where
  "LeaseNextShard tenantID backendName agentID =
     bindE orm_GetDB (\<lambda>_.
     mapErr (Wrapf ''lease next shard: %w'' [])
       (transaction (lease_loop maxRetries tenantID backendName agentID)))"

section \<open>Rollback\<close>

definition RollbackAssignedShard :: "uuid \<Rightarrow> Task \<Rightarrow> unit w" where
  "RollbackAssignedShard shardID task =
     bindE orm_GetDB (\<lambda>_.
     transaction (RollbackShardWithTask shardID [ShardStatusLeased] task))"

primrec rollback_agent_loop :: "TaskShard list \<Rightarrow> nat \<Rightarrow> nat w" where
  "rollback_agent_loop [] n = ret n"
| "rollback_agent_loop (shard # shards) n =
     bindE (tryE (RollbackToQueued (ID shard) [shard_Status shard])) (\<lambda>r.
     rollback_agent_loop shards (case r of Inl _ \<Rightarrow> n | Inr _ \<Rightarrow> Suc n))"

definition RollbackOrphanShardsForAgent :: "string \<Rightarrow> nat w" where
  "RollbackOrphanShardsForAgent agentID =
     bindE orm_GetDB (\<lambda>_.
     bindE (mapErr (Wrapf ''load active shards for agent %s: %w'' [agentID])
       (GetActiveTaskShardByAgent agentID)) (\<lambda>activeShards.
     rollback_agent_loop activeShards 0))"

definition RollbackTimedOutShard :: "uuid \<Rightarrow> string \<Rightarrow> uuid \<Rightarrow> string \<Rightarrow> unit w" where
  "RollbackTimedOutShard shardID agentID tenantID backendName =
     bindE (LoadValidatedShard shardID agentID tenantID backendName) (\<lambda>shard.
     bindE orm_GetDB (\<lambda>_.
     bindE (mapErr (Wrapf ''load task for timed-out shard rollback: %w'' [])
       (select_first (\<lambda>d. filter (\<lambda>r. live r \<and> ID r = shard_TaskID shard) (tasks d)))) (\<lambda>task.
     transaction (RollbackShardWithTask shardID shard_active_statuses task))))"

section \<open>Orphan cleanup\<close>

definition CleanupOrphanShards :: "duration \<Rightarrow> unit w" where
  "CleanupOrphanShards threshold =
     bindE orm_GetDB (\<lambda>_.
     bindE (getsE (\<lambda>s. map fst (agents s))) (\<lambda>registeredAgents.
     bindE (task_shard_orm_CleanupOrphanShards registeredAgents threshold) (\<lambda>_. ret ())))"

definition CleanupOrphanShardsLoop :: "select_event list \<Rightarrow> bool w" where
  "CleanupOrphanShardsLoop events =
     ticker_loop (bindE (logged (CleanupOrphanShards (10 * Minute))) (\<lambda>_. ret False)) events"

end
