(* ===== verification/Go_Strings.thy ===== *)
theory Go_Strings
  imports Prelude
begin

text \<open>
  The functions of Go's \<open>strings\<close>, \<open>path\<close> and \<open>sort\<close> packages the code calls, on byte strings.
  \<open>path.Clean\<close> is the segment stack its documentation describes; \<open>strings.TrimSpace\<close> removes the
  UTF-8 encodings of the Unicode white space characters from both ends.
\<close>

section \<open>strings\<close>

definition strings_HasSuffix :: "string \<Rightarrow> string \<Rightarrow> bool" where
  "strings_HasSuffix s suf \<longleftrightarrow> length suf \<le> length s \<and> drop (length s - length suf) s = suf"

definition strings_HasPrefix :: "string \<Rightarrow> string \<Rightarrow> bool" where
  "strings_HasPrefix s pre \<longleftrightarrow> take (length pre) s = pre"

text \<open>\<open>strings.CutPrefix(s, prefix)\<close>: \<open>None\<close> is the \<open>false\<close> result.\<close>

definition strings_CutPrefix :: "string \<Rightarrow> string \<Rightarrow> string option" where
  "strings_CutPrefix s pre = (if strings_HasPrefix s pre then Some (drop (length pre) s) else None)"

fun strings_Contains :: "string \<Rightarrow> string \<Rightarrow> bool" where
  "strings_Contains [] sub = (sub = [])"
| "strings_Contains (c # s) sub = (strings_HasPrefix (c # s) sub \<or> strings_Contains s sub)"

text \<open>\<open>strings.ReplaceAll\<close> for a non-empty \<open>old\<close>: the leftmost non-overlapping occurrences.\<close>

function strings_ReplaceAll :: "string \<Rightarrow> string \<Rightarrow> string \<Rightarrow> string" where
  "strings_ReplaceAll s old new =
     (if s = [] \<or> old = [] then s
      else if strings_HasPrefix s old then new @ strings_ReplaceAll (drop (length old) s) old new
      else hd s # strings_ReplaceAll (tl s) old new)"
  by pat_completeness auto
termination
  by (relation "measure (\<lambda>(s, old, new). length s)") auto

declare strings_ReplaceAll.simps [simp del]

definition unicode_spaces :: "string list" where
  "unicode_spaces =
     map (\<lambda>c. [c]) [CHR 0x09, CHR 0x0A, CHR 0x0B, CHR 0x0C, CHR 0x0D, CHR 0x20] @
     [[CHR 0xC2, CHR 0x85], [CHR 0xC2, CHR 0xA0], [CHR 0xE1, CHR 0x9A, CHR 0x80]] @
     map (\<lambda>c. [CHR 0xE2, CHR 0x80, c])
       [CHR 0x80, CHR 0x81, CHR 0x82, CHR 0x83, CHR 0x84, CHR 0x85, CHR 0x86, CHR 0x87, CHR 0x88,
        CHR 0x89, CHR 0x8A, CHR 0xA8, CHR 0xA9, CHR 0xAF] @
     [[CHR 0xE2, CHR 0x81, CHR 0x9F], [CHR 0xE3, CHR 0x80, CHR 0x80]]"

function trim_left_of :: "string list \<Rightarrow> string \<Rightarrow> string" where
  "trim_left_of ws s =
     (case find (\<lambda>w. w \<noteq> [] \<and> s \<noteq> [] \<and> strings_HasPrefix s w) ws of
        None \<Rightarrow> s
      | Some w \<Rightarrow> trim_left_of ws (drop (length w) s))"
  by pat_completeness auto
termination
  by (relation "measure (\<lambda>(ws, s). length s)") (auto simp: find_Some_iff)

declare trim_left_of.simps [simp del]

definition strings_TrimSpace :: "string \<Rightarrow> string" where
  "strings_TrimSpace s =
     rev (trim_left_of (map rev unicode_spaces) (rev (trim_left_of unicode_spaces s)))"

text \<open>\<open>strings.ToLower\<close> on the ASCII letters.\<close>

definition char_ToLower :: "char \<Rightarrow> char" where
  "char_ToLower c = (if CHR ''A'' \<le> c \<and> c \<le> CHR ''Z'' then char_of (of_char c + 32 :: nat) else c)"

definition strings_ToLower :: "string \<Rightarrow> string" where
  "strings_ToLower s = map char_ToLower s"

section \<open>path\<close>

abbreviation slash :: char where "slash \<equiv> CHR 0x2F"

definition path_Split :: "string \<Rightarrow> string \<times> string" where
  "path_Split p = (let file = rev (takeWhile (\<lambda>c. c \<noteq> slash) (rev p))
                   in (take (length p - length file) p, file))"

fun split_on :: "char \<Rightarrow> string \<Rightarrow> string list" where
  "split_on sep [] = [[]]"
| "split_on sep (c # s) =
     (if c = sep then [] # split_on sep s
      else case split_on sep s of [] \<Rightarrow> [[c]] | seg # segs \<Rightarrow> (c # seg) # segs)"

primrec join_with :: "char \<Rightarrow> string list \<Rightarrow> string" where
  "join_with sep [] = []"
| "join_with sep (seg # segs) = (if segs = [] then seg else seg @ sep # join_with sep segs)"

text \<open>One path element, on the stack of the elements kept so far (the last one first).\<close>

definition clean_step :: "bool \<Rightarrow> string \<Rightarrow> string list \<Rightarrow> string list" where
  "clean_step rooted seg stack =
     (if seg = [] \<or> seg = ''.'' then stack
      else if seg = ''..'' then
        (case stack of
           [] \<Rightarrow> if rooted then [] else [''..'']
         | last_seg # below \<Rightarrow> if last_seg = ''..'' then ''..'' # stack else below)
      else seg # stack)"

definition path_Clean :: "string \<Rightarrow> string" where
  "path_Clean p =
     (let rooted = strings_HasPrefix p [slash];
          kept = rev (fold (clean_step rooted) (split_on slash p) [])
      in if rooted then slash # join_with slash kept
         else if kept = [] then ''.'' else join_with slash kept)"

section \<open>sort\<close>

text \<open>\<open>%d\<close>: the decimal text of an integer.\<close>

definition digit_char :: "nat \<Rightarrow> char" where
  "digit_char n = char_of (48 + n)"

fun nat_text :: "nat \<Rightarrow> string" where
  "nat_text n = (if n < 10 then [digit_char n] else nat_text (n div 10) @ [digit_char (n mod 10)])"

declare nat_text.simps [simp del]

definition int_text :: "int \<Rightarrow> string" where
  "int_text i = (if i < 0 then CHR ''-'' # nat_text (nat (- i)) else nat_text (nat i))"

definition sort_Strings :: "string list \<Rightarrow> string list" where
  "sort_Strings xs = sort xs"

section \<open>Facts\<close>

lemma path_Split_append: "path_Split p = (d, f) \<Longrightarrow> d @ f = p"
proof -
  assume *: "path_Split p = (d, f)"
  define t where "t = takeWhile (\<lambda>c. c \<noteq> slash) (rev p)"
  define r where "r = dropWhile (\<lambda>c. c \<noteq> slash) (rev p)"
  have "rev p = t @ r" by (simp add: t_def r_def)
  then have p: "p = rev r @ rev t" by (metis rev_append rev_rev_ident)
  have d: "d = take (length p - length t) p" and f: "f = rev t"
    using * by (simp_all add: path_Split_def Let_def t_def)
  have "take (length p - length t) p = rev r" by (simp add: p)
  then show ?thesis using d f p by simp
qed

lemma path_Split_file: "path_Split p = (d, f) \<Longrightarrow> slash \<notin> set f"
  by (auto simp: path_Split_def Let_def dest: set_takeWhileD)

lemma split_on_not_Nil [simp]: "split_on sep s \<noteq> []"
  by (induction s) (auto split: list.splits)

lemma split_on_no_sep: "seg \<in> set (split_on sep s) \<Longrightarrow> sep \<notin> set seg"
  by (induction s arbitrary: seg) (auto split: list.splits if_splits)

lemma split_join: "segs \<noteq> [] \<Longrightarrow> (\<forall>seg\<in>set segs. sep \<notin> set seg) \<Longrightarrow> split_on sep (join_with sep segs) = segs"
proof (induction segs)
  case (Cons seg segs)
  have no_sep: "sep \<notin> set seg \<Longrightarrow> split_on sep seg = [seg]" for seg
    by (induction seg) auto
  have app: "sep \<notin> set seg \<Longrightarrow> split_on sep (seg @ sep # rest) = seg # split_on sep rest" for seg rest
    by (induction seg) auto
  show ?case using Cons by (cases "segs = []") (auto simp: no_sep app)
qed simp

lemma join_split: "join_with sep (split_on sep s) = s"
  by (induction s) (auto split: list.splits)

text \<open>What the stack of \<open>path.Clean\<close> keeps: real names, above them only leading dot-dots.\<close>

definition clean_stack :: "bool \<Rightarrow> string list \<Rightarrow> bool" where
  "clean_stack rooted st \<longleftrightarrow>
     (\<forall>seg\<in>set st. seg \<noteq> [] \<and> seg \<noteq> ''.'' \<and> slash \<notin> set seg) \<and>
     set (dropWhile (\<lambda>seg. seg \<noteq> ''..'') st) \<subseteq> {''..''} \<and>
     (rooted \<longrightarrow> ''..'' \<notin> set st)"

lemma clean_stack_Nil [simp]: "clean_stack rooted []"
  by (simp add: clean_stack_def)

lemma clean_step_stack:
  assumes "clean_stack rooted st" and "slash \<notin> set seg"
  shows "clean_stack rooted (clean_step rooted seg st)"
  using assms by (cases st) (auto simp: clean_stack_def clean_step_def split: if_splits)

lemma clean_fold_stack:
  "clean_stack rooted st \<Longrightarrow> \<forall>seg\<in>set segs. slash \<notin> set seg \<Longrightarrow>
   clean_stack rooted (fold (clean_step rooted) segs st)"
  by (induction segs arbitrary: st) (auto intro: clean_step_stack)

lemma set_dropWhile_mid: "\<not> P y \<Longrightarrow> set (y # ys) \<subseteq> set (dropWhile P (xs @ y # ys))"
  by (induction xs) auto

text \<open>On an already clean stack of elements nothing more is removed.\<close>

lemma clean_fold_id:
  "clean_stack rooted (rev segs @ st) \<Longrightarrow> fold (clean_step rooted) segs st = rev segs @ st"
proof (induction segs arbitrary: st)
  case (Cons seg segs)
  have stack: "clean_stack rooted (rev segs @ seg # st)" using Cons.prems by simp
  have "clean_step rooted seg st = seg # st"
  proof (cases "seg = ''..''")
    case False
    then show ?thesis using stack by (simp add: clean_step_def clean_stack_def)
  next
    case True
    have "set st \<subseteq> {''..''}" "\<not> rooted"
      using stack set_dropWhile_mid[of "\<lambda>s. s \<noteq> ''..''" seg st "rev segs"] True
      by (auto simp: clean_stack_def)
    then show ?thesis using True by (cases st) (auto simp: clean_step_def)
  qed
  then show ?case using Cons.IH[OF stack] by simp
qed simp

text \<open>\<open>path.Clean\<close> is idempotent.\<close>

lemma join_with_eq_Nil: "\<forall>seg\<in>set segs. seg \<noteq> [] \<Longrightarrow> join_with sep segs = [] \<longleftrightarrow> segs = []"
  by (cases segs) auto

lemma hd_join_with: "segs \<noteq> [] \<Longrightarrow> \<forall>seg\<in>set segs. seg \<noteq> [] \<Longrightarrow> hd (join_with sep segs) = hd (hd segs)"
  by (cases segs) auto

lemma path_Clean_idem: "path_Clean (path_Clean p) = path_Clean p"
proof -
  define rooted where "rooted = strings_HasPrefix p [slash]"
  define kept where "kept = rev (fold (clean_step rooted) (split_on slash p) [])"
  have stack: "clean_stack rooted (rev kept)"
    unfolding kept_def by (simp add: clean_fold_stack split_on_no_sep)
  have segs: "\<forall>seg\<in>set kept. seg \<noteq> [] \<and> seg \<noteq> ''.'' \<and> slash \<notin> set seg"
    using stack by (auto simp: clean_stack_def)
  have idk: "fold (clean_step rooted) kept [] = rev kept"
    using clean_fold_id[of rooted kept "[]"] stack by simp
  have clean: "path_Clean p = (if rooted then slash # join_with slash kept
      else if kept = [] then ''.'' else join_with slash kept)"
    by (simp add: path_Clean_def Let_def rooted_def kept_def)
  consider "kept = []" | "kept \<noteq> []" "rooted" | "kept \<noteq> []" "\<not> rooted" by blast
  then show ?thesis
  proof cases
    case 1
    then show ?thesis unfolding clean by (simp add: path_Clean_def strings_HasPrefix_def clean_step_def)
  next
    case 2
    then show ?thesis unfolding clean using segs idk
      by (simp add: path_Clean_def Let_def strings_HasPrefix_def split_join clean_step_def)
  next
    case 3
    have "join_with slash kept \<noteq> []" using 3 segs by (simp add: join_with_eq_Nil)
    moreover have "hd (join_with slash kept) \<noteq> slash"
      using 3 segs hd_join_with[of kept slash] by (cases kept) (auto, metis list.set_sel(1))
    ultimately have "\<not> strings_HasPrefix (join_with slash kept) [slash]"
      by (cases "join_with slash kept") (auto simp: strings_HasPrefix_def)
    then show ?thesis unfolding clean using 3 segs idk
      by (simp add: path_Clean_def Let_def split_join)
  qed
qed

text \<open>\<open>sort.Strings\<close> returns an ordered permutation of its argument.\<close>

lemma sort_Strings_props:
  "sorted (sort_Strings xs)" "set (sort_Strings xs) = set xs" "length (sort_Strings xs) = length xs"
  by (simp_all add: sort_Strings_def)

end
