(* ===== verification/Task_Api.thy ===== *)
theory Task_Api
  imports Task_Leases Go_Strings
begin

text \<open>
  \<open>task_service\<close>, the operations behind the GraphQL API: submitting a task (\<open>submit_task.go\<close>),
  cancelling it (\<open>cancel_task.go\<close>) and reading it (\<open>get_task.go\<close>, \<open>list_tasks.go\<close>). The uploaded
  archive is known through \<open>zip_NewReader\<close>: an error, or the entries with their names and whether
  they are directories.
\<close>

section \<open>Scripts of a bundle\<close>

text \<open>The loop over the archive's entries, with \<open>hasInstall\<close> and \<open>scripts\<close> as accumulators.\<close>

primrec extract_loop :: "(string \<times> bool) list \<Rightarrow> bool \<Rightarrow> string list \<Rightarrow> bool \<times> string list" where
  "extract_loop [] hasInstall scripts = (hasInstall, scripts)"
| "extract_loop (f # fs) hasInstall scripts =
     (let (name, isDir) = f in
      if isDir then extract_loop fs hasInstall scripts
      else
        let hasInstall' = (if path_Clean name = ''install.sh'' then True else hasInstall);
            (dir, base) = path_Split name;
            scripts' = (if path_Clean dir = ''cmd'' \<and> strings_HasSuffix base ''.sh''
                        then scripts @ [base] else scripts)
        in extract_loop fs hasInstall' scripts')"

definition extractScriptsFromZip ::
  "(string \<Rightarrow> string + (string \<times> bool) list) \<Rightarrow> string \<Rightarrow> error + string list" where
  "extractScriptsFromZip newReader zipBytes =
     (case newReader zipBytes of
        Inl m \<Rightarrow> Inl (Wrapf ''invalid zip: %w'' [] (External m))
      | Inr entries \<Rightarrow>
          (let (hasInstall, scripts) = extract_loop entries False [] in
           if \<not> hasInstall then Inl (Errorf ''bundle must contain install.sh at root'' [])
           else if scripts = [] then
             Inl (Errorf ''bundle must contain at least one .sh script in cmd/ directory'' [])
           else Inr (sort_Strings scripts)))"

section \<open>SubmitTask\<close>

record SubmitTaskParams =
  sp_TenantName :: string
  sp_ZipBytes :: string
  sp_CompletionHookURL :: string

definition check_hook_url :: "env \<Rightarrow> string \<Rightarrow> error + string" where
  "check_hook_url e url =
     (let hook = strings_TrimSpace url in
      if hook \<noteq> [] then
        (case url_Parse e hook of
           Inl m \<Rightarrow> Inl (Wrapf ''invalid completion hook url: %w'' [] (External m))
         | Inr parsed \<Rightarrow>
             if url_Scheme parsed = [] \<or> url_Host parsed = [] then
               Inl (Errorf ''invalid completion hook url: must be an absolute http(s) url'' [])
             else if url_Scheme parsed \<noteq> ''http'' \<and> url_Scheme parsed \<noteq> ''https'' then
               Inl (Errorf ''invalid completion hook url: unsupported scheme %q'' [url_Scheme parsed])
             else Inr (url_String e parsed))
      else Inr [])"

definition liftE :: "error + 'a \<Rightarrow> 'a w" where
  "liftE r = (case r of Inl e \<Rightarrow> raise e | Inr x \<Rightarrow> ret x)"

definition new_task :: "uuid \<Rightarrow> uuid \<Rightarrow> string \<Rightarrow> int \<Rightarrow> Task" where
  "new_task taskID tenantID hookURL shardCount =
     \<lparr>ID = taskID, CreatedAt = 0, UpdatedAt = 0, DeletedAt = None,
      task_TenantID = tenantID, task_Status = TaskStatusPending, task_CompletionHookURL = hookURL,
      task_ShardCount = shardCount, task_StartedAt = None, task_FinishedAt = None,
      task_HookDeliveredAt = None, task_HookLastError = [], task_LastError = [], task_Shards = []\<rparr>"

definition new_shard :: "uuid \<Rightarrow> string \<Rightarrow> TaskShard" where
  "new_shard taskID scriptName =
     \<lparr>ID = uuid_Nil, CreatedAt = 0, UpdatedAt = 0, DeletedAt = None,
      shard_TaskID = taskID, shard_ScriptName = scriptName, shard_Status = ShardStatusQueued,
      shard_AssignedAgentID = Some [], shard_OutputOSSKey = [], shard_OutputSHA256 = [],
      shard_StartedAt = None, shard_FinishedAt = None, shard_LastError = []\<rparr>"

definition bundle_key :: "string \<Rightarrow> string" where
  "bundle_key taskID = ''r-orchestrator/tasks/'' @ taskID @ ''/bundle.zip''"

definition submit_body :: "Task \<Rightarrow> string list \<Rightarrow> unit w" where
  "submit_body task scripts =
     bindE (task_orm_Create task) (\<lambda>_.
     forE scripts (\<lambda>scriptName. task_shard_orm_Create (new_shard (ID task) scriptName)))"

definition SubmitTask :: "SubmitTaskParams \<Rightarrow> uuid w" where
  "SubmitTask params =
     bindE orm_GetDB (\<lambda>_.
     bindE (getsE env) (\<lambda>e.
     bindE (liftE (check_hook_url e (sp_CompletionHookURL params))) (\<lambda>hookURL.
     bindE (mapErr (\<lambda>_. Wrapf ''%w: %s'' [sp_TenantName params] (Sentinel ErrTenantNotFound))
       (tenant_orm_GetByName (sp_TenantName params))) (\<lambda>tenant.
     bindE (liftE (extractScriptsFromZip (zip_NewReader e) (sp_ZipBytes params))) (\<lambda>scripts.
     bindE (mapErr (Wrapf ''generate task id: %w'' []) uuid_New) (\<lambda>taskID.
     bindE (mapErr (Wrapf ''init oss: %w'' []) aliyun_NewOss) (\<lambda>_.
     bindE (mapErr (Wrapf ''upload bundle to oss: %w'' [])
       (UploadBytes (bundle_key (uuid_String e taskID)) (sp_ZipBytes params))) (\<lambda>_.
     bindE (transaction (submit_body
        (new_task taskID (ID tenant) hookURL (int (length scripts))) scripts)) (\<lambda>_.
     ret taskID)))))))))"

section \<open>CancelTask\<close>

text \<open>
  \<open>notify\<close> is the callback \<open>SetNotifyCancelShard\<close> injects, \<open>None\<close> while it is nil. Its errors are
  only logged.
\<close>

definition running_shards :: "uuid \<Rightarrow> database \<Rightarrow> (string \<times> uuid) list" where
  "running_shards taskID d =
     map (\<lambda>r. (go_string (shard_AssignedAgentID r), ID r))
       (filter (\<lambda>r. live r \<and> shard_TaskID r = taskID \<and> shard_Status r \<in> set shard_active_statuses \<and>
                    shard_AssignedAgentID r \<noteq> None) (task_shards d))"

primrec notify_loop :: "(string \<Rightarrow> uuid \<Rightarrow> unit w) \<Rightarrow> (string \<times> uuid) list \<Rightarrow> unit w" where
  "notify_loop notify [] = ret ()"
| "notify_loop notify (p # ps) =
     bindE (tryE (notify (fst p) (snd p))) (\<lambda>_. notify_loop notify ps)"

type_synonym notify_callback = "(string \<Rightarrow> uuid \<Rightarrow> unit w) option"

definition SetNotifyCancelShard :: "notify_callback \<Rightarrow> notify_callback \<Rightarrow> notify_callback" where
  "SetNotifyCancelShard f notifyCancelShard = f"

definition cancel_body :: "uuid \<Rightarrow> uuid \<Rightarrow> unit w" where
  "cancel_body tenantID taskID =
     bindE (CancelTaskById tenantID taskID) (\<lambda>_. CancelTaskShardsByTaskId taskID)"

definition CancelTask :: "notify_callback \<Rightarrow> string \<Rightarrow> uuid \<Rightarrow> unit w" where
  "CancelTask notify tenantName taskID =
     bindE orm_GetDB (\<lambda>_.
     bindE (mapErr (\<lambda>_. Wrapf ''%w: %s'' [tenantName] (Sentinel ErrTenantNotFound))
       (tenant_orm_GetByName tenantName)) (\<lambda>tenant.
     bindE (task_orm_GetByID taskID) (\<lambda>task.
     bindE (select (running_shards taskID)) (\<lambda>runningShards.
     bindE (transaction (cancel_body (ID tenant) taskID)) (\<lambda>_.
     bindE (case newCompletionHookPayload task TaskStatusCancelled [] (task_FinishedAt task) False of
              None \<Rightarrow> ret ()
            | Some payload \<Rightarrow>
                bindE (tryE (task_orm_GetByID taskID)) (\<lambda>r.
                dispatchCompletionHookAsync (case r of
                  Inl getErr \<Rightarrow> payload
                | Inr refreshedTask \<Rightarrow> payload\<lparr>hook_FinishedAt := cloneTimePtr (task_FinishedAt refreshedTask)\<rparr>))) (\<lambda>_.
     case notify of None \<Rightarrow> ret () | Some f \<Rightarrow> notify_loop f runningShards))))))"

section \<open>Reading tasks\<close>

definition GetTask :: "string \<Rightarrow> uuid \<Rightarrow> Task w" where
  "GetTask tenantName taskID =
     bindE orm_GetDB (\<lambda>_.
     bindE (getsE (\<lambda>s. uuid_String (env s) taskID)) (\<lambda>idText.
     bindE (mapErr (\<lambda>_. Wrapf ''%w: %s'' [tenantName] (Sentinel ErrTenantNotFound))
       (tenant_orm_GetByName tenantName)) (\<lambda>tenant.
     bindE (mapErr (\<lambda>err. if errors_Is err ErrRecordNotFound
                          then Wrapf ''%w: %s'' [idText] (Sentinel ErrTaskNotFound) else err)
       (task_orm_GetByID taskID)) (\<lambda>task.
     if task_TenantID task \<noteq> ID tenant
     then raise (Wrapf ''%w: %s'' [idText] (Sentinel ErrTaskNotFound))
     else ret task))))"

definition ListTasks :: "string \<Rightarrow> string \<Rightarrow> Task list w" where
  "ListTasks tenantName status =
     bindE orm_GetDB (\<lambda>_.
     bindE (mapErr (\<lambda>_. Wrapf ''%w: %s'' [tenantName] (Sentinel ErrTenantNotFound))
       (tenant_orm_GetByName tenantName)) (\<lambda>tenant.
     ListTasksByTenant (ID tenant) status))"

end
