(* ===== verification/Agent_Service.thy ===== *)
theory Agent_Service
  imports World
begin

text \<open>
  \<open>agent_service\<close>: the in-memory registry of agents and their timers (\<open>agent.go\<close>,
  \<open>register_agent.go\<close>, \<open>heartbeat_agent.go\<close>, \<open>get_agent.go\<close>). The two mutexes make every function body a
  critical section, so each is one step; the timer callbacks run as separate steps.

  \<open>time.AfterFunc\<close> starts a runtime timer and returns a reference, \<open>Stop\<close> removes the runtime
  timer if it has not fired. A timer that is due moves to \<open>fired\<close> (\<open>runtime_fire\<close>), from where its
  callback is run (\<open>run_callback\<close>) at any later time.
\<close>

section \<open>Registry\<close>

definition GetActiveTenantIDs :: "uuid list w" where
  "GetActiveTenantIDs = getsE (\<lambda>s. remdups (map (\<lambda>(_, a). agent_TenantID a)
     (filter (\<lambda>(_, a). agent_Status a = AgentStatusIdle \<or> agent_Status a = AgentStatusRunning \<or>
                       agent_Status a = AgentStatusUnresponsive) (agents s))))"

definition GetAllAgentIDs :: "string list w" where
  "GetAllAgentIDs = getsE (\<lambda>s. map fst (agents s))"

definition GetAgent :: "string \<Rightarrow> Agent w" where
  "GetAgent agent_id s = (case map_of (agents s) agent_id of
       None \<Rightarrow> (Inl (Wrapf ''%w: %s'' [agent_id] (Sentinel ErrAgentNotFound)), s)
     | Some a \<Rightarrow> (Inr a, s))"

definition put_agent :: "string \<Rightarrow> Agent \<Rightarrow> unit w" where
  "put_agent agentID a = modifyE (\<lambda>s. s\<lparr>agents := AList.update agentID a (agents s)\<rparr>)"

definition DisconnectAgent :: "string \<Rightarrow> unit w" where
  "DisconnectAgent agentID =
     bindE (getsE (\<lambda>s. map_of (agents s) agentID)) (\<lambda>r.
     case r of
       None \<Rightarrow> ret ()
     | Some agent \<Rightarrow>
         let pre = agent_Status agent;
             pre' = (if pre = [] \<or> pre = AgentStatusDisconnected \<or> pre = AgentStatusIdle \<or>
                        pre = AgentStatusUnresponsive \<or> pre = AgentStatusTimedOut
                     then AgentStatusIdle else pre)
         in put_agent agentID (agent\<lparr>agent_PreDisconnectStatus := pre',
                                     agent_Status := AgentStatusDisconnected\<rparr>))"

definition HeartbeatAgent :: "string \<Rightarrow> string \<Rightarrow> string option \<Rightarrow> unit w" where
  "HeartbeatAgent agentID status currentShardID =
     bindE (getsE (\<lambda>s. map_of (agents s) agentID)) (\<lambda>r.
     case r of
       None \<Rightarrow> raise (Wrapf ''%w: %s'' [agentID] (Sentinel ErrAgentNotFound))
     | Some agent \<Rightarrow>
         bindE time_Now (\<lambda>now.
         put_agent agentID (agent\<lparr>agent_Status := status, agent_CurrentShardID := currentShardID,
                                  agent_LastHeartbeatAt := Some (time_Unix now)\<rparr>)))"

definition recovery_status :: "string \<Rightarrow> string" where
  "recovery_status pre =
     (if pre = [] \<or> pre = AgentStatusDisconnected \<or> pre = AgentStatusIdle \<or>
         pre = AgentStatusTimedOut \<or> pre = AgentStatusUnresponsive
      then AgentStatusIdle else pre)"

definition RegisterAgent :: "string \<Rightarrow> uuid \<Rightarrow> string \<Rightarrow> unit w" where
  "RegisterAgent agentID tenantID backendName =
     bindE time_Now (\<lambda>now.
     bindE (getsE (\<lambda>s. uuid_String (env s))) (\<lambda>str.
     let registered_agent = \<lparr>agent_ID = agentID, agent_TenantID = tenantID,
           agent_BackendName = backendName, agent_Status = AgentStatusIdle,
           agent_PreDisconnectStatus = [], agent_CurrentShardID = None,
           agent_LastHeartbeatAt = Some (time_Unix now)\<rparr> in
     bindE (getsE (\<lambda>s. map_of (agents s) agentID)) (\<lambda>r.
     case r of
       None \<Rightarrow> put_agent agentID registered_agent
     | Some existing \<Rightarrow>
         if agent_TenantID existing \<noteq> tenantID \<or> agent_BackendName existing \<noteq> backendName then
           raise (Wrapf ''%w: agent=%s existing=%s/%s requested=%s/%s''
                   [agentID, str (agent_TenantID existing), agent_BackendName existing,
                    str tenantID, backendName] (Sentinel ErrAgentIdentityConflict))
         else if agent_Status existing = AgentStatusDisconnected \<or>
                 agent_Status existing = AgentStatusTimedOut \<or>
                 agent_Status existing = AgentStatusUnresponsive then
           put_agent agentID (registered_agent
             \<lparr>agent_Status := recovery_status (agent_PreDisconnectStatus existing),
              agent_CurrentShardID := agent_CurrentShardID existing\<rparr>)
         else if agent_Status existing = AgentStatusRunning then
           raise (Wrapf ''%w: %s already has an active control stream'' [agentID]
                   (Sentinel ErrAgentIdentityConflict))
         else if agent_Status existing = AgentStatusIdle then
           raise (Wrapf ''%w: %s is already registered'' [agentID] (Sentinel ErrAgentIdentityConflict))
         else put_agent agentID registered_agent)))"

section \<open>Timers\<close>

definition SetTimeouts :: "duration \<Rightarrow> duration \<Rightarrow> unit w" where
  "SetTimeouts hb gp = modifyE (\<lambda>s. s\<lparr>heartbeatTimeout := hb, gracePeriod := gp\<rparr>)"

text \<open>\<open>t.Stop()\<close> for the timer the map holds for the agent, if any.\<close>

definition stop_timer :: "string \<Rightarrow> world \<Rightarrow> world" where
  "stop_timer agentID s = (case map_of (timers s) agentID of
       None \<Rightarrow> s
     | Some ref \<Rightarrow> s\<lparr>rt_timers := filter (\<lambda>(r, _). r \<noteq> ref) (rt_timers s)\<rparr>)"

text \<open>\<open>timers[agentID] = time.AfterFunc(d, ...)\<close>; the call counter serves as a fresh reference.\<close>

definition after_func :: "timer_kind \<Rightarrow> duration \<Rightarrow> string \<Rightarrow> world \<Rightarrow> world" where
  "after_func kind d agentID s =
     (tick_world s)\<lparr>rt_timers := (tick s, \<lparr>timer_agent = agentID, timer_calls = kind,
                                 timer_at = now_at (env s) (tick s) + d\<rparr>) # rt_timers s,
                    timers := AList.update agentID (tick s) (timers s)\<rparr>"

definition ResetHeartbeat :: "string \<Rightarrow> unit w" where
  "ResetHeartbeat agentID =
     modifyE (\<lambda>s. after_func HeartbeatTimer (heartbeatTimeout s) agentID (stop_timer agentID s))"

definition BeginGrace :: "string \<Rightarrow> unit w" where
  "BeginGrace agentID =
     modifyE (\<lambda>s. after_func GraceTimer (gracePeriod s) agentID (stop_timer agentID s))"

definition CancelTimer :: "string \<Rightarrow> unit w" where
  "CancelTimer agentID = modifyE (\<lambda>s.
     (stop_timer agentID s)\<lparr>timers := AList.delete agentID (timers s)\<rparr>)"

definition cancelAllTimers :: "unit w" where
  "cancelAllTimers = modifyE (\<lambda>s.
     s\<lparr>rt_timers := filter (\<lambda>(r, _). r \<notin> snd ` set (timers s)) (rt_timers s), timers := []\<rparr>)"

definition RemoveAgent :: "string \<Rightarrow> unit w" where
  "RemoveAgent agentID =
     bindE (CancelTimer agentID) (\<lambda>_.
     modifyE (\<lambda>s. s\<lparr>agents := AList.delete agentID (agents s)\<rparr>))"

definition forget_timer :: "string \<Rightarrow> unit w" where
  "forget_timer agentID = modifyE (\<lambda>s. s\<lparr>timers := AList.delete agentID (timers s)\<rparr>)"

text \<open>
  The package variable \<open>onTimeout\<close>, \<open>None\<close> while it is nil. It holds a function on the world and is therefore not a
  field of the world but an argument of the callbacks that read it.
\<close>

type_synonym timeout_callback = "(string \<Rightarrow> string \<Rightarrow> unit w) option"

definition SetTimeoutCallback :: "timeout_callback \<Rightarrow> timeout_callback \<Rightarrow> timeout_callback" where
  "SetTimeoutCallback cb onTimeout = cb"

definition call_timeout :: "timeout_callback \<Rightarrow> string \<Rightarrow> string \<Rightarrow> unit w" where
  "call_timeout cb agentID reason = (case cb of None \<Rightarrow> ret () | Some f \<Rightarrow> f agentID reason)"

definition onHeartbeatTimeout :: "timeout_callback \<Rightarrow> string \<Rightarrow> unit w" where
  "onHeartbeatTimeout cb agentID =
     bindE (forget_timer agentID) (\<lambda>_.
     bindE (getsE (\<lambda>s. (map_of (agents s) agentID, heartbeatTimeout s))) (\<lambda>(r, hbTimeout).
     case r of
       None \<Rightarrow> ret ()
     | Some agent \<Rightarrow>
         bindE (case agent_LastHeartbeatAt agent of
                  None \<Rightarrow> ret False
                | Some t \<Rightarrow> bindE time_Now (\<lambda>now. ret (time_Sub now (t * Second) < hbTimeout))) (\<lambda>stale.
         if stale then ResetHeartbeat agentID
         else if agent_Status agent = AgentStatusDisconnected \<or> agent_Status agent = AgentStatusTimedOut
         then ret ()
         else if agent_Status agent = AgentStatusUnresponsive then
           bindE (put_agent agentID (agent\<lparr>agent_Status := AgentStatusTimedOut,
                                           agent_CurrentShardID := None\<rparr>)) (\<lambda>_.
           call_timeout cb agentID ''heartbeat_timed_out'')
         else
           bindE (put_agent agentID (agent\<lparr>agent_Status := AgentStatusUnresponsive\<rparr>)) (\<lambda>_.
           ResetHeartbeat agentID))))"

definition onGraceExpired :: "timeout_callback \<Rightarrow> string \<Rightarrow> unit w" where
  "onGraceExpired cb agentID =
     bindE (forget_timer agentID) (\<lambda>_.
     bindE (getsE (\<lambda>s. map_of (agents s) agentID)) (\<lambda>r.
     case r of
       None \<Rightarrow> ret ()
     | Some agent \<Rightarrow>
         if agent_Status agent \<noteq> AgentStatusDisconnected then ret ()
         else call_timeout cb agentID ''grace_expired''))"

section \<open>The Go runtime's part\<close>

definition runtime_fire :: "nat \<Rightarrow> world \<Rightarrow> world" where
  "runtime_fire ref s = (case map_of (rt_timers s) ref of
       None \<Rightarrow> s
     | Some t \<Rightarrow>
         if timer_at t \<le> now_at (env s) (tick s)
         then s\<lparr>rt_timers := filter (\<lambda>(r, _). r \<noteq> ref) (rt_timers s),
                fired := fired s @ [(timer_agent t, timer_calls t)]\<rparr>
         else s)"

definition run_callback :: "timeout_callback \<Rightarrow> string \<times> timer_kind \<Rightarrow> unit w" where
  "run_callback cb c =
     bindE (modifyE (\<lambda>s. s\<lparr>fired := remove1 c (fired s)\<rparr>)) (\<lambda>_.
     case snd c of
       HeartbeatTimer \<Rightarrow> onHeartbeatTimeout cb (fst c)
     | GraceTimer \<Rightarrow> onGraceExpired cb (fst c))"

end
