(* ===== verification/Control.thy ===== *)
theory Control
  imports Task_Api Agent_Service
begin

text \<open>
  \<open>internal/control\<close>: the server side of an agent's control stream. One definition per handler
  (\<open>handle_*.go\<close>, \<open>try_assign_shard.go\<close>, \<open>notify_cancel_shard.go\<close>) and \<open>OpenControlStream\<close> of
  \<open>server.go\<close>, cut where other goroutines may run in between: opening the stream, one received
  message, closing it. The composition \<open>OpenControlStream\<close> runs them over the list of what
  \<open>stream.Recv\<close> returns; the end of the list is \<open>io.EOF\<close>.
\<close>

section \<open>Server and session\<close>

text \<open>
  The \<open>Server\<close>: whether its \<open>db\<close> is not nil, and the token. Its \<open>streams\<close> map is the field of the
  world. \<open>sess_stream\<close> is the reference of the \<open>agentStream\<close>.
\<close>

record Server =
  srv_db :: bool
  srv_expectedToken :: string

record agentSession =
  sess_stream :: nat
  sess_agentID :: string
  sess_tenantID :: uuid
  sess_backend :: string

definition NewServer :: "bool \<Rightarrow> string \<Rightarrow> Server" where
  "NewServer dbOpen expectedToken = \<lparr>srv_db = dbOpen, srv_expectedToken = expectedToken\<rparr>"

definition sess_Send :: "agentSession \<Rightarrow> ServerMessage \<Rightarrow> unit w" where
  "sess_Send sess msg = stream_send (sess_stream sess) msg"

text \<open>
  The goroutine sends in any case; the caller gets the context's error instead of the result when
  the context is done first.
\<close>

definition SendWithContext :: "nat \<Rightarrow> ServerMessage \<Rightarrow> unit w" where
  "SendWithContext ref message =
     bindE (getsE (\<lambda>s. ctx_Err (env s) (tick s))) (\<lambda>done.
     bindE (tryE (stream_send ref message)) (\<lambda>result.
     case done of
       Some err \<Rightarrow> raise (Sentinel err)
     | None \<Rightarrow> (case result of Inl err \<Rightarrow> raise err | Inr _ \<Rightarrow> ret ())))"

definition delete_stream :: "string \<Rightarrow> unit w" where
  "delete_stream agentID = modifyE (\<lambda>s. s\<lparr>streams := AList.delete agentID (streams s)\<rparr>)"

definition NotifyCancelShard :: "string \<Rightarrow> uuid \<Rightarrow> unit w" where
  "NotifyCancelShard agentID shardID =
     bindE (getsE (\<lambda>s. (map_of (streams s) agentID, uuid_String (env s) shardID))) (\<lambda>(value, idText).
     case value of
       None \<Rightarrow> ret ()
     | Some stream \<Rightarrow>
         bindE (tryE (SendWithContext stream (SM_CancelShard idText))) (\<lambda>r.
         case r of
           Inr _ \<Rightarrow> ret ()
         | Inl err \<Rightarrow>
             bindE (if \<not> errors_Is err DeadlineExceeded \<and> \<not> errors_Is err Canceled
                    then delete_stream agentID else ret ()) (\<lambda>_.
             raise err)))"

section \<open>Timeouts\<close>

definition HandleAgentTimeout :: "string \<Rightarrow> string \<Rightarrow> unit w" where
  "HandleAgentTimeout agentID reason =
     bindE (getsE (\<lambda>s. uuid_Parse (env s))) (\<lambda>parse.
     bindE (tryE (GetAgent agentID)) (\<lambda>r.
     case r of
       Inl err \<Rightarrow> ret ()
     | Inr agent \<Rightarrow>
         bindE (if agent_CurrentShardID agent \<noteq> None \<and> agent_CurrentShardID agent \<noteq> Some [] then
                  (case parse (go_string (agent_CurrentShardID agent)) of
                     Inl parseErr \<Rightarrow> ret ()
                   | Inr shardID \<Rightarrow>
                       bindE (tryE (RollbackTimedOutShard shardID agentID (agent_TenantID agent)
                                      (agent_BackendName agent))) (\<lambda>_. ret ()))
                else ret ()) (\<lambda>_.
         if reason = ''grace_expired''
         then bindE (tryE (HeartbeatAgent agentID AgentStatusTimedOut None)) (\<lambda>_. ret ())
         else ret ())))"

section \<open>Assigning a shard\<close>

definition fixOSSURLPath :: "env \<Rightarrow> string \<Rightarrow> string" where
  "fixOSSURLPath e rawURL =
     (case url_Parse e rawURL of
        Inl err \<Rightarrow> rawURL
      | Inr u \<Rightarrow> url_String e (u\<lparr>url_Path := strings_ReplaceAll (url_Path u) ''%2F'' ''/''\<rparr>))"

definition output_key :: "string \<Rightarrow> string \<Rightarrow> string" where
  "output_key taskID scriptName =
     ''r-orchestrator/tasks/'' @ taskID @ ''/output/'' @ scriptName @ ''-output.zip''"

text \<open>\<open>status.Errorf(codes.Internal, "...: %v", err)\<close>\<close>

definition internal_err :: "string \<Rightarrow> error \<Rightarrow> error" where
  "internal_err fmt err = Statusf Internal fmt [error_Error err]"

text \<open>The body of \<open>TryAssignShard\<close> after the lease.\<close>

definition assign_leased :: "agentSession \<Rightarrow> Task \<Rightarrow> TaskShard \<Rightarrow> unit w" where
  "assign_leased sess task shard =
     bindE (getsE env) (\<lambda>e.
     let shardIDStr = uuid_String e (ID shard);
         bundleKey = bundle_key (uuid_String e (ID task));
         outputKey = output_key (uuid_String e (ID task)) (shard_ScriptName shard) in
     bindE (mapErr (internal_err ''mark agent busy: %v'')
       (HeartbeatAgent (sess_agentID sess) AgentStatusRunning (Some shardIDStr))) (\<lambda>_.
     bindE (mapErr (internal_err ''init oss client: %v'') aliyun_NewOss) (\<lambda>_.
     bindE (mapErr (internal_err ''sign bundle url: %v'') (GetObjectURL bundleKey)) (\<lambda>bundleURL.
     bindE (mapErr (internal_err ''sign output url: %v'') (SignPutURL outputKey 3600)) (\<lambda>outputURL.
     mapErr (internal_err ''send assign shard: %v'')
       (sess_Send sess (SM_AssignShard
          \<lparr>as_ShardId = shardIDStr, as_TaskId = uuid_String e (ID task),
           as_ScriptName = shard_ScriptName shard,
           as_BundleDownloadUrl = fixOSSURLPath e bundleURL,
           as_OutputUploadUrl = fixOSSURLPath e outputURL,
           as_OutputOssKey = outputKey,
           as_TotalShards = word_of_int (task_ShardCount task)\<rparr>)))))))"

text \<open>The deferred function of \<open>TryAssignShard\<close> while \<open>should_rollback\<close> is set.\<close>

definition undo_assignment :: "agentSession \<Rightarrow> Task \<Rightarrow> TaskShard \<Rightarrow> unit w" where
  "undo_assignment sess task shard =
     bindE (RollbackAssignedShard (ID shard) task) (\<lambda>_.
     mapErr (Wrapf ''rollback agent heartbeat: %w'' [])
       (HeartbeatAgent (sess_agentID sess) AgentStatusIdle None))"

definition TryAssignShard :: "Server \<Rightarrow> agentSession \<Rightarrow> unit w" where
  "TryAssignShard server sess =
     (if \<not> srv_db server \<or> sess_agentID sess = [] \<or> sess_tenantID sess = uuid_Nil \<or> sess_backend sess = []
      then ret ()
      else
        bindE (tryE (LeaseNextShard (sess_tenantID sess) (sess_backend sess) (sess_agentID sess))) (\<lambda>leased.
        case leased of
          Inl err \<Rightarrow>
            if errors_Is err ErrRecordNotFound then ret ()
            else raise (internal_err ''lease next shard: %v'' err)
        | Inr (task, shard) \<Rightarrow>
            bindE (tryE (assign_leased sess task shard)) (\<lambda>r.
            case r of
              Inr _ \<Rightarrow> ret ()
            | Inl ret_err \<Rightarrow>
                bindE (tryE (undo_assignment sess task shard)) (\<lambda>r2.
                case r2 of
                  Inr _ \<Rightarrow> raise ret_err
                | Inl rollback_err \<Rightarrow>
                    raise (Statusf Internal ''%v (rollback failed: %v)''
                             [error_Error ret_err, error_Error rollback_err])))))"

definition resetAgentAndAssign :: "Server \<Rightarrow> agentSession \<Rightarrow> unit w" where
  "resetAgentAndAssign server sess =
     bindE (mapErr (internal_err ''reset agent idle: %v'')
       (HeartbeatAgent (sess_agentID sess) AgentStatusIdle None)) (\<lambda>_.
     TryAssignShard server sess)"

section \<open>Message handlers\<close>

definition HandleReconnectedAgent :: "Server \<Rightarrow> agentSession \<Rightarrow> Agent \<Rightarrow> Agent w" where
  "HandleReconnectedAgent server sess agent =
     bindE (if agent_Status agent = AgentStatusRunning then
              bindE (mapErr (internal_err ''reset stale agent state: %v'')
                (HeartbeatAgent (agent_ID agent) AgentStatusIdle None)) (\<lambda>_.
              bindE (tryE (RollbackOrphanShardsForAgent (agent_ID agent))) (\<lambda>_.
              mapErr (internal_err ''get reset agent: %v'') (GetAgent (agent_ID agent))))
            else ret agent) (\<lambda>agent.
     if agent_Status agent \<noteq> AgentStatusIdle then ret agent
     else bindE (TryAssignShard server sess) (\<lambda>_. ret agent))"

definition HandleHeartbeat :: "Server \<Rightarrow> agentSession \<Rightarrow> Heartbeat \<Rightarrow> unit w" where
  "HandleHeartbeat server sess heartbeat =
     (if hb_AgentId heartbeat \<noteq> [] \<and> hb_AgentId heartbeat \<noteq> sess_agentID sess then
        raise (Statusf InvalidArgument ''heartbeat agent_id does not match registered agent'' [])
      else
      bindE (if hb_Status heartbeat = ''IDLE'' then
               bindE (mapErr (\<lambda>err. Statusf Internal ''rollback orphan shards for agent %s: %v''
                                      [sess_agentID sess, error_Error err])
                 (RollbackOrphanShardsForAgent (sess_agentID sess))) (\<lambda>_. ret ())
             else ret ()) (\<lambda>_.
      let shardID = (if hb_CurrentShardId heartbeat \<noteq> [] then Some (hb_CurrentShardId heartbeat) else None) in
      bindE (mapErr (\<lambda>err. if errors_Is err ErrAgentNotFound
                           then Statusf NotFound ''%s'' [error_Error err]
                           else internal_err ''heartbeat agent: %v'' err)
        (HeartbeatAgent (sess_agentID sess) (hb_Status heartbeat) shardID)) (\<lambda>_.
      bindE (ResetHeartbeat (sess_agentID sess)) (\<lambda>_.
      if hb_Status heartbeat = AgentStatusIdle then TryAssignShard server sess else ret ()))))"

text \<open>\<open>uuid.Parse\<close> of a shard id in a message.\<close>

definition parse_shard_id :: "string \<Rightarrow> uuid w" where
  "parse_shard_id text =
     bindE (getsE (\<lambda>s. uuid_Parse (env s) text)) (\<lambda>r.
     case r of
       Inl m \<Rightarrow> raise (Statusf InvalidArgument ''invalid shard_id: %v'' [m])
     | Inr u \<Rightarrow> ret u)"

definition HandleShardStarted :: "agentSession \<Rightarrow> string \<Rightarrow> unit w" where
  "HandleShardStarted sess shardIdText =
     bindE (parse_shard_id shardIdText) (\<lambda>shardID.
     bindE (getsE (\<lambda>s. uuid_String (env s) shardID)) (\<lambda>shardIDStr.
     bindE (ValidateShardReport shardID (sess_agentID sess) (sess_tenantID sess) (sess_backend sess)
              ShardStatusLeased ''mark shard started'') (\<lambda>_.
     bindE (mapErr (internal_err ''mark shard started: %v'')
       (ReportShardStatus \<lparr>rp_ShardID = shardID, rp_ShardStatus = ShardStatusRunning,
          rp_ErrorMessage = None, rp_OutputOSSKey = [], rp_OutputSHA256 = []\<rparr>)) (\<lambda>_.
     mapErr (internal_err ''update agent running state: %v'')
       (HeartbeatAgent (sess_agentID sess) AgentStatusRunning (Some shardIDStr))))))"

text \<open>\<open>agentErr != nil || agent.CurrentShardID == nil || *agent.CurrentShardID != shardID.String()\<close>\<close>

definition moved_on :: "agentSession \<Rightarrow> string \<Rightarrow> bool w" where
  "moved_on sess shardIDStr =
     bindE (tryE (GetAgent (sess_agentID sess))) (\<lambda>r.
     ret (case r of Inl agentErr \<Rightarrow> True | Inr agent \<Rightarrow> agent_CurrentShardID agent \<noteq> Some shardIDStr))"

definition HandleShardFailed :: "Server \<Rightarrow> agentSession \<Rightarrow> ShardFailed \<Rightarrow> unit w" where
  "HandleShardFailed server sess shard_failed =
     bindE (parse_shard_id (sf_ShardId shard_failed)) (\<lambda>shardID.
     bindE (LoadValidatedShard shardID (sess_agentID sess) (sess_tenantID sess) (sess_backend sess)) (\<lambda>shard.
     if shard_Status shard = ShardStatusRunning then
       bindE (mapErr (internal_err ''mark shard failed: %v'')
         (ReportShardStatus \<lparr>rp_ShardID = shardID, rp_ShardStatus = ShardStatusFailed,
            rp_ErrorMessage = Some (sf_ErrorMessage shard_failed),
            rp_OutputOSSKey = [], rp_OutputSHA256 = []\<rparr>)) (\<lambda>_.
       resetAgentAndAssign server sess)
     else
       bindE (getsE (\<lambda>s. uuid_String (env s) shardID)) (\<lambda>shardIDStr.
       bindE (moved_on sess shardIDStr) (\<lambda>gone.
       if gone then ret () else resetAgentAndAssign server sess))))"

definition HandleShardResultReady :: "Server \<Rightarrow> agentSession \<Rightarrow> ShardResultReady \<Rightarrow> unit w" where
  "HandleShardResultReady server sess shard_ready =
     bindE (parse_shard_id (srr_ShardId shard_ready)) (\<lambda>shardID.
     bindE (LoadValidatedShard shardID (sess_agentID sess) (sess_tenantID sess) (sess_backend sess)) (\<lambda>shard.
     bindE (getsE (\<lambda>s. uuid_String (env s) shardID)) (\<lambda>shardIDStr.
     let ack = SM_ShardResultStored shardIDStr in
     if shard_Status shard = ShardStatusRunning then
       bindE (mapErr (internal_err ''mark shard succeeded: %v'')
         (ReportShardStatus \<lparr>rp_ShardID = shardID, rp_ShardStatus = ShardStatusSucceeded,
            rp_ErrorMessage = None, rp_OutputOSSKey = srr_OutputOssKey shard_ready,
            rp_OutputSHA256 = srr_Sha256 shard_ready\<rparr>)) (\<lambda>_.
       bindE (sess_Send sess ack) (\<lambda>_.
       resetAgentAndAssign server sess))
     else
       bindE (moved_on sess shardIDStr) (\<lambda>gone.
       if gone then sess_Send sess ack
       else bindE (sess_Send sess ack) (\<lambda>_. resetAgentAndAssign server sess)))))"

section \<open>The control stream\<close>

text \<open>What one \<open>stream.Recv()\<close> returns: a message or an error other than \<open>io.EOF\<close>.\<close>

datatype recv_result = Received AgentMessage | RecvFailed string

definition register_first :: "Server \<Rightarrow> AgentMessage \<Rightarrow> agentSession w" where
  "register_first server first_message =
     (case first_message of
        AM_Register register \<Rightarrow>
          if reg_AgentId register = [] then raise (Statusf InvalidArgument ''agent_id is required'' [])
          else
          bindE (getsE env) (\<lambda>e.
          case uuid_Parse e (reg_TenantId register) of
            Inl m \<Rightarrow> raise (Statusf InvalidArgument ''invalid tenant_id: %v'' [m])
          | Inr tenantID \<Rightarrow>
              if reg_Token register \<noteq> srv_expectedToken server then
                raise (Statusf Unauthenticated ''tenant %s token mismatch'' [uuid_String e tenantID])
              else
              bindE (mapErr (\<lambda>err. if errors_Is err ErrAgentIdentityConflict
                                   then Statusf PermissionDenied ''%s'' [error_Error err]
                                   else internal_err ''register agent: %v'' err)
                (RegisterAgent (reg_AgentId register) tenantID (reg_BackendName register))) (\<lambda>_.
              bindE (CancelTimer (reg_AgentId register)) (\<lambda>_.
              bindE (ResetHeartbeat (reg_AgentId register)) (\<lambda>_.
              bindE (getsE tick) (\<lambda>streamRef.
              bindE (modifyE (\<lambda>s. (tick_world s)\<lparr>streams :=
                       AList.update (reg_AgentId register) streamRef (streams s)\<rparr>)) (\<lambda>_.
              ret \<lparr>sess_stream = streamRef, sess_agentID = reg_AgentId register,
                   sess_tenantID = tenantID, sess_backend = reg_BackendName register\<rparr>))))))
      | _ \<Rightarrow> raise (Statusf InvalidArgument ''first control message must be register'' []))"

definition start_session :: "Server \<Rightarrow> agentSession \<Rightarrow> unit w" where
  "start_session server sess =
     bindE (mapErr (internal_err ''get registered agent: %v'') (GetAgent (sess_agentID sess))) (\<lambda>agent.
     bindE (HandleReconnectedAgent server sess agent) (\<lambda>_. ret ()))"

definition handle_message :: "Server \<Rightarrow> agentSession \<Rightarrow> AgentMessage \<Rightarrow> unit w" where
  "handle_message server sess message =
     (case message of
        AM_Heartbeat heartbeat \<Rightarrow> HandleHeartbeat server sess heartbeat
      | AM_ShardAccepted shardId \<Rightarrow> ret ()
      | AM_ShardStarted shardId \<Rightarrow> HandleShardStarted sess shardId
      | AM_ShardResultReady shard_ready \<Rightarrow> HandleShardResultReady server sess shard_ready
      | AM_ShardFailed shard_failed \<Rightarrow> HandleShardFailed server sess shard_failed
      | _ \<Rightarrow> raise (Statusf InvalidArgument ''unsupported control message'' []))"

fun control_loop :: "Server \<Rightarrow> agentSession \<Rightarrow> recv_result list \<Rightarrow> unit w" where
  "control_loop server sess inbox =
     bindE (getsE (\<lambda>s. ctx_Err (env s) (tick s))) (\<lambda>ctxErr.
     bindE (modifyE tick_world) (\<lambda>_.
     case ctxErr of
       Some err \<Rightarrow> raise (Sentinel err)
     | None \<Rightarrow> (case inbox of
           [] \<Rightarrow> ret ()
         | RecvFailed m # _ \<Rightarrow> raise (Statusf Internal ''recv control message: %v'' [m])
         | Received message # rest \<Rightarrow>
             bindE (handle_message server sess message) (\<lambda>_. control_loop server sess rest))))"

declare control_loop.simps [simp del]

text \<open>The deferred function of \<open>OpenControlStream\<close>.\<close>

definition end_session :: "string \<Rightarrow> unit w" where
  "end_session agentID =
     bindE (delete_stream agentID) (\<lambda>_.
     bindE (BeginGrace agentID) (\<lambda>_.
     DisconnectAgent agentID))"

definition OpenControlStream :: "Server \<Rightarrow> recv_result list \<Rightarrow> unit w" where
  "OpenControlStream server inbox =
     (case inbox of
        [] \<Rightarrow> raise (Statusf InvalidArgument ''register message is required'' [])
      | RecvFailed m # _ \<Rightarrow> raise (Statusf Internal ''recv first control message: %v'' [m])
      | Received first_message # rest \<Rightarrow>
          bindE (register_first server first_message) (\<lambda>sess.
          bindE (tryE (bindE (start_session server sess) (\<lambda>_. control_loop server sess rest))) (\<lambda>r.
          bindE (end_session (sess_agentID sess)) (\<lambda>_.
          case r of Inl err \<Rightarrow> raise err | Inr _ \<Rightarrow> ret ()))))"

end
