(* ===== verification/Graph_Api.thy ===== *)
theory Graph_Api
  imports Control
begin

text \<open>
  The GraphQL resolvers of \<open>graph/\<close>. \<open>copyObj\<close> is the third-party \<open>utils.CopyObj\<close> that fills the
  API types; \<open>in_BundleZip\<close> is what \<open>io.ReadAll\<close> of the upload gives. The elements of \<open>Shards\<close> are
  pointers, \<open>None\<close> the nil one.
\<close>

section \<open>API types\<close>

record CreateTenantInput =
  in_Name :: string
  in_PrimaryBackendName :: string
  in_MaxAgents :: int

record SubmitTaskInput =
  in_TenantName :: string
  in_BundleZip :: "string + string"
  in_CompletionHookURL :: "string option"

record SubmitTaskResponse =
  resp_TaskID :: uuid

record CancelTaskPayload =
  cancelled_TaskID :: uuid
  cancelled_Status :: string

record gql_TaskShard =
  gql_shard_ID :: uuid
  gql_shard_ScriptName :: string
  gql_shard_Status :: string
  gql_shard_OutputOssKey :: "string option"
  gql_shard_OutputSha256 :: "string option"
  gql_shard_LastError :: "string option"
  gql_shard_StartedAt :: "time option"
  gql_shard_FinishedAt :: "time option"

record gql_Task =
  gql_task_ID :: uuid
  gql_task_Status :: string
  gql_task_LastError :: string
  gql_task_CreatedAt :: time
  gql_task_StartedAt :: "time option"
  gql_task_FinishedAt :: "time option"
  gql_task_ShardCount :: int
  gql_task_Shards :: "gql_TaskShard option list"

record gql_Tenant =
  gql_tenant_ID :: uuid
  gql_tenant_Name :: string
  gql_tenant_PrimaryBackendName :: string
  gql_tenant_MaxAgents :: int

section \<open>Resolvers\<close>

definition resolver_CreateTenant ::
  "(Tenant \<Rightarrow> error + gql_Tenant) \<Rightarrow> CreateTenantInput \<Rightarrow> gql_Tenant w" where
  "resolver_CreateTenant copyObj input =
     bindE orm_GetDB (\<lambda>_.
     if in_MaxAgents input \<le> 0 then raise (Errorf ''max_agents must be positive'' [])
     else
     bindE (tenant_orm_Create \<lparr>ID = uuid_Nil, CreatedAt = 0, UpdatedAt = 0, DeletedAt = None,
              tenant_Name = in_Name input, tenant_PrimaryBackendName = in_PrimaryBackendName input,
              tenant_MaxAgents = in_MaxAgents input\<rparr>) (\<lambda>tenant.
     liftE (copyObj tenant)))"

definition resolver_SubmitTask :: "SubmitTaskInput \<Rightarrow> SubmitTaskResponse w" where
  "resolver_SubmitTask input =
     (if strings_TrimSpace (in_TenantName input) = [] then raise (Errorf ''tenant name is required'' [])
      else case in_BundleZip input of
        Inl m \<Rightarrow> raise (External m)
      | Inr zipBytes \<Rightarrow>
          if zipBytes = [] then raise (Errorf ''bundle zip is required'' [])
          else
          bindE (SubmitTask \<lparr>sp_TenantName = in_TenantName input, sp_ZipBytes = zipBytes,
                  sp_CompletionHookURL = go_string (in_CompletionHookURL input)\<rparr>) (\<lambda>taskID.
          ret \<lparr>resp_TaskID = taskID\<rparr>))"

definition resolver_CancelTask ::
  "(string \<Rightarrow> uuid \<Rightarrow> unit w) option \<Rightarrow> string \<Rightarrow> uuid \<Rightarrow> CancelTaskPayload w" where
  "resolver_CancelTask notify tenantName taskID =
     bindE (CancelTask notify tenantName taskID) (\<lambda>_.
     ret \<lparr>cancelled_TaskID = taskID, cancelled_Status = TaskStatusCancelled\<rparr>)"

definition resolver_GetTaskByID ::
  "(Task \<Rightarrow> error + gql_Task) \<Rightarrow> string \<Rightarrow> uuid \<Rightarrow> gql_Task w" where
  "resolver_GetTaskByID copyObj tenantName taskID =
     bindE (GetTask tenantName taskID) (\<lambda>task. liftE (copyObj task))"

primrec copy_tasks :: "(Task \<Rightarrow> error + gql_Task) \<Rightarrow> Task list \<Rightarrow> error + gql_Task list" where
  "copy_tasks copyObj [] = Inr []"
| "copy_tasks copyObj (task # rest) = (case copyObj task of
       Inl err \<Rightarrow> Inl err
     | Inr gqlTask \<Rightarrow> (case copy_tasks copyObj rest of Inl err \<Rightarrow> Inl err | Inr gs \<Rightarrow> Inr (gqlTask # gs)))"

definition resolver_GetTaskList ::
  "(Task \<Rightarrow> error + gql_Task) \<Rightarrow> string \<Rightarrow> string option \<Rightarrow> gql_Task list w" where
  "resolver_GetTaskList copyObj tenantName status =
     bindE (ListTasks tenantName (go_string status)) (\<lambda>found. liftE (copy_tasks copyObj found))"

end
