(* ===== verification/Cluster.thy ===== *)
theory Cluster
  imports Orm Go_Strings
begin

text \<open>
  Clusters: \<open>cluster_orm\<close>, \<open>cluster_service\<close> (billing, renewal, the recycler) and the registry of
  backend providers. A \<open>Provider\<close> is the Go interface as a record of operations; the recycler and the
  poller reach a provider through the \<open>Registry\<close> only. \<open>recycle_tick\<close> is the body of one tick of the recycler,
  \<open>RecycleClusters\<close> the loop around it.
\<close>

section \<open>cluster_orm\<close>

text \<open>\<open>Create\<close>: the zero \<open>billing_cycle_seconds\<close> takes the column's default; \<open>tenant_id\<close> is unique.\<close>

definition cluster_orm_Create :: "Cluster \<Rightarrow> Cluster w" where
  "cluster_orm_Create cluster =
     bindE (BeforeCreate cluster) (\<lambda>c.
     insert_stmt clusters set_clusters (\<lambda>q r. cluster_TenantID q = cluster_TenantID r)
       (if cluster_BillingCycleSeconds c = 0 then c\<lparr>cluster_BillingCycleSeconds := 3600\<rparr> else c))"

text \<open>\<open>ORDER BY created_at DESC, id\<close>\<close>

definition latest_first :: "Cluster list \<Rightarrow> Cluster list" where
  "latest_first = sort_key (\<lambda>r. (- CreatedAt r, ID r))"

definition cluster_orm_GetByTenant :: "uuid \<Rightarrow> Cluster w" where
  "cluster_orm_GetByTenant tenantID = select_first (\<lambda>d. latest_first
     (filter (\<lambda>r. live r \<and> cluster_TenantID r = tenantID \<and> cluster_Status r \<noteq> ClusterStatusTerminated)
       (clusters d)))"

definition GetOrCreateActiveCluster :: "Cluster \<Rightarrow> Cluster w" where
  "GetOrCreateActiveCluster cluster =
     bindE (tryE (cluster_orm_GetByTenant (cluster_TenantID cluster))) (\<lambda>r.
     case r of
       Inr existing \<Rightarrow> ret existing
     | Inl err \<Rightarrow>
         bindE (tryE (cluster_orm_Create cluster)) (\<lambda>r2.
         case r2 of
           Inr created \<Rightarrow> ret created
         | Inl createErr \<Rightarrow>
             if strings_Contains (error_Error createErr) ''duplicate key'' then
               bindE (mapErr (\<lambda>fetchErr. createErr)
                 (select_first (\<lambda>d. latest_first
                    (filter (\<lambda>r. live r \<and> cluster_TenantID r = cluster_TenantID cluster) (clusters d))))) (\<lambda>found.
               if cluster_Status found = ClusterStatusTerminated then
                 let new = (\<lambda>c. c\<lparr>cluster_Status := cluster_Status cluster,
                                   cluster_BackendName := cluster_BackendName cluster,
                                   cluster_BillingCycleSeconds := cluster_BillingCycleSeconds cluster,
                                   cluster_NextBillingBoundaryAt := cluster_NextBillingBoundaryAt cluster\<rparr>) in
                 bindE (update_clusters (\<lambda>r. ID r = ID found) new) (\<lambda>_. ret (new found))
               else ret found)
             else raise createErr))"

definition GetActiveClusterList :: "Cluster list w" where
  "GetActiveClusterList = select (\<lambda>d. filter (\<lambda>r. live r \<and>
     cluster_Status r \<in> {ClusterStatusActive, ClusterStatusProvisioning}) (clusters d))"

definition UpdateStatus :: "uuid \<Rightarrow> string \<Rightarrow> unit w" where
  "UpdateStatus clusterID status =
     bindE (update_clusters (\<lambda>r. ID r = clusterID) (\<lambda>r. r\<lparr>cluster_Status := status\<rparr>)) (\<lambda>_. ret ())"

definition UpdateIdleSince :: "uuid \<Rightarrow> time option \<Rightarrow> unit w" where
  "UpdateIdleSince clusterID idleSince =
     bindE (update_clusters (\<lambda>r. ID r = clusterID) (\<lambda>r. r\<lparr>cluster_IdleSince := idleSince\<rparr>)) (\<lambda>_. ret ())"

section \<open>Billing\<close>

definition IsNearBoundary :: "Cluster \<Rightarrow> duration \<Rightarrow> bool w" where
  "IsNearBoundary cluster threshold =
     bindE time_Now (\<lambda>now. ret (time_Sub (cluster_NextBillingBoundaryAt cluster) now \<le> threshold))"

definition IsExpired :: "Cluster \<Rightarrow> bool w" where
  "IsExpired cluster = bindE time_Now (\<lambda>now. ret (now > cluster_NextBillingBoundaryAt cluster))"

definition IsIdleExpired :: "Cluster \<Rightarrow> duration \<Rightarrow> bool w" where
  "IsIdleExpired cluster threshold = (case cluster_IdleSince cluster of
       None \<Rightarrow> ret False
     | Some since \<Rightarrow> bindE time_Now (\<lambda>now. ret (time_Sub now since \<ge> threshold)))"

definition ShouldTerminate :: "Cluster \<Rightarrow> duration \<Rightarrow> bool w" where
  "ShouldTerminate cluster idleThreshold =
     bindE (CountActiveTasks (cluster_TenantID cluster)) (\<lambda>activeCount.
     if activeCount > 0 then ret False
     else bindE (IsIdleExpired cluster idleThreshold) (\<lambda>b. if \<not> b then ret False else ret True))"

section \<open>cluster_service\<close>

definition cluster_service_GetByTenant :: "uuid \<Rightarrow> Cluster w" where
  "cluster_service_GetByTenant tenantID = cluster_orm_GetByTenant tenantID"

definition MarkActive :: "uuid \<Rightarrow> unit w" where
  "MarkActive clusterID = UpdateStatus clusterID ClusterStatusActive"

definition TerminateCluster :: "uuid \<Rightarrow> unit w" where
  "TerminateCluster clusterID = UpdateStatus clusterID ClusterStatusTerminated"

definition RenewBilling :: "uuid \<Rightarrow> unit w" where
  "RenewBilling clusterID =
     bindE (select_first (\<lambda>d. filter (\<lambda>r. live r \<and> ID r = clusterID) (clusters d))) (\<lambda>cluster.
     let newBoundary = cluster_NextBillingBoundaryAt cluster + seconds (cluster_BillingCycleSeconds cluster) in
     bindE (update_clusters (\<lambda>r. ID r = clusterID)
       (\<lambda>r. r\<lparr>cluster_NextBillingBoundaryAt := newBoundary\<rparr>)) (\<lambda>_. ret ()))"

section \<open>The provider registry\<close>

record Provider =
  ProvisionCluster :: "Tenant \<Rightarrow> unit w"
  ScaleCluster :: "Tenant \<Rightarrow> int \<Rightarrow> unit w"
  DestroyCluster :: "Tenant \<Rightarrow> unit w"

type_synonym Registry = "(string \<times> Provider) list"

definition NewRegistry :: Registry where "NewRegistry = []"

definition registry_Register :: "string \<Rightarrow> Provider \<Rightarrow> Registry \<Rightarrow> Registry" where
  "registry_Register kind p r = AList.update kind p r"

definition registry_Get :: "Registry \<Rightarrow> string \<Rightarrow> error + Provider" where
  "registry_Get r backendName = (case map_of r backendName of
       None \<Rightarrow> Inl (Errorf ''no provider registered for backend %q'' [backendName])
     | Some p \<Rightarrow> Inr p)"

section \<open>The recycler\<close>

text \<open>\<open>model.Tenant{BaseUUIDModel: model.BaseUUIDModel{ID: cluster.TenantID}}\<close>\<close>

definition tenant_of_id :: "uuid \<Rightarrow> Tenant" where
  "tenant_of_id tenantID = \<lparr>ID = tenantID, CreatedAt = 0, UpdatedAt = 0, DeletedAt = None,
     tenant_Name = [], tenant_PrimaryBackendName = [], tenant_MaxAgents = 0\<rparr>"

definition recycle_busy :: "duration \<Rightarrow> Cluster \<Rightarrow> unit w" where
  "recycle_busy advanceThreshold cluster =
     bindE (if cluster_IdleSince cluster \<noteq> None
            then logged (UpdateIdleSince (ID cluster) None) else ret ()) (\<lambda>_.
     bindE (IsExpired cluster) (\<lambda>expired.
     if expired then logged (RenewBilling (ID cluster))
     else
     bindE (IsNearBoundary cluster advanceThreshold) (\<lambda>near.
     if near then logged (RenewBilling (ID cluster)) else ret ())))"

definition start_idle_timer :: "Cluster \<Rightarrow> Cluster w" where
  "start_idle_timer cluster = (case cluster_IdleSince cluster of
       Some _ \<Rightarrow> ret cluster
     | None \<Rightarrow>
         bindE time_Now (\<lambda>now.
         bindE (logged (UpdateIdleSince (ID cluster) (Some now))) (\<lambda>_.
         ret (cluster\<lparr>cluster_IdleSince := Some now\<rparr>))))"

definition terminate_if_idle :: "Registry \<Rightarrow> duration \<Rightarrow> duration \<Rightarrow> Cluster \<Rightarrow> unit w" where
  "terminate_if_idle registry advanceThreshold idleThreshold cluster =
     bindE (IsIdleExpired cluster idleThreshold) (\<lambda>idle.
     bindE (if idle then
              bindE (IsNearBoundary cluster advanceThreshold) (\<lambda>near.
              if near then ret True else IsExpired cluster)
            else ret False) (\<lambda>terminate.
     if terminate then
       (case registry_Get registry (cluster_BackendName cluster) of
          Inl err \<Rightarrow> ret ()
        | Inr provider \<Rightarrow>
            bindE (tryE (DestroyCluster provider (tenant_of_id (cluster_TenantID cluster)))) (\<lambda>r.
            case r of
              Inl err \<Rightarrow> ret ()
            | Inr _ \<Rightarrow> logged (TerminateCluster (ID cluster))))
     else ret ()))"

definition recycle_idle :: "Registry \<Rightarrow> duration \<Rightarrow> duration \<Rightarrow> Cluster \<Rightarrow> unit w" where
  "recycle_idle registry advanceThreshold idleThreshold cluster =
     bindE (start_idle_timer cluster) (\<lambda>cluster. terminate_if_idle registry advanceThreshold idleThreshold cluster)"

definition recycle_cluster :: "Registry \<Rightarrow> duration \<Rightarrow> duration \<Rightarrow> Cluster \<Rightarrow> unit w" where
  "recycle_cluster registry advanceThreshold idleThreshold cluster =
     (if cluster_Status cluster \<noteq> ClusterStatusActive then ret ()
      else
      bindE (tryE (CountActiveTasks (cluster_TenantID cluster))) (\<lambda>r.
      case r of
        Inl err \<Rightarrow> ret ()
      | Inr activeCount \<Rightarrow>
          if activeCount > 0 then recycle_busy advanceThreshold cluster
          else recycle_idle registry advanceThreshold idleThreshold cluster))"

text \<open>The loop over the clusters; the result is whether it executed \<open>return\<close> because the context is done.\<close>

primrec recycle_loop :: "Registry \<Rightarrow> duration \<Rightarrow> duration \<Rightarrow> Cluster list \<Rightarrow> bool w" where
  "recycle_loop registry advanceThreshold idleThreshold [] = ret False"
| "recycle_loop registry advanceThreshold idleThreshold (cluster # rest) =
     bindE (getsE (\<lambda>s. ctx_Err (env s) (tick s))) (\<lambda>ctxErr.
     if ctxErr \<noteq> None then ret True
     else
     bindE (recycle_cluster registry advanceThreshold idleThreshold cluster) (\<lambda>_.
     recycle_loop registry advanceThreshold idleThreshold rest))"

definition recycle_tick :: "int \<Rightarrow> int \<Rightarrow> Registry \<Rightarrow> bool w" where
  "recycle_tick billingAdvanceSeconds idleThresholdSeconds registry =
     bindE (tryE (bindE orm_GetDB (\<lambda>_. GetActiveClusterList))) (\<lambda>r.
     case r of
       Inl err \<Rightarrow> ret False
     | Inr found \<Rightarrow> recycle_loop registry (seconds billingAdvanceSeconds) (seconds idleThresholdSeconds) found)"

definition RecycleClusters :: "int \<Rightarrow> int \<Rightarrow> Registry \<Rightarrow> select_event list \<Rightarrow> bool w" where
  "RecycleClusters billingAdvanceSeconds idleThresholdSeconds registry events =
     ticker_loop (recycle_tick billingAdvanceSeconds idleThresholdSeconds registry) events"

end
