(* ===== verification/K8s_Provider.thy ===== *)
theory K8s_Provider
  imports Cluster
begin

text \<open>
  \<open>cluster_service/backend/k8\<close>: the Kubernetes provider. Every API call is appended to \<open>k8s_log\<close> and
  answered by the environment; the objects the provider builds are modelled field by field.
\<close>

section \<open>Configuration and client\<close>

record k8_Config =
  k8_Namespace :: string
  k8_AgentImage :: string
  k8_ImagePullSecrets :: "string list"
  k8_ServerGRPCAddr :: string
  k8_AgentToken :: string
  k8_ServerPublicURL :: string
  k8_KubeConfigPath :: string
  k8_AgentLogLevel :: string

definition labelApp :: string where "labelApp = ''r-orchestrator-agent''"
definition labelTenant :: string where "labelTenant = ''r-orchestrator-tenant''"

text \<open>
  What \<open>BuildKubeConfig\<close> asks the client library and the operating system: a configuration from
  a file, the in-cluster configuration, the home directory, and whether a file exists.
\<close>

record 'cfg kube_sources =
  BuildConfigFromFlags :: "string \<Rightarrow> error + 'cfg"
  InClusterConfig :: "error + 'cfg"
  UserHomeDir :: "error + string"
  file_exists :: "string \<Rightarrow> bool"

definition BuildKubeConfig :: "'cfg kube_sources \<Rightarrow> string \<Rightarrow> error + 'cfg" where
  "BuildKubeConfig src kubeConfigPath =
     (if kubeConfigPath \<noteq> [] then BuildConfigFromFlags src kubeConfigPath
      else case InClusterConfig src of
        Inr cfg \<Rightarrow> Inr cfg
      | Inl _ \<Rightarrow>
          (case UserHomeDir src of
             Inl err \<Rightarrow> Inl (Wrapf ''get home dir: %w'' [] err)
           | Inr home \<Rightarrow>
               (let defaultPath = path_Clean (home @ ''/.kube/config'') in
                if file_exists src defaultPath then BuildConfigFromFlags src defaultPath
                else Inl (Errorf ''no kubeconfig found: set CLUSTER_K8S_KUBECONFIG_PATH or run in-cluster'' []))))"

definition NewK8sProvider ::
  "'cfg kube_sources \<Rightarrow> ('cfg \<Rightarrow> error + 'client) \<Rightarrow> k8_Config \<Rightarrow> error + ('client \<times> k8_Config)" where
  "NewK8sProvider src newForConfig cfg =
     (case BuildKubeConfig src (k8_KubeConfigPath cfg) of
        Inl err \<Rightarrow> Inl (Wrapf ''build kube config: %w'' [] err)
      | Inr kubeConfig \<Rightarrow>
          (case newForConfig kubeConfig of
             Inl err \<Rightarrow> Inl (Wrapf ''create kubernetes client: %w'' [] err)
           | Inr clientset \<Rightarrow> Inr (clientset, cfg)))"

definition k8s_do :: "k8s_call \<Rightarrow> k8s_answer w" where
  "k8s_do call s = (Inr (k8s_answers (env s) (tick s)), (tick_world s)\<lparr>k8s_log := k8s_log s @ [call]\<rparr>)"

section \<open>Operations\<close>

definition clusterName :: "string \<Rightarrow> string" where
  "clusterName tenantID = ''r-orch-'' @ take 8 tenantID @ ''-agents''"

definition k8_replicas :: "Tenant \<Rightarrow> 32 word" where
  "k8_replicas tenant =
     (let replicas = word_of_int (tenant_MaxAgents tenant) :: 32 word in
      if sint replicas < 1 then 1 else replicas)"

definition k8_envs :: "k8_Config \<Rightarrow> string \<Rightarrow> (string \<times> string) list" where
  "k8_envs cfg tenantID =
     [(''RORCHESTRATOR_TENANT_ID'', tenantID),
      (''RORCHESTRATOR_SERVER_GRPC_ADDR'', k8_ServerGRPCAddr cfg),
      (''RORCHESTRATOR_AGENT_TOKEN'', k8_AgentToken cfg),
      (''RORCHESTRATOR_BACKEND_NAME'', ''kubernetes''),
      (''RORCHESTRATOR_HEALTH_PORT'', ''9091''),
      (''RUST_LOG'', k8_AgentLogLevel cfg)] @
     (if k8_ServerPublicURL cfg \<noteq> [] then [(''RORCHESTRATOR_SERVER_URL'', k8_ServerPublicURL cfg)] else [])"

definition k8_statefulset :: "k8_Config \<Rightarrow> string \<Rightarrow> Tenant \<Rightarrow> StatefulSet" where
  "k8_statefulset cfg tenantID tenant =
     (let name = clusterName tenantID; labels = [(labelApp, ''true''), (labelTenant, tenantID)] in
      \<lparr>sts_Name = name, sts_Namespace = k8_Namespace cfg, sts_Labels = labels,
       sts_Replicas = k8_replicas tenant, sts_SelectorMatchLabels = labels, sts_ServiceName = name,
       sts_TemplateLabels = labels, sts_ImagePullSecrets = k8_ImagePullSecrets cfg,
       sts_ContainerName = ''agent'', sts_ContainerImage = k8_AgentImage cfg,
       sts_ImagePullPolicy = ''IfNotPresent'', sts_Env = k8_envs cfg tenantID,
       sts_ReadinessPort = 9091, sts_InitialDelaySeconds = 5, sts_PeriodSeconds = 10,
       sts_RestartPolicy = ''Always''\<rparr>)"

definition k8_ensure_namespace :: "k8_Config \<Rightarrow> unit w" where
  "k8_ensure_namespace cfg =
     bindE (k8s_do (K8s_GetNamespace (k8_Namespace cfg))) (\<lambda>answer.
     let get_err = (\<lambda>m. Wrapf ''get namespace %s: %w'' [k8_Namespace cfg] (External m)) in
     case answer of
       K8s_Ok \<Rightarrow> ret ()
     | K8s_AlreadyExists m \<Rightarrow> raise (get_err m)
     | K8s_Error m \<Rightarrow> raise (get_err m)
     | K8s_NotFound m \<Rightarrow>
         bindE (k8s_do (K8s_CreateNamespace (k8_Namespace cfg))) (\<lambda>answer2.
         let create_err = (\<lambda>m. Wrapf ''create namespace %s: %w'' [k8_Namespace cfg] (External m)) in
         case answer2 of
           K8s_Ok \<Rightarrow> ret ()
         | K8s_AlreadyExists m2 \<Rightarrow> ret ()
         | K8s_NotFound m2 \<Rightarrow> raise (create_err m2)
         | K8s_Error m2 \<Rightarrow> raise (create_err m2)))"

definition k8_ensure_statefulset :: "k8_Config \<Rightarrow> StatefulSet \<Rightarrow> unit w" where
  "k8_ensure_statefulset cfg sts =
     bindE (k8s_do (K8s_GetStatefulSet (k8_Namespace cfg) (sts_Name sts))) (\<lambda>answer.
     let get_err = (\<lambda>m. Wrapf ''get statefulset %s: %w'' [sts_Name sts] (External m)) in
     case answer of
       K8s_Ok \<Rightarrow> ret ()
     | K8s_AlreadyExists m \<Rightarrow> raise (get_err m)
     | K8s_Error m \<Rightarrow> raise (get_err m)
     | K8s_NotFound m \<Rightarrow>
         bindE (k8s_do (K8s_CreateStatefulSet (k8_Namespace cfg) sts)) (\<lambda>answer2.
         let create_err = (\<lambda>m. Wrapf ''create statefulset %s: %w'' [sts_Name sts] (External m)) in
         case answer2 of
           K8s_Ok \<Rightarrow> ret ()
         | K8s_AlreadyExists m2 \<Rightarrow> ret ()
         | K8s_NotFound m2 \<Rightarrow> raise (create_err m2)
         | K8s_Error m2 \<Rightarrow> raise (create_err m2)))"

definition k8_ProvisionCluster :: "k8_Config \<Rightarrow> Tenant \<Rightarrow> unit w" where
  "k8_ProvisionCluster cfg tenant =
     bindE (getsE (\<lambda>s. uuid_String (env s) (ID tenant))) (\<lambda>tenantID.
     bindE (k8_ensure_namespace cfg) (\<lambda>_.
     k8_ensure_statefulset cfg (k8_statefulset cfg tenantID tenant)))"

definition scale_patch :: "int \<Rightarrow> string" where
  "scale_patch replicas =
     [CHR ''{'', CHR 0x22] @ ''spec'' @ [CHR 0x22, CHR '':'', CHR ''{'', CHR 0x22] @ ''replicas'' @
     [CHR 0x22, CHR '':''] @ int_text replicas @ ''}}''"

definition k8_ScaleCluster :: "k8_Config \<Rightarrow> Tenant \<Rightarrow> int \<Rightarrow> unit w" where
  "k8_ScaleCluster cfg tenant replicas =
     bindE (getsE (\<lambda>s. clusterName (uuid_String (env s) (ID tenant)))) (\<lambda>name.
     bindE (k8s_do (K8s_PatchStatefulSet (k8_Namespace cfg) name (scale_patch replicas))) (\<lambda>answer.
     let scale_err = (\<lambda>m. Wrapf ''scale statefulset %s to %d: %w'' [name, int_text replicas] (External m)) in
     case answer of
       K8s_Ok \<Rightarrow> ret ()
     | K8s_NotFound m \<Rightarrow> raise (scale_err m)
     | K8s_AlreadyExists m \<Rightarrow> raise (scale_err m)
     | K8s_Error m \<Rightarrow> raise (scale_err m)))"

definition k8_DestroyCluster :: "k8_Config \<Rightarrow> Tenant \<Rightarrow> unit w" where
  "k8_DestroyCluster cfg tenant =
     bindE (getsE (\<lambda>s. clusterName (uuid_String (env s) (ID tenant)))) (\<lambda>name.
     bindE (k8s_do (K8s_DeleteStatefulSet (k8_Namespace cfg) name)) (\<lambda>answer.
     case answer of
       K8s_Ok \<Rightarrow> ret ()
     | K8s_NotFound m \<Rightarrow> ret ()
     | K8s_AlreadyExists m \<Rightarrow> raise (External m)
     | K8s_Error m \<Rightarrow> raise (External m)))"

definition K8sProvider :: "k8_Config \<Rightarrow> Provider" where
  "K8sProvider cfg =
     \<lparr>ProvisionCluster = k8_ProvisionCluster cfg, ScaleCluster = k8_ScaleCluster cfg,
      DestroyCluster = k8_DestroyCluster cfg\<rparr>"

end
