(* ===== verification/Poller.thy ===== *)
theory Poller
  imports Task_Api Cluster
begin

text \<open>
  \<open>PollPendingTasks\<close> of \<open>task_service/poll_pending_tasks.go\<close>:
  \<open>poll_tick\<close> is one tick of the poller, \<open>PollPendingTasks\<close> the loop around it. The pending
  tasks are grouped by tenant in a Go map, whose iteration order is the environment's
  (\<open>map_order\<close>); the body for one tenant is \<open>poll_tenant\<close>.
\<close>

definition group_task :: "Task \<Rightarrow> (uuid \<times> uuid list) list \<Rightarrow> (uuid \<times> uuid list) list" where
  "group_task task groups =
     AList.update (task_TenantID task)
       ((case map_of groups (task_TenantID task) of None \<Rightarrow> [] | Some ids \<Rightarrow> ids) @ [ID task]) groups"

definition group_tasks :: "Task list \<Rightarrow> (uuid \<times> uuid list) list" where
  "group_tasks pending_tasks = fold group_task pending_tasks []"

definition new_cluster :: "Tenant \<Rightarrow> int \<Rightarrow> time \<Rightarrow> Cluster" where
  "new_cluster tenant billingCycleSeconds now =
     \<lparr>ID = uuid_Nil, CreatedAt = 0, UpdatedAt = 0, DeletedAt = None,
      cluster_TenantID = ID tenant, cluster_Status = ClusterStatusProvisioning,
      cluster_BackendName = tenant_PrimaryBackendName tenant,
      cluster_BillingCycleSeconds = billingCycleSeconds,
      cluster_NextBillingBoundaryAt = now + seconds billingCycleSeconds, cluster_IdleSince = None\<rparr>"

text \<open>The steps for a tenant that has agents; an error says why its tasks stay pending.\<close>

definition provision_tenant :: "Registry \<Rightarrow> int \<Rightarrow> Tenant \<Rightarrow> unit w" where
  "provision_tenant registry billingCycleSeconds tenant =
     (case registry_Get registry (tenant_PrimaryBackendName tenant) of
        Inl err \<Rightarrow> raise err
      | Inr provider \<Rightarrow>
          bindE time_Now (\<lambda>now.
          bindE (GetOrCreateActiveCluster (new_cluster tenant billingCycleSeconds now)) (\<lambda>_.
          bindE (mapErr (\<lambda>err. Errorf ''ensure: %v'' [error_Error err]) (ProvisionCluster provider tenant)) (\<lambda>_.
          mapErr (\<lambda>err. Errorf ''scale: %v'' [error_Error err])
            (ScaleCluster provider tenant (tenant_MaxAgents tenant))))))"

definition poll_tenant :: "Registry \<Rightarrow> int \<Rightarrow> uuid \<Rightarrow> uuid list \<Rightarrow> unit w" where
  "poll_tenant registry billingCycleSeconds tenant_id task_ids =
     bindE (getsE (\<lambda>s. ctx_Err (env s) (tick s))) (\<lambda>ctxErr.
     if ctxErr \<noteq> None then ret ()
     else
     bindE (tryE (tenant_orm_GetById tenant_id)) (\<lambda>r.
     case r of
       Inl err \<Rightarrow> ret ()
     | Inr tenant \<Rightarrow>
         if tenant_MaxAgents tenant \<le> 0 then
           logged (MarkTasksStatus task_ids TaskStatusFailed ''tenant max_agents is 0'')
         else
         bindE (tryE (provision_tenant registry billingCycleSeconds tenant)) (\<lambda>r2.
         case r2 of
           Inl err \<Rightarrow> logged (MarkTasksStatus task_ids TaskStatusPending (error_Error err))
         | Inr _ \<Rightarrow>
             bindE (tryE (cluster_orm_GetByTenant (ID tenant))) (\<lambda>r3.
             bindE (case r3 of
                      Inl getErr \<Rightarrow> ret ()
                    | Inr existingCluster \<Rightarrow> logged (MarkActive (ID existingCluster))) (\<lambda>_.
             logged (MarkTasksStatus task_ids TaskStatusWaitingForAgents [])))))) "

definition poll_groups :: "Registry \<Rightarrow> int \<Rightarrow> (uuid \<times> uuid list) list \<Rightarrow> uuid list \<Rightarrow> unit w" where
  "poll_groups registry billingCycleSeconds groups order =
     forE order (\<lambda>tenant_id. case map_of groups tenant_id of
         None \<Rightarrow> ret ()
       | Some task_ids \<Rightarrow> poll_tenant registry billingCycleSeconds tenant_id task_ids)"

definition poll_tick :: "int \<Rightarrow> Registry \<Rightarrow> unit w" where
  "poll_tick billingCycleSeconds registry =
     bindE (tryE GetPendingTaskList) (\<lambda>r.
     case r of
       Inl err \<Rightarrow> ret ()
     | Inr pending_tasks \<Rightarrow>
         let groups = group_tasks pending_tasks in
         bindE (getsE (\<lambda>s. map_order (env s) (tick s) (map fst groups))) (\<lambda>order.
         poll_groups registry billingCycleSeconds groups order))"

definition PollPendingTasks :: "int \<Rightarrow> Registry \<Rightarrow> select_event list \<Rightarrow> bool w" where
  "PollPendingTasks billingCycleSeconds registry events =
     bindE (tryE orm_GetDB) (\<lambda>r.
     case r of
       Inl err \<Rightarrow> ret True
     | Inr _ \<Rightarrow> ticker_loop (bindE (poll_tick billingCycleSeconds registry) (\<lambda>_. ret False)) events)"

end
