(* ===== verification/Atomic_Steps.thy ===== *)
theory Atomic_Steps
  imports Graph_Api K8s_Provider Poller
begin

text \<open>
  How the services use the database. The locale \<open>task_store\<close> is the interface: a relation \<open>S\<close> on
  databases that every atomic unit of the data access layer respects, a unit being one
  transaction or one statement outside a transaction. Inside the locale every service, handler,
  resolver and background loop is shown to move the database along \<open>S\<close> only, for all arguments and
  for every behaviour of the environment, errors included.

  The interpretation takes for \<open>S\<close> the reflexive transitive closure of \<open>atomic\<close>, the
  union of the units themselves. So every operation is a sequence of units, and what holds of all units
  holds of every interleaving of the operations of concurrent goroutines.
\<close>

locale task_store = db_evolution S for S :: "database \<Rightarrow> database \<Rightarrow> bool" +
  assumes unit_report: "moves S (transaction (report_body params now))"
    and unit_lease: "moves S (transaction (lease_loop n tenantID backendName agentID))"
    and unit_rollback_with_task:
      "set cs \<subseteq> set shard_active_statuses \<Longrightarrow> moves S (transaction (RollbackShardWithTask shardID cs task))"
    and unit_rollback: "set cs \<subseteq> set shard_active_statuses \<Longrightarrow> moves S (RollbackToQueued shardID cs)"
    and unit_mark:
      "status \<in> {TaskStatusFailed, TaskStatusPending, TaskStatusWaitingForAgents} \<Longrightarrow>
       moves S (MarkTasksStatus taskIDs status lastError)"
    and unit_cancel: "moves S (transaction (cancel_body tenantID taskID))"
    and unit_submit:
      "taskID \<noteq> uuid_Nil \<Longrightarrow> scripts \<noteq> [] \<Longrightarrow>
       moves S (transaction (submit_body (new_task taskID tenantID hookURL (int (length scripts))) scripts))"
    and unit_hook: "moves S (recordCompletionHookResult taskID dispatchErr)"
    and unit_tenant: "moves S (tenant_orm_Create tenant)"
    and unit_clusters: "S d (d\<lparr>clusters := rows\<rparr>)"
begin

section \<open>Operations that only read, or touch the memory only\<close>

lemma moves_agents:
  "moves S (put_agent agentID a)" "moves S (GetAgent agentID)" "moves S (forget_timer agentID)"
  "moves S (ResetHeartbeat agentID)" "moves S (BeginGrace agentID)" "moves S (CancelTimer agentID)"
  unfolding put_agent_def forget_timer_def ResetHeartbeat_def BeginGrace_def CancelTimer_def
  by (rule evolvesI; simp add: GetAgent_def after_func_def stop_timer_def R_refl split: option.splits)+

lemma moves_HeartbeatAgent: "moves S (HeartbeatAgent agentID status shard)"
  unfolding HeartbeatAgent_def by (intro moves_intros moves_agents)

lemma moves_DisconnectAgent: "moves S (DisconnectAgent agentID)"
  unfolding DisconnectAgent_def Let_def by (intro moves_intros moves_agents)

lemma moves_RegisterAgent: "moves S (RegisterAgent agentID tenantID backendName)"
  unfolding RegisterAgent_def Let_def by (intro moves_intros moves_agents)

lemma moves_orm_GetDB: "moves S orm_GetDB"
  by (rule evolvesI) (simp add: orm_GetDB_def R_refl)

lemma moves_liftE: "moves S (liftE r)"
  unfolding liftE_def by (intro moves_intros)

lemma moves_reads:
  "moves S (tenant_orm_GetById u)" "moves S (tenant_orm_GetByName name)" "moves S (task_orm_GetByID u)"
  "moves S (task_shard_orm_GetByID u)" "moves S (GetShardTaskOwner u)" "moves S (GetActiveTaskShardByAgent a)"
  "moves S GetPendingTaskList" "moves S (CountActiveTasks u)" "moves S (ListTasksByTenant u status)"
  "moves S (FindOrphanShards ids)" "moves S (cluster_orm_GetByTenant u)" "moves S GetActiveClusterList"
  unfolding tenant_orm_GetById_def tenant_orm_GetByName_def task_orm_GetByID_def task_shard_orm_GetByID_def
    GetShardTaskOwner_def GetActiveTaskShardByAgent_def GetPendingTaskList_def CountActiveTasks_def
    ListTasksByTenant_def FindOrphanShards_def cluster_orm_GetByTenant_def GetActiveClusterList_def
  by (intro moves_intros)+

lemmas moves_basic =
  moves_intros moves_agents moves_HeartbeatAgent moves_DisconnectAgent moves_RegisterAgent
  moves_orm_GetDB moves_liftE moves_reads

section \<open>task_service\<close>

lemma moves_dispatchAsync: "moves S (dispatchCompletionHookAsync payload)"
  unfolding dispatchCompletionHookAsync_def by (intro moves_intros evolves_modifyE) simp

lemma moves_dispatch: "moves S (dispatchCompletionHook payload)"
  unfolding dispatchCompletionHook_def by (intro moves_intros evolves_modifyE) simp

lemma moves_run_completion_hook: "moves S (run_completion_hook payload)"
  unfolding run_completion_hook_def by (intro moves_intros moves_dispatch unit_hook)

lemma moves_ReportShardStatus: "moves S (ReportShardStatus params)"
  unfolding ReportShardStatus_def by (intro moves_basic unit_report moves_dispatchAsync)

lemma moves_LoadValidatedShard: "moves S (LoadValidatedShard shardID agentID tenantID backendName)"
  unfolding LoadValidatedShard_def by (intro moves_basic)

lemma moves_ValidateShardReport: "moves S (ValidateShardReport shardID agentID tenantID backendName st act)"
  unfolding ValidateShardReport_def by (intro moves_basic moves_LoadValidatedShard)

lemma moves_LeaseNextShard: "moves S (LeaseNextShard tenantID backendName agentID)"
  unfolding LeaseNextShard_def by (intro moves_basic unit_lease)

lemma moves_RollbackAssignedShard: "moves S (RollbackAssignedShard shardID task)"
  unfolding RollbackAssignedShard_def
  by (intro moves_basic unit_rollback_with_task) (simp add: shard_active_statuses_def)

lemma moves_rollback_agent_loop:
  "\<forall>r\<in>set shards. shard_Status r \<in> set shard_active_statuses \<Longrightarrow> moves S (rollback_agent_loop shards n)"
  by (induction shards arbitrary: n) (auto intro!: moves_intros unit_rollback)

lemma moves_RollbackOrphanShardsForAgent: "moves S (RollbackOrphanShardsForAgent agentID)"
proof -
  have "moves S (bindE (mapErr h (GetActiveTaskShardByAgent agentID)) (\<lambda>shards. rollback_agent_loop shards 0))" for h
    by (rule moves_bind_known)
      (auto intro!: moves_basic moves_rollback_agent_loop
        simp: GetActiveTaskShardByAgent_def mapErr_Inr_iff select_Inr_iff)
  then show ?thesis unfolding RollbackOrphanShardsForAgent_def by (rule evolves_bindE[OF moves_orm_GetDB])
qed

lemma moves_RollbackTimedOutShard: "moves S (RollbackTimedOutShard shardID agentID tenantID backendName)"
  unfolding RollbackTimedOutShard_def
  by (intro moves_basic unit_rollback_with_task moves_LoadValidatedShard) simp

lemma moves_cleanup_orphan: "moves S (cleanup_orphan cutoff shard n)"
  unfolding cleanup_orphan_def by (intro moves_intros unit_rollback_with_task) simp

lemma moves_cleanup_loop: "moves S (cleanup_orphans_loop cutoff shards n)"
  by (induction shards arbitrary: n) (auto intro: moves_intros moves_cleanup_orphan)

lemma moves_CleanupOrphanShards: "moves S (CleanupOrphanShards threshold)"
  unfolding CleanupOrphanShards_def task_shard_orm_CleanupOrphanShards_def
  by (intro moves_basic moves_cleanup_loop)

lemma extract_nonempty: "extractScriptsFromZip newReader bytes = Inr scripts \<Longrightarrow> scripts \<noteq> []"
  by (auto simp: extractScriptsFromZip_def sort_Strings_def Let_def split: sum.splits prod.splits if_splits
    dest: arg_cong[where f = length])

lemma moves_SubmitTask: "moves S (SubmitTask params)"
proof -
  have scripts: "moves S (bindE (liftE (extractScriptsFromZip newReader bytes)) g)"
    if "\<And>scripts. scripts \<noteq> [] \<Longrightarrow> moves S (g scripts)" for newReader bytes and g :: "string list \<Rightarrow> uuid w"
    using that by (intro moves_bind_known moves_liftE)
      (auto simp: liftE_def dest: extract_nonempty split: sum.splits)
  show ?thesis unfolding SubmitTask_def
    by (rule evolves_bindE[OF moves_orm_GetDB] evolves_bindE[OF evolves_getsE] evolves_bindE[OF moves_liftE]
        evolves_bindE[OF evolves_mapErr[OF moves_reads(2)]] scripts moves_uuid_bind
        evolves_bindE[OF evolves_mapErr[OF moves_oss(1)]] evolves_bindE[OF evolves_mapErr[OF moves_oss(2)]]
        evolves_bindE[OF unit_submit] evolves_ret | assumption)+
qed

lemma moves_notify_loop: "(\<And>a u. moves S (notify a u)) \<Longrightarrow> moves S (notify_loop notify ps)"
  by (induction ps) (auto intro!: moves_intros)

lemma moves_CancelTask:
  "(\<And>f a u. notify = Some f \<Longrightarrow> moves S (f a u)) \<Longrightarrow> moves S (CancelTask notify tenantName taskID)"
  unfolding CancelTask_def
  by (intro moves_basic unit_cancel moves_dispatchAsync moves_notify_loop) auto

lemma moves_task_reads: "moves S (GetTask tenantName taskID)" "moves S (ListTasks tenantName status)"
  unfolding GetTask_def ListTasks_def by (intro moves_basic)+

section \<open>control\<close>

lemma moves_delete_stream: "moves S (delete_stream agentID)"
  unfolding delete_stream_def by (intro evolves_modifyE) simp

lemma moves_NotifyCancelShard: "moves S (NotifyCancelShard agentID shardID)"
  unfolding NotifyCancelShard_def SendWithContext_def by (intro moves_intros moves_delete_stream)

lemma moves_HandleAgentTimeout: "moves S (HandleAgentTimeout agentID reason)"
  unfolding HandleAgentTimeout_def by (intro moves_basic moves_RollbackTimedOutShard)

lemma moves_sess_Send: "moves S (sess_Send sess msg)"
  unfolding sess_Send_def by (rule moves_stream_send)

lemma moves_TryAssignShard: "moves S (TryAssignShard server sess)"
  unfolding TryAssignShard_def assign_leased_def undo_assignment_def Let_def
  by (intro moves_basic moves_LeaseNextShard moves_RollbackAssignedShard moves_sess_Send)

lemma moves_resetAgentAndAssign: "moves S (resetAgentAndAssign server sess)"
  unfolding resetAgentAndAssign_def by (intro moves_basic moves_TryAssignShard)

lemma moves_HandleReconnectedAgent: "moves S (HandleReconnectedAgent server sess agent)"
  unfolding HandleReconnectedAgent_def
  by (intro moves_basic moves_TryAssignShard moves_RollbackOrphanShardsForAgent)

lemma moves_HandleHeartbeat: "moves S (HandleHeartbeat server sess heartbeat)"
  unfolding HandleHeartbeat_def Let_def
  by (intro moves_basic moves_TryAssignShard moves_RollbackOrphanShardsForAgent)

lemma moves_parse_shard_id: "moves S (parse_shard_id text)"
  unfolding parse_shard_id_def by (intro moves_basic)

lemma moves_HandleShardStarted: "moves S (HandleShardStarted sess text)"
  unfolding HandleShardStarted_def
  by (intro moves_basic moves_parse_shard_id moves_ValidateShardReport moves_ReportShardStatus)

lemma moves_HandleShardFailed: "moves S (HandleShardFailed server sess msg)"
  unfolding HandleShardFailed_def moved_on_def
  by (intro moves_basic moves_parse_shard_id moves_LoadValidatedShard moves_ReportShardStatus
      moves_resetAgentAndAssign)

lemma moves_HandleShardResultReady: "moves S (HandleShardResultReady server sess msg)"
  unfolding HandleShardResultReady_def moved_on_def Let_def
  by (intro moves_basic moves_parse_shard_id moves_LoadValidatedShard moves_ReportShardStatus
      moves_resetAgentAndAssign moves_sess_Send)

lemma moves_handle_message: "moves S (handle_message server sess message)"
  unfolding handle_message_def
  by (cases message) (auto intro: moves_intros moves_HandleHeartbeat moves_HandleShardStarted
      moves_HandleShardFailed moves_HandleShardResultReady)

lemma moves_register_first: "moves S (register_first server message)"
  unfolding register_first_def
  by (cases message) (auto intro!: moves_basic evolves_modifyE split: sum.splits)

lemma moves_start_session: "moves S (start_session server sess)"
  unfolding start_session_def by (intro moves_basic moves_HandleReconnectedAgent)

lemma moves_end_session: "moves S (end_session agentID)"
  unfolding end_session_def by (intro moves_basic moves_delete_stream)

lemma moves_control_loop: "moves S (control_loop server sess inbox)"
proof (induction inbox)
  case Nil
  show ?case unfolding control_loop.simps[of server sess "[]"]
    by (auto intro!: moves_intros evolves_modifyE)
next
  case (Cons x inbox)
  show ?case unfolding control_loop.simps[of server sess "x # inbox"]
    by (cases x) (auto intro!: moves_intros evolves_modifyE moves_handle_message Cons.IH)
qed

lemma moves_recv:
  "(\<And>msg. moves S (g msg)) \<Longrightarrow> (\<And>m. moves S (f m)) \<Longrightarrow> moves S (case_recv_result g f x)"
  by (cases x) auto

lemma moves_OpenControlStream: "moves S (OpenControlStream server inbox)"
  unfolding OpenControlStream_def
  by (cases inbox) (auto intro!: moves_intros moves_recv moves_register_first moves_start_session
      moves_control_loop moves_end_session)

lemma moves_run_callback: "moves S (run_callback (Some HandleAgentTimeout) c)" "moves S (run_callback None c)"
  unfolding run_callback_def onHeartbeatTimeout_def onGraceExpired_def call_timeout_def
  by (cases "snd c"; auto intro!: moves_basic evolves_modifyE moves_HandleAgentTimeout split: option.splits)+

section \<open>Clusters and the poller\<close>

lemma moves_update_any_clusters: "moves S (update_clusters p f)"
  by (rule moves_update_clusters) (rule unit_clusters)

lemma moves_logged: "moves S m \<Longrightarrow> moves S (logged m)"
  unfolding logged_def by (intro moves_intros)

lemma moves_cluster_orm_Create: "moves S (cluster_orm_Create c)"
proof -
  have "moves S (insert_stmt clusters set_clusters clash r)" for clash r
    unfolding insert_stmt_def by (rule moves_stmt) (auto simp: Let_def S_refl unit_clusters)
  then show ?thesis unfolding cluster_orm_Create_def BeforeCreate_def by (intro moves_intros)
qed

lemma moves_GetOrCreateActiveCluster: "moves S (GetOrCreateActiveCluster c)"
  unfolding GetOrCreateActiveCluster_def Let_def
  by (intro moves_basic moves_update_any_clusters moves_cluster_orm_Create)

text \<open>What the recycler and the poller ask of a provider: that it leaves the rows to them.\<close>

definition provider_moves :: "Provider \<Rightarrow> bool" where
  "provider_moves p \<longleftrightarrow> (\<forall>t n. moves S (ProvisionCluster p t) \<and> moves S (ScaleCluster p t n) \<and> moves S (DestroyCluster p t))"

definition registry_moves :: "Registry \<Rightarrow> bool" where
  "registry_moves reg \<longleftrightarrow> (\<forall>p \<in> snd ` set reg. provider_moves p)"

lemma registry_Get_moves: "registry_moves reg \<Longrightarrow> registry_Get reg name = Inr p \<Longrightarrow> provider_moves p"
  by (auto simp: registry_moves_def registry_Get_def image_iff split: option.splits dest!: map_of_SomeD)

lemma moves_recycle_busy: "moves S (recycle_busy adv c)"
  unfolding recycle_busy_def IsExpired_def IsNearBoundary_def RenewBilling_def UpdateIdleSince_def Let_def
  by (intro moves_basic moves_logged moves_update_any_clusters)

lemma moves_recycle_idle:
  assumes "registry_moves reg"
  shows "moves S (recycle_idle reg adv idle c)"
proof -
  have destroy: "moves S (DestroyCluster p t)" if "registry_Get reg name = Inr p" for name p t
    using registry_Get_moves[OF assms that] by (simp add: provider_moves_def)
  show ?thesis unfolding recycle_idle_def start_idle_timer_def terminate_if_idle_def IsExpired_def IsNearBoundary_def IsIdleExpired_def
      UpdateIdleSince_def TerminateCluster_def UpdateStatus_def
    by (intro moves_basic moves_logged moves_update_any_clusters destroy)
qed

lemma moves_recycle_loop: "registry_moves reg \<Longrightarrow> moves S (recycle_loop reg adv idle cs)"
  by (induction cs) (auto intro!: moves_basic moves_recycle_busy moves_recycle_idle simp: recycle_cluster_def)

lemma moves_recycle_tick: "registry_moves reg \<Longrightarrow> moves S (recycle_tick adv idle reg)"
  unfolding recycle_tick_def by (intro moves_basic moves_recycle_loop)

lemma moves_provision_tenant:
  assumes "registry_moves reg"
  shows "moves S (provision_tenant reg n tenant)"
proof (cases "registry_Get reg (tenant_PrimaryBackendName tenant)")
  case (Inl e)
  then show ?thesis by (simp add: provision_tenant_def evolves_raise)
next
  case (Inr p)
  then have "provider_moves p" by (rule registry_Get_moves[OF assms])
  then show ?thesis using Inr
    by (auto simp: provision_tenant_def provider_moves_def intro!: moves_basic moves_GetOrCreateActiveCluster)
qed

lemma moves_poll_tenant: "registry_moves reg \<Longrightarrow> moves S (poll_tenant reg n tenant_id ids)"
  unfolding poll_tenant_def MarkActive_def UpdateStatus_def
  by (intro moves_basic moves_logged unit_mark moves_provision_tenant moves_update_any_clusters) simp_all

lemma moves_poll_tick: "registry_moves reg \<Longrightarrow> moves S (poll_tick n reg)"
  unfolding poll_tick_def poll_groups_def Let_def by (intro moves_basic moves_poll_tenant)

lemma moves_k8s_do: "moves S (k8s_do call)"
  by (rule evolvesI) (simp add: k8s_do_def R_refl)

lemma moves_k8s_answer:
  "moves S m1 \<Longrightarrow> (\<And>m. moves S (m2 m)) \<Longrightarrow> (\<And>m. moves S (m3 m)) \<Longrightarrow> (\<And>m. moves S (m4 m)) \<Longrightarrow>
   moves S (case_k8s_answer m1 m2 m3 m4 a)"
  by (cases a) auto

lemma moves_K8sProvider: "provider_moves (K8sProvider cfg)"
  unfolding provider_moves_def K8sProvider_def k8_ProvisionCluster_def k8_ScaleCluster_def
    k8_DestroyCluster_def k8_ensure_namespace_def k8_ensure_statefulset_def Let_def Provider.simps
  by (intro allI conjI moves_intros moves_k8s_do moves_k8s_answer)

section \<open>Resolvers\<close>

lemma moves_resolvers:
  "moves S (resolver_CreateTenant copyT inputT)"
  "moves S (resolver_SubmitTask inputS)"
  "moves S (resolver_CancelTask (Some NotifyCancelShard) tenantName taskID)"
  "moves S (resolver_GetTaskByID copyObj tenantName taskID)"
  "moves S (resolver_GetTaskList copyObj tenantName status)"
  unfolding resolver_CreateTenant_def resolver_SubmitTask_def resolver_CancelTask_def
    resolver_GetTaskByID_def resolver_GetTaskList_def
  by (intro moves_basic unit_tenant moves_SubmitTask moves_task_reads moves_CancelTask;
      auto intro: moves_NotifyCancelShard)+

end

section \<open>The atomic units\<close>

inductive atomic :: "database \<Rightarrow> database \<Rightarrow> bool" where
  report: "uuid_ok (env s) \<Longrightarrow> transaction (report_body params now) s = (r, s') \<Longrightarrow> atomic (db s) (db s')"
| lease: "uuid_ok (env s) \<Longrightarrow> transaction (lease_loop n tenantID backendName agentID) s = (r, s') \<Longrightarrow>
    atomic (db s) (db s')"
| rollback_with_task: "uuid_ok (env s) \<Longrightarrow> set cs \<subseteq> set shard_active_statuses \<Longrightarrow>
    transaction (RollbackShardWithTask shardID cs task) s = (r, s') \<Longrightarrow> atomic (db s) (db s')"
| rollback: "uuid_ok (env s) \<Longrightarrow> set cs \<subseteq> set shard_active_statuses \<Longrightarrow>
    RollbackToQueued shardID cs s = (r, s') \<Longrightarrow> atomic (db s) (db s')"
| mark: "uuid_ok (env s) \<Longrightarrow> status \<in> {TaskStatusFailed, TaskStatusPending, TaskStatusWaitingForAgents} \<Longrightarrow>
    MarkTasksStatus taskIDs status lastError s = (r, s') \<Longrightarrow> atomic (db s) (db s')"
| cancel: "uuid_ok (env s) \<Longrightarrow> transaction (cancel_body tenantID taskID) s = (r, s') \<Longrightarrow>
    atomic (db s) (db s')"
| submit: "uuid_ok (env s) \<Longrightarrow> taskID \<noteq> uuid_Nil \<Longrightarrow> scripts \<noteq> [] \<Longrightarrow>
    transaction (submit_body (new_task taskID tenantID hookURL (int (length scripts))) scripts) s = (r, s') \<Longrightarrow>
    atomic (db s) (db s')"
| hook: "uuid_ok (env s) \<Longrightarrow> recordCompletionHookResult taskID dispatchErr s = (r, s') \<Longrightarrow>
    atomic (db s) (db s')"
| tenant: "uuid_ok (env s) \<Longrightarrow> tenant_orm_Create tenant s = (r, s') \<Longrightarrow> atomic (db s) (db s')"
| clusters: "atomic d (d\<lparr>clusters := rows\<rparr>)"

text \<open>The units keep the environment: the interface with the relation that always holds.\<close>

interpretation any: db_evolution "\<lambda>_ _. True"
  by unfold_locales simp_all

lemma any_update:
  "moves (\<lambda>_ _. True) (update_tasks p f)" "moves (\<lambda>_ _. True) (update_shards q g)"
  by (rule any.moves_update_tasks any.moves_update_shards, simp)+

lemma any_insert: "moves (\<lambda>_ _. True) (insert_stmt rows set_rows clash r)"
  unfolding insert_stmt_def by (rule any.moves_stmt) simp

lemma any_transition: "moves (\<lambda>_ _. True) (transitionStatus shardID target cs upd)"
  unfolding transitionStatus_def by (intro any.moves_intros any_update)

lemma any_report: "moves (\<lambda>_ _. True) (transaction (report_body params now))"
  unfolding report_body_def task_shard_orm_GetByID_def report_transition_def MarkRunning_def
    MarkSucceeded_def MarkFailed_def report_output_def report_task_def RecomputeTaskStatus_def finish_task_def
    resolveTaskFailureLastError_def updateTaskTerminalStatus_def
  by (intro any.moves_transaction any.moves_intros any_update any_transition)

lemma any_lease_loop: "moves (\<lambda>_ _. True) (lease_loop n tenantID backendName agentID)"
  by (induction n; unfold lease_loop.simps lease_attempt_def promote_task_def take_shard_def; intro any.moves_intros any_update; assumption?)

lemma any_RollbackToQueued: "moves (\<lambda>_ _. True) (RollbackToQueued shardID cs)"
  unfolding RollbackToQueued_def by (rule any_transition)

lemma any_RollbackShardWithTask: "moves (\<lambda>_ _. True) (transaction (RollbackShardWithTask shardID cs task))"
  unfolding RollbackShardWithTask_def RollbackTaskToWaiting_def
  by (intro any.moves_transaction any.moves_intros any_update any_RollbackToQueued)

lemma any_others:
  "moves (\<lambda>_ _. True) (MarkTasksStatus taskIDs status lastError)"
  "moves (\<lambda>_ _. True) (transaction (cancel_body tenantID taskID))"
  "moves (\<lambda>_ _. True) (transaction (submit_body task scripts))"
  "moves (\<lambda>_ _. True) (tenant_orm_Create t)"
  unfolding MarkTasksStatus_def cancel_body_def CancelTaskById_def CancelTaskShardsByTaskId_def
    submit_body_def task_orm_Create_def task_shard_orm_Create_def tenant_orm_Create_def BeforeCreate_def
  by (intro any.moves_transaction any.moves_intros any_update any_insert)+

lemma any_hook: "moves (\<lambda>_ _. True) (recordCompletionHookResult taskID dispatchErr)"
proof -
  have "moves (\<lambda>_ _. True) orm_GetDB"
    by (rule any.evolvesI) (simp add: orm_GetDB_def under_env_def)
  then show ?thesis unfolding recordCompletionHookResult_def by (intro any.moves_intros any_update)
qed

lemma moves_atomicI:
  assumes "moves (\<lambda>_ _. True) m"
    and "\<And>s r s'. uuid_ok (env s) \<Longrightarrow> m s = (r, s') \<Longrightarrow> atomic (db s) (db s')"
  shows "moves (rtranclp atomic) m"
  unfolding evolves_def
proof
  fix s
  obtain r s' where m: "m s = (r, s')" by fastforce
  have "uuid_ok (env s) \<Longrightarrow> uuid_ok (env s')" using movesD[OF assms(1) m] by simp
  then show "under_env (rtranclp atomic) (env_db s) (env_db (snd (m s)))"
    using assms(2)[OF _ m] m by (auto simp: under_env_def env_db_def)
qed

interpretation store: task_store "rtranclp atomic"
proof unfold_locales
  show "rtranclp atomic d d" for d by simp
  show "rtranclp atomic a c" if "rtranclp atomic a b" "rtranclp atomic b c" for a b c
    using that by (rule rtranclp_trans)
  show "rtranclp atomic d (d\<lparr>clusters := rows\<rparr>)" for d rows
    by (rule r_into_rtranclp) (rule atomic.clusters)
  show "moves (rtranclp atomic) (transaction (report_body params now))" for params now
    by (intro moves_atomicI[OF any_report]) (rule atomic.report)
  show "moves (rtranclp atomic) (transaction (lease_loop n tenantID backendName agentID))" for n tenantID backendName agentID
    by (intro moves_atomicI[OF any.moves_transaction[OF any_lease_loop]]) (rule atomic.lease)
  show "moves (rtranclp atomic) (transaction (RollbackShardWithTask shardID cs task))"
    if "set cs \<subseteq> set shard_active_statuses" for cs shardID task
    using that by (intro moves_atomicI[OF any_RollbackShardWithTask]) (rule atomic.rollback_with_task)
  show "moves (rtranclp atomic) (RollbackToQueued shardID cs)"
    if "set cs \<subseteq> set shard_active_statuses" for cs shardID
    using that by (intro moves_atomicI[OF any_RollbackToQueued]) (rule atomic.rollback)
  show "moves (rtranclp atomic) (MarkTasksStatus taskIDs status lastError)"
    if "status \<in> {TaskStatusFailed, TaskStatusPending, TaskStatusWaitingForAgents}" for taskIDs status lastError
    using that by (intro moves_atomicI[OF any_others(1)]) (rule atomic.mark)
  show "moves (rtranclp atomic) (transaction (cancel_body tenantID taskID))" for tenantID taskID
    by (intro moves_atomicI[OF any_others(2)]) (rule atomic.cancel)
  show "moves (rtranclp atomic) (transaction (submit_body (new_task taskID tenantID hookURL (int (length scripts))) scripts))"
    if "taskID \<noteq> uuid_Nil" "scripts \<noteq> []" for taskID tenantID hookURL scripts
    using that by (intro moves_atomicI[OF any_others(3)]) (rule atomic.submit)
  show "moves (rtranclp atomic) (recordCompletionHookResult taskID dispatchErr)" for taskID dispatchErr
    by (intro moves_atomicI[OF any_hook]) (rule atomic.hook)
  show "moves (rtranclp atomic) (tenant_orm_Create tenant)" for tenant
    by (intro moves_atomicI[OF any_others(4)]) (rule atomic.tenant)
qed

end
