(* ===== verification/Lifecycle.thy ===== *)
theory Lifecycle
  imports Atomic_Steps
begin

text \<open>
  The invariant of the task tables. \<open>task_ok\<close> says which sets of shard statuses agree with a task
  status; \<open>db_inv {}\<close> says that identifiers are unique, every shard has its task, the columns of a row
  agree with its status and every task agrees with its shards. \<open>db_inv X\<close> exempts the tasks in
  \<open>X\<close> from the agreement: the state inside a transaction between a shard's transition and the
  recomputation of its task. Every atomic unit keeps \<open>db_inv {}\<close>.
\<close>

section \<open>The invariant\<close>

definition dispatched :: "string list" where
  "dispatched = [TaskStatusWaitingForAgents, TaskStatusQueued, TaskStatusRunning]"

definition statuses_of :: "database \<Rightarrow> uuid \<Rightarrow> string set" where
  "statuses_of d tid = shard_Status ` set (filter (\<lambda>r. shard_TaskID r = tid) (task_shards d))"

definition task_ok :: "string \<Rightarrow> string set \<Rightarrow> bool" where
  "task_ok status S =
     (if status = TaskStatusPending then S = {ShardStatusQueued}
      else if status \<in> set dispatched then
        ShardStatusCancelled \<notin> S \<and> (\<exists>x\<in>S. x \<notin> set shard_terminal_statuses)
      else if status = TaskStatusSucceeded then S = {ShardStatusSucceeded}
      else if status = TaskStatusFailed then
        S = {ShardStatusQueued} \<or> S \<subseteq> {ShardStatusSucceeded, ShardStatusFailed} \<and> ShardStatusFailed \<in> S
      else status = TaskStatusCancelled \<and> S \<subseteq> set shard_terminal_statuses)"

definition task_mid :: "string \<Rightarrow> string set \<Rightarrow> bool" where
  "task_mid status S \<longleftrightarrow> status \<in> set dispatched \<and> ShardStatusCancelled \<notin> S \<and> S \<noteq> {}"

definition task_row_ok :: "Task \<Rightarrow> bool" where
  "task_row_ok t \<longleftrightarrow> live t \<and>
     (task_Status t \<in> set active_task_statuses \<longrightarrow> task_FinishedAt t = None) \<and>
     (task_Status t = TaskStatusRunning \<longrightarrow> task_StartedAt t \<noteq> None) \<and>
     (task_Status t \<in> {TaskStatusSucceeded, TaskStatusCancelled} \<longrightarrow> task_FinishedAt t \<noteq> None)"

definition shard_row_ok :: "TaskShard \<Rightarrow> bool" where
  "shard_row_ok r \<longleftrightarrow> live r \<and>
     shard_Status r \<in> set (ShardStatusQueued # shard_active_statuses @ shard_terminal_statuses) \<and>
     (shard_Status r = ShardStatusQueued \<longrightarrow> go_string (shard_AssignedAgentID r) = []) \<and>
     (shard_Status r \<in> set shard_active_statuses \<longrightarrow> shard_AssignedAgentID r \<noteq> None) \<and>
     (shard_Status r \<in> {ShardStatusRunning, ShardStatusSucceeded, ShardStatusFailed} \<longrightarrow> shard_StartedAt r \<noteq> None) \<and>
     (shard_Status r \<in> set shard_terminal_statuses \<longleftrightarrow> shard_FinishedAt r \<noteq> None)"

definition db_inv :: "uuid set \<Rightarrow> database \<Rightarrow> bool" where
  "db_inv X d \<longleftrightarrow>
     distinct (map ID (tasks d)) \<and> distinct (map ID (task_shards d)) \<and>
     (\<forall>r\<in>set (task_shards d). shard_row_ok r \<and> shard_TaskID r \<in> ID ` set (tasks d)) \<and>
     (\<forall>t\<in>set (tasks d). task_row_ok t \<and>
        (if ID t \<in> X then task_mid (task_Status t) (statuses_of d (ID t))
         else task_ok (task_Status t) (statuses_of d (ID t))))"

lemmas status_lists =
  dispatched_def active_task_statuses_def task_terminal_statuses_def
  shard_active_statuses_def shard_terminal_statuses_def

section \<open>Facts of the invariant\<close>

lemma db_invD:
  assumes "db_inv X d"
  shows "distinct (map ID (tasks d))" "distinct (map ID (task_shards d))"
    "r \<in> set (task_shards d) \<Longrightarrow> shard_row_ok r"
    "r \<in> set (task_shards d) \<Longrightarrow> shard_TaskID r \<in> ID ` set (tasks d)"
    "t \<in> set (tasks d) \<Longrightarrow> task_row_ok t"
    "t \<in> set (tasks d) \<Longrightarrow> ID t \<notin> X \<Longrightarrow> task_ok (task_Status t) (statuses_of d (ID t))"
    "t \<in> set (tasks d) \<Longrightarrow> ID t \<in> X \<Longrightarrow> task_mid (task_Status t) (statuses_of d (ID t))"
  using assms by (auto simp: db_inv_def)

lemma statuses_of_mem: "r \<in> set (task_shards d) \<Longrightarrow> shard_Status r \<in> statuses_of d (shard_TaskID r)"
  by (auto simp: statuses_of_def)

lemma statuses_of_cong: "task_shards d' = task_shards d \<Longrightarrow> statuses_of d' = statuses_of d"
  by (rule ext) (simp add: statuses_of_def)

lemma task_ok_dispatched:
  "task_ok status S \<Longrightarrow> x \<in> S \<Longrightarrow> x \<in> set shard_active_statuses \<Longrightarrow> task_mid status S"
  by (auto simp: task_ok_def task_mid_def status_lists split: if_splits)

lemma task_mid_ok: "task_mid status S \<Longrightarrow> \<exists>x\<in>S. x \<notin> set shard_terminal_statuses \<Longrightarrow> task_ok status S"
  by (auto simp: task_ok_def task_mid_def dispatched_def)

lemma task_ok_dispatched_iff:
  "status \<in> set dispatched \<Longrightarrow>
   task_ok status S \<longleftrightarrow> ShardStatusCancelled \<notin> S \<and> (\<exists>x\<in>S. x \<notin> set shard_terminal_statuses)"
  by (auto simp: task_ok_def dispatched_def)

lemma task_ok_dispatched_same:
  "task_ok status S \<Longrightarrow> status \<in> set dispatched \<Longrightarrow> status' \<in> set dispatched \<Longrightarrow> task_ok status' S"
  by (simp add: task_ok_dispatched_iff)

lemma task_ok_mid: "task_ok status S \<Longrightarrow> status \<in> set dispatched \<Longrightarrow> task_mid status S"
  by (auto simp: task_ok_def task_mid_def dispatched_def)

lemma task_ok_pending:
  "task_ok TaskStatusPending S \<Longrightarrow> status \<in> {TaskStatusFailed, TaskStatusPending, TaskStatusWaitingForAgents} \<Longrightarrow>
   task_ok status S"
  by (auto simp: task_ok_def status_lists)

text \<open>A leased or running shard belongs to a task that is being worked on.\<close>

lemma active_shard_task:
  assumes "db_inv {} d" "r \<in> set (task_shards d)" "shard_Status r \<in> set shard_active_statuses"
    "t \<in> set (tasks d)" "ID t = shard_TaskID r"
  shows "task_mid (task_Status t) (statuses_of d (ID t))"
  using assms db_invD(6)[OF assms(1,4)] statuses_of_mem[OF assms(2)]
  by (auto intro: task_ok_dispatched)

section \<open>Updates of single rows\<close>

lemma affected_pos: "0 < affected p rs \<Longrightarrow> \<exists>r\<in>set rs. p r"
  using affected_0_iff[of p rs] by auto

lemma set_upd_one:
  assumes "distinct (map ID rs)" "r \<in> set rs" "p r" "\<And>q. p q \<Longrightarrow> ID q = ID r"
  shows "set (upd_where p f rs) = insert (f r) (set rs - {r})"
proof -
  have "p q \<longleftrightarrow> q = r" if "q \<in> set rs" for q
    using assms(3) assms(4)[of q] distinct_map_same[OF assms(1) that assms(2)] by auto
  then have "(\<lambda>q. if p q then f q else q) ` set rs = (\<lambda>q. if q = r then f r else q) ` set rs"
    by (intro image_cong) auto
  also have "\<dots> = insert (f r) (set rs - {r})" using assms(2) by auto
  finally show ?thesis by (simp add: set_upd_where)
qed

lemma statuses_upd_one:
  assumes "set (task_shards d') = insert r' (set (task_shards d) - {r})" "shard_TaskID r' = shard_TaskID r"
    "r \<in> set (task_shards d)"
  shows "tid \<noteq> shard_TaskID r \<Longrightarrow> statuses_of d' tid = statuses_of d tid"
    "shard_Status r' \<in> statuses_of d' (shard_TaskID r)"
    "statuses_of d' (shard_TaskID r) \<subseteq> insert (shard_Status r') (statuses_of d (shard_TaskID r))"
  using assms by (auto simp: statuses_of_def)

lemma inv_shard_step:
  assumes inv: "db_inv {} d"
    and r: "r \<in> set (task_shards d)" "p r" "\<And>q. p q \<Longrightarrow> ID q = ID r"
    and f: "\<And>q. ID (f q) = ID q" "shard_TaskID (f r) = shard_TaskID r" "shard_row_ok (f r)"
    and st: "shard_Status (f r) \<noteq> ShardStatusCancelled"
    and task: "\<And>t. t \<in> set (tasks d) \<Longrightarrow> ID t = shard_TaskID r \<Longrightarrow>
      task_mid (task_Status t) (statuses_of d (ID t))"
  shows "db_inv {shard_TaskID r} (set_task_shards (upd_where p f (task_shards d)) d)"
    (is "db_inv _ ?d")
proof -
  have rows: "set (task_shards ?d) = insert (f r) (set (task_shards d) - {r})"
    using set_upd_one[of "task_shards d" r p f, OF db_invD(2)[OF inv] r] by simp
  note sts = statuses_upd_one[OF rows f(2) r(1)]
  have "task_mid (task_Status t) (statuses_of ?d (ID t))" if "t \<in> set (tasks d)" "ID t = shard_TaskID r" for t
    using task[OF that] sts(2,3) st that(2) by (auto simp: task_mid_def)
  moreover have "task_ok (task_Status t) (statuses_of ?d (ID t))" if "t \<in> set (tasks d)" "ID t \<noteq> shard_TaskID r" for t
    using db_invD(6)[OF inv that(1)] sts(1)[OF that(2)] by simp
  moreover have "shard_row_ok q \<and> shard_TaskID q \<in> ID ` set (tasks d)" if "q \<in> set (task_shards ?d)" for q
    using that rows f(2,3) r(1) inv by (auto simp: db_inv_def)
  moreover have "map ID (upd_where p f (task_shards d)) = map ID (task_shards d)"
    by (rule map_upd_where) (simp add: f(1))
  ultimately show ?thesis using inv by (auto simp: db_inv_def)
qed

lemma inv_task_step:
  assumes inv: "db_inv X d"
    and f: "\<And>t. ID (f t) = ID t"
    and hit: "\<And>t. t \<in> set (tasks d) \<Longrightarrow> p t \<Longrightarrow> task_row_ok (f t) \<and>
      (if ID t \<in> Y then task_mid (task_Status (f t)) (statuses_of d (ID t))
       else task_ok (task_Status (f t)) (statuses_of d (ID t)))"
    and miss: "\<And>t. t \<in> set (tasks d) \<Longrightarrow> \<not> p t \<Longrightarrow> ID t \<in> X \<longleftrightarrow> ID t \<in> Y"
  shows "db_inv Y (set_tasks (upd_where p f (tasks d)) d)"
proof -
  let ?d = "set_tasks (upd_where p f (tasks d)) d"
  have ids: "map ID (upd_where p f (tasks d)) = map ID (tasks d)"
    by (rule map_upd_where) (simp add: f)
  then have img: "ID ` set (upd_where p f (tasks d)) = ID ` set (tasks d)"
    by (metis list.set_map)
  have sts: "statuses_of ?d = statuses_of d" by (rule statuses_of_cong) simp
  have "task_row_ok t \<and> (if ID t \<in> Y then task_mid (task_Status t) (statuses_of d (ID t))
         else task_ok (task_Status t) (statuses_of d (ID t)))"
    if t: "t \<in> set (upd_where p f (tasks d))" for t
  proof -
    from t obtain q where q: "q \<in> set (tasks d)" "t = (if p q then f q else q)"
      by (auto simp: set_upd_where)
    show ?thesis
    proof (cases "p q")
      case True
      then show ?thesis using hit[OF q(1)] q(2) f by simp
    next
      case False
      then show ?thesis using miss[OF q(1)] q inv by (auto simp: db_inv_def)
    qed
  qed
  then show ?thesis using inv ids img sts by (auto simp: db_inv_def)
qed

lemma inv_task_relabel:
  assumes inv: "db_inv {} d" and f: "\<And>t. ID (f t) = ID t"
    and row: "\<And>t. task_row_ok t \<Longrightarrow> p t \<Longrightarrow> task_row_ok (f t)"
    and ok: "\<And>t S. p t \<Longrightarrow> task_ok (task_Status t) S \<Longrightarrow> task_ok (task_Status (f t)) S"
  shows "db_inv {} (set_tasks (upd_where p f (tasks d)) d)"
  using db_invD(5,6)[OF inv] by (intro inv_task_step[OF inv f]) (simp_all add: row ok)

lemma inv_settle:
  assumes "db_inv {T} d" "\<exists>x\<in>statuses_of d T. x \<notin> set shard_terminal_statuses"
  shows "db_inv {} d"
proof -
  have "task_ok (task_Status t) (statuses_of d (ID t))" if "t \<in> set (tasks d)" for t
    using db_invD(6,7)[OF assms(1) that] task_mid_ok[of "task_Status t" "statuses_of d (ID t)"] assms(2)
    by (cases "ID t = T") auto
  then show ?thesis using assms(1) by (simp add: db_inv_def)
qed

lemma inv_settleI:
  "db_inv {T} d \<Longrightarrow> x \<in> statuses_of d T \<Longrightarrow> x \<notin> set shard_terminal_statuses \<Longrightarrow> db_inv {} d"
  by (rule inv_settle) auto

text \<open>An update of columns the invariant does not read.\<close>

lemma inv_shard_cosmetic:
  assumes inv: "db_inv X d"
    and f: "\<And>r. ID (f r) = ID r" "\<And>r. shard_TaskID (f r) = shard_TaskID r"
      "\<And>r. shard_Status (f r) = shard_Status r" "\<And>r. shard_row_ok (f r) = shard_row_ok r"
  shows "db_inv X (set_task_shards (upd_where p f (task_shards d)) d)"
proof -
  have sts: "statuses_of (set_task_shards (upd_where p f (task_shards d)) d) = statuses_of d"
  proof (rule ext)
    fix tid
    have "map shard_Status (filter (\<lambda>r. shard_TaskID r = tid) (upd_where p f rs)) =
        map shard_Status (filter (\<lambda>r. shard_TaskID r = tid) rs)" for rs
      by (induction rs) (auto simp: upd_where_def f)
    then show "statuses_of (set_task_shards (upd_where p f (task_shards d)) d) tid = statuses_of d tid"
      unfolding statuses_of_def list.set_map[symmetric] by simp
  qed
  have "map ID (upd_where p f (task_shards d)) = map ID (task_shards d)"
    by (rule map_upd_where) (simp add: f)
  then show ?thesis using inv sts f by (auto simp: db_inv_def set_upd_where)
qed

section \<open>The units keep the invariant\<close>

lemma transaction_keeps:
  assumes "transaction m s = (r, s')" "P (db s)"
    and "\<And>s0 x s1. m s0 = (Inr x, s1) \<Longrightarrow> P (db s0) \<Longrightarrow> P (db s1)"
  shows "P (db s')"
proof (cases r)
  case (Inl e)
  then show ?thesis using assms(1,2) transaction_Inl_db[of m s e s'] by simp
next
  case (Inr x)
  then obtain s1 where "m (tick_world s) = (Inr x, s1)" "db s' = db s1"
    using assms(1) transaction_Inr_db[of m s x s'] by auto
  then show ?thesis using assms(2) assms(3)[of "tick_world s" x s1] by simp
qed

lemma upd_none: "\<not> 0 < affected p rs \<Longrightarrow> upd_where p f rs = rs"
  by (simp add: upd_where_none)

lemma transitionStatus_Inl:
  "transitionStatus sid target cs upd s = (Inl e, s') \<Longrightarrow> db s' = db s"
  by (auto simp: transitionStatus_def run_iff upd_none split: if_splits)

lemma transitionStatus_Inr:
  assumes "transitionStatus sid target cs upd s = (Inr x, s')"
  obtains r now where "r \<in> set (task_shards (db s))" "ID r = sid" "shard_Status r \<in> set cs" "live r"
    "db s' = set_task_shards (upd_where (\<lambda>r. live r \<and> ID r = sid \<and> shard_Status r \<in> set cs)
       (\<lambda>r. (upd r)\<lparr>shard_Status := target, UpdatedAt := now\<rparr>) (task_shards (db s))) (db s)"
proof -
  let ?p = "\<lambda>r. live r \<and> ID r = sid \<and> shard_Status r \<in> set cs"
  have "0 < affected ?p (task_shards (db s))"
    and d: "db s' = set_task_shards (upd_where ?p
       (\<lambda>r. (upd r)\<lparr>shard_Status := target, UpdatedAt := now_at (env s) (tick s)\<rparr>) (task_shards (db s))) (db s)"
    using assms by (auto simp: transitionStatus_def run_iff split: if_split_asm)
  then show thesis using that affected_pos[of ?p "task_shards (db s)"] by auto
qed

text \<open>A guarded transition of a leased or running shard.\<close>

lemma transition_inv:
  assumes run: "transitionStatus sid target cs upd s = (Inr x, s')"
    and inv: "db_inv {} (db s)"
    and cs: "set cs \<subseteq> set shard_active_statuses"
    and upd: "\<And>r. ID (upd r) = ID r" "\<And>r. shard_TaskID (upd r) = shard_TaskID r"
    and ok: "\<And>r now. shard_row_ok r \<Longrightarrow> shard_Status r \<in> set cs \<Longrightarrow>
      shard_row_ok ((upd r)\<lparr>shard_Status := target, UpdatedAt := now\<rparr>)"
    and target: "target \<noteq> ShardStatusCancelled"
  shows "\<exists>r. r \<in> set (task_shards (db s)) \<and> ID r = sid \<and> shard_Status r \<in> set cs \<and>
    db_inv {shard_TaskID r} (db s') \<and> target \<in> statuses_of (db s') (shard_TaskID r) \<and>
    tasks (db s') = tasks (db s)"
proof -
  from run obtain r now where r: "r \<in> set (task_shards (db s))" "ID r = sid" "shard_Status r \<in> set cs" "live r"
    and d: "db s' = set_task_shards (upd_where (\<lambda>r. live r \<and> ID r = sid \<and> shard_Status r \<in> set cs)
       (\<lambda>r. (upd r)\<lparr>shard_Status := target, UpdatedAt := now\<rparr>) (task_shards (db s))) (db s)"
      (is "_ = set_task_shards (upd_where ?p ?f _) _")
    by (rule transitionStatus_Inr)
  have rows: "set (upd_where ?p ?f (task_shards (db s))) = insert (?f r) (set (task_shards (db s)) - {r})"
    by (rule set_upd_one) (use db_invD(2)[OF inv] r in auto)
  have "db_inv {shard_TaskID r} (db s')"
    unfolding d
  proof (rule inv_shard_step[OF inv r(1)])
    show "shard_row_ok (?f r)" using ok[OF db_invD(3)[OF inv r(1)] r(3)] .
    show "task_mid (task_Status t) (statuses_of (db s) (ID t))"
      if "t \<in> set (tasks (db s))" "ID t = shard_TaskID r" for t
      using active_shard_task[OF inv r(1) _ that] r(3) cs by auto
  qed (use r target upd in auto)
  moreover have "target \<in> statuses_of (db s') (shard_TaskID r)"
    using statuses_upd_one(2)[of "db s'" "?f r" "db s" r] rows r(1) upd by (simp add: d)
  ultimately show ?thesis using r d by auto
qed

lemma RollbackToQueued_inv:
  assumes run: "RollbackToQueued sid cs s = (r, s')" and inv: "db_inv {} (db s)"
    and cs: "set cs \<subseteq> set shard_active_statuses"
  shows "db_inv {} (db s')"
proof (cases r)
  case (Inl e)
  then show ?thesis using run inv transitionStatus_Inl by (auto simp: RollbackToQueued_def)
next
  case (Inr x)
  have "\<exists>q. q \<in> set (task_shards (db s)) \<and> ID q = sid \<and> shard_Status q \<in> set cs \<and>
    db_inv {shard_TaskID q} (db s') \<and> ShardStatusQueued \<in> statuses_of (db s') (shard_TaskID q) \<and>
    tasks (db s') = tasks (db s)"
    by (rule transition_inv[OF run[unfolded RollbackToQueued_def Inr] inv cs])
      (use cs in \<open>auto simp: shard_row_ok_def live_def status_lists\<close>)
  then show ?thesis by (auto elim: inv_settleI simp: status_lists)
qed

lemma RollbackTaskToWaiting_inv:
  assumes run: "RollbackTaskToWaiting taskID s = (r, s')" and inv: "db_inv {} (db s)"
  shows "db_inv {} (db s')"
proof -
  have "db s' = db s \<or> (\<exists>now. db s' = set_tasks (upd_where (\<lambda>r. live r \<and> ID r = taskID \<and> task_Status r = TaskStatusQueued)
      (\<lambda>r. r\<lparr>task_Status := TaskStatusWaitingForAgents, UpdatedAt := now\<rparr>) (tasks (db s))) (db s))"
    using run by (cases r) (auto simp: RollbackTaskToWaiting_def run_iff split: if_splits)
  moreover have "task_ok TaskStatusWaitingForAgents S" if "task_ok TaskStatusQueued S" for S
    using task_ok_dispatched_same[OF that] by (simp add: dispatched_def)
  ultimately show ?thesis
    using inv by (auto intro!: inv_task_relabel simp: task_row_ok_def live_def status_lists)
qed

lemma RollbackShardWithTask_inv:
  assumes run: "RollbackShardWithTask sid cs task s = (Inr x, s')" and inv: "db_inv {} (db s)"
    and cs: "set cs \<subseteq> set shard_active_statuses"
  shows "db_inv {} (db s')"
proof -
  from run obtain s1 y where 1: "RollbackToQueued sid cs s = (Inr y, s1)"
    and rest: "(if task_Status task = TaskStatusWaitingForAgents then
       bindE (tryE (RollbackTaskToWaiting (ID task))) (\<lambda>r. case r of
         Inl err \<Rightarrow> if \<not> errors_Is err ErrRecordNotFound then raise err else ret ()
       | Inr _ \<Rightarrow> ret ()) else ret ()) s1 = (Inr x, s')"
    by (auto simp: RollbackShardWithTask_def bindE_Inr_iff)
  have inv1: "db_inv {} (db s1)" by (rule RollbackToQueued_inv[OF 1 inv cs])
  show ?thesis
  proof (cases "task_Status task = TaskStatusWaitingForAgents")
    case True
    obtain r s2 where 2: "RollbackTaskToWaiting (ID task) s1 = (r, s2)" by fastforce
    then have "s' = s2" using rest True by (cases r) (auto simp: bindE_def tryE_def split: if_split_asm)
    then show ?thesis using RollbackTaskToWaiting_inv[OF 2 inv1] by simp
  next
    case False
    then show ?thesis using rest inv1 by simp
  qed
qed

lemma MarkTasksStatus_inv:
  assumes run: "MarkTasksStatus ids status e s = (r, s')" and inv: "db_inv {} (db s)"
    and st: "status \<in> {TaskStatusFailed, TaskStatusPending, TaskStatusWaitingForAgents}"
  shows "db_inv {} (db s')"
proof -
  have "db s' = db s \<or> (\<exists>now. db s' = set_tasks (upd_where (\<lambda>r. live r \<and> ID r \<in> set ids \<and> task_Status r = TaskStatusPending)
      (\<lambda>r. r\<lparr>task_Status := status, task_LastError := e, UpdatedAt := now\<rparr>) (tasks (db s))) (db s))"
    using run by (cases r) (auto simp: MarkTasksStatus_def run_iff split: if_splits)
  moreover have "task_ok status S" if "task_ok TaskStatusPending S" for S
    by (rule task_ok_pending[OF that st])
  ultimately show ?thesis
    using inv st by (auto intro!: inv_task_relabel simp: task_row_ok_def live_def status_lists)
qed

text \<open>What cancelling writes.\<close>

definition cancellable :: "uuid \<Rightarrow> uuid \<Rightarrow> Task \<Rightarrow> bool" where
  "cancellable tenantID taskID t \<longleftrightarrow>
     live t \<and> task_TenantID t = tenantID \<and> ID t = taskID \<and> task_Status t \<notin> set task_terminal_statuses"

definition cancelled_task :: "time \<Rightarrow> time \<Rightarrow> Task \<Rightarrow> Task" where
  "cancelled_task now at t = t\<lparr>task_Status := TaskStatusCancelled, task_FinishedAt := Some now,
     task_LastError := [], UpdatedAt := at\<rparr>"

definition unfinished_shard :: "uuid \<Rightarrow> TaskShard \<Rightarrow> bool" where
  "unfinished_shard taskID r \<longleftrightarrow>
     live r \<and> shard_TaskID r = taskID \<and> shard_Status r \<notin> set shard_terminal_statuses"

definition cancelled_shard :: "time \<Rightarrow> time \<Rightarrow> TaskShard \<Rightarrow> TaskShard" where
  "cancelled_shard now at r = r\<lparr>shard_Status := ShardStatusCancelled, shard_FinishedAt := Some now,
     shard_AssignedAgentID := None, shard_StartedAt := None, shard_LastError := [], UpdatedAt := at\<rparr>"

lemma cancelled_simps [simp]:
  "ID (cancelled_task now at t) = ID t" "ID (cancelled_shard now at r) = ID r"
  "shard_TaskID (cancelled_shard now at r) = shard_TaskID r"
  "task_TenantID (cancelled_task now at t) = task_TenantID t"
  "task_Status (cancelled_task now at t) = TaskStatusCancelled"
  "shard_Status (cancelled_shard now at r) = ShardStatusCancelled"
  by (simp_all add: cancelled_task_def cancelled_shard_def)

lemma cancelled_shard_ok: "shard_row_ok r \<Longrightarrow> shard_row_ok (cancelled_shard now at r)"
  by (simp add: shard_row_ok_def live_def cancelled_shard_def status_lists)

lemma CancelTaskById_Inr:
  assumes "CancelTaskById tenantID taskID s = (Inr x, s')"
  shows "\<exists>t\<in>set (tasks (db s)). cancellable tenantID taskID t"
    "db s' = set_tasks (upd_where (cancellable tenantID taskID)
       (cancelled_task (now_at (env s) (tick s)) (now_at (env s) (Suc (tick s)))) (tasks (db s))) (db s)"
  using assms affected_pos[of "cancellable tenantID taskID" "tasks (db s)"]
  by (auto simp: CancelTaskById_def run_iff cancellable_def[abs_def] cancelled_task_def[abs_def]
      split: if_split_asm)

lemma CancelTaskShardsByTaskId_Inr:
  assumes "CancelTaskShardsByTaskId taskID s = (Inr x, s')"
  shows "db s' = set_task_shards (upd_where (unfinished_shard taskID)
       (cancelled_shard (now_at (env s) (tick s)) (now_at (env s) (Suc (tick s)))) (task_shards (db s))) (db s)"
  using assms
  by (auto simp: CancelTaskShardsByTaskId_def run_iff unfinished_shard_def[abs_def] cancelled_shard_def[abs_def])

lemma cancel_body_Inr:
  assumes "cancel_body tenantID taskID s = (Inr x, s')"
  shows "\<exists>t\<in>set (tasks (db s)). cancellable tenantID taskID t"
    "\<exists>now at now' at'. db s' = (db s)
      \<lparr>tasks := upd_where (cancellable tenantID taskID) (cancelled_task now at) (tasks (db s)),
       task_shards := upd_where (unfinished_shard taskID) (cancelled_shard now' at') (task_shards (db s))\<rparr>"
proof -
  from assms obtain s1 y where 1: "CancelTaskById tenantID taskID s = (Inr y, s1)"
    and 2: "CancelTaskShardsByTaskId taskID s1 = (Inr x, s')"
    by (auto simp: cancel_body_def bindE_Inr_iff)
  show "\<exists>t\<in>set (tasks (db s)). cancellable tenantID taskID t" by (rule CancelTaskById_Inr(1)[OF 1])
  show "\<exists>now at now' at'. db s' = (db s)
      \<lparr>tasks := upd_where (cancellable tenantID taskID) (cancelled_task now at) (tasks (db s)),
       task_shards := upd_where (unfinished_shard taskID) (cancelled_shard now' at') (task_shards (db s))\<rparr>"
    by (simp add: CancelTaskShardsByTaskId_Inr[OF 2] CancelTaskById_Inr(2)[OF 1]) metis
qed

lemma cancel_body_inv:
  assumes run: "cancel_body tenantID taskID s = (Inr x, s')" and inv: "db_inv {} (db s)"
  shows "db_inv {} (db s')"
proof -
  obtain t0 where t0: "t0 \<in> set (tasks (db s))" "cancellable tenantID taskID t0"
    using cancel_body_Inr(1)[OF run] by auto
  obtain now at now' at' where d: "db s' = (db s)
      \<lparr>tasks := upd_where (cancellable tenantID taskID) (cancelled_task now at) (tasks (db s)),
       task_shards := upd_where (unfinished_shard taskID) (cancelled_shard now' at') (task_shards (db s))\<rparr>"
    using cancel_body_Inr(2)[OF run] by auto
  have tset: "set (tasks (db s')) = insert (cancelled_task now at t0) (set (tasks (db s)) - {t0})"
    unfolding d by (simp, rule set_upd_one) (use db_invD(1)[OF inv] t0 in \<open>auto simp: cancellable_def\<close>)
  have ids: "map ID (tasks (db s')) = map ID (tasks (db s))"
    "map ID (task_shards (db s')) = map ID (task_shards (db s))"
    by (simp_all add: d map_upd_where)
  have img: "ID ` set (tasks (db s')) = ID ` set (tasks (db s))" using ids(1) by (metis list.set_map)
  have here: "statuses_of (db s') taskID \<subseteq> set shard_terminal_statuses"
  proof -
    have "shard_Status q \<in> set shard_terminal_statuses"
      if "q \<in> set (task_shards (db s))" "\<not> unfinished_shard (shard_TaskID q) q" for q
      using db_invD(3)[OF inv that(1)] that(2) by (simp add: unfinished_shard_def shard_row_ok_def)
    moreover have "ShardStatusCancelled \<in> set shard_terminal_statuses" by (simp add: shard_terminal_statuses_def)
    ultimately show ?thesis by (auto simp: statuses_of_def d set_upd_where split: if_split_asm)
  qed
  have there: "statuses_of (db s') tid = statuses_of (db s) tid" if "tid \<noteq> taskID" for tid
  proof -
    have "filter (\<lambda>r. shard_TaskID r = tid) (task_shards (db s')) = filter (\<lambda>r. shard_TaskID r = tid) (task_shards (db s))"
      unfolding d by (simp, rule filter_upd_where_other) (use that in \<open>simp add: unfinished_shard_def\<close>)
    then show ?thesis by (simp only: statuses_of_def)
  qed
  have sok: "shard_row_ok r \<and> shard_TaskID r \<in> ID ` set (tasks (db s))" if r: "r \<in> set (task_shards (db s'))" for r
  proof -
    from r obtain q where q: "q \<in> set (task_shards (db s))"
      "r = (if unfinished_shard taskID q then cancelled_shard now' at' q else q)"
      by (auto simp: d set_upd_where)
    then show ?thesis using db_invD(3,4)[OF inv q(1)] by (simp add: cancelled_shard_ok)
  qed
  have tok: "task_row_ok t \<and> task_ok (task_Status t) (statuses_of (db s') (ID t))"
    if t: "t \<in> set (tasks (db s'))" for t
  proof (cases "t = cancelled_task now at t0")
    case True
    then show ?thesis using here t0(2)
      by (auto simp: task_row_ok_def live_def task_ok_def cancellable_def cancelled_task_def status_lists)
  next
    case False
    then have t': "t \<in> set (tasks (db s))" "t \<noteq> t0" using t tset by auto
    then have "ID t \<noteq> taskID"
      using t0 distinct_map_same[OF db_invD(1)[OF inv] t'(1) t0(1)] by (auto simp: cancellable_def)
    then show ?thesis using there db_invD(5,6)[OF inv t'(1)] by simp
  qed
  show ?thesis using inv ids img sok tok by (simp add: db_inv_def)
qed

section \<open>Creating rows\<close>

lemma db_inv_cong: "tasks d' = tasks d \<Longrightarrow> task_shards d' = task_shards d \<Longrightarrow> db_inv X d' = db_inv X d"
  using statuses_of_cong[of d' d] by (simp add: db_inv_def)

lemma BeforeCreate_Inr:
  "BeforeCreate m s = (Inr m', s') \<Longrightarrow> db s' = db s \<and> m'\<lparr>ID := ID m\<rparr> = m \<and> (ID m \<noteq> uuid_Nil \<longrightarrow> m' = m)"
  by (auto simp: BeforeCreate_def run_iff uuid_New_def split: if_split_asm sum.split_asm)

text \<open>A row as \<open>SubmitTask\<close> builds it, up to what the database layer fills in.\<close>

definition created_shard :: "uuid \<Rightarrow> TaskShard \<Rightarrow> bool" where
  "created_shard taskID r \<longleftrightarrow>
     r\<lparr>ID := uuid_Nil, CreatedAt := 0, UpdatedAt := 0\<rparr> = new_shard taskID (shard_ScriptName r)"

lemma created_shardD:
  assumes "created_shard taskID r"
  shows "shard_TaskID r = taskID" "shard_Status r = ShardStatusQueued" "shard_row_ok r"
proof -
  note eq = assms[unfolded created_shard_def new_shard_def]
  have sel: "shard_TaskID r = taskID" "shard_Status r = ShardStatusQueued" "DeletedAt r = None"
    "shard_AssignedAgentID r = Some []" "shard_FinishedAt r = None" "shard_StartedAt r = None"
    using arg_cong[OF eq, of shard_TaskID] arg_cong[OF eq, of shard_Status] arg_cong[OF eq, of DeletedAt]
      arg_cong[OF eq, of shard_AssignedAgentID] arg_cong[OF eq, of shard_FinishedAt]
      arg_cong[OF eq, of shard_StartedAt]
    by simp_all
  then show "shard_TaskID r = taskID" "shard_Status r = ShardStatusQueued" "shard_row_ok r"
    by (simp_all add: shard_row_ok_def live_def status_lists)
qed

end
