(* ===== verification/Lifecycle_Units.thy ===== *)
theory Lifecycle_Units
  imports Lifecycle
begin

text \<open>
  The remaining units keep the invariant: creating a task, leasing a shard, reporting a shard, the
  bookkeeping of a hook, creating a tenant. With them every \<open>atomic\<close> step keeps \<open>db_inv {}\<close>.
\<close>

section \<open>Creating a task\<close>

lemma task_shard_orm_Create_Inr:
  assumes "task_shard_orm_Create (new_shard taskID name) s = (Inr x, s')"
  shows "\<exists>r. db s' = set_task_shards (task_shards (db s) @ [r]) (db s) \<and>
    ID r \<notin> ID ` set (task_shards (db s)) \<and> created_shard taskID r \<and> shard_ScriptName r = name"
proof -
  from assms obtain r0 s1 r where 1: "BeforeCreate (new_shard taskID name) s = (Inr r0, s1)"
    and 2: "insert_stmt task_shards set_task_shards (\<lambda>q r. False) r0 s1 = (Inr r, s')"
    by (auto simp: task_shard_orm_Create_def run_iff)
  have r0: "r0\<lparr>ID := uuid_Nil\<rparr> = new_shard taskID name" and d1: "db s1 = db s"
    using BeforeCreate_Inr[OF 1] by (auto simp: new_shard_def)
  have name: "shard_ScriptName r0 = name" and ts: "CreatedAt (new_shard taskID name) = 0" "UpdatedAt (new_shard taskID name) = 0"
    using arg_cong[OF r0, of shard_ScriptName] by (simp_all add: new_shard_def)
  have "r0\<lparr>ID := uuid_Nil, CreatedAt := 0, UpdatedAt := 0\<rparr> = (new_shard taskID name)\<lparr>CreatedAt := 0, UpdatedAt := 0\<rparr>"
    by (simp flip: r0)
  then have "r0\<lparr>ID := uuid_Nil, CreatedAt := 0, UpdatedAt := 0\<rparr> = new_shard taskID name"
    by (simp add: new_shard_def)
  then show ?thesis using 2 d1 name
    by (intro exI[of _ r]) (auto simp: insert_stmt_Inr_iff created_shard_def)
qed

lemma create_shards_Inr:
  assumes "forE scripts (\<lambda>name. task_shard_orm_Create (new_shard taskID name)) s = (Inr x, s')"
  shows "\<exists>rows. db s' = set_task_shards (task_shards (db s) @ rows) (db s) \<and>
    map shard_ScriptName rows = scripts \<and> (\<forall>r\<in>set rows. created_shard taskID r) \<and>
    distinct (map ID rows) \<and> ID ` set rows \<inter> ID ` set (task_shards (db s)) = {}"
  using assms
proof (induction scripts arbitrary: s)
  case Nil
  then show ?case by (intro exI[of _ "[]"]) simp
next
  case (Cons name scripts)
  then obtain s1 y where 1: "task_shard_orm_Create (new_shard taskID name) s = (Inr y, s1)"
    and 2: "forE scripts (\<lambda>name. task_shard_orm_Create (new_shard taskID name)) s1 = (Inr x, s')"
    by (auto simp: run_iff)
  obtain r where r: "db s1 = set_task_shards (task_shards (db s) @ [r]) (db s)"
    "ID r \<notin> ID ` set (task_shards (db s))" "created_shard taskID r" "shard_ScriptName r = name"
    using task_shard_orm_Create_Inr[OF 1] by auto
  obtain rows where rows: "db s' = set_task_shards (task_shards (db s1) @ rows) (db s1)"
    "map shard_ScriptName rows = scripts" "\<forall>r\<in>set rows. created_shard taskID r"
    "distinct (map ID rows)" "ID ` set rows \<inter> ID ` set (task_shards (db s1)) = {}"
    using Cons.IH[OF 2] by auto
  have "ID r \<notin> ID ` set rows" "ID ` set rows \<inter> ID ` set (task_shards (db s)) = {}"
    using rows(5) r(1) by auto
  then show ?case using r rows by (intro exI[of _ "r # rows"]) auto
qed

text \<open>The rows a committed submission adds.\<close>

lemma submit_body_Inr:
  assumes run: "submit_body task scripts s = (Inr x, s')" and id: "ID task \<noteq> uuid_Nil"
  shows "\<exists>now rows. db s' = (db s)\<lparr>tasks := tasks (db s) @ [task\<lparr>CreatedAt := now, UpdatedAt := now\<rparr>],
      task_shards := task_shards (db s) @ rows\<rparr> \<and> ID task \<notin> ID ` set (tasks (db s)) \<and>
    map shard_ScriptName rows = scripts \<and> (\<forall>r\<in>set rows. created_shard (ID task) r) \<and>
    distinct (map ID rows) \<and> ID ` set rows \<inter> ID ` set (task_shards (db s)) = {}"
proof -
  from run obtain s1 y where 1: "task_orm_Create task s = (Inr y, s1)"
    and 2: "forE scripts (\<lambda>name. task_shard_orm_Create (new_shard (ID task) name)) s1 = (Inr x, s')"
    by (auto simp: submit_body_def bindE_Inr_iff)
  define now where "now = now_at (env s) (tick s)"
  have d1: "db s1 = set_tasks (tasks (db s) @ [task\<lparr>CreatedAt := now, UpdatedAt := now\<rparr>]) (db s)"
    and new: "ID task \<notin> ID ` set (tasks (db s))"
    using 1 id by (auto simp: task_orm_Create_def run_iff BeforeCreate_def insert_stmt_Inr_iff now_def)
  show ?thesis using create_shards_Inr[OF 2] new by (intro exI[of _ now]) (auto simp: d1)
qed

lemma submit_body_inv:
  assumes run: "submit_body (new_task taskID tenantID hookURL n) scripts s = (Inr x, s')"
    and inv: "db_inv {} (db s)" and id: "taskID \<noteq> uuid_Nil" and scripts: "scripts \<noteq> []"
  shows "db_inv {} (db s')"
proof -
  let ?t = "\<lambda>now. (new_task taskID tenantID hookURL n)\<lparr>CreatedAt := now, UpdatedAt := now\<rparr>"
  have tid: "ID (new_task taskID tenantID hookURL n) = taskID" by (simp add: new_task_def)
  obtain now rows where d: "db s' = (db s)\<lparr>tasks := tasks (db s) @ [?t now], task_shards := task_shards (db s) @ rows\<rparr>"
    and new: "taskID \<notin> ID ` set (tasks (db s))" and names: "map shard_ScriptName rows = scripts"
    and rows: "\<And>r. r \<in> set rows \<Longrightarrow> created_shard taskID r" "distinct (map ID rows)"
      "ID ` set rows \<inter> ID ` set (task_shards (db s)) = {}"
    using submit_body_Inr[OF run] id by (auto simp: tid)
  have old: "shard_TaskID r \<noteq> taskID" if "r \<in> set (task_shards (db s))" for r
    using db_invD(4)[OF inv that] new by auto
  have "rows \<noteq> []" using names scripts by auto
  then have here: "statuses_of (db s') taskID = {ShardStatusQueued}"
    using old by (auto simp: statuses_of_def d created_shardD[OF rows(1)] neq_Nil_conv)
  have there: "statuses_of (db s') tid = statuses_of (db s) tid" if "tid \<noteq> taskID" for tid
    using that by (auto simp: statuses_of_def d created_shardD[OF rows(1)])
  have shards: "shard_row_ok r \<and> shard_TaskID r \<in> ID ` set (tasks (db s'))" if "r \<in> set (task_shards (db s'))" for r
    using that db_invD(3,4)[OF inv] by (auto simp: d tid created_shardD[OF rows(1)])
  have task: "task_row_ok (?t now) \<and> task_ok (task_Status (?t now)) (statuses_of (db s') (ID (?t now)))"
    by (simp add: here tid task_row_ok_def task_ok_def) (simp add: new_task_def live_def status_lists)
  have tasks: "task_row_ok t \<and> task_ok (task_Status t) (statuses_of (db s') (ID t))" if "t \<in> set (tasks (db s'))" for t
  proof (cases "t = ?t now")
    case True
    then show ?thesis using task by simp
  next
    case False
    then have t: "t \<in> set (tasks (db s))" using that by (simp add: d)
    then have "ID t \<noteq> taskID" using new by auto
    then show ?thesis using db_invD(5,6)[OF inv t] there by simp
  qed
  have "distinct (map ID (tasks (db s')))" "distinct (map ID (task_shards (db s')))"
    using db_invD(1,2)[OF inv] new rows(2,3) by (auto simp: d tid)
  then show ?thesis using shards tasks by (simp add: db_inv_def)
qed

section \<open>Leasing a shard\<close>

definition promoted_task :: "time \<Rightarrow> Task \<Rightarrow> Task" where
  "promoted_task at t = t\<lparr>task_Status := TaskStatusQueued, UpdatedAt := at\<rparr>"

definition leased_shard :: "string \<Rightarrow> time \<Rightarrow> TaskShard \<Rightarrow> TaskShard" where
  "leased_shard agentID at r = r\<lparr>shard_Status := ShardStatusLeased, shard_AssignedAgentID := Some agentID, UpdatedAt := at\<rparr>"

text \<open>The database after \<open>agentID\<close> has leased \<open>shard\<close> of the task \<open>t\<close>.\<close>

definition lease_db :: "string \<Rightarrow> time \<Rightarrow> time \<Rightarrow> Task \<Rightarrow> TaskShard \<Rightarrow> database \<Rightarrow> database" where
  "lease_db agentID at at' t shard d = d
     \<lparr>tasks := upd_where (\<lambda>q. ID q = ID t \<and> task_Status q = TaskStatusWaitingForAgents) (promoted_task at) (tasks d),
      task_shards := upd_where (\<lambda>q. ID q = ID shard) (leased_shard agentID at') (task_shards d)\<rparr>"

lemma lease_candidates_mem:
  "(t, r) \<in> set (lease_candidates coll tenantID backendName d) \<longleftrightarrow>
     r \<in> set (task_shards d) \<and> live r \<and> shard_Status r = ShardStatusQueued \<and>
     t \<in> set (tasks d) \<and> ID t = shard_TaskID r \<and> task_TenantID t = tenantID \<and>
     task_Status t \<in> set shardQueryStatuses \<and>
     (\<exists>n\<in>set (tenants d). ID n = tenantID \<and> tenant_PrimaryBackendName n = backendName)"
  unfolding lease_candidates_def set_sort by auto

lemma upd_where_cong: "(\<And>r. r \<in> set rs \<Longrightarrow> p r = q r) \<Longrightarrow> upd_where p f rs = upd_where q f rs"
  by (auto simp: upd_where_def)

lemma affected_mem: "r \<in> set rs \<Longrightarrow> p r \<Longrightarrow> 0 < affected p rs"
  using affected_0_iff[of p rs] by auto

lemma unique_row:
  assumes "distinct (map ID rs)" "r \<in> set rs" "p r" "\<And>q. p q \<Longrightarrow> ID q = ID r" "first_row (filter p rs) = Inr x"
  shows "x = r"
proof -
  have "x \<in> set rs" "p x" using first_row_Inr[OF assms(5)] by auto
  then show ?thesis using distinct_map_same[OF assms(1) _ assms(2)] assms(4) by auto
qed

lemma promote_task_Inr:
  assumes "promote_task task s = (Inr task', s')"
  shows "task' = (if task_Status task = TaskStatusWaitingForAgents then task\<lparr>task_Status := TaskStatusQueued\<rparr> else task)"
    "db s' = (if task_Status task = TaskStatusWaitingForAgents then set_tasks (upd_where
          (\<lambda>r. live r \<and> ID r = ID task \<and> task_Status r = TaskStatusWaitingForAgents)
          (promoted_task (now_at (env s) (tick s))) (tasks (db s))) (db s) else db s)"
  using assms by (auto simp: promote_task_def run_iff promoted_task_def[abs_def] split: if_split_asm)

lemma take_shard_Inr:
  assumes "take_shard agentID task shard s = (Inr res, s')"
    and "r \<in> set (task_shards (db s))" "live r" "ID r = ID shard" "shard_Status r = ShardStatusQueued"
  shows "res = Some (task, shard\<lparr>shard_Status := ShardStatusLeased, shard_AssignedAgentID := Some agentID\<rparr>)"
    "db s' = set_task_shards (upd_where (\<lambda>r. live r \<and> ID r = ID shard \<and> shard_Status r = ShardStatusQueued)
        (leased_shard agentID (now_at (env s) (tick s))) (task_shards (db s))) (db s)"
  using assms(1) affected_mem[OF assms(2), of "\<lambda>r. live r \<and> ID r = ID shard \<and> shard_Status r = ShardStatusQueued"] assms(3-5)
  by (auto simp: take_shard_def run_iff leased_shard_def[abs_def] split: if_split_asm)

text \<open>
  In a consistent database an attempt that returns has leased the first candidate: the retry
  branches of the loop are not taken.
\<close>

lemma lease_attempt_Inr:
  assumes run: "lease_attempt tenantID backendName agentID s = (Inr res, s')" and inv: "db_inv {} (db s)"
  shows "\<exists>t shard rest at at'.
    lease_candidates (collate (env s)) tenantID backendName (db s) = (t, shard) # rest \<and>
    db s' = lease_db agentID at at' t shard (db s) \<and>
    res = Some (if task_Status t = TaskStatusWaitingForAgents then t\<lparr>task_Status := TaskStatusQueued\<rparr> else t,
                shard\<lparr>shard_Status := ShardStatusLeased, shard_AssignedAgentID := Some agentID\<rparr>)"
proof -
  let ?cs = "lease_candidates (collate (env s)) tenantID backendName (db s)"
  define s1 where "s1 = tick_world (tick_world s)"
  have s1: "db s1 = db s" by (simp add: s1_def)
  from run obtain shard t' t2 s2 where
      1: "first_row (map snd ?cs) = Inr shard"
    and 2: "first_row (filter (\<lambda>r. live r \<and> task_TenantID r = tenantID \<and> ID r = shard_TaskID shard) (tasks (db s))) = Inr t'"
    and 3: "promote_task t' s1 = (Inr t2, s2)"
    and 4: "(if task_Status t2 \<notin> set shardQueryStatuses then ret None else take_shard agentID t2 shard) s2 = (Inr res, s')"
    unfolding s1_def by (auto simp: lease_attempt_def bindE_Inr_iff mapErr_Inr_iff select_first_Inr_iff)
  from 1 obtain t rest where cs: "?cs = (t, shard) # rest" by (cases ?cs) (auto simp: first_row_def)
  have mem: "shard \<in> set (task_shards (db s))" "live shard" "shard_Status shard = ShardStatusQueued"
    "t \<in> set (tasks (db s))" "ID t = shard_TaskID shard" "task_TenantID t = tenantID"
    "task_Status t \<in> set shardQueryStatuses"
    using lease_candidates_mem[of t shard "collate (env s)" tenantID backendName "db s"] cs by auto
  have "live t" using db_invD(5)[OF inv mem(4)] by (simp add: task_row_ok_def)
  then have t': "t' = t" by (intro unique_row[OF db_invD(1)[OF inv] mem(4) _ _ 2]) (use mem in auto)
  note p = promote_task_Inr[OF 3, unfolded t' s1]
  have "task_Status t2 \<in> set shardQueryStatuses" using p(1) mem(7) by (auto simp: shardQueryStatuses_def)
  then have 5: "take_shard agentID t2 shard s2 = (Inr res, s')" using 4 by simp
  have sh2: "task_shards (db s2) = task_shards (db s)" by (simp add: p)
  note k = take_shard_Inr[OF 5, of shard, unfolded sh2, OF mem(1,2) refl mem(3)]
  have same: "q = shard" if "q \<in> set (task_shards (db s))" "ID q = ID shard" for q
    using distinct_map_same[OF db_invD(2)[OF inv] that(1) mem(1) that(2)] .
  have same_t: "q = t" if "q \<in> set (tasks (db s))" "ID q = ID t" for q
    using distinct_map_same[OF db_invD(1)[OF inv] that(1) mem(4) that(2)] .
  have "upd_where (\<lambda>r. live r \<and> ID r = ID shard \<and> shard_Status r = ShardStatusQueued) f (task_shards (db s)) =
      upd_where (\<lambda>r. ID r = ID shard) f (task_shards (db s))" for f
    by (rule upd_where_cong) (use mem same in auto)
  moreover have "upd_where (\<lambda>r. live r \<and> ID r = ID t \<and> task_Status r = TaskStatusWaitingForAgents) f (tasks (db s)) =
      upd_where (\<lambda>r. ID r = ID t \<and> task_Status r = TaskStatusWaitingForAgents) f (tasks (db s))" for f
    by (rule upd_where_cong) (use same_t \<open>live t\<close> in auto)
  moreover have "upd_where (\<lambda>r. ID r = ID t \<and> task_Status r = TaskStatusWaitingForAgents) f (tasks (db s)) = tasks (db s)"
    if "task_Status t \<noteq> TaskStatusWaitingForAgents" for f
    by (rule upd_where_none) (use that same_t in \<open>auto simp: affected_0_iff\<close>)
  ultimately have "db s' = lease_db agentID (now_at (env s1) (tick s1)) (now_at (env s2) (tick s2)) t shard (db s)"
    using k(2) p(2) by (cases "task_Status t = TaskStatusWaitingForAgents") (simp_all add: lease_db_def)
  then show ?thesis using cs k(1) p(1) by auto
qed

lemma lease_db_inv:
  assumes inv: "db_inv {} d" and t: "t \<in> set (tasks d)" "task_Status t \<in> set shardQueryStatuses"
    and shard: "shard \<in> set (task_shards d)" "ID t = shard_TaskID shard" "shard_Status shard = ShardStatusQueued"
  shows "db_inv {} (lease_db agentID at at' t shard d)"
proof -
  let ?p = "\<lambda>q. ID q = ID t \<and> task_Status q = TaskStatusWaitingForAgents"
  define d1 where "d1 = set_tasks (upd_where ?p (promoted_task at) (tasks d)) d"
  have queued: "task_ok TaskStatusQueued S" if "task_ok TaskStatusWaitingForAgents S" for S
    using task_ok_dispatched_same[OF that] by (simp add: dispatched_def)
  have inv1: "db_inv {} d1" unfolding d1_def
    by (rule inv_task_relabel[OF inv])
      (auto simp: promoted_task_def task_row_ok_def live_def status_lists intro: queued)
  have "task_Status q \<in> set dispatched" if q: "q \<in> set (tasks d1)" "ID q = shard_TaskID shard" for q
  proof -
    from q(1) obtain u where u: "u \<in> set (tasks d)" "q = (if ?p u then promoted_task at u else u)"
      by (auto simp: d1_def set_upd_where)
    then have "u = t"
      using q(2) shard(2) distinct_map_same[OF db_invD(1)[OF inv] u(1) t(1)]
      by (auto simp: promoted_task_def split: if_split_asm)
    then show ?thesis using u(2) t(2) by (auto simp: promoted_task_def dispatched_def shardQueryStatuses_def)
  qed
  then have mid: "task_mid (task_Status q) (statuses_of d1 (ID q))"
    if "q \<in> set (tasks d1)" "ID q = shard_TaskID shard" for q
    using task_ok_mid db_invD(6)[OF inv1 that(1)] that by simp
  let ?d = "set_task_shards (upd_where (\<lambda>q. ID q = ID shard) (leased_shard agentID at') (task_shards d1)) d1"
  have s1: "shard \<in> set (task_shards d1)" using shard by (simp add: d1_def)
  have leased: "shard_row_ok (leased_shard agentID at' shard)"
    using db_invD(3)[OF inv shard(1)] shard(3) by (auto simp: leased_shard_def shard_row_ok_def live_def status_lists)
  have step: "db_inv {shard_TaskID shard} ?d"
    by (rule inv_shard_step[OF inv1 s1]) (use leased mid in \<open>auto simp: leased_shard_def\<close>)
  have "ShardStatusLeased \<in> statuses_of ?d (shard_TaskID shard)"
  proof -
    have "leased_shard agentID at' shard \<in> set (task_shards ?d)"
      using s1 image_eqI[of _ "\<lambda>q. if ID q = ID shard then leased_shard agentID at' q else q" shard]
      by (simp add: set_upd_where)
    then show ?thesis using statuses_of_mem[of "leased_shard agentID at' shard" ?d] by (simp add: leased_shard_def)
  qed
  then have "db_inv {} ?d" by (rule inv_settleI[OF step]) (simp add: status_lists)
  then show ?thesis by (simp add: d1_def lease_db_def)
qed

lemma lease_loop_Inr:
  assumes "lease_loop n tenantID backendName agentID s = (Inr leased, s')" "db_inv {} (db s)"
  shows "lease_attempt tenantID backendName agentID s = (Inr (Some leased), s')"
proof -
  from assms(1) obtain m res s1 where 1: "lease_attempt tenantID backendName agentID s = (Inr res, s1)"
    and 2: "(case res of None \<Rightarrow> lease_loop m tenantID backendName agentID | Some l \<Rightarrow> ret l) s1 = (Inr leased, s')"
    by (cases n) (auto simp: bindE_Inr_iff)
  have "res \<noteq> None" using lease_attempt_Inr[OF 1 assms(2)] by auto
  then show ?thesis using 1 2 by auto
qed

lemma lease_loop_inv:
  assumes run: "lease_loop n tenantID backendName agentID s = (Inr leased, s')" and inv: "db_inv {} (db s)"
  shows "db_inv {} (db s')"
proof -
  obtain t shard rest at at' where
      cs: "lease_candidates (collate (env s)) tenantID backendName (db s) = (t, shard) # rest"
    and d: "db s' = lease_db agentID at at' t shard (db s)"
    using lease_attempt_Inr[OF lease_loop_Inr[OF run inv] inv] by auto
  then show ?thesis
    using lease_candidates_mem[of t shard "collate (env s)" tenantID backendName "db s"]
    by (auto intro!: lease_db_inv[OF inv])
qed

section \<open>Reporting a shard\<close>

lemma report_output_inv:
  assumes "report_output params s = (Inr x, s')" "db_inv X (db s)"
  shows "db_inv X (db s')"
  using assms by (auto simp: report_output_def run_iff shard_row_ok_def live_def
      intro!: inv_shard_cosmetic split: if_split_asm)

lemma updateTaskTerminalStatus_db:
  assumes "updateTaskTerminalStatus taskID f ts s = (Inr b, s')"
  shows "db s' = set_tasks (upd_where (\<lambda>r. live r \<and> ID r = taskID \<and> task_Status r \<notin> set ts)
     (\<lambda>r. (f r)\<lparr>UpdatedAt := now_at (env s) (tick s)\<rparr>) (tasks (db s))) (db s)"
  using assms by (auto simp: updateTaskTerminalStatus_def run_iff split: if_split_asm)

lemma resolve_db: "resolveTaskFailureLastError taskID e s = (Inr x, s') \<Longrightarrow> db s' = db s"
  unfolding resolveTaskFailureLastError_def bindE_tryE_iff by (auto simp: run_iff split: if_split_asm)

text \<open>Closing the task whose last shard has finished.\<close>

lemma close_task_inv:
  assumes inv: "db_inv {T} d"
    and fin: "statuses_of d T \<subseteq> set shard_terminal_statuses"
    and st: "status = (if ShardStatusFailed \<in> statuses_of d T then TaskStatusFailed else TaskStatusSucceeded)"
    and f: "\<And>t. ID (f t) = ID t" "\<And>t. task_Status (f t) = status" "\<And>t. task_FinishedAt (f t) \<noteq> None"
      "\<And>t. live (f t) = live t"
  shows "db_inv {} (set_tasks (upd_where (\<lambda>r. live r \<and> ID r = T \<and> task_Status r \<notin> set task_terminal_statuses) f (tasks d)) d)"
proof (rule inv_task_step[OF inv])
  fix t assume t: "t \<in> set (tasks d)"
  have row: "live t" using db_invD(5)[OF inv t] by (simp add: task_row_ok_def)
  show "(ID t \<in> {T}) = (ID t \<in> {})"
    if "\<not> (live t \<and> ID t = T \<and> task_Status t \<notin> set task_terminal_statuses)"
    using that row db_invD(7)[OF inv t] by (auto simp: task_mid_def status_lists)
  show "task_row_ok (f t) \<and> (if ID t \<in> {} then task_mid (task_Status (f t)) (statuses_of d (ID t))
         else task_ok (task_Status (f t)) (statuses_of d (ID t)))"
    if "live t \<and> ID t = T \<and> task_Status t \<notin> set task_terminal_statuses"
  proof -
    have "task_mid (task_Status t) (statuses_of d T)" using db_invD(7)[OF inv t] that by simp
    then have S: "ShardStatusCancelled \<notin> statuses_of d T" "statuses_of d T \<noteq> {}" by (simp_all add: task_mid_def)
    then have "task_ok status (statuses_of d T)"
      using fin by (auto simp: st task_ok_def status_lists)
    then show ?thesis using that f st by (simp add: task_row_ok_def status_lists)
  qed
qed (simp add: f)

definition open_shards :: "uuid \<Rightarrow> database \<Rightarrow> TaskShard list" where
  "open_shards T d =
     filter (\<lambda>r. live r \<and> shard_TaskID r = T \<and> shard_Status r \<notin> set shard_terminal_statuses) (task_shards d)"

definition failed_shards :: "uuid \<Rightarrow> database \<Rightarrow> TaskShard list" where
  "failed_shards T d =
     filter (\<lambda>r. live r \<and> shard_TaskID r = T \<and> shard_Status r = ShardStatusFailed) (task_shards d)"

text \<open>What \<open>RecomputeTaskStatus\<close> did when it returned.\<close>

lemma RecomputeTaskStatus_Inr:
  assumes "RecomputeTaskStatus T e s = (Inr x, s')"
  shows "\<exists>task. first_row (filter (\<lambda>r. live r \<and> ID r = T) (tasks (db s))) = Inr task \<and>
    task_Status task \<noteq> TaskStatusCancelled \<and>
    (if task_Status task \<in> {TaskStatusSucceeded, TaskStatusFailed} \<or> open_shards T (db s) \<noteq> []
     then x = None \<and> db s' = db s
     else if failed_shards T (db s) \<noteq> []
     then \<exists>s1 s2 finishedAt err. db s1 = db s \<and> db s2 = db s \<and>
       resolveTaskFailureLastError T e s1 = (Inr err, s2) \<and>
       finish_task T task TaskStatusFailed err finishedAt False s2 = (Inr x, s')
     else \<exists>s1 finishedAt. db s1 = db s \<and>
       finish_task T task TaskStatusSucceeded [] finishedAt True s1 = (Inr x, s'))"
proof -
  let ?s3 = "tick_world (tick_world (tick_world s))"
  from assms obtain task where task: "first_row (filter (\<lambda>r. live r \<and> ID r = T) (tasks (db s))) = Inr task"
    "task_Status task \<noteq> TaskStatusCancelled"
    and rest: "task_Status task \<in> {TaskStatusSucceeded, TaskStatusFailed} \<and> x = None \<and> db s' = db s \<or>
      task_Status task \<notin> {TaskStatusSucceeded, TaskStatusFailed} \<and>
      (open_shards T (db s) \<noteq> [] \<and> x = None \<and> db s' = db s \<or>
       open_shards T (db s) = [] \<and>
       (failed_shards T (db s) \<noteq> [] \<and> bindE (resolveTaskFailureLastError T e) (\<lambda>err.
          finish_task T task TaskStatusFailed err (now_at (env s) (tick ?s3)) False) (tick_world ?s3) = (Inr x, s') \<or>
        failed_shards T (db s) = [] \<and>
          finish_task T task TaskStatusSucceeded [] (now_at (env s) (tick ?s3)) True (tick_world ?s3) = (Inr x, s')))"
    unfolding RecomputeTaskStatus_def open_shards_def failed_shards_def bindE_Inr_iff[of "mapErr _ _"]
      mapErr_Inr_iff select_first_Inr_iff select_Inr_iff
    by (elim exE conjE) (auto simp: bindE_Inr_iff[of "mapErr _ _"] bindE_Inr_iff[of time_Now] mapErr_Inr_iff
        select_Inr_iff time_Now_iff bindE_getsE split: if_split_asm)
  show ?thesis
    using task rest resolve_db[of T e "tick_world ?s3"]
    by (intro exI[of _ task]) (auto simp: bindE_Inr_iff, (metis tick_world_simps(4))+)
qed

lemma finish_task_db:
  assumes "finish_task T task status err finishedAt avail s = (Inr x, s')"
  shows "db s' = set_tasks (upd_where (\<lambda>r. live r \<and> ID r = T \<and> task_Status r \<notin> set task_terminal_statuses)
     (\<lambda>r. r\<lparr>task_FinishedAt := Some finishedAt, task_Status := status, task_LastError := err,
           UpdatedAt := now_at (env s) (tick s)\<rparr>) (tasks (db s))) (db s)"
  using assms updateTaskTerminalStatus_db[of T _ task_terminal_statuses s]
  by (fastforce simp: finish_task_def bindE_Inr_iff split: if_split_asm)

lemma RecomputeTaskStatus_inv:
  assumes run: "RecomputeTaskStatus T e s = (Inr x, s')" and inv: "db_inv {T} (db s)"
  shows "db_inv {} (db s')"
proof -
  have live: "live r" if "r \<in> set (task_shards (db s))" for r
    using db_invD(3)[OF inv that] by (simp add: shard_row_ok_def)
  obtain task where task: "first_row (filter (\<lambda>r. live r \<and> ID r = T) (tasks (db s))) = Inr task"
    and rest: "if task_Status task \<in> {TaskStatusSucceeded, TaskStatusFailed} \<or> open_shards T (db s) \<noteq> []
     then x = None \<and> db s' = db s
     else if failed_shards T (db s) \<noteq> []
     then \<exists>s1 s2 finishedAt err. db s1 = db s \<and> db s2 = db s \<and>
       resolveTaskFailureLastError T e s1 = (Inr err, s2) \<and>
       finish_task T task TaskStatusFailed err finishedAt False s2 = (Inr x, s')
     else \<exists>s1 finishedAt. db s1 = db s \<and>
       finish_task T task TaskStatusSucceeded [] finishedAt True s1 = (Inr x, s')"
    using RecomputeTaskStatus_Inr[OF run] by auto
  have t: "task \<in> set (tasks (db s))" "ID task = T" using first_row_Inr[OF task] by auto
  have st: "task_Status task \<notin> {TaskStatusSucceeded, TaskStatusFailed}"
    using db_invD(7)[OF inv t(1)] t(2) by (auto simp: task_mid_def dispatched_def)
  show ?thesis
  proof (cases "open_shards T (db s) = []")
    case False
    then obtain r where "r \<in> set (open_shards T (db s))" using hd_in_set by metis
    then have "shard_Status r \<in> statuses_of (db s) T" "shard_Status r \<notin> set shard_terminal_statuses"
      by (auto simp: open_shards_def statuses_of_def)
    then show ?thesis using False rest inv_settleI[OF inv] by simp
  next
    case True
    then have fin: "statuses_of (db s) T \<subseteq> set shard_terminal_statuses"
      using live by (auto simp: open_shards_def statuses_of_def filter_empty_conv)
    have failed: "failed_shards T (db s) \<noteq> [] \<longleftrightarrow> ShardStatusFailed \<in> statuses_of (db s) T"
      using live by (auto simp: failed_shards_def statuses_of_def filter_empty_conv image_iff)
    have close: "db_inv {} (db s')" if "finish_task T task status err finishedAt avail s1 = (Inr x, s')" "db s1 = db s"
      "status = (if ShardStatusFailed \<in> statuses_of (db s) T then TaskStatusFailed else TaskStatusSucceeded)"
      for s1 status err finishedAt avail
      unfolding finish_task_db[OF that(1)] that(2)
      by (rule close_task_inv[OF inv fin that(3)]) (simp_all add: live_def)
    show ?thesis using rest True st failed close by (auto split: if_split_asm)
  qed
qed

lemma report_running_inv:
  assumes run1: "MarkRunning sid s = (Inr y, s1)"
    and run2: "report_task params shard task now s1 = (Inr x, s')" "rp_ShardStatus params = ShardStatusRunning"
    and inv: "db_inv {} (db s)"
    and shard: "shard \<in> set (task_shards (db s))" "ID shard = sid"
    and task: "task \<in> set (tasks (db s))" "ID task = shard_TaskID shard"
  shows "db_inv {} (db s')"
proof -
  from run1 obtain at where tr: "transitionStatus sid ShardStatusRunning [ShardStatusLeased]
       (\<lambda>r. r\<lparr>shard_StartedAt := Some at\<rparr>) (tick_world s) = (Inr y, s1)"
    by (auto simp: MarkRunning_def run_iff)
  have "\<exists>r. r \<in> set (task_shards (db (tick_world s))) \<and> ID r = sid \<and> shard_Status r \<in> set [ShardStatusLeased] \<and>
    db_inv {shard_TaskID r} (db s1) \<and> ShardStatusRunning \<in> statuses_of (db s1) (shard_TaskID r) \<and>
    tasks (db s1) = tasks (db (tick_world s))"
    by (rule transition_inv[OF tr]) (use inv in \<open>auto simp: shard_row_ok_def live_def status_lists\<close>)
  then obtain r where r: "r \<in> set (task_shards (db s))" "ID r = sid" and inv1: "db_inv {shard_TaskID r} (db s1)"
    and sts: "ShardStatusRunning \<in> statuses_of (db s1) (shard_TaskID r)" and ts: "tasks (db s1) = tasks (db s)"
    by auto
  have "r = shard" using distinct_map_same[OF db_invD(2)[OF inv] r(1) shard(1)] r shard by simp
  then have inv1: "db_inv {} (db s1)"
    using inv_settleI[OF inv1 sts] by (simp add: status_lists)
  have d': "db s' = set_tasks (upd_where (\<lambda>q. live q \<and> ID q = shard_TaskID shard \<and> task_Status q \<noteq> TaskStatusCancelled)
       (\<lambda>q. (if task_StartedAt task = None then q\<lparr>task_StartedAt := Some now\<rparr> else q)
             \<lparr>task_Status := TaskStatusRunning, UpdatedAt := now_at (env s1) (tick s1)\<rparr>) (tasks (db s1))) (db s1)"
    using run2 by (auto simp: report_task_def run_iff split: if_split_asm)
  have mid: "task_mid (task_Status t) (statuses_of (db s1) (ID t))" if "t \<in> set (tasks (db s1))" "ID t = shard_TaskID shard" for t
    using task_ok_dispatched[OF db_invD(6)[OF inv1 that(1)], of ShardStatusRunning] sts that \<open>r = shard\<close>
    by (simp add: status_lists)
  have same: "t = task" if "t \<in> set (tasks (db s1))" "ID t = shard_TaskID shard" for t
    using distinct_map_same[OF db_invD(1)[OF inv], of t task] that ts task by simp
  let ?f = "\<lambda>q. (if task_StartedAt task = None then q\<lparr>task_StartedAt := Some now\<rparr> else q)
             \<lparr>task_Status := TaskStatusRunning, UpdatedAt := now_at (env s1) (tick s1)\<rparr>"
  have sel: "ID (?f q) = ID q" "task_Status (?f q) = TaskStatusRunning" "task_FinishedAt (?f q) = task_FinishedAt q"
    "live (?f q) = live q" for q
    by (simp_all add: live_def)
  have started: "task_StartedAt (?f task) \<noteq> None" by simp
  show ?thesis unfolding d'
  proof (rule inv_task_step[OF inv1 sel(1)])
    fix t assume t: "t \<in> set (tasks (db s1))" "live t \<and> ID t = shard_TaskID shard \<and> task_Status t \<noteq> TaskStatusCancelled"
    have m: "task_mid (task_Status t) (statuses_of (db s1) (ID t))" using mid[OF t(1)] t(2) by simp
    have ok: "task_ok TaskStatusRunning (statuses_of (db s1) (ID t))"
      by (rule task_ok_dispatched_same[OF db_invD(6)[OF inv1 t(1)]]) (use m in \<open>auto simp: task_mid_def dispatched_def\<close>)
    have "task_FinishedAt t = None"
      using m db_invD(5)[OF inv1 t(1)] by (auto simp: task_mid_def task_row_ok_def status_lists)
    moreover have "task_StartedAt (?f t) \<noteq> None" using same[OF t(1)] t(2) started by auto
    ultimately have "task_row_ok (?f t)" using t(2) unfolding task_row_ok_def sel by simp
    then show "task_row_ok (?f t) \<and> (if ID t \<in> {} then task_mid (task_Status (?f t)) (statuses_of (db s1) (ID t))
         else task_ok (task_Status (?f t)) (statuses_of (db s1) (ID t)))"
      unfolding sel using ok by simp
  qed auto
qed

text \<open>The transition of a report, for a shard that finished.\<close>

lemma report_finished_transition:
  assumes run: "report_transition params s = (Inr y, s1)"
    and st: "rp_ShardStatus params \<in> {ShardStatusSucceeded, ShardStatusFailed}"
    and inv: "db_inv {} (db s)"
    and shard: "shard \<in> set (task_shards (db s))" "ID shard = rp_ShardID params"
  shows "db_inv {shard_TaskID shard} (db s1)"
proof -
  from run st obtain at err where tr: "transitionStatus (rp_ShardID params) (rp_ShardStatus params) [ShardStatusRunning]
       (\<lambda>r. r\<lparr>shard_FinishedAt := Some at, shard_LastError := err r\<rparr>) (tick_world s) = (Inr y, s1)"
  proof (cases "rp_ShardStatus params = ShardStatusSucceeded")
    case True
    then show ?thesis using run that[of shard_LastError "now_at (env s) (tick s)"]
      by (auto simp: report_transition_def MarkSucceeded_def run_iff)
  next
    case False
    then show ?thesis using run st that[of "\<lambda>_. go_string (rp_ErrorMessage params)" "now_at (env s) (tick s)"]
      by (auto simp: report_transition_def MarkFailed_def run_iff)
  qed
  have "\<exists>r. r \<in> set (task_shards (db (tick_world s))) \<and> ID r = rp_ShardID params \<and> shard_Status r \<in> set [ShardStatusRunning] \<and>
    db_inv {shard_TaskID r} (db s1) \<and> rp_ShardStatus params \<in> statuses_of (db s1) (shard_TaskID r) \<and>
    tasks (db s1) = tasks (db (tick_world s))"
    by (rule transition_inv[OF tr]) (use inv st in \<open>auto simp: shard_row_ok_def live_def status_lists\<close>)
  then obtain r where r: "r \<in> set (task_shards (db s))" "ID r = rp_ShardID params" "db_inv {shard_TaskID r} (db s1)"
    by auto
  have "r = shard" using distinct_map_same[OF db_invD(2)[OF inv] r(1) shard(1)] r shard by simp
  then show ?thesis using r(3) by simp
qed

text \<open>What a report that committed has done.\<close>

lemma report_body_Inr:
  assumes "report_body params now s = (Inr x, s')"
  shows "\<exists>shard task. shard \<in> set (task_shards (db s)) \<and> live shard \<and> ID shard = rp_ShardID params \<and>
    task \<in> set (tasks (db s)) \<and> live task \<and> ID task = shard_TaskID shard \<and>
    (if rp_ShardStatus params = ShardStatusSucceeded \<and> shard_Status shard = ShardStatusSucceeded \<and>
        shard_OutputOSSKey shard \<noteq> [] then x = None \<and> db s' = db s
     else task_Status task \<noteq> TaskStatusCancelled \<and>
       (\<exists>y z s3 s4. report_transition params (tick_world (tick_world s)) = (Inr y, s3) \<and>
          report_output params s3 = (Inr z, s4) \<and> report_task params shard task now s4 = (Inr x, s')))"
  using assms
  by (fastforce simp: report_body_def task_shard_orm_GetByID_def bindE_Inr_iff mapErr_Inr_iff getsE_iff raise_iff ret_iff
      select_first_Inr_iff dest!: first_row_Inr split: if_split_asm)

lemma report_body_inv:
  assumes run: "report_body params now s = (Inr x, s')" and inv: "db_inv {} (db s)"
  shows "db_inv {} (db s')"
proof -
  define s2 where "s2 = tick_world (tick_world s)"
  have d2: "db s2 = db s" by (simp add: s2_def)
  obtain shard task where
      shard: "shard \<in> set (task_shards (db s))" "ID shard = rp_ShardID params"
    and task: "task \<in> set (tasks (db s))" "ID task = shard_TaskID shard"
    and rest: "db s' = db s \<or> (\<exists>y z s3 s4. report_transition params s2 = (Inr y, s3) \<and>
          report_output params s3 = (Inr z, s4) \<and> report_task params shard task now s4 = (Inr x, s'))"
    using report_body_Inr[OF run] unfolding s2_def by (auto split: if_split_asm)
  show ?thesis
  proof (cases "db s' = db s")
    case True
    then show ?thesis using inv by simp
  next
    case False
    then obtain y z s3 s4 where 3: "report_transition params s2 = (Inr y, s3)"
      and 4: "report_output params s3 = (Inr z, s4)" and 5: "report_task params shard task now s4 = (Inr x, s')"
      using rest by auto
    consider "rp_ShardStatus params = ShardStatusRunning"
      | "rp_ShardStatus params \<in> {ShardStatusSucceeded, ShardStatusFailed}"
      | "rp_ShardStatus params \<notin> {ShardStatusRunning, ShardStatusSucceeded, ShardStatusFailed}"
      by auto
    then show ?thesis
    proof cases
      case 1
      then have "MarkRunning (rp_ShardID params) s2 = (Inr y, s3)" "s4 = s3"
        using 3 4 by (auto simp: report_transition_def report_output_def mapErr_Inr_iff)
      then show ?thesis using report_running_inv[of "rp_ShardID params" s2 y s3] 1 5 inv shard task d2 by auto
    next
      case 2
      have "db_inv {shard_TaskID shard} (db s3)"
        using report_finished_transition[OF 3 2] inv shard d2 by simp
      then have "db_inv {shard_TaskID shard} (db s4)" by (rule report_output_inv[OF 4])
      then show ?thesis
        using 5 2 RecomputeTaskStatus_inv by (auto simp: report_task_def mapErr_Inr_iff)
    next
      case 3
      then have "db s' = db s"
        using \<open>report_transition params s2 = (Inr y, s3)\<close> 4 5 d2
        by (auto simp: report_transition_def report_output_def report_task_def)
      then show ?thesis using inv by simp
    qed
  qed
qed

section \<open>Hooks, tenants, and all units\<close>

lemma hook_inv:
  assumes "recordCompletionHookResult taskID err s = (r, s')" "db_inv {} (db s)"
  shows "db_inv {} (db s')"
proof -
  have "db s' = db s \<or> (\<exists>p f. db s' = set_tasks (upd_where p f (tasks (db s))) (db s) \<and>
    (\<forall>t. ID (f t) = ID t \<and> task_Status (f t) = task_Status t \<and> task_row_ok (f t) = task_row_ok t))"
    using assms(1)
    by (cases r; cases err)
      (auto simp: recordCompletionHookResult_def run_iff orm_GetDB_def task_row_ok_def live_def split: if_split_asm;
       force simp: task_row_ok_def live_def)+
  then show ?thesis using assms(2) by (auto intro!: inv_task_relabel)
qed

lemma tenant_Create_rows:
  assumes "tenant_orm_Create t s = (r, s')"
  shows "tasks (db s') = tasks (db s) \<and> task_shards (db s') = task_shards (db s)"
  using assms
  by (auto simp: tenant_orm_Create_def BeforeCreate_def bindE_def uuid_New_def insert_stmt_def stmt_def Let_def
      split: if_split_asm sum.split_asm prod.split_asm option.split_asm)

theorem atomic_inv: "atomic d d' \<Longrightarrow> db_inv {} d \<Longrightarrow> db_inv {} d'"
proof (induction rule: atomic.induct)
  case (report s params now r s')
  then show ?case by (blast intro: transaction_keeps report_body_inv)
next
  case (lease s n tenantID backendName agentID r s')
  then show ?case by (blast intro: transaction_keeps lease_loop_inv)
next
  case (rollback_with_task s cs shardID task r s')
  then show ?case by (blast intro: transaction_keeps RollbackShardWithTask_inv)
next
  case (rollback s cs shardID r s')
  then show ?case by (blast intro: RollbackToQueued_inv)
next
  case (mark s status taskIDs lastError r s')
  then show ?case by (blast intro: MarkTasksStatus_inv)
next
  case (cancel s tenantID taskID r s')
  then show ?case by (blast intro: transaction_keeps cancel_body_inv)
next
  case (submit s taskID scripts tenantID hookURL r s')
  then show ?case by (blast intro: transaction_keeps submit_body_inv)
next
  case (hook s taskID dispatchErr r s')
  then show ?case by (blast intro: hook_inv)
next
  case (tenant s tenant r s')
  then show ?case using tenant_Create_rows db_inv_cong[of "db s'" "db s"] by blast
next
  case (clusters d rows)
  then show ?case using db_inv_cong[of "d\<lparr>clusters := rows\<rparr>" d] by simp
qed

end
