(* ===== verification/Row_Lifecycle.thy ===== *)
theory Row_Lifecycle
  imports Lifecycle_Units
begin

text \<open>
  The life of a row. The abstract specification is a pair of state machines, \<open>event_edge\<close> for the
  status of a shard and \<open>task_edge\<close> for the status of a task. The refinement: no operation deletes a row
  or changes its identity, and every operation moves each row along the edges of its machine.

  For shards the guards in the \<open>WHERE\<close> clauses are enough: every atomic unit is one event, and moves each shard along
  at most one edge of that event (\<open>atomic_one_event\<close>). For tasks the update that marks a task running
  is guarded against \<open>CANCELLED\<close> only; that it never reopens a finished task follows from
  the invariant of the tables.
\<close>

section \<open>The abstract machines\<close>

text \<open>
  What can happen to a shard, and the edges of its machine that belong to it. No edge of an event follows
  another one of the same event, so a shard that moves by one event moves once.
\<close>

datatype shard_event = ShardLeased | ShardStarted | ShardSucceeded | ShardFailed | ShardRequeued | ShardCancelled

primrec event_edge :: "shard_event \<Rightarrow> string \<Rightarrow> string \<Rightarrow> bool" where
  "event_edge ShardLeased x y \<longleftrightarrow> x = ShardStatusQueued \<and> y = ShardStatusLeased"
| "event_edge ShardStarted x y \<longleftrightarrow> x = ShardStatusLeased \<and> y = ShardStatusRunning"
| "event_edge ShardSucceeded x y \<longleftrightarrow> x = ShardStatusRunning \<and> y = ShardStatusSucceeded"
| "event_edge ShardFailed x y \<longleftrightarrow> x = ShardStatusRunning \<and> y = ShardStatusFailed"
| "event_edge ShardRequeued x y \<longleftrightarrow> x \<in> set shard_active_statuses \<and> y = ShardStatusQueued"
| "event_edge ShardCancelled x y \<longleftrightarrow> x \<notin> set shard_terminal_statuses \<and> y = ShardStatusCancelled"

definition shard_edge :: "string \<Rightarrow> string \<Rightarrow> bool" where
  "shard_edge x y \<longleftrightarrow> (\<exists>e. event_edge e x y)"

lemma event_edge_once: "event_edge e x y \<Longrightarrow> \<not> event_edge e y z"
  by (cases e) (auto simp: status_lists)

inductive task_edge :: "string \<Rightarrow> string \<Rightarrow> bool" where
  wait: "task_edge TaskStatusPending TaskStatusWaitingForAgents"
| reject: "task_edge TaskStatusPending TaskStatusFailed"
| promote: "task_edge TaskStatusWaitingForAgents TaskStatusQueued"
| demote: "task_edge TaskStatusQueued TaskStatusWaitingForAgents"
| run: "x \<in> set dispatched \<Longrightarrow> task_edge x TaskStatusRunning"
| finish: "x \<in> set dispatched \<Longrightarrow> y \<in> {TaskStatusSucceeded, TaskStatusFailed} \<Longrightarrow> task_edge x y"
| cancel: "x \<notin> set task_terminal_statuses \<Longrightarrow> task_edge x TaskStatusCancelled"

inductive_simps task_edge_from: "task_edge x y"

lemma shard_terminal_no_edge:
  assumes "x \<in> set shard_terminal_statuses"
  shows "\<not> shard_edge x y"
proof
  assume "shard_edge x y"
  then obtain e where "event_edge e x y" by (auto simp: shard_edge_def)
  then show False using assms by (cases e) (auto simp: status_lists)
qed

lemma task_terminal_no_edge: "x \<in> set task_terminal_statuses \<Longrightarrow> \<not> task_edge x y"
  by (auto simp: task_edge_from status_lists)

lemma rtranclp_stuck: "rtranclp E x y \<Longrightarrow> (\<And>z. \<not> E x z) \<Longrightarrow> y = x"
  by (metis converse_rtranclpE)

lemma bindE_assoc: "bindE (bindE m f) g = bindE m (\<lambda>x. bindE (f x) g)"
  by (rule ext) (simp add: bindE_def split: prod.splits sum.splits)

section \<open>Rows that move\<close>

definition rows_move :: "('a BaseUUIDModel_scheme \<Rightarrow> 'a BaseUUIDModel_scheme \<Rightarrow> bool) \<Rightarrow>
  'a BaseUUIDModel_scheme list \<Rightarrow> 'a BaseUUIDModel_scheme list \<Rightarrow> bool" where
  "rows_move E rs rs' \<longleftrightarrow> (\<forall>r\<in>set rs. \<exists>r'\<in>set rs'. ID r' = ID r \<and> E r r')"

lemma rows_move_refl: "(\<And>r. E r r) \<Longrightarrow> rows_move E rs rs"
  by (auto simp: rows_move_def)

lemma rows_move_trans:
  assumes "rows_move E a b" "rows_move E b c" "\<And>x y z. E x y \<Longrightarrow> E y z \<Longrightarrow> E x z"
  shows "rows_move E a c"
  unfolding rows_move_def
proof
  fix r assume "r \<in> set a"
  then obtain r1 where r1: "r1 \<in> set b" "ID r1 = ID r" "E r r1" using assms(1) by (auto simp: rows_move_def)
  then obtain r2 where "r2 \<in> set c" "ID r2 = ID r1" "E r1 r2" using assms(2) by (auto simp: rows_move_def)
  then show "\<exists>r'\<in>set c. ID r' = ID r \<and> E r r'" using r1 assms(3) by auto
qed

lemma rows_move_upd:
  "(\<And>r. E r r) \<Longrightarrow> (\<And>r. r \<in> set rs \<Longrightarrow> p r \<Longrightarrow> ID (f r) = ID r \<and> E r (f r)) \<Longrightarrow> rows_move E rs (upd_where p f rs)"
  unfolding rows_move_def
  by (intro ballI bexI[of _ "if p _ then f _ else _"]) (auto simp: set_upd_where)

lemma rows_move_append: "(\<And>r. E r r) \<Longrightarrow> rows_move E rs (rs @ new)"
  by (auto simp: rows_move_def)

text \<open>The columns of a shard that no operation changes.\<close>

definition same_shard :: "TaskShard \<Rightarrow> TaskShard \<Rightarrow> bool" where
  "same_shard r r' \<longleftrightarrow> shard_TaskID r' = shard_TaskID r \<and> shard_ScriptName r' = shard_ScriptName r \<and>
     CreatedAt r' = CreatedAt r \<and> DeletedAt r' = DeletedAt r"

definition shard_takes :: "shard_event \<Rightarrow> TaskShard \<Rightarrow> TaskShard \<Rightarrow> bool" where
  "shard_takes e r r' \<longleftrightarrow> same_shard r r' \<and>
     (shard_Status r' = shard_Status r \<or> event_edge e (shard_Status r) (shard_Status r'))"

definition shard_evolves :: "TaskShard \<Rightarrow> TaskShard \<Rightarrow> bool" where
  "shard_evolves r r' \<longleftrightarrow> same_shard r r' \<and> rtranclp shard_edge (shard_Status r) (shard_Status r')"

definition task_evolves :: "Task \<Rightarrow> Task \<Rightarrow> bool" where
  "task_evolves t t' \<longleftrightarrow>
     task_TenantID t' = task_TenantID t \<and> task_CompletionHookURL t' = task_CompletionHookURL t \<and>
     task_ShardCount t' = task_ShardCount t \<and> CreatedAt t' = CreatedAt t \<and> DeletedAt t' = DeletedAt t \<and>
     rtranclp task_edge (task_Status t) (task_Status t')"

text \<open>All shards of a table move by one event, or stay.\<close>

definition shards_take :: "shard_event \<Rightarrow> database \<Rightarrow> database \<Rightarrow> bool" where
  "shards_take e d d' \<longleftrightarrow> rows_move (shard_takes e) (task_shards d) (task_shards d')"

definition shards_move :: "database \<Rightarrow> database \<Rightarrow> bool" where
  "shards_move d d' \<longleftrightarrow> rows_move shard_evolves (task_shards d) (task_shards d')"

definition tasks_move :: "database \<Rightarrow> database \<Rightarrow> bool" where
  "tasks_move d d' \<longleftrightarrow> rows_move task_evolves (tasks d) (tasks d')"

lemma shard_takes_refl [simp]: "shard_takes e r r"
  by (simp add: shard_takes_def same_shard_def)

lemma shard_takes_trans: "shard_takes e x y \<Longrightarrow> shard_takes e y z \<Longrightarrow> shard_takes e x z"
  unfolding shard_takes_def same_shard_def using event_edge_once by metis

lemma shard_evolves_refl [simp]: "shard_evolves r r"
  by (simp add: shard_evolves_def same_shard_def)

lemma shard_evolves_trans: "shard_evolves x y \<Longrightarrow> shard_evolves y z \<Longrightarrow> shard_evolves x z"
  unfolding shard_evolves_def same_shard_def by (auto intro: rtranclp_trans)

lemma event_shard_edge: "event_edge e x y \<Longrightarrow> rtranclp shard_edge x y"
  unfolding shard_edge_def by (rule r_into_rtranclp) blast

lemma shard_takes_evolves: "shard_takes e r r' \<Longrightarrow> shard_evolves r r'"
  by (auto simp: shard_takes_def shard_evolves_def event_shard_edge)

lemma shards_take_move: "shards_take e d d' \<Longrightarrow> shards_move d d'"
  unfolding shards_take_def shards_move_def rows_move_def using shard_takes_evolves by blast

lemma task_evolves_refl [simp]: "task_evolves r r"
  by (simp add: task_evolves_def)

lemma task_evolves_trans: "task_evolves x y \<Longrightarrow> task_evolves y z \<Longrightarrow> task_evolves x z"
  unfolding task_evolves_def by (auto intro: rtranclp_trans)

section \<open>Shards\<close>

text \<open>Every unit of the data access layer moves the shards by one event.\<close>

interpretation ev: db_evolution "shards_take e" for e
  by unfold_locales
    (auto simp: shards_take_def intro: rows_move_refl rows_move_trans[OF _ _ shard_takes_trans])

lemma ev_tasks: "moves (shards_take e) (update_tasks p f)"
  by (rule ev.moves_update_tasks) (simp add: shards_take_def rows_move_refl)

lemma ev_shards:
  assumes "\<And>r now. live r \<Longrightarrow> p r \<Longrightarrow> ID (f r) = ID r \<and> shard_takes e r ((f r)\<lparr>UpdatedAt := now\<rparr>)"
  shows "moves (shards_take e) (update_shards p f)"
  by (rule ev.moves_update_shards) (auto simp: shards_take_def assms intro!: rows_move_upd)

lemma ev_transition:
  assumes "\<And>x. x \<in> set cs \<Longrightarrow> event_edge e x target"
    and "\<And>r. ID (upd r) = ID r \<and> same_shard r (upd r)"
  shows "moves (shards_take e) (transitionStatus sid target cs upd)"
proof -
  have "moves (shards_take e) (update_shards (\<lambda>r. ID r = sid \<and> shard_Status r \<in> set cs)
          (\<lambda>r. (upd r)\<lparr>shard_Status := target\<rparr>))"
    by (rule ev_shards) (use assms in \<open>auto simp: shard_takes_def same_shard_def\<close>)
  then show ?thesis unfolding transitionStatus_def by (intro ev.moves_intros)
qed

lemma ev_marks:
  "moves (shards_take ShardStarted) (MarkRunning sid)"
  "moves (shards_take ShardSucceeded) (MarkSucceeded sid)"
  "moves (shards_take ShardFailed) (MarkFailed sid err)"
  unfolding MarkRunning_def MarkSucceeded_def MarkFailed_def
  by (rule ev.evolves_bindE[OF ev.moves_time_Now], rule ev_transition, auto simp: same_shard_def)+

text \<open>The event a report is about; a report of another status changes no shard.\<close>

definition report_event :: "ReportShardStatusParams \<Rightarrow> shard_event" where
  "report_event params =
     (if rp_ShardStatus params = ShardStatusRunning then ShardStarted
      else if rp_ShardStatus params = ShardStatusSucceeded then ShardSucceeded else ShardFailed)"

lemma ev_report_transition: "moves (shards_take (report_event params)) (report_transition params)"
  by (auto simp: report_transition_def report_event_def ev_marks intro!: ev.moves_intros)

lemma ev_report: "moves (shards_take (report_event params)) (transaction (report_body params now))"
proof -
  have "moves (shards_take e) (update_shards (\<lambda>r. ID r = rp_ShardID params)
      (\<lambda>r. r\<lparr>shard_OutputOSSKey := rp_OutputOSSKey params, shard_OutputSHA256 := rp_OutputSHA256 params\<rparr>))" for e
    by (rule ev_shards) (auto simp: shard_takes_def same_shard_def)
  then show ?thesis
    unfolding report_body_def task_shard_orm_GetByID_def report_output_def report_task_def
      RecomputeTaskStatus_def finish_task_def resolveTaskFailureLastError_def updateTaskTerminalStatus_def
    by (intro ev.moves_transaction ev.moves_intros ev_tasks ev_report_transition)
qed

lemma ev_lease_loop: "moves (shards_take ShardLeased) (lease_loop n tenantID backendName agentID)"
proof -
  have "moves (shards_take ShardLeased) (update_shards (\<lambda>r. ID r = sid \<and> shard_Status r = ShardStatusQueued)
          (\<lambda>r. r\<lparr>shard_Status := ShardStatusLeased, shard_AssignedAgentID := Some agentID\<rparr>))" for sid
    by (rule ev_shards) (auto simp: shard_takes_def same_shard_def)
  then have "moves (shards_take ShardLeased) (lease_attempt tenantID backendName agentID)"
    unfolding lease_attempt_def promote_task_def take_shard_def by (intro ev.moves_intros ev_tasks)
  then show ?thesis by (induction n; unfold lease_loop.simps; intro ev.moves_intros; assumption?)
qed

lemma ev_rollback:
  "set cs \<subseteq> set shard_active_statuses \<Longrightarrow> moves (shards_take ShardRequeued) (RollbackToQueued sid cs)"
  unfolding RollbackToQueued_def by (rule ev_transition) (auto simp: same_shard_def)

lemma ev_rollback_with_task:
  "set cs \<subseteq> set shard_active_statuses \<Longrightarrow> moves (shards_take ShardRequeued) (transaction (RollbackShardWithTask sid cs task))"
  unfolding RollbackShardWithTask_def RollbackTaskToWaiting_def
  by (intro ev.moves_transaction ev.moves_intros ev_tasks ev_rollback)

lemma ev_cancel: "moves (shards_take ShardCancelled) (transaction (cancel_body tenantID taskID))"
proof -
  have "moves (shards_take ShardCancelled) (update_shards (\<lambda>r. shard_TaskID r = taskID \<and> shard_Status r \<notin> set shard_terminal_statuses)
          (\<lambda>r. r\<lparr>shard_Status := ShardStatusCancelled, shard_FinishedAt := Some now,
                 shard_AssignedAgentID := None, shard_StartedAt := None, shard_LastError := []\<rparr>))" for now
    by (rule ev_shards) (auto simp: shard_takes_def same_shard_def)
  then show ?thesis
    unfolding cancel_body_def CancelTaskById_def CancelTaskShardsByTaskId_def
    by (intro ev.moves_transaction ev.moves_intros ev_tasks)
qed

text \<open>The other units change no shard.\<close>

lemma ev_inserts:
  "moves (shards_take e) (insert_stmt tasks set_tasks clash t)"
  "moves (shards_take e) (insert_stmt task_shards set_task_shards clash' r)"
  "moves (shards_take e) (insert_stmt tenants set_tenants clash'' n)"
  unfolding insert_stmt_def
  by (rule ev.moves_stmt; auto simp: shards_take_def Let_def intro: rows_move_refl rows_move_append)+

lemma ev_others:
  "moves (shards_take e) (MarkTasksStatus ids status err)"
  "moves (shards_take e) (transaction (submit_body task scripts))"
  "moves (shards_take e) (recordCompletionHookResult taskID dispatchErr)"
  "moves (shards_take e) (tenant_orm_Create t)"
  "shards_take e d (d\<lparr>clusters := rows\<rparr>)"
proof -
  show "moves (shards_take e) (MarkTasksStatus ids status err)"
    unfolding MarkTasksStatus_def by (intro ev.moves_intros ev_tasks)
  show "moves (shards_take e) (transaction (submit_body task scripts))"
    unfolding submit_body_def task_orm_Create_def task_shard_orm_Create_def BeforeCreate_def
    by (intro ev.moves_transaction ev.moves_intros ev_inserts)
  have "moves (shards_take e) orm_GetDB" by (rule ev.evolvesI) (simp add: orm_GetDB_def ev.R_refl)
  then show "moves (shards_take e) (recordCompletionHookResult taskID dispatchErr)"
    unfolding recordCompletionHookResult_def by (intro ev.moves_intros ev_tasks)
  show "moves (shards_take e) (tenant_orm_Create t)"
    unfolding tenant_orm_Create_def BeforeCreate_def by (intro ev.moves_intros ev_inserts)
  show "shards_take e d (d\<lparr>clusters := rows\<rparr>)" by (simp add: shards_take_def rows_move_refl)
qed

theorem atomic_one_event: "atomic d d' \<Longrightarrow> \<exists>e. shards_take e d d'"
proof (induction rule: atomic.induct)
  case (report s params now r s')
  then show ?case using movesD[OF ev_report] by blast
next
  case (lease s n tenantID backendName agentID r s')
  then show ?case using movesD[OF ev.moves_transaction[OF ev_lease_loop]] by blast
next
  case (rollback_with_task s cs shardID task r s')
  then show ?case using movesD[OF ev_rollback_with_task] by blast
next
  case (rollback s cs shardID r s')
  then show ?case using movesD[OF ev_rollback] by blast
next
  case (mark s status taskIDs lastError r s')
  then show ?case using movesD[OF ev_others(1)] by blast
next
  case (cancel s tenantID taskID r s')
  then show ?case using movesD[OF ev_cancel] by blast
next
  case (submit s taskID scripts tenantID hookURL r s')
  then show ?case using movesD[OF ev_others(2)] by blast
next
  case (hook s taskID dispatchErr r s')
  then show ?case using movesD[OF ev_others(3)] by blast
next
  case (tenant s tenant r s')
  then show ?case using movesD[OF ev_others(4)] by blast
next
  case (clusters d rows)
  then show ?case using ev_others(5) by blast
qed

text \<open>So every sequence of units moves each shard along the edges of the machine.\<close>

lemma shards_move_refl: "shards_move d d"
  by (simp add: shards_move_def rows_move_refl)

lemma shards_move_trans: "shards_move a b \<Longrightarrow> shards_move b c \<Longrightarrow> shards_move a c"
  unfolding shards_move_def by (rule rows_move_trans[OF _ _ shard_evolves_trans])

lemma atomic_shards_move: "rtranclp atomic d d' \<Longrightarrow> shards_move d d'"
  by (induction rule: rtranclp_induct) (use shards_move_refl shards_move_trans shards_take_move atomic_one_event in blast)+

section \<open>Tasks\<close>

text \<open>Outside \<open>report_body\<close> the guards of the statements are enough for tasks too.\<close>

interpretation tm: db_evolution tasks_move
  by unfold_locales
    (auto simp: tasks_move_def intro: rows_move_refl rows_move_trans[OF _ _ task_evolves_trans])

lemma tm_shards: "moves tasks_move (update_shards p f)"
  by (rule tm.moves_update_shards) (simp add: tasks_move_def rows_move_refl)

lemma tm_tasks:
  assumes "\<And>r now. live r \<Longrightarrow> p r \<Longrightarrow> ID (f r) = ID r \<and> task_evolves r ((f r)\<lparr>UpdatedAt := now\<rparr>)"
  shows "moves tasks_move (update_tasks p f)"
  by (rule tm.moves_update_tasks) (auto simp: tasks_move_def assms intro!: rows_move_upd)

lemma tm_lease_loop: "moves tasks_move (lease_loop n tenantID backendName agentID)"
proof -
  have "moves tasks_move (update_tasks (\<lambda>r. ID r = tid \<and> task_Status r = TaskStatusWaitingForAgents)
          (\<lambda>r. r\<lparr>task_Status := TaskStatusQueued\<rparr>))" for tid
    by (rule tm_tasks) (auto simp: task_evolves_def intro: task_edge.intros)
  then have "moves tasks_move (lease_attempt tenantID backendName agentID)"
    unfolding lease_attempt_def promote_task_def take_shard_def by (intro tm.moves_intros tm_shards)
  then show ?thesis by (induction n; unfold lease_loop.simps; intro tm.moves_intros; assumption?)
qed

lemma tm_rollback: "moves tasks_move (RollbackToQueued sid cs)"
  unfolding RollbackToQueued_def transitionStatus_def by (intro tm.moves_intros tm_shards)

lemma tm_rollback_with_task: "moves tasks_move (RollbackShardWithTask sid cs task)"
proof -
  have "moves tasks_move (update_tasks (\<lambda>r. ID r = tid \<and> task_Status r = TaskStatusQueued)
          (\<lambda>r. r\<lparr>task_Status := TaskStatusWaitingForAgents\<rparr>))" for tid
    by (rule tm_tasks) (auto simp: task_evolves_def intro: task_edge.intros)
  then show ?thesis unfolding RollbackShardWithTask_def RollbackTaskToWaiting_def
    by (intro tm.moves_intros tm_rollback)
qed

lemma tm_mark:
  assumes "status \<in> {TaskStatusFailed, TaskStatusPending, TaskStatusWaitingForAgents}"
  shows "moves tasks_move (MarkTasksStatus ids status e)"
proof -
  have "moves tasks_move (update_tasks (\<lambda>r. ID r \<in> set ids \<and> task_Status r = TaskStatusPending)
                (\<lambda>r. r\<lparr>task_Status := status, task_LastError := e\<rparr>))"
    by (rule tm_tasks) (use assms in \<open>auto simp: task_evolves_def intro: task_edge.intros\<close>)
  then show ?thesis unfolding MarkTasksStatus_def by (intro tm.moves_intros)
qed

lemma tm_cancel: "moves tasks_move (cancel_body tenantID taskID)"
proof -
  have "moves tasks_move (update_tasks (\<lambda>r. task_TenantID r = tenantID \<and> ID r = taskID \<and>
                          task_Status r \<notin> set task_terminal_statuses)
          (\<lambda>r. r\<lparr>task_Status := TaskStatusCancelled, task_FinishedAt := Some now, task_LastError := []\<rparr>))" for now
    by (rule tm_tasks) (auto simp: task_evolves_def intro: task_edge.cancel)
  then show ?thesis
    unfolding cancel_body_def CancelTaskById_def CancelTaskShardsByTaskId_def by (intro tm.moves_intros tm_shards)
qed

lemma tm_others:
  "moves tasks_move (submit_body task scripts)" "moves tasks_move (tenant_orm_Create t)"
  "moves tasks_move (recordCompletionHookResult taskID err)"
proof -
  have ins: "moves tasks_move (insert_stmt tasks set_tasks clash r)"
    "moves tasks_move (insert_stmt task_shards set_task_shards clash' r')"
    "moves tasks_move (insert_stmt tenants set_tenants clash'' n)" for clash r clash' r' clash'' n
    unfolding insert_stmt_def
    by (rule tm.moves_stmt; auto simp: tasks_move_def Let_def intro: rows_move_refl rows_move_append)+
  show "moves tasks_move (submit_body task scripts)" "moves tasks_move (tenant_orm_Create t)"
    unfolding submit_body_def task_orm_Create_def task_shard_orm_Create_def BeforeCreate_def tenant_orm_Create_def
    by (intro tm.moves_intros ins)+
  have "moves tasks_move (update_tasks (\<lambda>r. ID r = taskID \<and> task_HookDeliveredAt r = None)
     (\<lambda>r. r\<lparr>task_HookDeliveredAt := u, task_HookLastError := v\<rparr>))" for u v
    by (rule tm_tasks) (auto simp: task_evolves_def)
  moreover have "moves tasks_move orm_GetDB" by (rule tm.evolvesI) (simp add: orm_GetDB_def tm.R_refl)
  ultimately show "moves tasks_move (recordCompletionHookResult taskID err)"
    by (cases err) (auto simp: recordCompletionHookResult_def bindE_assoc intro!: tm.moves_intros)
qed

text \<open>
  The task updates of a report: with the invariant the task of a leased or running shard is
  dispatched, so marking it running or finished follows an edge.
\<close>

lemma updated_tasks_move:
  assumes "db s' = set_tasks (upd_where p f (tasks d)) d0" "d0 = d \<or> tasks d0 = tasks d"
    and "\<And>t. t \<in> set (tasks d) \<Longrightarrow> p t \<Longrightarrow> ID (f t) = ID t \<and> task_evolves t (f t)"
  shows "tasks_move d (db s')"
  using assms by (auto simp: tasks_move_def intro!: rows_move_upd)

lemma transition_tasks: "transitionStatus sid target cs upd s = (Inr x, s') \<Longrightarrow> tasks (db s') = tasks (db s)"
  by (erule transitionStatus_Inr) simp

lemma report_transition_tasks: "report_transition params s = (Inr x, s') \<Longrightarrow> tasks (db s') = tasks (db s)"
  by (auto simp: report_transition_def MarkRunning_def MarkSucceeded_def MarkFailed_def run_iff
      dest!: transition_tasks split: if_split_asm)

lemma report_transition_source:
  assumes "report_transition params s = (Inr x, s')"
    "rp_ShardStatus params \<in> {ShardStatusRunning, ShardStatusSucceeded, ShardStatusFailed}"
  shows "\<exists>r\<in>set (task_shards (db s)). ID r = rp_ShardID params \<and> shard_Status r \<in> set shard_active_statuses"
  using assms
  by (auto simp: report_transition_def MarkRunning_def MarkSucceeded_def MarkFailed_def run_iff
      shard_active_statuses_def elim!: transitionStatus_Inr split: if_split_asm)

lemma RecomputeTaskStatus_move:
  assumes run: "RecomputeTaskStatus T e s = (Inr x, s')"
    and st: "\<And>t. t \<in> set (tasks (db s)) \<Longrightarrow> ID t = T \<Longrightarrow> task_Status t \<in> set dispatched"
  shows "tasks_move (db s) (db s')"
proof -
  have fin: "tasks_move (db s) (db s')"
    if "finish_task T task status err finishedAt avail s1 = (Inr x, s')" "db s1 = db s"
      "status \<in> {TaskStatusSucceeded, TaskStatusFailed}" for task status err finishedAt avail s1
    using st that(3) unfolding finish_task_db[OF that(1)] that(2) tasks_move_def
    by (auto intro!: rows_move_upd r_into_rtranclp task_edge.finish simp: task_evolves_def)
  show ?thesis
    using RecomputeTaskStatus_Inr[OF run] fin
    by (auto simp: tasks_move_def rows_move_refl split: if_split_asm)
qed

lemma report_body_tasks:
  assumes run: "report_body params now s = (Inr x, s')" and inv: "db_inv {} (db s)"
  shows "tasks_move (db s) (db s')"
proof -
  define s2 where "s2 = tick_world (tick_world s)"
  have d2: "db s2 = db s" by (simp add: s2_def)
  obtain shard task where
      shard: "shard \<in> set (task_shards (db s))" "ID shard = rp_ShardID params"
    and rest: "db s' = db s \<or> (\<exists>y z s3 s4. report_transition params s2 = (Inr y, s3) \<and>
          report_output params s3 = (Inr z, s4) \<and> report_task params shard task now s4 = (Inr x, s'))"
    using report_body_Inr[OF run] unfolding s2_def by (auto split: if_split_asm)
  show ?thesis
  proof (cases "tasks (db s') = tasks (db s)")
    case True
    then show ?thesis by (simp add: tasks_move_def rows_move_refl)
  next
    case False
    then obtain y z s3 s4 where 3: "report_transition params s2 = (Inr y, s3)"
      and 4: "report_output params s3 = (Inr z, s4)" and 5: "report_task params shard task now s4 = (Inr x, s')"
      using rest by auto
    have ts: "tasks (db s4) = tasks (db s)"
      using report_transition_tasks[OF 3] 4 d2 by (auto simp: report_output_def run_iff split: if_split_asm)
    have known: "rp_ShardStatus params \<in> {ShardStatusRunning, ShardStatusSucceeded, ShardStatusFailed}"
      using 5 False ts by (auto simp: report_task_def split: if_split_asm)
    obtain r where "r \<in> set (task_shards (db s))" "ID r = ID shard" "shard_Status r \<in> set shard_active_statuses"
      using report_transition_source[OF 3 known] d2 shard(2) by auto
    then have act: "shard_Status shard \<in> set shard_active_statuses"
      using distinct_map_same[OF db_invD(2)[OF inv] _ shard(1)] by auto
    have st: "task_Status t \<in> set dispatched" if "t \<in> set (tasks (db s))" "ID t = shard_TaskID shard" for t
      using active_shard_task[OF inv shard(1) act that] by (simp add: task_mid_def)
    show ?thesis
    proof (cases "rp_ShardStatus params = ShardStatusRunning")
      case True
      then show ?thesis
        using 5 st ts
        by (auto simp: report_task_def run_iff tasks_move_def task_evolves_def
            intro!: rows_move_upd r_into_rtranclp task_edge.run split: if_split_asm)
    next
      case no: False
      then have "RecomputeTaskStatus (shard_TaskID shard) (go_string (rp_ErrorMessage params)) s4 = (Inr x, s')"
        using 5 known by (auto simp: report_task_def mapErr_Inr_iff)
      then show ?thesis
        using RecomputeTaskStatus_move st ts by (fastforce simp: tasks_move_def)
    qed
  qed
qed

theorem atomic_tasks_move: "atomic d d' \<Longrightarrow> db_inv {} d \<Longrightarrow> tasks_move d d'"
proof (induction rule: atomic.induct)
  case (report s params now r s')
  have "tasks_move (db s) (db s0)" if "report_body params now (tick_world s) = (Inr x, s0)" for x s0
    using report_body_tasks[OF that] report.prems by simp
  moreover have "tasks_move (db s) (db s)" by (rule tm.S_refl)
  ultimately show ?case
    using report.hyps(2) transaction_Inl_db[of "report_body params now" s] transaction_Inr_db[of "report_body params now" s]
    by (cases r) fastforce+
next
  case (lease s n tenantID backendName agentID r s')
  then show ?case using movesD[OF tm.moves_transaction[OF tm_lease_loop]] by blast
next
  case (rollback_with_task s cs shardID task r s')
  then show ?case using movesD[OF tm.moves_transaction[OF tm_rollback_with_task]] by blast
next
  case (rollback s cs shardID r s')
  then show ?case using movesD[OF tm_rollback] by blast
next
  case (mark s status taskIDs lastError r s')
  then show ?case using movesD[OF tm_mark] by blast
next
  case (cancel s tenantID taskID r s')
  then show ?case using movesD[OF tm.moves_transaction[OF tm_cancel]] by blast
next
  case (submit s taskID scripts tenantID hookURL r s')
  then show ?case using movesD[OF tm.moves_transaction[OF tm_others(1)]] by blast
next
  case (hook s taskID dispatchErr r s')
  then show ?case using movesD[OF tm_others(3)] by blast
next
  case (tenant s tenant r s')
  then show ?case using movesD[OF tm_others(2)] by blast
next
  case (clusters d rows)
  then show ?case by (simp add: tasks_move_def rows_move_refl)
qed

lemma atomic_run:
  "rtranclp atomic d d' \<Longrightarrow> db_inv {} d \<Longrightarrow> db_inv {} d' \<and> tasks_move d d'"
proof (induction rule: rtranclp_induct)
  case base
  then show ?case by (simp add: tm.S_refl)
next
  case (step y z)
  then show ?case using atomic_inv[OF step(2)] atomic_tasks_move[OF step(2)] tm.S_trans by blast
qed

end
