(* ===== verification/Config.thy ===== *)
theory Config
  imports Go_Strings World
begin

text \<open>
  \<open>internal/config\<close> and \<open>internal/auth\<close>: configuration from the environment variables and the
  check of a bearer token. \<open>getenv\<close> is the process environment (\<open>os.Getenv\<close>: the empty
  string for an unset variable); \<open>os_parsers\<close> are the standard library's parsers of durations and JSON
  and the printer of the database URL.
\<close>

section \<open>The configuration\<close>

record ServerConfig =
  HTTPAddr :: string
  GRPCAddr :: string
  GRPCPublicAddr :: string
  PublicURL :: string
  LogLevel :: string

record DatabaseConfig =
  db_Host :: string
  db_Port :: string
  db_DBName :: string
  db_Username :: string
  db_Password :: string
  db_URL :: string

record KubernetesBackendConfig =
  kube_Namespace :: string
  kube_ImagePullSecrets :: "string list"
  kube_KubeConfigPath :: string

record ClusterConfig =
  BillingCycleSeconds :: int
  BillingAdvanceSeconds :: int
  IdleThresholdSeconds :: int
  AgentToken :: string
  AgentImage :: string
  AgentLogLevel :: string
  AgentHeartbeatTimeout :: duration
  AgentDisconnectGrace :: duration
  Kubernetes :: KubernetesBackendConfig

record Config =
  cfg_Server :: ServerConfig
  cfg_Database :: DatabaseConfig
  cfg_Cluster :: ClusterConfig

record os_parsers =
  time_ParseDuration :: "string \<Rightarrow> duration option"
  json_names :: "string \<Rightarrow> string list option"
  postgres_URL :: "string \<Rightarrow> string \<Rightarrow> string \<Rightarrow> string \<Rightarrow> string"

type_synonym getenv = "string \<Rightarrow> string"

definition envOr :: "getenv \<Rightarrow> string \<Rightarrow> string \<Rightarrow> string" where
  "envOr getenv key fallback = (if getenv key \<noteq> [] then getenv key else fallback)"

text \<open>\<open>v\<close> is a Go \<open>int\<close>, 64 bits wide, and wraps.\<close>

primrec envOrInt_loop :: "string \<Rightarrow> 64 word \<Rightarrow> 64 word option" where
  "envOrInt_loop [] v = Some v"
| "envOrInt_loop (c # cs) v =
     (if CHR ''0'' \<le> c \<and> c \<le> CHR ''9''
      then envOrInt_loop cs (v * 10 + word_of_nat (of_char c - of_char (CHR ''0'')))
      else None)"

definition envOrInt :: "getenv \<Rightarrow> string \<Rightarrow> int \<Rightarrow> int" where
  "envOrInt getenv key fallback =
     (let s = getenv key in
      if s = [] then fallback
      else case envOrInt_loop s 0 of
        None \<Rightarrow> fallback
      | Some v \<Rightarrow> if v = 0 then fallback else sint v)"

definition envOrDuration :: "os_parsers \<Rightarrow> getenv \<Rightarrow> string \<Rightarrow> duration \<Rightarrow> duration" where
  "envOrDuration p getenv key fallback =
     (if getenv key \<noteq> [] then
        (case time_ParseDuration p (getenv key) of
           Some d \<Rightarrow> if d > 0 then d else fallback
         | None \<Rightarrow> fallback)
      else fallback)"

text \<open>\<open>json_names\<close> is \<open>json.Unmarshal\<close> into a list of structs with the one field \<open>name\<close>.\<close>

definition parseImagePullSecrets :: "os_parsers \<Rightarrow> string \<Rightarrow> string list" where
  "parseImagePullSecrets p raw =
     (if raw = [] then []
      else case json_names p raw of
        None \<Rightarrow> []
      | Some items \<Rightarrow> filter (\<lambda>name. name \<noteq> []) items)"

text \<open>The five checks of the database variables, in the order of the source.\<close>

definition required_vars :: "string list" where
  "required_vars = [''DB_HOST'', ''DB_PORT'', ''DB_USER'', ''DB_PASSWORD'', ''DB_NAME'']"

definition check_required :: "getenv \<Rightarrow> string list \<Rightarrow> error option" where
  "check_required getenv keys =
     (case filter (\<lambda>k. getenv k = []) keys of
        [] \<Rightarrow> None
      | k # _ \<Rightarrow> Some (Errorf (k @ '' is required'') []))"

definition positive_or :: "int \<Rightarrow> int \<Rightarrow> int" where
  "positive_or v fallback = (if v \<le> 0 then fallback else v)"

definition LoadFromEnv :: "os_parsers \<Rightarrow> getenv \<Rightarrow> error + Config" where
  "LoadFromEnv p getenv =
     (case check_required getenv required_vars of
        Some err \<Rightarrow> Inl err
      | None \<Rightarrow>
        (case check_required getenv [''CLUSTER_AGENT_TOKEN''] of
           Some err \<Rightarrow> Inl err
         | None \<Rightarrow> Inr
           \<lparr>cfg_Server =
              \<lparr>HTTPAddr = envOr getenv ''SERVER_HTTP_ADDR'' '':8089'',
               GRPCAddr = envOr getenv ''SERVER_GRPC_ADDR'' '':9090'',
               GRPCPublicAddr = getenv ''SERVER_GRPC_PUBLIC_ADDR'',
               PublicURL = getenv ''SERVER_PUBLIC_URL'',
               LogLevel = envOr getenv ''LOG_LEVEL'' ''info''\<rparr>,
            cfg_Database =
              \<lparr>db_Host = getenv ''DB_HOST'', db_Port = getenv ''DB_PORT'', db_DBName = getenv ''DB_NAME'',
               db_Username = getenv ''DB_USER'', db_Password = getenv ''DB_PASSWORD'',
               db_URL = postgres_URL p (getenv ''DB_USER'') (getenv ''DB_PASSWORD'')
                          (getenv ''DB_HOST'' @ '':'' @ getenv ''DB_PORT'') (getenv ''DB_NAME'')\<rparr>,
            cfg_Cluster =
              \<lparr>BillingCycleSeconds = positive_or (envOrInt getenv ''CLUSTER_BILLING_CYCLE_SECONDS'' 3600) 3600,
               BillingAdvanceSeconds = positive_or (envOrInt getenv ''CLUSTER_BILLING_ADVANCE_SECONDS'' 180) 180,
               IdleThresholdSeconds = envOrInt getenv ''CLUSTER_IDLE_THRESHOLD_SECONDS'' 600,
               AgentToken = getenv ''CLUSTER_AGENT_TOKEN'',
               AgentImage = envOr getenv ''CLUSTER_AGENT_IMAGE'' ''r-orchestrator/agent:latest'',
               AgentLogLevel = envOr getenv ''CLUSTER_AGENT_LOG_LEVEL'' ''info'',
               AgentHeartbeatTimeout = envOrDuration p getenv ''CLUSTER_AGENT_HEARTBEAT_TIMEOUT'' (90 * Second),
               AgentDisconnectGrace = envOrDuration p getenv ''CLUSTER_AGENT_DISCONNECT_GRACE'' (5 * Minute),
               Kubernetes =
                 \<lparr>kube_Namespace = envOr getenv ''CLUSTER_KUBERNETES_NAMESPACE'' ''r-agents'',
                  kube_ImagePullSecrets = parseImagePullSecrets p (getenv ''CLUSTER_KUBERNETES_IMAGE_PULL_SECRETS''),
                  kube_KubeConfigPath = getenv ''CLUSTER_KUBERNETES_KUBECONFIG_PATH''\<rparr>\<rparr>\<rparr>))"

text \<open>The package variables \<open>GlobalConfig\<close> and \<open>globalConfigInitialized\<close>: \<open>None\<close> until initialised.\<close>

definition InitGlobalConfig :: "os_parsers \<Rightarrow> getenv \<Rightarrow> (Config option, unit) go" where
  "InitGlobalConfig p getenv g =
     (if g \<noteq> None then (Inl (Errorf ''global config already initialized'' []), g)
      else case LoadFromEnv p getenv of
        Inl err \<Rightarrow> (Inl err, g)
      | Inr cfg \<Rightarrow> (Inr (), Some cfg))"

section \<open>Environment file and log level\<close>

text \<open>\<open>for range 10\<close>: at most ten steps up while the file does not exist.\<close>

primrec find_env :: "nat \<Rightarrow> (string \<Rightarrow> bool) \<Rightarrow> string \<Rightarrow> string" where
  "find_env 0 exists path = path"
| "find_env (Suc n) exists path = (if exists path then path else find_env n exists (''../'' @ path))"

text \<open>\<open>load\<close> is \<open>godotenv.Load\<close> with its error, if it is not one of a missing file.\<close>

definition LoadEnvVariable ::
  "(string \<Rightarrow> bool) \<Rightarrow> (string \<Rightarrow> error option) \<Rightarrow> getenv \<Rightarrow> error option" where
  "LoadEnvVariable exists load getenv =
     (let path = find_env 10 exists ''.env'' in
      if getenv ''ENV'' = ''prod'' then None else load path)"

datatype zap_level = DebugLevel | InfoLevel | WarnLevel | ErrorLevel

definition parseLogLevel :: "getenv \<Rightarrow> string \<Rightarrow> zap_level" where
  "parseLogLevel getenv s =
     (let l = strings_ToLower (strings_TrimSpace s) in
      if l = ''debug'' then DebugLevel
      else if l = ''info'' then InfoLevel
      else if l = ''warn'' \<or> l = ''warning'' then WarnLevel
      else if l = ''error'' then ErrorLevel
      else if getenv ''ENV'' = ''production'' then InfoLevel
      else DebugLevel)"

text \<open>
  \<open>InitLogger\<close>: \<open>newLogger\<close> stands for \<open>zap.NewProduction\<close> (\<open>True\<close>) and \<open>zap.NewDevelopment\<close> with the given
  minimum level. An error ends the process (\<open>log.Fatalf\<close>).
\<close>

definition InitLogger :: "(bool \<Rightarrow> zap_level \<Rightarrow> error + 'logger) \<Rightarrow> getenv \<Rightarrow> error + 'logger" where
  "InitLogger newLogger getenv =
     (let level = parseLogLevel getenv (getenv ''LOG_LEVEL'') in
      case (if getenv ''ENV'' = ''production'' then newLogger True level else newLogger False level) of
        Inl err \<Rightarrow> Inl (Errorf ''init logger: %v'' [error_Error err])
      | Inr l \<Rightarrow> Inr l)"

section \<open>Bearer tokens\<close>

text \<open>The incoming metadata: \<open>None\<close> when the context has none, else the values of a header.\<close>

primrec bearer_loop :: "string list \<Rightarrow> string option" where
  "bearer_loop [] = None"
| "bearer_loop (value # rest) =
     (case strings_CutPrefix value ''Bearer '' of
        Some token \<Rightarrow> if token \<noteq> [] then Some token else bearer_loop rest
      | None \<Rightarrow> bearer_loop rest)"

primrec header_loop :: "(string \<Rightarrow> string list) \<Rightarrow> string list \<Rightarrow> string option" where
  "header_loop md [] = None"
| "header_loop md (key # rest) =
     (case md key of
        v # _ \<Rightarrow> if v \<noteq> [] then Some v else header_loop md rest
      | [] \<Rightarrow> header_loop md rest)"

definition ValidateToken :: "(string \<Rightarrow> string list) option \<Rightarrow> string \<Rightarrow> error option" where
  "ValidateToken ctx want =
     (let check = (\<lambda>token. if token \<noteq> want then Some (Errorf ''agent token mismatch'' []) else None);
          missing = Some (Errorf ''authorization metadata is required'' []) in
      case ctx of
        None \<Rightarrow> missing
      | Some md \<Rightarrow>
          (case bearer_loop (md ''authorization'') of
             Some token \<Rightarrow> check token
           | None \<Rightarrow>
               (case header_loop md [''x-agent-token'', ''agent-token''] of
                  Some token \<Rightarrow> check token
                | None \<Rightarrow> missing)))"

end
