(* ===== verification/Server_Main.thy ===== *)
theory Server_Main
  imports Graph_Api K8s_Provider Poller Config
begin

text \<open>
  \<open>cmd/server\<close> and the connection part of \<open>internal/orm\<close>: how the components are put together. What
  the process asks of its surroundings at start (files, the database driver, the cluster
  credentials, the listening socket) is the record \<open>boot\<close>. After \<open>startup\<close> the five goroutines of \<open>main\<close>
  run; their steps are those of \<open>server_step\<close>.
\<close>

record ('cfg, 'client) boot =
  boot_exists :: "string \<Rightarrow> bool"
  boot_loadEnv :: "string \<Rightarrow> error option"
  boot_getenv :: getenv
  boot_newLogger :: "bool \<Rightarrow> zap_level \<Rightarrow> error + unit"
  boot_parsers :: os_parsers
  boot_open :: "string \<Rightarrow> error option"
  boot_migrate :: "error option"
  boot_kube :: "'cfg kube_sources"
  boot_newForConfig :: "'cfg \<Rightarrow> error + 'client"
  boot_listen :: "string \<Rightarrow> error option"

definition orm_Open :: "('cfg, 'client) boot \<Rightarrow> string \<Rightarrow> unit w" where
  "orm_Open b databaseURL = (case boot_open b databaseURL of
       Some err \<Rightarrow> raise (Wrapf ''open gorm postgres connection: %w'' [] err)
     | None \<Rightarrow> modifyE (\<lambda>s. s\<lparr>db_open := True\<rparr>))"

text \<open>\<open>SetTestDB\<close> puts a database in place of the opened one, or none.\<close>

definition SetTestDB :: "bool \<Rightarrow> unit w" where
  "SetTestDB given = modifyE (\<lambda>s. s\<lparr>db_open := given\<rparr>)"

definition AutoMigrate :: "('cfg, 'client) boot \<Rightarrow> unit w" where
  "AutoMigrate b = (case boot_migrate b of
       Some err \<Rightarrow> raise (Wrapf ''auto migrate gorm models: %w'' [] err)
     | None \<Rightarrow> ret ())"

text \<open>The control server, and the package variable \<open>onTimeout\<close> it sets.\<close>

definition NewGRPCServer :: "bool \<Rightarrow> string \<Rightarrow> timeout_callback \<Rightarrow> Server \<times> timeout_callback" where
  "NewGRPCServer dbOpen agent_token onTimeout =
     (let controlServer = NewServer dbOpen agent_token in
      (controlServer, SetTimeoutCallback (Some HandleAgentTimeout) onTimeout))"

definition k8_config :: "Config \<Rightarrow> k8_Config" where
  "k8_config cfg =
     \<lparr>k8_Namespace = kube_Namespace (Kubernetes (cfg_Cluster cfg)),
      k8_AgentImage = AgentImage (cfg_Cluster cfg),
      k8_ImagePullSecrets = kube_ImagePullSecrets (Kubernetes (cfg_Cluster cfg)),
      k8_ServerGRPCAddr = GRPCPublicAddr (cfg_Server cfg),
      k8_AgentToken = AgentToken (cfg_Cluster cfg),
      k8_ServerPublicURL = PublicURL (cfg_Server cfg),
      k8_KubeConfigPath = kube_KubeConfigPath (Kubernetes (cfg_Cluster cfg)),
      k8_AgentLogLevel = AgentLogLevel (cfg_Cluster cfg)\<rparr>"

definition main_registry :: "Config \<Rightarrow> Registry" where
  "main_registry cfg = registry_Register BackendKindKubernetes (K8sProvider (k8_config cfg)) NewRegistry"

text \<open>
  The routes of the HTTP server, in the order \<open>main\<close> registers them: \<open>GET\<close> is for one method, \<open>Any\<close> for every method.
  A handler writes a fixed JSON object with its status code, or is the GraphQL handler that \<open>gin.WrapH\<close> wraps;
  finding the route of a request is \<open>gin\<close>'s.
\<close>

datatype http_handler = WriteJSON int "(string \<times> string) list" | WrapH_graphql_handler

datatype http_route = GET string http_handler | Any string http_handler

record http_server =
  http_Addr :: string
  http_Handler :: "http_route list"

definition main_routes :: "http_route list" where
  "main_routes = [GET ''/healthz'' (WriteJSON 200 [(''status'', ''ok'')]), Any ''/graphql'' WrapH_graphql_handler]"

definition main_http_server :: "Config \<Rightarrow> http_server" where
  "main_http_server cfg = \<lparr>http_Addr = HTTPAddr (cfg_Server cfg), http_Handler = main_routes\<rparr>"

text \<open>What \<open>main\<close> has put together when it starts the goroutines: the two callback variables included.\<close>

record wiring =
  wired_cfg :: Config
  wired_server :: Server
  wired_registry :: Registry
  wired_onTimeout :: timeout_callback
  wired_notifyCancelShard :: notify_callback
  wired_http_server :: http_server

text \<open>\<open>main\<close> up to the start of the goroutines; every early return of the source is an error here.\<close>

definition startup :: "('cfg, 'client) boot \<Rightarrow> wiring w" where
  "startup b =
     (case InitLogger (boot_newLogger b) (boot_getenv b) of
        Inl err \<Rightarrow> raise err
      | Inr _ \<Rightarrow>
     (case LoadEnvVariable (boot_exists b) (boot_loadEnv b) (boot_getenv b) of
        Some err \<Rightarrow> raise err
      | None \<Rightarrow>
      (case InitGlobalConfig (boot_parsers b) (boot_getenv b) None of
        (Inl err, _) \<Rightarrow> raise err
      | (Inr _, None) \<Rightarrow> raise (Errorf ''global config is not set'' [])
      | (Inr _, Some cfg) \<Rightarrow>
          bindE (orm_Open b (db_URL (cfg_Database cfg))) (\<lambda>_.
          bindE (AutoMigrate b) (\<lambda>_.
          bindE (SetTimeouts (AgentHeartbeatTimeout (cfg_Cluster cfg)) (AgentDisconnectGrace (cfg_Cluster cfg))) (\<lambda>_.
          case NewK8sProvider (boot_kube b) (boot_newForConfig b) (k8_config cfg) of
            Inl err \<Rightarrow> raise err
          | Inr _ \<Rightarrow>
              (let (server, onTimeout) = NewGRPCServer True (AgentToken (cfg_Cluster cfg)) None;
                   notify = SetNotifyCancelShard (Some NotifyCancelShard) None in
               case boot_listen b (GRPCAddr (cfg_Server cfg)) of
                 Some err \<Rightarrow> raise err
               | None \<Rightarrow>
                   bindE (logged (CleanupOrphanShards (10 * Minute))) (\<lambda>_.
                   ret \<lparr>wired_cfg = cfg, wired_server = server, wired_registry = main_registry cfg,
                        wired_onTimeout = onTimeout, wired_notifyCancelShard = notify,
                        wired_http_server = main_http_server cfg\<rparr>))))))))"

text \<open>The wiring the transition system of the server assumes is the one \<open>startup\<close> makes.\<close>

lemma startup_wiring:
  assumes "startup b s = (Inr wired, s')"
  shows "wired_registry wired = main_registry (wired_cfg wired) \<and> wired_onTimeout wired = Some HandleAgentTimeout \<and>
    wired_notifyCancelShard wired = Some NotifyCancelShard \<and> srv_db (wired_server wired) \<and>
    srv_expectedToken (wired_server wired) = AgentToken (cfg_Cluster (wired_cfg wired)) \<and>
    wired_http_server wired = main_http_server (wired_cfg wired)"
  using assms
  by (auto simp: startup_def NewGRPCServer_def NewServer_def SetTimeoutCallback_def SetNotifyCancelShard_def Let_def run_iff
      split: sum.split_asm option.split_asm prod.split_asm)

end
