(* ===== verification/System.thy ===== *)
theory System
  imports Row_Lifecycle Server_Main
begin

text \<open>
  The running server as a transition system. A state is the world; a step is one entry point of
  the program run to its end: a GraphQL request, the opening of a control stream, one message
  on it, its end, a timer that fires, a timer callback, the delivery of a hook, and a tick of each of the
  three background loops, wired together as \<open>cmd/server\<close> does. The session of a
  stream step is arbitrary, so is the order of the steps.

  The code of a timer releases its mutex before it calls \<open>HandleAgentTimeout\<close>, and a heartbeat may be handled in between.
  So the two halves are steps of their own too: \<open>callback_checks\<close> is what is done under the mutex, without
  the call, and \<open>callback_call\<close> is the call, for any agent at any time.
\<close>

inductive server_step :: "Config \<Rightarrow> Server \<Rightarrow> world \<Rightarrow> world \<Rightarrow> bool" for cfg server where
  create_tenant: "server_step cfg server s (snd (resolver_CreateTenant copyT inputT s))"
| submit_task: "server_step cfg server s (snd (resolver_SubmitTask inputS s))"
| cancel_task: "server_step cfg server s (snd (resolver_CancelTask (Some NotifyCancelShard) tenantName taskID s))"
| get_task: "server_step cfg server s (snd (resolver_GetTaskByID copyObj tenantName taskID s))"
| list_tasks: "server_step cfg server s (snd (resolver_GetTaskList copyObj tenantName status s))"
| register: "server_step cfg server s (snd (register_first server message s))"
| start: "server_step cfg server s (snd (start_session server sess s))"
| message: "server_step cfg server s (snd (handle_message server sess message s))"
| finish: "server_step cfg server s (snd (end_session agentID s))"
| fire: "server_step cfg server s (runtime_fire ref s)"
| callback: "c \<in> set (fired s) \<Longrightarrow> server_step cfg server s (snd (run_callback (Some HandleAgentTimeout) c s))"
| callback_checks: "c \<in> set (fired s) \<Longrightarrow> server_step cfg server s (snd (run_callback None c s))"
| callback_call: "server_step cfg server s (snd (HandleAgentTimeout agentID reason s))"
| hook: "payload \<in> set (hooks_pending s) \<Longrightarrow>
    server_step cfg server s (snd (run_completion_hook payload (s\<lparr>hooks_pending := remove1 payload (hooks_pending s)\<rparr>)))"
| poll: "server_step cfg server s (snd (poll_tick (BillingCycleSeconds (cfg_Cluster cfg)) (main_registry cfg) s))"
| recycle: "server_step cfg server s (snd (recycle_tick (BillingAdvanceSeconds (cfg_Cluster cfg))
    (IdleThresholdSeconds (cfg_Cluster cfg)) (main_registry cfg) s))"
| cleanup: "server_step cfg server s (snd (CleanupOrphanShards (10 * Minute) s))"
| time: "server_step cfg server s (tick_world s)"

inductive_cases server_stepE: "server_step cfg server s s'"

text \<open>Reachable from a start with an empty database.\<close>

definition empty_db :: database where
  "empty_db = \<lparr>tenants = [], tasks = [], task_shards = [], clusters = []\<rparr>"

inductive reachable :: "Config \<Rightarrow> Server \<Rightarrow> world \<Rightarrow> bool" for cfg server where
  init: "db s = empty_db \<Longrightarrow> uuid_ok (env s) \<Longrightarrow> reachable cfg server s"
| step: "reachable cfg server s \<Longrightarrow> server_step cfg server s s' \<Longrightarrow> reachable cfg server s'"

section \<open>Every step moves the database along the interface relation\<close>

lemma moves_stepD:
  "moves S m \<Longrightarrow> uuid_ok (env s) \<Longrightarrow> uuid_ok (env (snd (m s))) \<and> S (db s) (db (snd (m s)))"
  using movesD[of S m s "fst (m s)" "snd (m s)"] by simp

context task_store
begin

lemma registry_moves_main: "registry_moves (main_registry cfg)"
  by (simp add: registry_moves_def main_registry_def registry_Register_def NewRegistry_def moves_K8sProvider)

lemma server_step_moves:
  assumes "server_step cfg server s s'" "uuid_ok (env s)"
  shows "uuid_ok (env s') \<and> S (db s) (db s')"
  using assms
proof (cases rule: server_step.cases)
  case (fire ref)
  then show ?thesis using assms(2)
    by (auto simp: runtime_fire_def S_refl split: option.splits)
next
  case (hook payload)
  then show ?thesis
    using moves_stepD[OF moves_run_completion_hook, of "s\<lparr>hooks_pending := remove1 payload (hooks_pending s)\<rparr>" payload] assms(2)
    by simp
qed (use moves_stepD[OF _ assms(2)] assms(2) in \<open>auto intro!: moves_resolvers moves_register_first
      moves_start_session moves_handle_message moves_end_session moves_run_callback moves_HandleAgentTimeout moves_poll_tick
      moves_recycle_tick moves_CleanupOrphanShards registry_moves_main S_refl\<close>)

end

lemma empty_db_inv: "db_inv {} empty_db"
  by (simp add: empty_db_def db_inv_def)

lemma reachable_inv: "reachable cfg server s \<Longrightarrow> db_inv {} (db s) \<and> uuid_ok (env s)"
proof (induction rule: reachable.induct)
  case (init s)
  then show ?case by (simp add: empty_db_inv)
next
  case (step s s')
  then show ?case using store.server_step_moves[OF step(2)] atomic_run by blast
qed

end
