(* ===== verification/Demo.thy ===== *)
theory Demo
  imports System
begin

text \<open>
  A concrete environment and concrete states, for evaluating the model: a database that never fails,
  a clock that advances one second per call, identifiers drawn from the call counter, hexadecimal
  texts of identifiers, an object store and streams that always answer.
\<close>

section \<open>Identifiers as text\<close>

definition hex_digit :: "nat \<Rightarrow> char" where
  "hex_digit n = (if n < 10 then char_of (48 + n) else char_of (87 + n))"

primrec hex_text :: "nat \<Rightarrow> nat \<Rightarrow> string" where
  "hex_text 0 n = []"
| "hex_text (Suc k) n = hex_text k (n div 16) @ [hex_digit (n mod 16)]"

definition demo_uuid_String :: "uuid \<Rightarrow> string" where
  "demo_uuid_String u =
     (let h = hex_text 32 (unat u) in
      take 8 h @ ''-'' @ take 4 (drop 8 h) @ ''-'' @ take 4 (drop 12 h) @ ''-'' @ take 4 (drop 16 h) @ ''-'' @ drop 20 h)"

definition hex_value :: "char \<Rightarrow> nat option" where
  "hex_value c = (let n = of_char c in
     if 48 \<le> n \<and> n \<le> 57 then Some (n - 48) else if 97 \<le> n \<and> n \<le> 102 then Some (n - 87) else None)"

primrec hex_parse :: "string \<Rightarrow> nat \<Rightarrow> nat option" where
  "hex_parse [] n = Some n"
| "hex_parse (c # cs) n = (case hex_value c of None \<Rightarrow> None | Some v \<Rightarrow> hex_parse cs (16 * n + v))"

definition demo_uuid_Parse :: "string \<Rightarrow> string + uuid" where
  "demo_uuid_Parse t =
     (if length t \<noteq> 36 then Inl ''invalid UUID length''
      else case hex_parse (filter (\<lambda>c. c \<noteq> CHR ''-'') t) 0 of
        None \<Rightarrow> Inl ''invalid UUID format'' | Some n \<Rightarrow> Inr (word_of_nat n))"

section \<open>The environment\<close>

definition demo_url :: URL where
  "demo_url = \<lparr>url_Scheme = ''https'', url_Host = ''example.org'', url_Path = ''/hook'', url_Rest = []\<rparr>"

definition demo_env :: env where
  "demo_env = \<lparr>
     now_at = (\<lambda>n. int n * Second), db_fault = (\<lambda>n. None),
     uuid_NewV7 = (\<lambda>n. let u = word_of_nat n in Inr (if u = 0 then 1 else u)),
     uuid_Parse = demo_uuid_Parse, uuid_String = demo_uuid_String, collate = id,
     url_Parse = (\<lambda>t. Inr demo_url), url_String = (\<lambda>u. url_Scheme u @ ''://'' @ url_Host u @ url_Path u),
     zip_NewReader = (\<lambda>b. Inr [(''install.sh'', False), (''cmd/'', True), (''cmd/b.sh'', False), (''cmd/a.sh'', False)]),
     oss_New = (\<lambda>n. None), oss_UploadBytes = (\<lambda>n. None), oss_GetObjectURL = (\<lambda>n k. Inr k),
     oss_SignPutURL = (\<lambda>n k e. Inr k), stream_Send = (\<lambda>n. None), json_Marshal = (\<lambda>p. Inr ''body''),
     http_NewRequest = (\<lambda>u. None), http_Do = (\<lambda>n. Inr (200, ''200 OK'')), map_order = (\<lambda>n ks. ks),
     k8s_answers = (\<lambda>n. K8s_Ok), ctx_Err = (\<lambda>n. None)\<rparr>"

definition demo_world :: world where
  "demo_world = \<lparr>env = demo_env, tick = 100, db_open = True, db = empty_db, agents = [], timers = [], rt_timers = [],
     fired = [], heartbeatTimeout = 90 * Second, gracePeriod = 5 * Minute, streams = [], sent = [],
     hooks_pending = [], hook_posts = [], uploads = [], k8s_log = []\<rparr>"

definition demo_tenant :: Tenant where
  "demo_tenant = \<lparr>ID = 7, CreatedAt = 0, UpdatedAt = 0, DeletedAt = None, tenant_Name = ''acme'',
     tenant_PrimaryBackendName = ''kubernetes'', tenant_MaxAgents = 2\<rparr>"

definition demo_task :: Task where
  "demo_task = (new_task 20 7 ''https://example.org/hook'' 2)\<lparr>task_Status := TaskStatusWaitingForAgents\<rparr>"

definition demo_shard :: "uuid \<Rightarrow> string \<Rightarrow> TaskShard" where
  "demo_shard u name = (new_shard 20 name)\<lparr>ID := u\<rparr>"

definition demo_db :: database where
  "demo_db = \<lparr>tenants = [demo_tenant], tasks = [demo_task],
     task_shards = [demo_shard 31 ''b.sh'', demo_shard 30 ''a.sh''], clusters = []\<rparr>"

definition demo_ready :: world where
  "demo_ready = demo_world\<lparr>db := demo_db\<rparr>"

lemma demo_uuid_ok [simp]: "uuid_ok demo_env"
  by (simp add: uuid_ok_def demo_env_def Let_def)

text \<open>A run of the server: a tenant, a task, a poll, an agent that connects and is given a shard.\<close>

definition demo_server :: Server where
  "demo_server = NewServer True ''secret''"

definition demo_parsers :: os_parsers where
  "demo_parsers = \<lparr>time_ParseDuration = (\<lambda>t. None), json_names = (\<lambda>t. None),
     postgres_URL = (\<lambda>u p h n. ''postgres://'' @ u @ '':'' @ p @ ''@'' @ h @ ''/'' @ n)\<rparr>"

definition demo_getenv :: getenv where
  "demo_getenv k = (if k = ''DB_HOST'' then ''localhost'' else if k = ''DB_PORT'' then ''5432''
     else if k = ''DB_USER'' then ''u'' else if k = ''DB_PASSWORD'' then ''p'' else if k = ''DB_NAME'' then ''n''
     else if k = ''CLUSTER_AGENT_TOKEN'' then ''secret'' else if k = ''CLUSTER_BILLING_CYCLE_SECONDS'' then ''7200'' else [])"

definition demo_config :: Config where
  "demo_config = (case LoadFromEnv demo_parsers demo_getenv of Inr cfg \<Rightarrow> cfg | Inl e \<Rightarrow> undefined)"

definition demo_register :: AgentMessage where
  "demo_register = AM_Register \<lparr>reg_AgentId = ''agent-1'', reg_TenantId = demo_uuid_String 100,
     reg_BackendName = ''kubernetes'', reg_Token = ''secret'', reg_Version = []\<rparr>"

definition demo_session :: agentSession where
  "demo_session = \<lparr>sess_stream = 0, sess_agentID = ''agent-1'', sess_tenantID = 100, sess_backend = ''kubernetes''\<rparr>"

definition demo_idle :: AgentMessage where
  "demo_idle = AM_Heartbeat \<lparr>hb_AgentId = ''agent-1'', hb_Status = ''IDLE'', hb_CurrentShardId = []\<rparr>"

definition run1 :: world where
  "run1 = snd (resolver_CreateTenant (\<lambda>t. Inl (External [])) \<lparr>in_Name = ''acme'',
     in_PrimaryBackendName = ''kubernetes'', in_MaxAgents = 2\<rparr> demo_world)"

definition run2 :: world where
  "run2 = snd (resolver_SubmitTask \<lparr>in_TenantName = ''acme'', in_BundleZip = Inr ''zip'',
     in_CompletionHookURL = Some ''https://example.org/hook''\<rparr> run1)"

definition run3 :: world where
  "run3 = snd (poll_tick (BillingCycleSeconds (cfg_Cluster demo_config)) (main_registry demo_config) run2)"

definition run4 :: world where
  "run4 = snd (register_first demo_server demo_register run3)"

definition run5 :: world where
  "run5 = snd (handle_message demo_server demo_session demo_idle run4)"

lemma run5_shards:
  "map (\<lambda>r. (shard_ScriptName r, shard_Status r, shard_AssignedAgentID r)) (task_shards (db run5)) =
     [(''a.sh'', ShardStatusLeased, Some ''agent-1''), (''b.sh'', ShardStatusQueued, Some [])]"
  by code_simp

lemma demo_env_of [simp]: "env demo_world = demo_env" "env demo_ready = demo_env"
  by (simp_all add: demo_world_def demo_ready_def)

lemma run4_reachable: "reachable demo_config demo_server run4"
proof -
  have "reachable demo_config demo_server demo_world"
    by (rule reachable.init) (simp_all add: demo_world_def)
  then have "reachable demo_config demo_server run1"
    unfolding run1_def by (rule reachable.step) (rule server_step.create_tenant)
  then have "reachable demo_config demo_server run2"
    unfolding run2_def by (rule reachable.step) (rule server_step.submit_task)
  then have "reachable demo_config demo_server run3"
    unfolding run3_def by (rule reachable.step) (rule server_step.poll)
  then show ?thesis
    unfolding run4_def by (rule reachable.step) (rule server_step.register)
qed

text \<open>The step that leases the first shard.\<close>

lemma run5_step: "server_step demo_config demo_server run4 run5"
  unfolding run5_def by (rule server_step.message)

lemma run5_reachable: "reachable demo_config demo_server run5"
  by (rule reachable.step[OF run4_reachable run5_step])

lemma run4_uuid_ok: "uuid_ok (env run4)"
  using reachable_inv[OF run4_reachable] by simp

lemma run4_shards: "map shard_Status (task_shards (db run4)) = [ShardStatusQueued, ShardStatusQueued]"
  by code_simp

lemma run5_statuses: "map shard_Status (task_shards (db run5)) = [ShardStatusLeased, ShardStatusQueued]"
  using arg_cong[OF run5_shards, of "map (\<lambda>(_, st, _). st)"] by (simp add: comp_def)

lemma demo_db_inv: "db_inv {} demo_db"
  by code_simp

end
