(* ===== verification/Props_Lifecycle.thy ===== *)
theory Props_Lifecycle
  imports Demo
begin

text \<open>
  The lifecycle of tasks and shards under every interleaving of the server's operations: the
  consistency of the tables, and the refinement of the two status machines.
\<close>

text \<open>
  C1: in every state the running server can reach, whatever requests, messages, timers and failures
  occurred, the task tables are consistent: identifiers are unique, every shard has its
  task, and every task status agrees with the statuses of the task's shards.
\<close>

theorem reachable_consistent:
  assumes "reachable cfg server s"
  shows "db_inv {} (db s)"
  using reachable_inv[OF assms] by simp

theorem reachable_consistent_witness:
  "reachable demo_config demo_server run5 \<and> db_inv {} (db run5)"
  using reachable_consistent[OF run5_reachable] run5_reachable by simp

text \<open>
  C2: a shard that is leased or running is assigned to an agent and belongs to a task that is waiting for
  agents, queued or running; never to a finished, cancelled or pending task.
\<close>

theorem active_shard_has_live_task:
  assumes "reachable cfg server s" and "r \<in> set (task_shards (db s))"
    and "shard_Status r \<in> {ShardStatusLeased, ShardStatusRunning}"
  shows "shard_AssignedAgentID r \<noteq> None \<and>
    (\<exists>t\<in>set (tasks (db s)). ID t = shard_TaskID r \<and>
       task_Status t \<in> {TaskStatusWaitingForAgents, TaskStatusQueued, TaskStatusRunning})"
proof -
  have inv: "db_inv {} (db s)" using reachable_inv[OF assms(1)] by simp
  have act: "shard_Status r \<in> set shard_active_statuses" using assms(3) by (auto simp: shard_active_statuses_def)
  obtain t where t: "t \<in> set (tasks (db s))" "ID t = shard_TaskID r" using db_invD(4)[OF inv assms(2)] by auto
  have "task_Status t \<in> set dispatched"
    using active_shard_task[OF inv assms(2) act t] by (simp add: task_mid_def)
  then show ?thesis
    using t db_invD(3)[OF inv assms(2)] act by (auto simp: shard_row_ok_def dispatched_def)
qed

theorem active_shard_has_live_task_witness:
  "\<exists>r\<in>set (task_shards (db run5)). shard_Status r = ShardStatusLeased \<and> shard_AssignedAgentID r \<noteq> None \<and>
    (\<exists>t\<in>set (tasks (db run5)). ID t = shard_TaskID r \<and>
       task_Status t \<in> {TaskStatusWaitingForAgents, TaskStatusQueued, TaskStatusRunning})"
proof -
  obtain r where r: "r \<in> set (task_shards (db run5))" "shard_Status r = ShardStatusLeased"
    using run5_shards by (cases "task_shards (db run5)") auto
  show ?thesis using active_shard_has_live_task[OF run5_reachable r(1)] r by blast
qed

text \<open>
  C3: every entry point of the server changes the database only by a sequence of its atomic units
  (transactions and single guarded statements), on every path, errors included.
\<close>

theorem server_step_refines_atomic:
  assumes "server_step cfg server s s'" and "uuid_ok (env s)"
  shows "rtranclp atomic (db s) (db s')"
  using store.server_step_moves[OF assms] by simp

theorem server_step_refines_atomic_witness:
  "rtranclp atomic (db run4) (db run5) \<and> map shard_Status (task_shards (db run4)) = [ShardStatusQueued, ShardStatusQueued] \<and>
     map shard_Status (task_shards (db run5)) = [ShardStatusLeased, ShardStatusQueued]"
  using server_step_refines_atomic[OF run5_step run4_uuid_ok] run4_shards run5_statuses by simp

text \<open>
  C4: so does a whole control stream, from its registration to its end, for any sequence of messages
  the agent sends; and any interleaving of such units keeps the tables consistent. Concurrent
  goroutines cannot break the consistency between them.
\<close>

theorem interleaved_streams_consistent:
  assumes "db_inv {} (db s)" and "uuid_ok (env s)"
    and "OpenControlStream server inbox s = (r, s')"
    and "rtranclp atomic (db s') d"
  shows "rtranclp atomic (db s) (db s') \<and> db_inv {} (db s') \<and> db_inv {} d"
  using movesD[OF store.moves_OpenControlStream assms(3,2)] atomic_run assms(1,4) by blast

theorem interleaved_streams_consistent_witness:
  "\<exists>r s'. OpenControlStream demo_server [Received demo_register, Received demo_idle] demo_ready = (r, s') \<and>
     db_inv {} (db s')"
proof -
  obtain r s' where run: "OpenControlStream demo_server [Received demo_register, Received demo_idle] demo_ready = (r, s')"
    by fastforce
  have "db_inv {} (db demo_ready)" by (simp add: demo_ready_def demo_db_inv)
  then have "db_inv {} (db s')"
    using interleaved_streams_consistent[OF _ _ run rtranclp.rtrancl_refl] by simp
  then show ?thesis using run by blast
qed

text \<open>The shards of a table after any step: none is deleted, and each has followed its machine.\<close>

lemma step_shards_move: "server_step cfg server s s' \<Longrightarrow> uuid_ok (env s) \<Longrightarrow> shards_move (db s) (db s')"
  using store.server_step_moves atomic_shards_move by blast

text \<open>
  C5: the shard table refines the shard status machine, one edge at a time. Every step of the server is a
  sequence of atomic units, and each unit is one event (a lease, a start, a success, a failure, a return to the queue,
  a cancellation): no unit deletes a shard or changes its task, script or creation time, and a shard that
  has not failed keeps its status or moves along one edge of the event, \<open>QUEUED - LEASED - RUNNING -
  SUCCEEDED/FAILED\<close>, back to \<open>QUEUED\<close> from \<open>LEASED\<close> or \<open>RUNNING\<close>, or to \<open>CANCELLED\<close> from an
  unfinished status. No unit skips a status. This holds in every state, consistent or not.
\<close>

theorem shard_follows_machine:
  assumes "server_step cfg server s s'" and "uuid_ok (env s)"
  shows "rtranclp (\<lambda>d d'. atomic d d' \<and>
      (\<exists>e. \<forall>r\<in>set (task_shards d). \<exists>r'\<in>set (task_shards d'). ID r' = ID r \<and> shard_TaskID r' = shard_TaskID r \<and>
         shard_ScriptName r' = shard_ScriptName r \<and> CreatedAt r' = CreatedAt r \<and>
         (shard_Status r \<noteq> ShardStatusFailed \<longrightarrow>
            shard_Status r' = shard_Status r \<or> event_edge e (shard_Status r) (shard_Status r')))) (db s) (db s')"
proof (rule mono_rtranclp[rule_format, of atomic])
  show "rtranclp atomic (db s) (db s')" using store.server_step_moves[OF assms] by simp
  fix d d' assume unit: "atomic d d'"
  then obtain e where "shards_take e d d'" using atomic_one_event by blast
  then show "atomic d d' \<and>
      (\<exists>e. \<forall>r\<in>set (task_shards d). \<exists>r'\<in>set (task_shards d'). ID r' = ID r \<and> shard_TaskID r' = shard_TaskID r \<and>
         shard_ScriptName r' = shard_ScriptName r \<and> CreatedAt r' = CreatedAt r \<and>
         (shard_Status r \<noteq> ShardStatusFailed \<longrightarrow>
            shard_Status r' = shard_Status r \<or> event_edge e (shard_Status r) (shard_Status r')))"
    unfolding shards_take_def rows_move_def shard_takes_def same_shard_def using unit by blast
qed

theorem shard_follows_machine_witness:
  "rtranclp (\<lambda>d d'. atomic d d' \<and>
      (\<exists>e. \<forall>r\<in>set (task_shards d). \<exists>r'\<in>set (task_shards d'). ID r' = ID r \<and> shard_TaskID r' = shard_TaskID r \<and>
         shard_ScriptName r' = shard_ScriptName r \<and> CreatedAt r' = CreatedAt r \<and>
         (shard_Status r \<noteq> ShardStatusFailed \<longrightarrow>
            shard_Status r' = shard_Status r \<or> event_edge e (shard_Status r) (shard_Status r'))))
     (db run4) (db run5) \<and>
   map shard_Status (task_shards (db run4)) = [ShardStatusQueued, ShardStatusQueued] \<and>
   map shard_Status (task_shards (db run5)) = [ShardStatusLeased, ShardStatusQueued]"
  using shard_follows_machine[OF run5_step run4_uuid_ok] run4_shards run5_statuses by blast

text \<open>
  C6: the task table refines the task status machine. From a consistent state no step deletes a task or
  changes its tenant, hook, shard count or creation time, and its status only moves along the
  edges of \<open>task_edge\<close>. In particular the unguarded update that marks a task running never reopens a
  finished task.
\<close>

theorem task_follows_machine:
  assumes "server_step cfg server s s'" and "uuid_ok (env s)" and "db_inv {} (db s)"
    and "t \<in> set (tasks (db s))"
  shows "\<exists>t'\<in>set (tasks (db s')). ID t' = ID t \<and> task_TenantID t' = task_TenantID t \<and>
    task_CompletionHookURL t' = task_CompletionHookURL t \<and> task_ShardCount t' = task_ShardCount t \<and>
    rtranclp task_edge (task_Status t) (task_Status t')"
  using atomic_run store.server_step_moves[OF assms(1,2)] assms(3,4)
  by (fastforce simp: tasks_move_def rows_move_def task_evolves_def)

theorem task_follows_machine_witness:
  "\<exists>t'\<in>set (tasks (db (snd (handle_message demo_server demo_session demo_idle demo_ready)))).
     ID t' = 20 \<and> task_TenantID t' = 7 \<and> rtranclp task_edge TaskStatusWaitingForAgents (task_Status t')"
  using task_follows_machine[OF server_step.message[of demo_config demo_server demo_ready demo_session demo_idle],
      of demo_task]
  by (auto simp: demo_ready_def demo_db_inv) (auto simp: demo_db_def demo_task_def new_task_def)

text \<open>A shard that succeeded, failed or was cancelled keeps its status. The README calls a failed shard assignable again.\<close>

lemma finished_shard_is_final:
  assumes "server_step cfg server s s'" "uuid_ok (env s)" "r \<in> set (task_shards (db s))"
    and "shard_Status r \<in> set shard_terminal_statuses"
  shows "\<exists>r'\<in>set (task_shards (db s')). ID r' = ID r \<and> shard_Status r' = shard_Status r"
proof -
  obtain r' where r': "r' \<in> set (task_shards (db s'))" "ID r' = ID r" "rtranclp shard_edge (shard_Status r) (shard_Status r')"
    using step_shards_move[OF assms(1,2)] assms(3) unfolding shards_move_def rows_move_def shard_evolves_def by blast
  then have "shard_Status r' = shard_Status r"
    using rtranclp_stuck[OF r'(3)] shard_terminal_no_edge[OF assms(4)] by blast
  then show ?thesis using r' by blast
qed

text \<open>
  C7: a result is final. A task that has succeeded, failed or been cancelled has the same status after every further
  step, and so has every shard that has succeeded or been cancelled.
\<close>

theorem terminal_is_final:
  assumes "server_step cfg server s s'" and "uuid_ok (env s)" and "db_inv {} (db s)"
  shows "(\<forall>t\<in>set (tasks (db s)). task_Status t \<in> {TaskStatusSucceeded, TaskStatusFailed, TaskStatusCancelled} \<longrightarrow>
      (\<exists>t'\<in>set (tasks (db s')). ID t' = ID t \<and> task_Status t' = task_Status t)) \<and>
    (\<forall>r\<in>set (task_shards (db s)). shard_Status r \<in> {ShardStatusSucceeded, ShardStatusCancelled} \<longrightarrow>
      (\<exists>r'\<in>set (task_shards (db s')). ID r' = ID r \<and> shard_Status r' = shard_Status r))"
proof (intro conjI ballI impI)
  fix t assume t: "t \<in> set (tasks (db s))" "task_Status t \<in> {TaskStatusSucceeded, TaskStatusFailed, TaskStatusCancelled}"
  obtain t' where t': "t' \<in> set (tasks (db s'))" "ID t' = ID t" "rtranclp task_edge (task_Status t) (task_Status t')"
    using atomic_run store.server_step_moves[OF assms(1,2)] assms(3) t(1)
    by (fastforce simp: tasks_move_def rows_move_def task_evolves_def)
  have "task_Status t' = task_Status t"
    by (rule rtranclp_stuck[OF t'(3)]) (rule task_terminal_no_edge, use t(2) in \<open>auto simp: task_terminal_statuses_def\<close>)
  then show "\<exists>t'\<in>set (tasks (db s')). ID t' = ID t \<and> task_Status t' = task_Status t" using t' by blast
next
  fix r assume "r \<in> set (task_shards (db s))" "shard_Status r \<in> {ShardStatusSucceeded, ShardStatusCancelled}"
  then show "\<exists>r'\<in>set (task_shards (db s')). ID r' = ID r \<and> shard_Status r' = shard_Status r"
    using finished_shard_is_final[OF assms(1,2)] by (auto simp: shard_terminal_statuses_def)
qed

definition demo_finished :: world where
  "demo_finished = demo_world\<lparr>db := \<lparr>tenants = [demo_tenant],
     tasks = [demo_task\<lparr>task_Status := TaskStatusSucceeded, task_FinishedAt := Some 5\<rparr>],
     task_shards = [(demo_shard 30 ''a.sh'')\<lparr>shard_Status := ShardStatusSucceeded, shard_AssignedAgentID := Some ''agent-1'',
       shard_StartedAt := Some 3, shard_FinishedAt := Some 4\<rparr>], clusters = []\<rparr>\<rparr>"

theorem terminal_is_final_witness:
  "(\<exists>t'\<in>set (tasks (db (snd (handle_message demo_server demo_session demo_idle demo_finished)))).
     ID t' = 20 \<and> task_Status t' = TaskStatusSucceeded) \<and>
   (\<exists>r'\<in>set (task_shards (db (snd (handle_message demo_server demo_session demo_idle demo_finished)))).
     ID r' = 30 \<and> shard_Status r' = ShardStatusSucceeded)"
proof -
  have inv: "db_inv {} (db demo_finished)" by code_simp
  have ok: "uuid_ok (env demo_finished)" by (simp add: demo_finished_def)
  have rows: "tasks (db demo_finished) \<noteq> []" "task_shards (db demo_finished) \<noteq> []" by (simp_all add: demo_finished_def)
  have t: "ID (hd (tasks (db demo_finished))) = 20" "task_Status (hd (tasks (db demo_finished))) = TaskStatusSucceeded"
    and r: "ID (hd (task_shards (db demo_finished))) = 30" "shard_Status (hd (task_shards (db demo_finished))) = ShardStatusSucceeded"
    by code_simp+
  show ?thesis
    using terminal_is_final[OF server_step.message[of demo_config demo_server demo_finished demo_session demo_idle] ok inv]
      hd_in_set[OF rows(1)] hd_in_set[OF rows(2)] t r
    by (metis insertCI)
qed

end
