(* ===== verification/Reliable.thy ===== *)
theory Reliable
  imports Lifecycle_Units
begin

text \<open>
  Operations on a database that is open and answers every statement. The theorems that an operation
  returns a result need this hypothesis; the safety theorems do not. Under it the
  statements run forward: the result and the new state are functions of the old state.
\<close>

section \<open>Statements\<close>

definition reliable :: "world \<Rightarrow> bool" where
  "reliable s \<longleftrightarrow> db_open s \<and> (\<forall>n. db_fault (env s) n = None)"

lemma reliable_fault [simp]: "reliable s \<Longrightarrow> db_fault (env s) n = None"
  by (simp add: reliable_def)

lemma reliable_simps [simp]:
  "reliable (tick_world s) = reliable s"
  "reliable (s\<lparr>db := d\<rparr>) = reliable s" "reliable (s\<lparr>agents := a\<rparr>) = reliable s"
  "reliable (s\<lparr>timers := b\<rparr>) = reliable s" "reliable (s\<lparr>rt_timers := c\<rparr>) = reliable s"
  "reliable (s\<lparr>sent := g\<rparr>) = reliable s" "reliable (s\<lparr>hooks_pending := h\<rparr>) = reliable s"
  by (simp_all add: reliable_def)

lemma orm_GetDB_run [simp]: "reliable s \<Longrightarrow> orm_GetDB s = (Inr (), s)"
  by (simp add: orm_GetDB_def reliable_def)

lemma time_Now_run [simp]: "time_Now s = (Inr (now_at (env s) (tick s)), tick_world s)"
  by (simp add: time_Now_def)

lemma select_run [simp]: "reliable s \<Longrightarrow> select f s = (Inr (f (db s)), tick_world s)"
  by (simp add: select_def stmt_def)

lemma select_first_run [simp]: "reliable s \<Longrightarrow> select_first f s = (first_row (f (db s)), tick_world s)"
  by (simp add: select_first_def stmt_def)

lemma update_tasks_run [simp]:
  "reliable s \<Longrightarrow> update_tasks p f s = (Inr (affected (\<lambda>r. live r \<and> p r) (tasks (db s))),
     (tick_world s)\<lparr>db := set_tasks (upd_where (\<lambda>r. live r \<and> p r)
        (\<lambda>r. (f r)\<lparr>UpdatedAt := now_at (env s) (tick s)\<rparr>) (tasks (db s))) (db s)\<rparr>)"
  by (simp add: update_tasks_def update_stmt_def stmt_def)

lemma update_shards_run [simp]:
  "reliable s \<Longrightarrow> update_shards p f s = (Inr (affected (\<lambda>r. live r \<and> p r) (task_shards (db s))),
     (tick_world s)\<lparr>db := set_task_shards (upd_where (\<lambda>r. live r \<and> p r)
        (\<lambda>r. (f r)\<lparr>UpdatedAt := now_at (env s) (tick s)\<rparr>) (task_shards (db s))) (db s)\<rparr>)"
  by (simp add: update_shards_def update_stmt_def stmt_def)

lemma bindE_app: "bindE m f s = (case m s of (Inl e, s') \<Rightarrow> (Inl e, s') | (Inr x, s') \<Rightarrow> f x s')"
  by (simp add: bindE_def)

lemma mapErr_app: "mapErr g m s = (case m s of (Inl e, s') \<Rightarrow> (Inl (g e), s') | (Inr x, s') \<Rightarrow> (Inr x, s'))"
  by (simp add: mapErr_def)

lemma tryE_app: "tryE m s = (case m s of (r, s') \<Rightarrow> (Inr r, s'))"
  by (simp add: tryE_def)

lemmas forward = bindE_app mapErr_app tryE_app

lemma sort_key_first:
  assumes "sort_key f xs = y # ys"
  shows "y \<in> set xs" "x \<in> set xs \<Longrightarrow> f y \<le> f x"
proof -
  have "set xs = insert y (set ys)" using arg_cong[OF assms, of set] by simp
  moreover have "sorted (map f (y # ys))" using sorted_sort_key[of f xs] assms by simp
  ultimately show "y \<in> set xs" "x \<in> set xs \<Longrightarrow> f y \<le> f x" by auto
qed

section \<open>Leasing\<close>

lemma first_row_filter:
  assumes "distinct (map ID rs)" "r \<in> set rs" "p r" "\<And>q. p q \<Longrightarrow> ID q = ID r"
  shows "first_row (filter p rs) = Inr r"
proof -
  have "filter p rs \<noteq> []" using assms(2,3) by (auto simp: filter_empty_conv)
  then obtain x where x: "first_row (filter p rs) = Inr x" by (auto simp: first_row_def neq_Nil_conv)
  have "x = r" by (rule unique_row[OF assms x])
  then show ?thesis using x by simp
qed

lemma promote_task_run:
  assumes "reliable s"
  shows "\<exists>t' s'. promote_task t s = (Inr t', s') \<and> reliable s' \<and> task_shards (db s') = task_shards (db s) \<and>
    task_Status t' = (if task_Status t = TaskStatusWaitingForAgents then TaskStatusQueued else task_Status t)"
  using assms by (simp add: promote_task_def forward)

lemma take_shard_run:
  assumes "reliable s" "r \<in> set (task_shards (db s))" "live r" "shard_Status r = ShardStatusQueued"
  shows "\<exists>x s'. take_shard agentID t r s = (Inr (Some x), s') \<and> reliable s'"
  using assms affected_mem[OF assms(2), of "\<lambda>q. live q \<and> ID q = ID r \<and> shard_Status q = ShardStatusQueued"]
  by (simp add: take_shard_def forward)

lemma lease_attempt_run:
  assumes "reliable s" "db_inv {} (db s)"
    and cands: "lease_candidates (collate (env s)) tenantID backendName (db s) = (t, shard) # rest"
  shows "\<exists>x s'. lease_attempt tenantID backendName agentID s = (Inr (Some x), s') \<and> reliable s'"
proof -
  let ?s2 = "tick_world (tick_world s)"
  have mem: "shard \<in> set (task_shards (db s))" "live shard" "shard_Status shard = ShardStatusQueued"
    "t \<in> set (tasks (db s))" "ID t = shard_TaskID shard" "task_TenantID t = tenantID"
    "task_Status t \<in> set shardQueryStatuses"
    using lease_candidates_mem[of t shard "collate (env s)" tenantID backendName "db s"] cands by auto
  have "live t" using db_invD(5)[OF assms(2) mem(4)] by (simp add: task_row_ok_def)
  then have load: "first_row (filter (\<lambda>r. live r \<and> task_TenantID r = tenantID \<and> ID r = shard_TaskID shard) (tasks (db s))) = Inr t"
    by (intro first_row_filter[OF db_invD(1)[OF assms(2)] mem(4)]) (use mem in auto)
  obtain t' s' where p: "promote_task t ?s2 = (Inr t', s')" "reliable s'" "task_shards (db s') = task_shards (db s)"
    "task_Status t' \<in> set shardQueryStatuses"
    using promote_task_run[of ?s2 t] assms(1) mem(7) by (auto simp: shardQueryStatuses_def split: if_split_asm)
  obtain x s'' where k: "take_shard agentID t' shard s' = (Inr (Some x), s'')" "reliable s''"
    using take_shard_run[of s' shard agentID t'] p mem by auto
  have "first_row (map snd ((t, shard) # rest)) = Inr shard" by (simp add: first_row_def)
  then show ?thesis using assms(1) load p k by (simp add: lease_attempt_def forward cands)
qed

text \<open>A reliable database leases a shard exactly when there is a candidate.\<close>

lemma LeaseNextShard_run:
  assumes "reliable s" "db_inv {} (db s)"
    and "lease_candidates (collate (env s)) tenantID backendName (db s) \<noteq> []"
  shows "\<exists>x s'. LeaseNextShard tenantID backendName agentID s = (Inr x, s')"
proof -
  obtain t shard rest where "lease_candidates (collate (env s)) tenantID backendName (db s) = (t, shard) # rest"
    using assms(3) by (cases "lease_candidates (collate (env s)) tenantID backendName (db s)") auto
  then obtain x s' where run: "lease_attempt tenantID backendName agentID (tick_world s) = (Inr (Some x), s')" "reliable s'"
    using lease_attempt_run[of "tick_world s"] assms(1,2) by fastforce
  then have "lease_loop (Suc 99) tenantID backendName agentID (tick_world s) = (Inr x, s')"
    unfolding lease_loop.simps by (simp add: forward)
  then show ?thesis using assms(1) run(2) by (simp add: LeaseNextShard_def maxRetries_def forward transaction_def)
qed

lemma LeaseNextShard_none:
  assumes "reliable s" "lease_candidates (collate (env s)) tenantID backendName (db s) = []"
  shows "\<exists>e s'. LeaseNextShard tenantID backendName agentID s = (Inl e, s') \<and> errors_Is e ErrRecordNotFound \<and> db s' = db s"
proof -
  have "lease_loop (Suc 99) tenantID backendName agentID (tick_world s) = (Inl (Sentinel ErrRecordNotFound), tick_world (tick_world s))"
    unfolding lease_loop.simps using assms by (simp add: lease_attempt_def forward first_row_def)
  then show ?thesis using assms(1) by (simp add: LeaseNextShard_def maxRetries_def forward transaction_def)
qed

text \<open>What a lease that committed has done, with or without faults.\<close>

lemma LeaseNextShard_Inr:
  assumes run: "LeaseNextShard tenantID backendName agentID s = (Inr (task, shard'), s')" and inv: "db_inv {} (db s)"
  shows "\<exists>t shard rest at at'.
    lease_candidates (collate (env s)) tenantID backendName (db s) = (t, shard) # rest \<and>
    db s' = lease_db agentID at at' t shard (db s) \<and>
    task = (if task_Status t = TaskStatusWaitingForAgents then t\<lparr>task_Status := TaskStatusQueued\<rparr> else t) \<and>
    shard' = shard\<lparr>shard_Status := ShardStatusLeased, shard_AssignedAgentID := Some agentID\<rparr>"
proof -
  from run obtain s1 where 1: "lease_loop maxRetries tenantID backendName agentID (tick_world s) = (Inr (task, shard'), s1)"
    and d: "db s' = db s1"
    by (auto simp: LeaseNextShard_def bindE_Inr_iff mapErr_Inr_iff transaction_Inr_iff orm_GetDB_def split: if_split_asm)
  show ?thesis
    using lease_attempt_Inr[OF lease_loop_Inr[OF 1]] inv d by auto
qed

lemma LeaseNextShard_Inl: "LeaseNextShard tenantID backendName agentID s = (Inl e, s') \<Longrightarrow> db s' = db s"
  by (auto simp: LeaseNextShard_def bindE_Inl_iff mapErr_Inl_iff orm_GetDB_def dest: transaction_Inl_db split: if_split_asm)

section \<open>What statements leave alone\<close>

text \<open>
  A part \<open>view\<close> of the state that neither the call counter nor the rows belong to. Every operation
  made of statements and transactions keeps it.
\<close>

locale beside_rows =
  fixes view :: "world \<Rightarrow> 'v"
  assumes view_tick: "view (tick_world s) = view s"
    and view_db: "view (s\<lparr>db := d\<rparr>) = view s"

sublocale beside_rows \<subseteq> evolution view "(=)"
  by unfold_locales simp_all

context beside_rows
begin

lemma keeps_stmt: "evolves view (=) (stmt f)"
  by (rule evolvesI) (auto simp: stmt_def view_tick view_db split: option.splits prod.splits)

lemma keeps_statements:
  "evolves view (=) (select f)" "evolves view (=) (select_first g)" "evolves view (=) (update_tasks p h)"
  "evolves view (=) (update_shards q k)" "evolves view (=) (insert_stmt rows set_rows clash r)"
  unfolding select_def select_first_def update_tasks_def update_shards_def update_stmt_def insert_stmt_def
  by (rule keeps_stmt)+

lemma keeps_time_Now: "evolves view (=) time_Now"
  by (rule evolvesI) (simp add: time_Now_def view_tick)

lemma keeps_orm_GetDB: "evolves view (=) orm_GetDB"
  by (rule evolvesI) (simp add: orm_GetDB_def)

lemma keeps_transaction:
  assumes "evolves view (=) m"
  shows "evolves view (=) (transaction m)"
proof (rule evolvesI)
  fix s
  have "view s = view (snd (m (tick_world s)))" using assms by (auto simp: evolves_def view_tick)
  then show "view s = view (snd (transaction m s))"
    by (auto simp: transaction_def view_tick view_db split: option.splits prod.splits sum.splits)
qed

lemmas keeps_intros = evolves_intros keeps_statements keeps_time_Now keeps_orm_GetDB keeps_transaction

lemma keeps_transitionStatus: "evolves view (=) (transitionStatus sid st cur f)"
  unfolding transitionStatus_def by (intro keeps_intros)

lemma keeps_MarkRunning: "evolves view (=) (MarkRunning sid)"
  unfolding MarkRunning_def by (intro keeps_intros keeps_transitionStatus)

lemma keeps_MarkSucceeded: "evolves view (=) (MarkSucceeded sid)"
  unfolding MarkSucceeded_def by (intro keeps_intros keeps_transitionStatus)

lemma keeps_MarkFailed: "evolves view (=) (MarkFailed sid e)"
  unfolding MarkFailed_def by (intro keeps_intros keeps_transitionStatus)

lemma keeps_RollbackShardWithTask: "evolves view (=) (RollbackShardWithTask sid cur task)"
  unfolding RollbackShardWithTask_def RollbackToQueued_def RollbackTaskToWaiting_def
  by (intro keeps_intros keeps_transitionStatus)

lemma keeps_finish_task: "evolves view (=) (finish_task tid task st e at avail)"
  unfolding finish_task_def updateTaskTerminalStatus_def by (intro keeps_intros)

lemma keeps_RecomputeTaskStatus: "evolves view (=) (RecomputeTaskStatus tid e)"
  unfolding RecomputeTaskStatus_def resolveTaskFailureLastError_def
  by (intro keeps_intros keeps_finish_task)

lemma keeps_report_body: "evolves view (=) (report_body params now)"
  unfolding report_body_def report_transition_def report_output_def report_task_def task_shard_orm_GetByID_def
  by (intro keeps_intros keeps_RecomputeTaskStatus keeps_MarkRunning keeps_MarkSucceeded keeps_MarkFailed)

lemma keeps_lease_loop: "evolves view (=) (lease_loop n tenantID backendName agentID)"
proof (induction n)
  case 0
  then show ?case unfolding lease_loop.simps by (intro keeps_intros)
next
  case (Suc n)
  then show ?case
    unfolding lease_loop.simps lease_attempt_def promote_task_def take_shard_def by (intro keeps_intros)
qed

lemma keeps_LeaseNextShard: "evolves view (=) (LeaseNextShard tenantID backendName agentID)"
  unfolding LeaseNextShard_def by (intro keeps_intros keeps_lease_loop)

lemma keeps_cancel_body: "evolves view (=) (cancel_body tenantID taskID)"
  unfolding cancel_body_def CancelTaskById_def CancelTaskShardsByTaskId_def by (intro keeps_intros)

end

interpretation outside: beside_rows "\<lambda>s. (env s, db_open s)"
  by unfold_locales simp_all

interpretation hooks: beside_rows hooks_pending
  by unfold_locales simp_all

interpretation registry: beside_rows "\<lambda>s. (agents s, timers s, rt_timers s)"
  by unfold_locales simp_all

lemma outside_reliable: "evolves (\<lambda>s. (env s, db_open s)) (=) m \<Longrightarrow> m s = (r, s') \<Longrightarrow> reliable s' = reliable s"
  using outside.evolvesD[of m s r s'] by (auto simp: reliable_def)

end
