(* ===== verification/Report_Results.thy ===== *)
theory Report_Results
  imports Reliable
begin

text \<open>
  What a report of a finished shard does: to the row of the shard, to its task and to the hooks. The
  lemmas are about a report that returned; the last section shows that on a
  reliable database it does return.
\<close>

section \<open>The row of the shard\<close>

definition finished_row :: "ReportShardStatusParams \<Rightarrow> TaskShard \<Rightarrow> TaskShard \<Rightarrow> bool" where
  "finished_row params r r' \<longleftrightarrow>
     ID r' = ID r \<and> live r' = live r \<and> shard_TaskID r' = shard_TaskID r \<and> shard_ScriptName r' = shard_ScriptName r \<and>
     shard_AssignedAgentID r' = shard_AssignedAgentID r \<and> shard_StartedAt r' = shard_StartedAt r \<and>
     shard_Status r' = rp_ShardStatus params \<and> shard_FinishedAt r' \<noteq> None \<and>
     (rp_ShardStatus params = ShardStatusSucceeded \<longrightarrow>
        shard_OutputOSSKey r' = rp_OutputOSSKey params \<and> shard_OutputSHA256 r' = rp_OutputSHA256 params) \<and>
     (rp_ShardStatus params = ShardStatusFailed \<longrightarrow> shard_LastError r' = go_string (rp_ErrorMessage params))"

lemma transition_row:
  assumes run: "transitionStatus sid target [cur] upd s = (Inr x, s')"
    and rows: "distinct (map ID (task_shards (db s)))" "shard \<in> set (task_shards (db s))" "ID shard = sid"
  shows "shard_Status shard = cur \<and> tasks (db s') = tasks (db s) \<and> tenants (db s') = tenants (db s) \<and>
    (\<exists>now. set (task_shards (db s')) = insert ((upd shard)\<lparr>shard_Status := target, UpdatedAt := now\<rparr>) (set (task_shards (db s)) - {shard})) \<and>
    ((\<forall>r. ID (upd r) = ID r) \<longrightarrow> map ID (task_shards (db s')) = map ID (task_shards (db s)))"
proof -
  from run obtain r now where r: "r \<in> set (task_shards (db s))" "ID r = sid" "shard_Status r \<in> set [cur]" "live r"
    and d: "db s' = set_task_shards (upd_where (\<lambda>r. live r \<and> ID r = sid \<and> shard_Status r \<in> set [cur])
       (\<lambda>r. (upd r)\<lparr>shard_Status := target, UpdatedAt := now\<rparr>) (task_shards (db s))) (db s)"
    by (rule transitionStatus_Inr)
  have "r = shard" using distinct_map_same[OF rows(1) r(1) rows(2)] r(2) rows(3) by simp
  moreover have "set (upd_where (\<lambda>r. live r \<and> ID r = sid \<and> shard_Status r \<in> set [cur])
       (\<lambda>r. (upd r)\<lparr>shard_Status := target, UpdatedAt := now\<rparr>) (task_shards (db s))) =
     insert ((upd r)\<lparr>shard_Status := target, UpdatedAt := now\<rparr>) (set (task_shards (db s)) - {r})"
    by (rule set_upd_one[OF rows(1) r(1)]) (use r in auto)
  ultimately show ?thesis using r(3) d by (auto simp: map_upd_where)
qed

lemma report_output_row:
  assumes run: "report_output params s = (Inr x, s')"
    and rows: "distinct (map ID (task_shards (db s)))" "r \<in> set (task_shards (db s))" "ID r = rp_ShardID params" "live r"
  shows "tasks (db s') = tasks (db s) \<and>
    (\<exists>now. set (task_shards (db s')) = insert (if rp_ShardStatus params = ShardStatusSucceeded
        then r\<lparr>shard_OutputOSSKey := rp_OutputOSSKey params, shard_OutputSHA256 := rp_OutputSHA256 params, UpdatedAt := now\<rparr>
        else r) (set (task_shards (db s)) - {r}))"
proof (cases "rp_ShardStatus params = ShardStatusSucceeded")
  case True
  let ?f = "\<lambda>r. r\<lparr>shard_OutputOSSKey := rp_OutputOSSKey params, shard_OutputSHA256 := rp_OutputSHA256 params,
      UpdatedAt := now_at (env s) (tick s)\<rparr>"
  have "db s' = set_task_shards (upd_where (\<lambda>r. live r \<and> ID r = rp_ShardID params) ?f (task_shards (db s))) (db s)"
    using run True by (auto simp: report_output_def run_iff)
  moreover have "set (upd_where (\<lambda>r. live r \<and> ID r = rp_ShardID params) ?f (task_shards (db s))) =
      insert (?f r) (set (task_shards (db s)) - {r})"
    by (rule set_upd_one[OF rows(1,2)]) (use rows in auto)
  ultimately show ?thesis using True by auto
next
  case False
  then show ?thesis using run rows(2) by (auto simp: report_output_def)
qed

lemma report_finished_row:
  assumes run: "report_transition params s = (Inr y, s3)" "report_output params s3 = (Inr z, s4)"
    and st: "rp_ShardStatus params \<in> {ShardStatusSucceeded, ShardStatusFailed}"
    and inv: "db_inv {} (db s)" and shard: "shard \<in> set (task_shards (db s))" "ID shard = rp_ShardID params"
  shows "shard_Status shard = ShardStatusRunning \<and> tasks (db s4) = tasks (db s) \<and>
    (\<exists>r'. finished_row params shard r' \<and> set (task_shards (db s4)) = insert r' (set (task_shards (db s)) - {shard}))"
proof -
  define err where "err = (\<lambda>r::TaskShard. if rp_ShardStatus params = ShardStatusFailed then go_string (rp_ErrorMessage params) else shard_LastError r)"
  have tr: "transitionStatus (rp_ShardID params) (rp_ShardStatus params) [ShardStatusRunning]
       (\<lambda>r. r\<lparr>shard_FinishedAt := Some (now_at (env s) (tick s)), shard_LastError := err r\<rparr>) (tick_world s) = (Inr y, s3)"
    using run(1) st by (auto simp: report_transition_def MarkSucceeded_def MarkFailed_def run_iff err_def)
  have live: "live shard" using db_invD(3)[OF inv shard(1)] by (simp add: shard_row_ok_def)
  from transition_row[OF tr, of shard] obtain now where 1: "shard_Status shard = ShardStatusRunning"
    "tasks (db s3) = tasks (db s)" "map ID (task_shards (db s3)) = map ID (task_shards (db s))"
    and rows: "set (task_shards (db s3)) = insert (shard\<lparr>shard_FinishedAt := Some (now_at (env s) (tick s)),
        shard_LastError := err shard, shard_Status := rp_ShardStatus params, UpdatedAt := now\<rparr>) (set (task_shards (db s)) - {shard})"
    using db_invD(2)[OF inv] shard by auto
  let ?r = "shard\<lparr>shard_FinishedAt := Some (now_at (env s) (tick s)), shard_LastError := err shard,
      shard_Status := rp_ShardStatus params, UpdatedAt := now\<rparr>"
  from report_output_row[OF run(2), of ?r] obtain now' where 2: "tasks (db s4) = tasks (db s3)"
    and rows': "set (task_shards (db s4)) = insert (if rp_ShardStatus params = ShardStatusSucceeded
        then ?r\<lparr>shard_OutputOSSKey := rp_OutputOSSKey params, shard_OutputSHA256 := rp_OutputSHA256 params, UpdatedAt := now'\<rparr>
        else ?r) (set (task_shards (db s3)) - {?r})"
    using 1(3) db_invD(2)[OF inv] rows shard live by (auto simp: live_def)
  have "?r \<notin> set (task_shards (db s)) - {shard}"
    using distinct_map_same[OF db_invD(2)[OF inv] _ shard(1), of ?r] by auto
  then have set4: "set (task_shards (db s4)) = insert (if rp_ShardStatus params = ShardStatusSucceeded
        then ?r\<lparr>shard_OutputOSSKey := rp_OutputOSSKey params, shard_OutputSHA256 := rp_OutputSHA256 params, UpdatedAt := now'\<rparr>
        else ?r) (set (task_shards (db s)) - {shard})"
    unfolding rows' rows by auto
  have fin: "finished_row params shard (if rp_ShardStatus params = ShardStatusSucceeded
        then ?r\<lparr>shard_OutputOSSKey := rp_OutputOSSKey params, shard_OutputSHA256 := rp_OutputSHA256 params, UpdatedAt := now'\<rparr>
        else ?r)"
    using st by (auto simp: finished_row_def live_def err_def)
  have "\<exists>r'. finished_row params shard r' \<and> set (task_shards (db s4)) = insert r' (set (task_shards (db s)) - {shard})"
    by (rule exI) (rule conjI[OF fin set4])
  then show ?thesis by (intro conjI) (simp_all add: 1 2)
qed

section \<open>The task\<close>

lemma updateTaskTerminalStatus_Inr:
  assumes "updateTaskTerminalStatus T f ts s = (Inr b, s')"
    and "t \<in> set (tasks (db s))" "live t" "ID t = T" "task_Status t \<notin> set ts"
  shows b
  using assms(1) affected_mem[OF assms(2), of "\<lambda>r. live r \<and> ID r = T \<and> task_Status r \<notin> set ts"] assms(3-5)
  by (auto simp: updateTaskTerminalStatus_def run_iff split: if_split_asm)

lemma finish_task_Inr:
  assumes "finish_task T task status err finishedAt avail s = (Inr x, s')"
    and "t \<in> set (tasks (db s))" "live t" "ID t = T" "task_Status t \<notin> set task_terminal_statuses"
  shows "x = newCompletionHookPayload task status err (Some finishedAt) avail"
  using assms(1) updateTaskTerminalStatus_Inr[OF _ assms(2-5)]
  by (auto simp: finish_task_def bindE_Inr_iff split: if_split_asm)

text \<open>
  The task after its last shard has finished: the status, what the recomputation returned to be
  sent as a hook, and every other task as before.
\<close>

definition closed_task :: "string \<Rightarrow> string \<Rightarrow> Task \<Rightarrow> Task \<Rightarrow> bool" where
  "closed_task status err t t' \<longleftrightarrow>
     ID t' = ID t \<and> task_TenantID t' = task_TenantID t \<and> task_CompletionHookURL t' = task_CompletionHookURL t \<and>
     task_ShardCount t' = task_ShardCount t \<and>
     task_Status t' = status \<and> task_LastError t' = err \<and> task_FinishedAt t' \<noteq> None"

lemma finish_task_row:
  assumes run: "finish_task T task status err finishedAt avail s = (Inr x, s')"
    and task: "distinct (map ID (tasks (db s)))" "task \<in> set (tasks (db s))" "live task" "ID task = T"
      "task_Status task \<notin> set task_terminal_statuses"
  shows "\<exists>t'. closed_task status err task t' \<and> set (tasks (db s')) = insert t' (set (tasks (db s)) - {task}) \<and>
    x = newCompletionHookPayload task status err (task_FinishedAt t') avail \<and> task_shards (db s') = task_shards (db s)"
proof -
  let ?f = "\<lambda>r. r\<lparr>task_FinishedAt := Some finishedAt, task_Status := status, task_LastError := err,
           UpdatedAt := now_at (env s) (tick s)\<rparr>"
  have "set (tasks (db s')) = insert (?f task) (set (tasks (db s)) - {task})"
    unfolding finish_task_db[OF run] by (simp, rule set_upd_one) (use task in auto)
  moreover have "x = newCompletionHookPayload task status err (Some finishedAt) avail"
    by (rule finish_task_Inr[OF run task(2-5)])
  ultimately show ?thesis
    using finish_task_db[OF run] by (intro exI[of _ "?f task"]) (simp add: closed_task_def)
qed

text \<open>The error a failed task shows: that of the failed shard that finished last, if it has one.\<close>

definition failure_error :: "uuid \<Rightarrow> string \<Rightarrow> database \<Rightarrow> string \<Rightarrow> bool" where
  "failure_error T fallback d err \<longleftrightarrow>
     (let failures = filter (\<lambda>r. shard_TaskID r = T \<and> shard_Status r = ShardStatusFailed \<and> shard_LastError r \<noteq> []) (task_shards d) in
      if failures = [] then err = (if fallback \<noteq> [] then fallback else ''task failed because one or more shards failed'')
      else \<exists>r\<in>set failures. err = shard_LastError r \<and>
        (\<forall>q\<in>set failures. the (shard_FinishedAt q) \<le> the (shard_FinishedAt r)))"

lemma resolve_failure_error:
  assumes run: "resolveTaskFailureLastError T fallback s = (Inr err, s')"
    and ok: "\<And>r. r \<in> set (task_shards (db s)) \<Longrightarrow> shard_row_ok r"
  shows "failure_error T fallback (db s) err"
proof -
  define fs where "fs = filter (\<lambda>r. shard_TaskID r = T \<and> shard_Status r = ShardStatusFailed \<and> shard_LastError r \<noteq> []) (task_shards (db s))"
  have "fs = filter (\<lambda>r. live r \<and> shard_TaskID r = T \<and> shard_Status r = ShardStatusFailed \<and> shard_LastError r \<noteq> []) (task_shards (db s))"
    unfolding fs_def using ok by (intro filter_cong) (auto simp: shard_row_ok_def)
  then have rows: "failed_shards_latest_first T (db s) = sort_key (\<lambda>r. (desc_nulls_first (shard_FinishedAt r), - UpdatedAt r, ID r)) fs"
    by (simp add: failed_shards_latest_first_def)
  have fin: "shard_FinishedAt r \<noteq> None" if "r \<in> set fs" for r
    using ok[of r] that by (auto simp: fs_def shard_row_ok_def status_lists)
  show ?thesis
  proof (cases "failed_shards_latest_first T (db s)")
    case Nil
    then have "set fs = {}" using arg_cong[OF rows, of set] by simp
    then have "fs = []" by simp
    moreover have "err = (if fallback \<noteq> [] then fallback else ''task failed because one or more shards failed'')"
      using run Nil unfolding resolveTaskFailureLastError_def bindE_tryE_iff
      by (auto simp: run_iff first_row_def split: if_split_asm)
    ultimately show ?thesis by (simp add: failure_error_def flip: fs_def)
  next
    case (Cons r rest)
    have "err = shard_LastError r"
      using run Cons unfolding resolveTaskFailureLastError_def bindE_tryE_iff by (auto simp: run_iff first_row_def)
    moreover have r: "r \<in> set fs" by (rule sort_key_first(1)) (rule rows[symmetric, unfolded Cons])
    moreover have "the (shard_FinishedAt q) \<le> the (shard_FinishedAt r)" if q: "q \<in> set fs" for q
    proof -
      have "(desc_nulls_first (shard_FinishedAt r), - UpdatedAt r, ID r) \<le> (desc_nulls_first (shard_FinishedAt q), - UpdatedAt q, ID q)"
        by (rule sort_key_first(2)[OF rows[symmetric, unfolded Cons] q])
      then show ?thesis using fin[OF r] fin[OF q] by (auto simp: desc_nulls_first_def less_eq_prod_def)
    qed
    ultimately show ?thesis by (auto simp: failure_error_def simp flip: fs_def)
  qed
qed

section \<open>The whole report\<close>

definition others_of :: "TaskShard \<Rightarrow> database \<Rightarrow> TaskShard set" where
  "others_of shard d = {r \<in> set (task_shards d). shard_TaskID r = shard_TaskID shard \<and> ID r \<noteq> ID shard}"

definition report_failed :: "ReportShardStatusParams \<Rightarrow> TaskShard \<Rightarrow> database \<Rightarrow> bool" where
  "report_failed params shard d \<longleftrightarrow>
     rp_ShardStatus params = ShardStatusFailed \<or> (\<exists>r\<in>others_of shard d. shard_Status r = ShardStatusFailed)"

definition report_closes :: "TaskShard \<Rightarrow> database \<Rightarrow> bool" where
  "report_closes shard d \<longleftrightarrow> (\<forall>r\<in>others_of shard d. shard_Status r \<in> set shard_terminal_statuses)"

text \<open>The abstract effect of a report: on the rows, and the payload it hands to the hooks.\<close>

definition report_effect ::
  "ReportShardStatusParams \<Rightarrow> TaskShard \<Rightarrow> Task \<Rightarrow> database \<Rightarrow> database \<Rightarrow> CompletionHookPayload option \<Rightarrow> bool" where
  "report_effect params shard task d d' x \<longleftrightarrow>
     (\<exists>r'. finished_row params shard r' \<and> set (task_shards d') = insert r' (set (task_shards d) - {shard})) \<and>
     (if \<not> report_closes shard d then tasks d' = tasks d \<and> x = None
      else let failed = report_failed params shard d;
               status = (if failed then TaskStatusFailed else TaskStatusSucceeded) in
        \<exists>t' err. closed_task status err task t' \<and> set (tasks d') = insert t' (set (tasks d) - {task}) \<and>
          x = newCompletionHookPayload task status err (task_FinishedAt t') (\<not> failed) \<and>
          (if failed then failure_error (ID task) (go_string (rp_ErrorMessage params)) d' err else err = []))"

lemma failure_error_cong: "task_shards d' = task_shards d \<Longrightarrow> failure_error T e d' err = failure_error T e d err"
  by (simp add: failure_error_def)

lemma recompute_effect:
  assumes run: "RecomputeTaskStatus T e s = (Inr x, s')" and inv: "db_inv {T} (db s)"
    and task: "task \<in> set (tasks (db s))" "ID task = T"
  shows "task_shards (db s') = task_shards (db s) \<and>
    (if open_shards T (db s) \<noteq> [] then tasks (db s') = tasks (db s) \<and> x = None
     else let failed = (failed_shards T (db s) \<noteq> []);
              status = (if failed then TaskStatusFailed else TaskStatusSucceeded) in
       \<exists>t' err. closed_task status err task t' \<and> set (tasks (db s')) = insert t' (set (tasks (db s)) - {task}) \<and>
         x = newCompletionHookPayload task status err (task_FinishedAt t') (\<not> failed) \<and>
         (if failed then failure_error T e (db s) err else err = []))"
proof -
  have mid: "task_Status task \<in> set dispatched" using db_invD(7)[OF inv task(1)] task(2) by (simp add: task_mid_def)
  have row: "live task" using db_invD(5)[OF inv task(1)] by (simp add: task_row_ok_def)
  have nt: "task_Status task \<notin> set task_terminal_statuses" "task_Status task \<notin> {TaskStatusSucceeded, TaskStatusFailed}"
    using mid by (auto simp: status_lists)
  obtain task' where first: "first_row (filter (\<lambda>r. live r \<and> ID r = T) (tasks (db s))) = Inr task'"
    and rest: "if task_Status task' \<in> {TaskStatusSucceeded, TaskStatusFailed} \<or> open_shards T (db s) \<noteq> []
     then x = None \<and> db s' = db s
     else if failed_shards T (db s) \<noteq> []
     then \<exists>s1 s2 finishedAt err. db s1 = db s \<and> db s2 = db s \<and>
       resolveTaskFailureLastError T e s1 = (Inr err, s2) \<and>
       finish_task T task' TaskStatusFailed err finishedAt False s2 = (Inr x, s')
     else \<exists>s1 finishedAt. db s1 = db s \<and>
       finish_task T task' TaskStatusSucceeded [] finishedAt True s1 = (Inr x, s')"
    using RecomputeTaskStatus_Inr[OF run] by auto
  have t': "task' = task" by (rule unique_row[OF db_invD(1)[OF inv] task(1) _ _ first]) (use row task in auto)
  note fin = finish_task_row[OF _ _ _ row task(2) nt(1)]
  consider "open_shards T (db s) \<noteq> []" | "open_shards T (db s) = []" "failed_shards T (db s) \<noteq> []"
    | "open_shards T (db s) = []" "failed_shards T (db s) = []" by auto
  then show ?thesis
  proof cases
    case 1
    then show ?thesis using rest by simp
  next
    case 2
    then obtain s1 s2 finishedAt err where d: "db s1 = db s" "db s2 = db s"
      and res: "resolveTaskFailureLastError T e s1 = (Inr err, s2)"
      and f: "finish_task T task TaskStatusFailed err finishedAt False s2 = (Inr x, s')"
      using rest nt(2) t' by auto
    have "failure_error T e (db s) err" using resolve_failure_error[OF res] db_invD(3)[OF inv] d by simp
    then show ?thesis using 2 fin[OF f] d db_invD(1)[OF inv] task(1) by (auto simp: Let_def)
  next
    case 3
    then obtain s1 finishedAt where d: "db s1 = db s"
      and f: "finish_task T task TaskStatusSucceeded [] finishedAt True s1 = (Inr x, s')"
      using rest nt(2) t' by auto
    then show ?thesis using 3 fin[OF f] db_invD(1)[OF inv] task(1) by (auto simp: Let_def)
  qed
qed

lemma shards_after_report:
  assumes rows: "set (task_shards d') = insert r' (set (task_shards d) - {shard})" "finished_row params shard r'"
    and st: "rp_ShardStatus params \<in> {ShardStatusSucceeded, ShardStatusFailed}"
    and ok: "distinct (map ID (task_shards d))" "\<And>r. r \<in> set (task_shards d) \<Longrightarrow> live r" "shard \<in> set (task_shards d)"
  shows "open_shards (shard_TaskID shard) d' = [] \<longleftrightarrow> report_closes shard d"
    "failed_shards (shard_TaskID shard) d' = [] \<longleftrightarrow> \<not> report_failed params shard d"
proof -
  have others: "set (task_shards d) - {shard} = {r \<in> set (task_shards d). ID r \<noteq> ID shard}"
    using distinct_map_same[OF ok(1) _ ok(3)] by auto
  have r': "shard_TaskID r' = shard_TaskID shard" "shard_Status r' = rp_ShardStatus params" "live r'"
    using rows(2) ok(2,3) by (auto simp: finished_row_def)
  have fin: "rp_ShardStatus params \<in> set shard_terminal_statuses" using st by (auto simp: status_lists)
  have all: "(\<forall>r\<in>set (task_shards d'). P r) \<longleftrightarrow> P r' \<and> (\<forall>r\<in>set (task_shards d). ID r \<noteq> ID shard \<longrightarrow> P r)" for P
    unfolding rows(1) others by auto
  show "open_shards (shard_TaskID shard) d' = [] \<longleftrightarrow> report_closes shard d"
    unfolding open_shards_def filter_empty_conv all report_closes_def others_of_def using r' fin ok(2) by auto
  show "failed_shards (shard_TaskID shard) d' = [] \<longleftrightarrow> \<not> report_failed params shard d"
    unfolding failed_shards_def filter_empty_conv all report_failed_def others_of_def using r' ok(2) by auto
qed

lemma report_body_effect:
  assumes run: "report_body params now s = (Inr x, s')"
    and st: "rp_ShardStatus params \<in> {ShardStatusSucceeded, ShardStatusFailed}"
    and inv: "db_inv {} (db s)"
    and shard: "shard \<in> set (task_shards (db s))" "ID shard = rp_ShardID params" "shard_Status shard = ShardStatusRunning"
    and task: "task \<in> set (tasks (db s))" "ID task = shard_TaskID shard"
  shows "report_effect params shard task (db s) (db s') x"
proof -
  define s2 where "s2 = tick_world (tick_world s)"
  have d2: "db s2 = db s" by (simp add: s2_def)
  obtain shard' task' where sh: "shard' \<in> set (task_shards (db s))" "ID shard' = rp_ShardID params"
    and ta: "task' \<in> set (tasks (db s))" "ID task' = shard_TaskID shard'"
    and rest: "if rp_ShardStatus params = ShardStatusSucceeded \<and> shard_Status shard' = ShardStatusSucceeded \<and>
        shard_OutputOSSKey shard' \<noteq> [] then x = None \<and> db s' = db s
     else task_Status task' \<noteq> TaskStatusCancelled \<and>
       (\<exists>y z s3 s4. report_transition params s2 = (Inr y, s3) \<and>
          report_output params s3 = (Inr z, s4) \<and> report_task params shard' task' now s4 = (Inr x, s'))"
    using report_body_Inr[OF run] unfolding s2_def by auto
  have eq: "shard' = shard" using distinct_map_same[OF db_invD(2)[OF inv] sh(1) shard(1)] sh shard by simp
  then have eq_t: "task' = task" using distinct_map_same[OF db_invD(1)[OF inv] ta(1) task(1)] ta task by simp
  obtain y z s3 s4 where 3: "report_transition params s2 = (Inr y, s3)"
    and 4: "report_output params s3 = (Inr z, s4)" and 5: "report_task params shard task now s4 = (Inr x, s')"
    using rest eq eq_t shard(3) by auto
  have inv4: "db_inv {shard_TaskID shard} (db s4)"
    using report_output_inv[OF 4] report_finished_transition[OF 3 st] inv shard d2 by simp
  obtain r' where ts: "tasks (db s4) = tasks (db s)" and r': "finished_row params shard r'"
    and rows: "set (task_shards (db s4)) = insert r' (set (task_shards (db s)) - {shard})"
    using report_finished_row[OF 3 4 st] inv shard d2 by auto
  have 6: "RecomputeTaskStatus (shard_TaskID shard) (go_string (rp_ErrorMessage params)) s4 = (Inr x, s')"
    using 5 st by (auto simp: report_task_def mapErr_Inr_iff)
  note eff = recompute_effect[OF 6 inv4, of task]
  have sd: "task_shards (db s') = task_shards (db s4)" using eff task ts by simp
  have live: "live r" if "r \<in> set (task_shards (db s))" for r
    using db_invD(3)[OF inv that] by (simp add: shard_row_ok_def)
  have conv: "open_shards (shard_TaskID shard) (db s4) = [] \<longleftrightarrow> report_closes shard (db s)"
    "failed_shards (shard_TaskID shard) (db s4) = [] \<longleftrightarrow> \<not> report_failed params shard (db s)"
    by (rule shards_after_report[OF rows r' st db_invD(2)[OF inv]], erule live, rule shard(1))+
  have row: "\<exists>r'. finished_row params shard r' \<and> set (task_shards (db s')) = insert r' (set (task_shards (db s)) - {shard})"
    unfolding sd rows by (rule exI) (rule conjI[OF r' refl])
  show ?thesis
    unfolding report_effect_def using row eff[unfolded conv] task ts failure_error_cong[OF sd]
    by (intro conjI) (simp_all add: Let_def split: if_split_asm)
qed

lemma ReportShardStatus_Inr:
  assumes "ReportShardStatus params s = (Inr (), s')"
  shows "\<exists>x s1. report_body params (now_at (env s) (tick s)) (tick_world (tick_world s)) = (Inr x, s1) \<and> db s' = db s1 \<and>
    hooks_pending s' = hooks_pending s @ (case x of None \<Rightarrow> [] | Some p \<Rightarrow> if hook_CompletionHookURL p = [] then [] else [p])"
proof -
  from assms obtain x s1 s2 where b: "report_body params (now_at (env s) (tick s)) (tick_world (tick_world s)) = (Inr x, s1)"
    and s2: "s2 = tick_world s1"
    and h: "(case x of None \<Rightarrow> ret () | Some payload \<Rightarrow> dispatchCompletionHookAsync payload) s2 = (Inr (), s')"
    by (auto simp: ReportShardStatus_def bindE_Inr_iff time_Now_iff transaction_Inr_iff orm_GetDB_def split: if_split_asm)
  have "hooks_pending s = hooks_pending s1" using hooks.evolvesD[OF hooks.keeps_report_body b] by simp
  then show ?thesis using b s2 h
    by (cases x) (auto simp: dispatchCompletionHookAsync_def split: if_split_asm)
qed

lemma ReportShardStatus_Inl:
  assumes "ReportShardStatus params s = (Inl e, s')"
  shows "db s' = db s \<and> hooks_pending s' = hooks_pending s"
proof -
  from assms have "orm_GetDB s = (Inl e, s') \<or> transaction (report_body params (now_at (env s) (tick s))) (tick_world s) = (Inl e, s')"
    by (auto simp: ReportShardStatus_def bindE_Inl_iff time_Now_iff orm_GetDB_def dispatchCompletionHookAsync_def
        split: if_split_asm option.split_asm)
  then show ?thesis
    using hooks.evolvesD[OF hooks.keeps_transaction[OF hooks.keeps_report_body], of params _ "tick_world s" "Inl e" s']
    by (auto simp: orm_GetDB_def dest: transaction_Inl_db split: if_split_asm)
qed

section \<open>A reliable database stores the report\<close>

lemma transitionStatus_run:
  assumes "reliable s" "r \<in> set (task_shards (db s))" "live r" "ID r = sid" "shard_Status r \<in> set cur"
  shows "\<exists>s'. transitionStatus sid target cur upd s = (Inr (), s') \<and> reliable s'"
  using assms affected_mem[OF assms(2), of "\<lambda>r. live r \<and> ID r = sid \<and> shard_Status r \<in> set cur"]
  by (simp add: transitionStatus_def forward)

lemma report_transition_run:
  assumes "reliable s" "r \<in> set (task_shards (db s))" "live r" "ID r = rp_ShardID params" "shard_Status r = ShardStatusRunning"
    and "rp_ShardStatus params \<in> {ShardStatusSucceeded, ShardStatusFailed}"
  shows "\<exists>s'. report_transition params s = (Inr (), s') \<and> reliable s'"
proof -
  have run: "\<exists>s'. transitionStatus (rp_ShardID params) target [ShardStatusRunning] upd (tick_world s) = (Inr (), s') \<and> reliable s'"
    for target upd
    by (rule transitionStatus_run[of _ r]) (use assms in auto)
  show ?thesis
  proof (cases "rp_ShardStatus params = ShardStatusSucceeded")
    case True
    obtain s' where "transitionStatus (rp_ShardID params) ShardStatusSucceeded [ShardStatusRunning]
        (\<lambda>r. r\<lparr>shard_FinishedAt := Some (now_at (env s) (tick s))\<rparr>) (tick_world s) = (Inr (), s')" "reliable s'"
      using run by blast
    then show ?thesis using True by (simp add: report_transition_def MarkSucceeded_def forward)
  next
    case False
    obtain s' where "transitionStatus (rp_ShardID params) ShardStatusFailed [ShardStatusRunning]
        (\<lambda>r. r\<lparr>shard_FinishedAt := Some (now_at (env s) (tick s)),
               shard_LastError := go_string (rp_ErrorMessage params)\<rparr>) (tick_world s) = (Inr (), s')" "reliable s'"
      using run by blast
    then show ?thesis using False assms(6) by (simp add: report_transition_def MarkFailed_def forward)
  qed
qed

lemma report_output_run: "reliable s \<Longrightarrow> \<exists>s'. report_output params s = (Inr (), s') \<and> reliable s'"
  by (simp add: report_output_def forward)

lemma resolve_run: "reliable s \<Longrightarrow> \<exists>err s'. resolveTaskFailureLastError T e s = (Inr err, s') \<and> reliable s'"
  by (cases "failed_shards_latest_first T (db s)")
    (simp_all add: resolveTaskFailureLastError_def forward first_row_def)

lemma finish_task_run:
  assumes "reliable s" "t \<in> set (tasks (db s))" "live t" "ID t = T" "task_Status t \<notin> set task_terminal_statuses"
  shows "\<exists>x s'. finish_task T task st err at avail s = (Inr x, s') \<and> reliable s'"
  using assms affected_mem[OF assms(2), of "\<lambda>r. live r \<and> ID r = T \<and> task_Status r \<notin> set task_terminal_statuses"]
  by (simp add: finish_task_def updateTaskTerminalStatus_def forward)

lemma RecomputeTaskStatus_run:
  assumes "reliable s" "distinct (map ID (tasks (db s)))"
    and t: "t \<in> set (tasks (db s))" "live t" "ID t = T" "task_Status t \<notin> set task_terminal_statuses"
  shows "\<exists>x s'. RecomputeTaskStatus T e s = (Inr x, s') \<and> reliable s'"
proof -
  define s4 where "s4 = tick_world (tick_world (tick_world (tick_world s)))"
  have s4: "reliable s4" "db s4 = db s" using assms(1) by (simp_all add: s4_def)
  have load: "first_row (filter (\<lambda>r. live r \<and> ID r = T) (tasks (db s))) = Inr t"
    by (rule first_row_filter[OF assms(2) t(1)]) (use t in auto)
  obtain err s5 where res: "resolveTaskFailureLastError T e s4 = (Inr err, s5)" "reliable s5"
    using resolve_run[OF s4(1)] by blast
  have s5: "db s5 = db s" using resolve_db[OF res(1)] s4 by simp
  have fin: "\<exists>x s'. finish_task T t st err at avail q = (Inr x, s') \<and> reliable s'"
    if "reliable q" "db q = db s" for q st err at avail
    by (rule finish_task_run[OF that(1)]) (use that t in auto)
  obtain x s6 where f: "finish_task T t TaskStatusFailed err (now_at (env s) (Suc (Suc (Suc (tick s))))) False s5 = (Inr x, s6)" "reliable s6"
    using fin[OF res(2) s5] by blast
  obtain y s7 where g: "finish_task T t TaskStatusSucceeded [] (now_at (env s) (Suc (Suc (Suc (tick s))))) True s4 = (Inr y, s7)" "reliable s7"
    using fin[OF s4] by blast
  show ?thesis using assms(1) t(4) load res f g unfolding s4_def
    by (simp add: RecomputeTaskStatus_def forward task_terminal_statuses_def)
qed

lemma report_body_run:
  assumes s: "reliable s" and inv: "db_inv {} (db s)"
    and st: "rp_ShardStatus params \<in> {ShardStatusSucceeded, ShardStatusFailed}"
    and shard: "shard \<in> set (task_shards (db s))" "ID shard = rp_ShardID params" "shard_Status shard = ShardStatusRunning"
  shows "\<exists>x s'. report_body params now s = (Inr x, s') \<and> reliable s'"
proof -
  define s2 where "s2 = tick_world (tick_world s)"
  have s2: "reliable s2" "db s2 = db s" using s by (simp_all add: s2_def)
  have live: "live shard" using db_invD(3)[OF inv shard(1)] by (simp add: shard_row_ok_def)
  obtain task where task: "task \<in> set (tasks (db s))" "ID task = shard_TaskID shard" using db_invD(4)[OF inv shard(1)] by auto
  have tl: "live task" using db_invD(5)[OF inv task(1)] by (simp add: task_row_ok_def)
  have mid: "task_Status task \<in> set dispatched"
    using active_shard_task[OF inv shard(1) _ task] shard(3) by (simp add: task_mid_def status_lists)
  have load: "first_row (filter (\<lambda>r. live r \<and> ID r = rp_ShardID params) (task_shards (db s))) = Inr shard"
    by (rule first_row_filter[OF db_invD(2)[OF inv] shard(1)]) (use shard live in auto)
  have load': "first_row (filter (\<lambda>r. live r \<and> ID r = shard_TaskID shard) (tasks (db s))) = Inr task"
    by (rule first_row_filter[OF db_invD(1)[OF inv] task(1)]) (use task tl in auto)
  obtain s3 where 3: "report_transition params s2 = (Inr (), s3)" "reliable s3"
    using report_transition_run[OF s2(1) _ live shard(2,3) st] shard(1) s2 by auto
  obtain s4 where 4: "report_output params s3 = (Inr (), s4)" "reliable s4" using report_output_run[OF 3(2)] by blast
  have ts: "tasks (db s4) = tasks (db s)" using report_finished_row[OF 3(1) 4(1) st] inv shard s2 by simp
  obtain x s5 where 5: "RecomputeTaskStatus (shard_TaskID shard) (go_string (rp_ErrorMessage params)) s4 = (Inr x, s5)" "reliable s5"
    using RecomputeTaskStatus_run[OF 4(2), of task "shard_TaskID shard" "go_string (rp_ErrorMessage params)"]
      ts task tl mid db_invD(1)[OF inv] by (auto simp: status_lists)
  have "report_task params shard task now s4 = (Inr x, s5)"
    using st 5 by (auto simp: report_task_def forward)
  then show ?thesis
    using s load load' 3 4 5 shard(3) mid unfolding s2_def
    by (auto simp: report_body_def task_shard_orm_GetByID_def forward status_lists)
qed

lemma ReportShardStatus_run:
  assumes "reliable s" "db_inv {} (db s)"
    and "rp_ShardStatus params \<in> {ShardStatusSucceeded, ShardStatusFailed}"
    and "shard \<in> set (task_shards (db s))" "ID shard = rp_ShardID params" "shard_Status shard = ShardStatusRunning"
  shows "\<exists>s'. ReportShardStatus params s = (Inr (), s')"
proof -
  obtain x s' where "report_body params (now_at (env s) (tick s)) (tick_world (tick_world s)) = (Inr x, s')" "reliable s'"
    using report_body_run[of "tick_world (tick_world s)"] assms by fastforce
  then show ?thesis using assms(1)
    by (cases x) (simp_all add: ReportShardStatus_def forward transaction_def dispatchCompletionHookAsync_def)
qed

end
