(* ===== verification/Queue_Results.thy ===== *)
theory Queue_Results
  imports Report_Results
begin

text \<open>
  How leases and reports work together on a reliable database: which shards may be leased, and what
  one round of a lease, the report of the start and the report of the result does to the rows.
\<close>

section \<open>Shards that may be leased\<close>

text \<open>
  A shard that may be given to an agent of the tenant on the backend: it is queued, its task is the
  tenant's and waiting for agents, queued or running, and the tenant's backend is the agent's.
\<close>

definition leasable :: "uuid \<Rightarrow> string \<Rightarrow> database \<Rightarrow> Task \<Rightarrow> TaskShard \<Rightarrow> bool" where
  "leasable tenantID backendName d t r \<longleftrightarrow>
     r \<in> set (task_shards d) \<and> shard_Status r = ShardStatusQueued \<and>
     t \<in> set (tasks d) \<and> ID t = shard_TaskID r \<and> task_TenantID t = tenantID \<and>
     task_Status t \<in> {TaskStatusWaitingForAgents, TaskStatusQueued, TaskStatusRunning} \<and>
     (\<exists>n\<in>set (tenants d). ID n = tenantID \<and> tenant_PrimaryBackendName n = backendName)"

lemma leasable_iff:
  assumes "db_inv {} d"
  shows "(t, r) \<in> set (lease_candidates coll tenantID backendName d) \<longleftrightarrow> leasable tenantID backendName d t r"
  using db_invD(3)[OF assms, of r]
  by (auto simp: lease_candidates_mem leasable_def shard_row_ok_def shardQueryStatuses_def)

lemma lease_candidates_first:
  assumes "lease_candidates coll tenantID backendName d = (t, r) # rest"
    and "(t', r') \<in> set (lease_candidates coll tenantID backendName d)"
  shows "(CreatedAt t, coll (shard_ScriptName r)) \<le> (CreatedAt t', coll (shard_ScriptName r'))"
  using sort_key_first(2)[OF assms(1)[unfolded lease_candidates_def], of "(t', r')"]
    assms(2)[unfolded lease_candidates_def set_sort] by simp

lemma lease_db_shards:
  assumes "distinct (map ID (task_shards d))" "shard \<in> set (task_shards d)"
  shows "set (task_shards (lease_db agentID at at' t shard d)) = insert (leased_shard agentID at' shard) (set (task_shards d) - {shard})"
proof -
  have "set (upd_where (\<lambda>q. ID q = ID shard) (leased_shard agentID at') (task_shards d)) =
      insert (leased_shard agentID at' shard) (set (task_shards d) - {shard})"
    by (rule set_upd_one[OF assms]) auto
  then show ?thesis by (simp add: lease_db_def)
qed

section \<open>A finished shard\<close>

lemma report_finished:
  assumes "reliable s" and "db_inv {} (db s)"
    and "rp_ShardStatus params \<in> {ShardStatusSucceeded, ShardStatusFailed}"
    and "shard \<in> set (task_shards (db s))" and "ID shard = rp_ShardID params" and "shard_Status shard = ShardStatusRunning"
    and "task \<in> set (tasks (db s))" and "ID task = shard_TaskID shard"
  shows "\<exists>s' hook. ReportShardStatus params s = (Inr (), s') \<and>
    report_effect params shard task (db s) (db s') hook \<and>
    hooks_pending s' = hooks_pending s @ (case hook of None \<Rightarrow> [] | Some payload \<Rightarrow> [payload])"
proof -
  obtain s' where run: "ReportShardStatus params s = (Inr (), s')"
    using ReportShardStatus_run[OF assms(1-6)] by blast
  obtain x s1 where b: "report_body params (now_at (env s) (tick s)) (tick_world (tick_world s)) = (Inr x, s1)"
    and d: "db s' = db s1"
    and h: "hooks_pending s' = hooks_pending s @ (case x of None \<Rightarrow> [] | Some p \<Rightarrow> if hook_CompletionHookURL p = [] then [] else [p])"
    using ReportShardStatus_Inr[OF run] by blast
  have eff: "report_effect params shard task (db s) (db s1) x"
    using report_body_effect[OF b assms(3)] assms by simp
  have "hook_CompletionHookURL p \<noteq> []" if "x = Some p" for p
    using eff that by (auto simp: report_effect_def newCompletionHookPayload_def Let_def split: if_split_asm)
  then show ?thesis using run d h eff by (intro exI[of _ s'] exI[of _ x]) (auto split: option.splits)
qed


section \<open>What leases and reports leave alone\<close>

interpretation tenant_rows: evolution "\<lambda>s. tenants (db s)" "(=)"
  by unfold_locales simp_all

lemma tenants_stmt:
  "evolves (\<lambda>s. tenants (db s)) (=) (select f)" "evolves (\<lambda>s. tenants (db s)) (=) (select_first g)"
  "evolves (\<lambda>s. tenants (db s)) (=) (update_tasks p h)" "evolves (\<lambda>s. tenants (db s)) (=) (update_shards q k)"
  "evolves (\<lambda>s. tenants (db s)) (=) time_Now"
  by (auto simp: evolves_def select_def select_first_def update_tasks_def update_shards_def update_stmt_def stmt_def
      time_Now_def split: option.splits)

lemma tenants_report_body: "evolves (\<lambda>s. tenants (db s)) (=) (report_body params now)"
  unfolding report_body_def report_transition_def report_output_def report_task_def task_shard_orm_GetByID_def
    MarkRunning_def MarkSucceeded_def MarkFailed_def transitionStatus_def RecomputeTaskStatus_def
    resolveTaskFailureLastError_def finish_task_def updateTaskTerminalStatus_def
  by (intro tenant_rows.evolves_intros tenants_stmt)

lemma report_leaves:
  assumes "ReportShardStatus params s = (Inr (), s')" "db_inv {} (db s)"
  shows "reliable s' = reliable s" "tenants (db s') = tenants (db s)" "db_inv {} (db s')"
proof -
  have "evolves (\<lambda>s. (env s, db_open s)) (=) (ReportShardStatus params)"
    unfolding ReportShardStatus_def dispatchCompletionHookAsync_def
    by (intro outside.keeps_intros outside.keeps_report_body outside.evolves_modifyE) simp
  then show "reliable s' = reliable s" using assms(1) by (rule outside_reliable)
  obtain x s1 where b: "report_body params (now_at (env s) (tick s)) (tick_world (tick_world s)) = (Inr x, s1)"
    and d: "db s' = db s1" using ReportShardStatus_Inr[OF assms(1)] by blast
  show "tenants (db s') = tenants (db s)" using tenant_rows.evolvesD[OF tenants_report_body b] d by simp
  show "db_inv {} (db s')" using report_body_inv[OF b] assms(2) d by simp
qed

section \<open>One row is replaced\<close>

definition swaps :: "'a BaseUUIDModel_scheme set \<Rightarrow> 'a BaseUUIDModel_scheme \<Rightarrow> 'a BaseUUIDModel_scheme \<Rightarrow>
    'a BaseUUIDModel_scheme set \<Rightarrow> bool" where
  "swaps A x y B \<longleftrightarrow> x \<in> A \<and> ID y = ID x \<and> B = insert y (A - {x})"

lemma swaps_trans: "inj_on ID A \<Longrightarrow> swaps A x y B \<Longrightarrow> swaps B y z C \<Longrightarrow> swaps A x z C"
  by (auto simp: swaps_def inj_on_def)

lemma swaps_refl: "x \<in> A \<Longrightarrow> swaps A x x A"
  by (auto simp: swaps_def)

lemma inj_ID: "db_inv {} d \<Longrightarrow> inj_on ID (set (tasks d))" "db_inv {} d \<Longrightarrow> inj_on ID (set (task_shards d))"
  using db_invD(1,2) by (auto simp: distinct_map)

section \<open>The steps of a round\<close>

lemma lease_step:
  assumes s: "reliable s" and inv: "db_inv {} (db s)" and some: "leasable tenantID backendName (db s) t0 r0"
  shows "\<exists>task shard s' t r t' r'. LeaseNextShard tenantID backendName agentID s = (Inr (task, shard), s') \<and>
    reliable s' \<and> db_inv {} (db s') \<and> tenants (db s') = tenants (db s) \<and>
    leasable tenantID backendName (db s) t r \<and> ID shard = ID r \<and>
    swaps (set (task_shards (db s))) r r' (set (task_shards (db s'))) \<and> shard_TaskID r' = shard_TaskID r \<and>
    shard_Status r' = ShardStatusLeased \<and>
    swaps (set (tasks (db s))) t t' (set (tasks (db s'))) \<and> task_TenantID t' = task_TenantID t"
proof -
  have "lease_candidates (collate (env s)) tenantID backendName (db s) \<noteq> []"
    using some leasable_iff[OF inv, of t0 r0 "collate (env s)" tenantID backendName] by auto
  then obtain task shard s' where run: "LeaseNextShard tenantID backendName agentID s = (Inr (task, shard), s')"
    using LeaseNextShard_run[OF s inv] by fastforce
  obtain t r rest at at' where first: "lease_candidates (collate (env s)) tenantID backendName (db s) = (t, r) # rest"
    and d: "db s' = lease_db agentID at at' t r (db s)" and id: "ID shard = ID r"
    using LeaseNextShard_Inr[OF run inv] by auto
  have ok: "leasable tenantID backendName (db s) t r"
    using leasable_iff[OF inv, of t r "collate (env s)" tenantID backendName] first by simp
  note t = ok[unfolded leasable_def]
  have shards: "swaps (set (task_shards (db s))) r (leased_shard agentID at' r) (set (task_shards (db s')))"
    using lease_db_shards[OF db_invD(2)[OF inv]] t d by (simp add: swaps_def leased_shard_def)
  have tasks: "\<exists>t'. swaps (set (tasks (db s))) t t' (set (tasks (db s'))) \<and> task_TenantID t' = task_TenantID t"
  proof (cases "task_Status t = TaskStatusWaitingForAgents")
    case True
    have "set (tasks (db s')) = insert (promoted_task at t) (set (tasks (db s)) - {t})"
      unfolding d lease_db_def by (simp, rule set_upd_one[OF db_invD(1)[OF inv]]) (use t True in auto)
    then show ?thesis using t by (intro exI[of _ "promoted_task at t"]) (simp add: swaps_def promoted_task_def)
  next
    case False
    have "\<not> (ID q = ID t \<and> task_Status q = TaskStatusWaitingForAgents)" if "q \<in> set (tasks (db s))" for q
      using distinct_map_same[OF db_invD(1)[OF inv] that, of t] t False by blast
    then have "tasks (db s') = tasks (db s)"
      unfolding d lease_db_def upd_where_def by (simp, intro map_idI) auto
    then show ?thesis using t swaps_refl by metis
  qed
  have "db_inv {} (db s')"
    unfolding d by (rule lease_db_inv[OF inv]) (use t in \<open>auto simp: shardQueryStatuses_def\<close>)
  moreover have "reliable s'" using outside_reliable[OF outside.keeps_LeaseNextShard run] s by simp
  moreover have "tenants (db s') = tenants (db s)" by (simp add: d lease_db_def)
  moreover have "shard_TaskID (leased_shard agentID at' r) = shard_TaskID r" "shard_Status (leased_shard agentID at' r) = ShardStatusLeased"
    by (simp_all add: leased_shard_def)
  ultimately show ?thesis using run ok id shards tasks by blast
qed

lemma start_step:
  assumes s: "reliable s" and inv: "db_inv {} (db s)" and st: "rp_ShardStatus params = ShardStatusRunning"
    and r: "r \<in> set (task_shards (db s))" "ID r = rp_ShardID params" "shard_Status r = ShardStatusLeased"
    and t: "t \<in> set (tasks (db s))" "ID t = shard_TaskID r"
  shows "\<exists>s' r' t'. ReportShardStatus params s = (Inr (), s') \<and>
    swaps (set (task_shards (db s))) r r' (set (task_shards (db s'))) \<and> shard_TaskID r' = shard_TaskID r \<and>
    shard_Status r' = ShardStatusRunning \<and>
    swaps (set (tasks (db s))) t t' (set (tasks (db s'))) \<and> task_TenantID t' = task_TenantID t"
proof -
  define now where "now = now_at (env s) (tick s)"
  define s2 where "s2 = tick_world (tick_world s)"
  define s4 where "s4 = tick_world (tick_world s2)"
  have s2: "reliable s2" "db s2 = db s" and s4: "reliable s4" "db s4 = db s" using s by (simp_all add: s2_def s4_def)
  have live: "live r" "live t"
    using db_invD(3)[OF inv r(1)] db_invD(5)[OF inv t(1)] by (simp_all add: shard_row_ok_def task_row_ok_def)
  have mid: "task_Status t \<in> set dispatched"
    using active_shard_task[OF inv r(1) _ t] r(3) by (simp add: task_mid_def status_lists)
  have load: "first_row (filter (\<lambda>q. live q \<and> ID q = rp_ShardID params) (task_shards (db s))) = Inr r"
    "first_row (filter (\<lambda>q. live q \<and> ID q = shard_TaskID r) (tasks (db s))) = Inr t"
    by (rule first_row_filter[OF db_invD(2)[OF inv] r(1)]; use r live in auto)
      (rule first_row_filter[OF db_invD(1)[OF inv] t(1)]; use t live in auto)
  let ?start = "\<lambda>q::TaskShard. q\<lparr>shard_StartedAt := Some (now_at (env s4) (tick s4))\<rparr>"
  obtain s5 where m: "transitionStatus (rp_ShardID params) ShardStatusRunning [ShardStatusLeased] ?start (tick_world s4) = (Inr (), s5)"
    and s5: "reliable s5"
    using transitionStatus_run[of "tick_world s4" r "rp_ShardID params" "[ShardStatusLeased]"] s4 r live by auto
  have row: "tasks (db s5) = tasks (db s)"
    "\<exists>at. set (task_shards (db s5)) = insert ((?start r)\<lparr>shard_Status := ShardStatusRunning, UpdatedAt := at\<rparr>) (set (task_shards (db s)) - {r})"
    using transition_row[OF m, of r] db_invD(2)[OF inv] r s4(2) by auto
  let ?p = "\<lambda>q. live q \<and> ID q = shard_TaskID r \<and> task_Status q \<noteq> TaskStatusCancelled"
  let ?f = "\<lambda>q. ((if task_StartedAt t = None then q\<lparr>task_StartedAt := Some now\<rparr> else q)\<lparr>task_Status := TaskStatusRunning\<rparr>)
      \<lparr>UpdatedAt := now_at (env s5) (tick s5)\<rparr>"
  have pt: "?p t" using live t mid by (auto simp: status_lists)
  have n: "affected ?p (tasks (db s5)) \<noteq> 0" using affected_mem[of t "tasks (db s5)" ?p] pt t(1) row(1) by simp
  define s6 where "s6 = (tick_world s5)\<lparr>db := set_tasks (upd_where ?p ?f (tasks (db s5))) (db s5)\<rparr>"
  have task: "report_task params r t now s5 = (Inr None, s6)"
    using n st s5 by (simp add: report_task_def forward s6_def)
  have "report_body params now s2 = (Inr None, s6)"
    using load s2 m task st mid unfolding s4_def
    by (auto simp: report_body_def task_shard_orm_GetByID_def forward report_transition_def MarkRunning_def report_output_def status_lists)
  then have "ReportShardStatus params s = (Inr (), tick_world s6)"
    using s s5 by (simp add: ReportShardStatus_def forward transaction_def s2_def now_def s6_def)
  moreover have "set (upd_where ?p ?f (tasks (db s))) = insert (?f t) (set (tasks (db s)) - {t})"
    by (rule set_upd_one[OF db_invD(1)[OF inv] t(1)]) (use pt t in auto)
  then have "swaps (set (tasks (db s))) t (?f t) (set (tasks (db s6)))" using t(1) by (simp add: swaps_def s6_def row(1))
  moreover obtain at where
    "swaps (set (task_shards (db s))) r ((?start r)\<lparr>shard_Status := ShardStatusRunning, UpdatedAt := at\<rparr>) (set (task_shards (db s6)))"
    using row(2) r(1) by (auto simp: s6_def swaps_def)
  ultimately show ?thesis
    by (intro exI[of _ "tick_world s6"] exI[of _ "(?start r)\<lparr>shard_Status := ShardStatusRunning, UpdatedAt := at\<rparr>"] exI[of _ "?f t"]) simp
qed

lemma finish_step:
  assumes s: "reliable s" and inv: "db_inv {} (db s)"
    and st: "rp_ShardStatus params \<in> {ShardStatusSucceeded, ShardStatusFailed}"
    and r: "r \<in> set (task_shards (db s))" "ID r = rp_ShardID params" "shard_Status r = ShardStatusRunning"
    and t: "t \<in> set (tasks (db s))" "ID t = shard_TaskID r"
  shows "\<exists>s' r' t'. ReportShardStatus params s = (Inr (), s') \<and>
    swaps (set (task_shards (db s))) r r' (set (task_shards (db s'))) \<and> shard_TaskID r' = shard_TaskID r \<and>
    shard_Status r' = rp_ShardStatus params \<and>
    swaps (set (tasks (db s))) t t' (set (tasks (db s'))) \<and> task_TenantID t' = task_TenantID t \<and>
    task_Status t' \<noteq> TaskStatusCancelled"
proof -
  obtain s' hook where run: "ReportShardStatus params s = (Inr (), s')"
    and eff: "report_effect params r t (db s) (db s') hook" using report_finished[OF assms] by blast
  obtain r' where r': "finished_row params r r'" "set (task_shards (db s')) = insert r' (set (task_shards (db s)) - {r})"
    using eff by (auto simp: report_effect_def)
  have mid: "task_Status t \<in> set dispatched"
    using active_shard_task[OF inv r(1) _ t] r(3) by (simp add: task_mid_def status_lists)
  have "\<exists>t'. swaps (set (tasks (db s))) t t' (set (tasks (db s'))) \<and> task_TenantID t' = task_TenantID t \<and>
      task_Status t' \<noteq> TaskStatusCancelled"
  proof (cases "report_closes r (db s)")
    case True
    then obtain status err t' where "closed_task status err t t'" "status \<in> {TaskStatusFailed, TaskStatusSucceeded}"
      "set (tasks (db s')) = insert t' (set (tasks (db s)) - {t})"
      using eff by (auto simp: report_effect_def Let_def)
    then show ?thesis using t(1) by (intro exI[of _ t']) (auto simp: closed_task_def swaps_def)
  next
    case False
    then have "tasks (db s') = tasks (db s)" using eff by (simp add: report_effect_def)
    then show ?thesis using swaps_refl[OF t(1)] mid by (intro exI[of _ t]) (auto simp: status_lists)
  qed
  then show ?thesis using run r' r(1) by (intro exI[of _ s'] exI[of _ r']) (auto simp: swaps_def finished_row_def)
qed

section \<open>Rounds\<close>

text \<open>An agent that leases a shard, reports its start, and reports the result \<open>report\<close> has for it; and \<open>n\<close> such rounds.\<close>

definition work_round :: "uuid \<Rightarrow> string \<Rightarrow> string \<Rightarrow> (uuid \<Rightarrow> ReportShardStatusParams) \<Rightarrow> unit w" where
  "work_round tenantID backendName agentID report =
     bindE (LeaseNextShard tenantID backendName agentID) (\<lambda>(task, shard).
     bindE (ReportShardStatus ((report (ID shard))\<lparr>rp_ShardStatus := ShardStatusRunning\<rparr>)) (\<lambda>_.
     ReportShardStatus (report (ID shard))))"

primrec work_off :: "nat \<Rightarrow> uuid \<Rightarrow> string \<Rightarrow> string \<Rightarrow> (uuid \<Rightarrow> ReportShardStatusParams) \<Rightarrow> unit w" where
  "work_off 0 tenantID backendName agentID report = ret ()"
| "work_off (Suc n) tenantID backendName agentID report =
     bindE (work_round tenantID backendName agentID report) (\<lambda>_. work_off n tenantID backendName agentID report)"

definition reports_results :: "(uuid \<Rightarrow> ReportShardStatusParams) \<Rightarrow> bool" where
  "reports_results report \<longleftrightarrow>
     (\<forall>i. rp_ShardID (report i) = i \<and> rp_ShardStatus (report i) \<in> {ShardStatusSucceeded, ShardStatusFailed})"

lemma round_step:
  assumes s: "reliable s" and inv: "db_inv {} (db s)" and some: "leasable tenantID backendName (db s) t0 r0"
    and rep: "reports_results report"
  shows "\<exists>s' t r t' r'. work_round tenantID backendName agentID report s = (Inr (), s') \<and>
    reliable s' \<and> db_inv {} (db s') \<and> tenants (db s') = tenants (db s) \<and> leasable tenantID backendName (db s) t r \<and>
    swaps (set (task_shards (db s))) r r' (set (task_shards (db s'))) \<and> shard_TaskID r' = shard_TaskID r \<and>
    shard_Status r' = rp_ShardStatus (report (ID r)) \<and>
    swaps (set (tasks (db s))) t t' (set (tasks (db s'))) \<and> task_TenantID t' = task_TenantID t \<and>
    task_Status t' \<noteq> TaskStatusCancelled"
proof -
  note inj = inj_ID[OF inv]
  obtain task shard s1 t r t1 r1 where run1: "LeaseNextShard tenantID backendName agentID s = (Inr (task, shard), s1)"
    and s1: "reliable s1" "db_inv {} (db s1)" "tenants (db s1) = tenants (db s)"
    and ok: "leasable tenantID backendName (db s) t r" and id: "ID shard = ID r"
    and r1: "swaps (set (task_shards (db s))) r r1 (set (task_shards (db s1)))" "shard_TaskID r1 = shard_TaskID r"
      "shard_Status r1 = ShardStatusLeased"
    and t1: "swaps (set (tasks (db s))) t t1 (set (tasks (db s1)))" "task_TenantID t1 = task_TenantID t"
    using lease_step[OF s inv some] by blast
  have ids: "ID r1 = ID r" "ID t1 = ID t" and mem1: "r1 \<in> set (task_shards (db s1))" "t1 \<in> set (tasks (db s1))"
    and of_t: "ID t = shard_TaskID r"
    using r1(1) t1(1) ok by (auto simp: swaps_def leasable_def)
  let ?start = "(report (ID r))\<lparr>rp_ShardStatus := ShardStatusRunning\<rparr>"
  have rid: "rp_ShardID (report (ID r)) = ID r" "rp_ShardStatus (report (ID r)) \<in> {ShardStatusSucceeded, ShardStatusFailed}"
    using rep by (simp_all add: reports_results_def)
  obtain s2 r2 t2 where run2: "ReportShardStatus ?start s1 = (Inr (), s2)"
    and r2: "swaps (set (task_shards (db s1))) r1 r2 (set (task_shards (db s2)))" "shard_TaskID r2 = shard_TaskID r1"
      "shard_Status r2 = ShardStatusRunning"
    and t2: "swaps (set (tasks (db s1))) t1 t2 (set (tasks (db s2)))" "task_TenantID t2 = task_TenantID t1"
    using start_step[OF s1(1,2) _ mem1(1) _ r1(3) mem1(2), of ?start] ids r1(2) of_t rid(1) by auto
  note s2 = report_leaves[OF run2 s1(2)]
  have ids2: "ID r2 = ID r" "ID t2 = ID t" and mem2: "r2 \<in> set (task_shards (db s2))" "t2 \<in> set (tasks (db s2))"
    using r2(1) t2(1) ids by (auto simp: swaps_def)
  obtain s3 r3 t3 where run3: "ReportShardStatus (report (ID r)) s2 = (Inr (), s3)"
    and r3: "swaps (set (task_shards (db s2))) r2 r3 (set (task_shards (db s3)))" "shard_TaskID r3 = shard_TaskID r2"
      "shard_Status r3 = rp_ShardStatus (report (ID r))"
    and t3: "swaps (set (tasks (db s2))) t2 t3 (set (tasks (db s3)))" "task_TenantID t3 = task_TenantID t2"
      "task_Status t3 \<noteq> TaskStatusCancelled"
    using finish_step[OF _ s2(3) rid(2) mem2(1) _ r2(3) mem2(2)] s1(1) s2(1) ids2 rid(1) r1(2) r2(2) of_t by auto
  note s3 = report_leaves[OF run3 s2(3)]
  have "work_round tenantID backendName agentID report s = (Inr (), s3)"
    using run1 run2 run3 id by (simp add: work_round_def forward)
  moreover have "swaps (set (task_shards (db s))) r r3 (set (task_shards (db s3)))"
    using swaps_trans[OF inj(2) r1(1) swaps_trans[OF inj_ID(2)[OF s1(2)] r2(1) r3(1)]] .
  moreover have "swaps (set (tasks (db s))) t t3 (set (tasks (db s3)))"
    using swaps_trans[OF inj(1) t1(1) swaps_trans[OF inj_ID(1)[OF s1(2)] t2(1) t3(1)]] .
  moreover have "reliable s3" "tenants (db s3) = tenants (db s)" "shard_TaskID r3 = shard_TaskID r" "task_TenantID t3 = task_TenantID t"
    using s1 s2 s3 r1(2) r2(2) r3(2) t1(2) t2(2) t3(2) by simp_all
  ultimately show ?thesis using ok s3(3) r3(3) t3(3) by blast
qed

section \<open>The queue gets empty\<close>

definition queue :: "uuid \<Rightarrow> string \<Rightarrow> database \<Rightarrow> TaskShard set" where
  "queue tenantID backendName d = {r. \<exists>t. leasable tenantID backendName d t r}"

lemma finite_queue: "finite (queue tenantID backendName d)"
  by (rule finite_subset[of _ "set (task_shards d)"]) (auto simp: queue_def leasable_def)

lemma task_ok_between:
  assumes ok: "task_ok status S" and S: "x \<in> S" "x \<in> {ShardStatusSucceeded, ShardStatusFailed}" "ShardStatusQueued \<in> S"
  shows "status \<in> set dispatched"
proof (rule ccontr)
  assume no: "status \<notin> set dispatched"
  have x: "x \<noteq> ShardStatusQueued" and q: "ShardStatusQueued \<notin> set shard_terminal_statuses"
    "ShardStatusQueued \<notin> {ShardStatusSucceeded, ShardStatusFailed}" using S(2) by (auto simp: status_lists)
  have "S = {ShardStatusQueued} \<or> S = {ShardStatusSucceeded} \<or> S \<subseteq> {ShardStatusSucceeded, ShardStatusFailed} \<or>
      S \<subseteq> set shard_terminal_statuses"
    using ok no unfolding task_ok_def by metis
  then show False using S(1,3) x q by blast
qed

text \<open>A task with a finished shard and a queued one is still at work.\<close>

lemma dispatched_between:
  assumes inv: "db_inv {} d" and t: "t \<in> set (tasks d)"
    and r: "r \<in> set (task_shards d)" "shard_TaskID r = ID t" "shard_Status r \<in> {ShardStatusSucceeded, ShardStatusFailed}"
    and q: "q \<in> set (task_shards d)" "shard_TaskID q = ID t" "shard_Status q = ShardStatusQueued"
  shows "task_Status t \<in> set dispatched"
proof -
  have "shard_Status r \<in> statuses_of d (ID t)" "ShardStatusQueued \<in> statuses_of d (ID t)"
    using statuses_of_mem[OF r(1)] statuses_of_mem[OF q(1)] r(2) q(2,3) by auto
  then show ?thesis using task_ok_between[OF _ _ r(3)] db_invD(6)[OF inv t] by simp
qed

lemma queue_after_round:
  assumes inv: "db_inv {} d'" and ten: "tenants d' = tenants d" and ok: "leasable tenantID backendName d t r"
    and r': "swaps (set (task_shards d)) r r' (set (task_shards d'))" "shard_TaskID r' = shard_TaskID r"
      "shard_Status r' \<in> {ShardStatusSucceeded, ShardStatusFailed}"
    and t': "swaps (set (tasks d)) t t' (set (tasks d'))" "task_TenantID t' = task_TenantID t"
  shows "queue tenantID backendName d' = queue tenantID backendName d - {r}"
proof (intro equalityI subsetI)
  fix q assume "q \<in> queue tenantID backendName d'"
  then obtain u where u: "leasable tenantID backendName d' u q" by (auto simp: queue_def)
  then have q: "q \<in> set (task_shards d)" "q \<noteq> r" using r' ok by (auto simp: leasable_def swaps_def)
  have "leasable tenantID backendName d (if u = t' then t else u) q"
    using u t' ok q(1) ten by (auto simp: leasable_def swaps_def split: if_split_asm)
  then show "q \<in> queue tenantID backendName d - {r}" using q(2) by (auto simp: queue_def)
next
  fix q assume q: "q \<in> queue tenantID backendName d - {r}"
  then obtain u where u: "leasable tenantID backendName d u q" by (auto simp: queue_def)
  have mem: "q \<in> set (task_shards d')" "r' \<in> set (task_shards d')" "t' \<in> set (tasks d')" "ID t' = ID t" "ID t = shard_TaskID r"
    using u q r'(1) t'(1) ok by (auto simp: leasable_def swaps_def)
  show "q \<in> queue tenantID backendName d'"
  proof (cases "u = t")
    case True
    then have "task_Status t' \<in> set dispatched"
      using dispatched_between[OF inv mem(3) mem(2) _ r'(3) mem(1)] u r'(2) mem(4,5) by (auto simp: leasable_def)
    then have "leasable tenantID backendName d' t' q"
      using u True mem t'(2) ten by (auto simp: leasable_def dispatched_def)
    then show ?thesis by (auto simp: queue_def)
  next
    case False
    then have "leasable tenantID backendName d' u q" using u mem(1) t'(1) ten by (auto simp: leasable_def swaps_def)
    then show ?thesis by (auto simp: queue_def)
  qed
qed

text \<open>What has become of the rows of \<open>d\<close> when its queue was worked off.\<close>

definition worked_off :: "uuid \<Rightarrow> string \<Rightarrow> (uuid \<Rightarrow> ReportShardStatusParams) \<Rightarrow> database \<Rightarrow> database \<Rightarrow> bool" where
  "worked_off tenantID backendName report d d' \<longleftrightarrow>
     (\<forall>r\<in>set (task_shards d). \<exists>r'\<in>set (task_shards d'). ID r' = ID r \<and> shard_TaskID r' = shard_TaskID r \<and>
        shard_Status r' = (if r \<in> queue tenantID backendName d then rp_ShardStatus (report (ID r)) else shard_Status r)) \<and>
     ID ` set (task_shards d') \<subseteq> ID ` set (task_shards d) \<and>
     (\<forall>t\<in>set (tasks d). task_Status t \<noteq> TaskStatusCancelled \<longrightarrow>
        (\<exists>t'\<in>set (tasks d'). ID t' = ID t \<and> task_Status t' \<noteq> TaskStatusCancelled))"

lemma worked_off_round:
  assumes rep: "reports_results report" and q: "queue tenantID backendName d1 = queue tenantID backendName d - {r}"
    and r: "r \<in> queue tenantID backendName d"
    and r1: "swaps (set (task_shards d)) r r1 (set (task_shards d1))" "shard_TaskID r1 = shard_TaskID r"
      "shard_Status r1 = rp_ShardStatus (report (ID r))"
    and t1: "swaps (set (tasks d)) t t1 (set (tasks d1))" "task_Status t1 \<noteq> TaskStatusCancelled"
    and rest: "worked_off tenantID backendName report d1 d'"
  shows "worked_off tenantID backendName report d d'"
proof -
  have "r1 \<notin> queue tenantID backendName d1"
  proof -
    have "rp_ShardStatus (report (ID r)) \<in> {ShardStatusSucceeded, ShardStatusFailed}" using rep by (simp add: reports_results_def)
    then show ?thesis using r1(3) by (auto simp: queue_def leasable_def)
  qed
  then have "\<exists>r'\<in>set (task_shards d'). ID r' = ID x \<and> shard_TaskID r' = shard_TaskID x \<and>
      shard_Status r' = (if x \<in> queue tenantID backendName d then rp_ShardStatus (report (ID x)) else shard_Status x)"
    if x: "x \<in> set (task_shards d)" for x
  proof (cases "x = r")
    case True
    have "r1 \<in> set (task_shards d1)" "ID r1 = ID r" using r1(1) by (auto simp: swaps_def)
    then show ?thesis using rest r1(2,3) \<open>r1 \<notin> _\<close> r True unfolding worked_off_def by metis
  next
    case False
    then have "x \<in> set (task_shards d1)" "x \<in> queue tenantID backendName d1 \<longleftrightarrow> x \<in> queue tenantID backendName d"
      using x r1(1) q by (auto simp: swaps_def)
    then show ?thesis using rest unfolding worked_off_def by metis
  qed
  moreover have "ID ` set (task_shards d') \<subseteq> ID ` set (task_shards d)"
  proof -
    have "ID ` set (task_shards d1) \<subseteq> ID ` set (task_shards d)" using r1(1) by (auto simp: swaps_def)
    then show ?thesis using rest unfolding worked_off_def by blast
  qed
  moreover have "\<exists>t'\<in>set (tasks d'). ID t' = ID u \<and> task_Status t' \<noteq> TaskStatusCancelled"
    if u: "u \<in> set (tasks d)" "task_Status u \<noteq> TaskStatusCancelled" for u
  proof -
    define v where "v = (if u = t then t1 else u)"
    have v: "v \<in> set (tasks d1)" "ID v = ID u" "task_Status v \<noteq> TaskStatusCancelled"
      using u t1 by (auto simp: v_def swaps_def)
    then have "\<exists>t'\<in>set (tasks d'). ID t' = ID v \<and> task_Status t' \<noteq> TaskStatusCancelled"
      using rest unfolding worked_off_def by blast
    then show ?thesis using v(2) by simp
  qed
  ultimately show ?thesis unfolding worked_off_def by blast
qed

lemma work_off_run:
  assumes "reliable s" "db_inv {} (db s)" "reports_results report" "n = card (queue tenantID backendName (db s))"
  shows "\<exists>s'. work_off n tenantID backendName agentID report s = (Inr (), s') \<and> db_inv {} (db s') \<and>
    queue tenantID backendName (db s') = {} \<and> worked_off tenantID backendName report (db s) (db s')"
  using assms
proof (induction n arbitrary: s)
  case 0
  then have "queue tenantID backendName (db s) = {}" using finite_queue by simp
  then show ?case using 0 by (auto simp: worked_off_def)
next
  case (Suc n)
  have "queue tenantID backendName (db s) \<noteq> {}" using Suc(5) by auto
  then obtain t0 r0 where some: "leasable tenantID backendName (db s) t0 r0" by (auto simp: queue_def)
  obtain s1 t r t1 r1 where run: "work_round tenantID backendName agentID report s = (Inr (), s1)"
    and s1: "reliable s1" "db_inv {} (db s1)" "tenants (db s1) = tenants (db s)"
    and ok: "leasable tenantID backendName (db s) t r"
    and r1: "swaps (set (task_shards (db s))) r r1 (set (task_shards (db s1)))" "shard_TaskID r1 = shard_TaskID r"
      "shard_Status r1 = rp_ShardStatus (report (ID r))"
    and t1: "swaps (set (tasks (db s))) t t1 (set (tasks (db s1)))" "task_TenantID t1 = task_TenantID t"
      "task_Status t1 \<noteq> TaskStatusCancelled"
    using round_step[OF Suc(2,3) some Suc(4)] by blast
  have q: "queue tenantID backendName (db s1) = queue tenantID backendName (db s) - {r}"
    by (rule queue_after_round[OF s1(2,3) ok r1(1,2) _ t1(1,2)]) (use r1(3) Suc(4) in \<open>simp add: reports_results_def\<close>)
  have r: "r \<in> queue tenantID backendName (db s)" using ok by (auto simp: queue_def)
  then have "n = card (queue tenantID backendName (db s1))" using Suc(5) q finite_queue by simp
  then obtain s' where "work_off n tenantID backendName agentID report s1 = (Inr (), s')" "db_inv {} (db s')"
    "queue tenantID backendName (db s') = {}" and off: "worked_off tenantID backendName report (db s1) (db s')"
    using Suc(1)[OF s1(1,2) Suc(4)] by blast
  then show ?case using run worked_off_round[OF Suc(4) q r r1 t1(1,3) off] by (simp add: forward)
qed

lemma task_ok_finished:
  assumes ok: "task_ok status S" and S: "S \<subseteq> {ShardStatusSucceeded, ShardStatusFailed}" "S \<noteq> {}"
    and no: "status \<noteq> TaskStatusCancelled"
  shows "status = (if ShardStatusFailed \<in> S then TaskStatusFailed else TaskStatusSucceeded)"
proof -
  have q: "S \<noteq> {ShardStatusQueued}" "\<not> (\<exists>x\<in>S. x \<notin> set shard_terminal_statuses)" "ShardStatusFailed \<notin> {ShardStatusSucceeded}"
    using S by (auto simp: status_lists)
  have "status = TaskStatusSucceeded \<and> S = {ShardStatusSucceeded} \<or> status = TaskStatusFailed \<and> ShardStatusFailed \<in> S"
    using ok q(1,2) no unfolding task_ok_def by metis
  then show ?thesis using q(3) by auto
qed

text \<open>A task all of whose shards were in the queue ends as the reports say.\<close>

lemma worked_off_task:
  assumes inv: "db_inv {} d" "db_inv {} d'" and rep: "reports_results report"
    and off: "worked_off tenantID backendName report d d'"
    and t: "t \<in> set (tasks d)" "task_Status t \<in> set dispatched"
      "\<And>r. r \<in> set (task_shards d) \<Longrightarrow> shard_TaskID r = ID t \<Longrightarrow> r \<in> queue tenantID backendName d"
  shows "\<exists>t'\<in>set (tasks d'). ID t' = ID t \<and> task_Status t' =
    (if \<exists>r\<in>set (task_shards d). shard_TaskID r = ID t \<and> rp_ShardStatus (report (ID r)) = ShardStatusFailed
     then TaskStatusFailed else TaskStatusSucceeded)"
proof -
  let ?rows = "{r \<in> set (task_shards d). shard_TaskID r = ID t}"
  have "task_Status t \<noteq> TaskStatusCancelled" using t(2) by (auto simp: status_lists)
  then obtain t' where t': "t' \<in> set (tasks d')" "ID t' = ID t" "task_Status t' \<noteq> TaskStatusCancelled"
    using off t(1) unfolding worked_off_def by blast
  have image: "\<exists>r'\<in>set (task_shards d'). ID r' = ID r \<and> shard_TaskID r' = shard_TaskID r \<and>
      (shard_TaskID r = ID t \<longrightarrow> shard_Status r' = rp_ShardStatus (report (ID r)))" if "r \<in> set (task_shards d)" for r
    using off t(3)[OF that] that unfolding worked_off_def by (metis (full_types))
  have S: "statuses_of d' (ID t) = (\<lambda>r. rp_ShardStatus (report (ID r))) ` ?rows"
  proof (intro equalityI subsetI)
    fix x assume "x \<in> statuses_of d' (ID t)"
    then obtain y where y: "y \<in> set (task_shards d')" "shard_TaskID y = ID t" "x = shard_Status y"
      by (auto simp: statuses_of_def)
    then obtain r where r: "r \<in> set (task_shards d)" "ID r = ID y" using off unfolding worked_off_def by (metis image_iff subsetD)
    obtain r' where r': "r' \<in> set (task_shards d')" "ID r' = ID r" "shard_TaskID r' = shard_TaskID r"
      "shard_TaskID r = ID t \<longrightarrow> shard_Status r' = rp_ShardStatus (report (ID r))" using image[OF r(1)] by blast
    have "r' = y" using distinct_map_same[OF db_invD(2)[OF inv(2)] r'(1) y(1)] r'(2) r(2) by simp
    then show "x \<in> (\<lambda>r. rp_ShardStatus (report (ID r))) ` ?rows" using y r r' by (intro image_eqI[of _ _ r]) auto
  next
    fix x assume "x \<in> (\<lambda>r. rp_ShardStatus (report (ID r))) ` ?rows"
    then obtain r where r: "r \<in> set (task_shards d)" "shard_TaskID r = ID t" "x = rp_ShardStatus (report (ID r))" by auto
    then show "x \<in> statuses_of d' (ID t)" using image[OF r(1)] statuses_of_mem by metis
  qed
  have "?rows \<noteq> {}"
    using task_ok_mid[OF _ t(2)] db_invD(6)[OF inv(1) t(1)] by (auto simp: task_mid_def statuses_of_def)
  moreover have "statuses_of d' (ID t) \<subseteq> {ShardStatusSucceeded, ShardStatusFailed}"
    unfolding S using rep by (auto simp: reports_results_def)
  ultimately have stat: "task_Status t' = (if ShardStatusFailed \<in> statuses_of d' (ID t) then TaskStatusFailed else TaskStatusSucceeded)"
    using task_ok_finished[OF _ _ _ t'(3)] db_invD(6)[OF inv(2) t'(1)] t'(2) S by simp
  have conv: "ShardStatusFailed \<in> statuses_of d' (ID t) \<longleftrightarrow>
      (\<exists>r\<in>set (task_shards d). shard_TaskID r = ID t \<and> rp_ShardStatus (report (ID r)) = ShardStatusFailed)"
    unfolding S by (auto simp: image_iff eq_commute)
  show ?thesis using t'(1,2) stat unfolding conv by blast
qed

end
