(* ===== verification/Assign_Results.thy ===== *)
theory Assign_Results
  imports Reliable
begin

text \<open>
  What assigning a shard leaves behind: either the agent was sent the shard and holds its lease, or the
  lease has been undone.
\<close>

section \<open>Steps that touch no row\<close>

text \<open>
  The part of the state the in-memory registry, the object store and the streams do not touch.
\<close>

definition rows_view :: "world \<Rightarrow> env \<times> bool \<times> database \<times> CompletionHookPayload list" where
  "rows_view s = (env s, db_open s, db s, hooks_pending s)"

interpretation memory: evolution rows_view "(=)"
  by unfold_locales simp_all

lemma memory_put_agent: "evolves rows_view (=) (put_agent agentID a)"
  unfolding put_agent_def by (rule memory.evolves_modifyE) (simp add: rows_view_def)

lemma memory_HeartbeatAgent: "evolves rows_view (=) (HeartbeatAgent agentID status sid)"
  unfolding HeartbeatAgent_def
  by (intro memory.evolves_intros memory_put_agent, rule memory.evolvesI) (simp add: time_Now_def rows_view_def)

lemma memory_oss:
  "evolves rows_view (=) aliyun_NewOss" "evolves rows_view (=) (GetObjectURL key)" "evolves rows_view (=) (SignPutURL key n)"
  by (rule memory.evolvesI, simp add: aliyun_NewOss_def GetObjectURL_def SignPutURL_def rows_view_def split: option.splits sum.splits)+

lemma memory_stream_send: "evolves rows_view (=) (stream_send ref msg)"
  by (rule memory.evolvesI) (simp add: stream_send_def rows_view_def split: option.splits)

lemma memory_assign_leased: "evolves rows_view (=) (assign_leased sess task shard)"
  unfolding assign_leased_def Let_def sess_Send_def
  by (intro memory.evolves_intros memory_HeartbeatAgent memory_oss memory_stream_send)

section \<open>What reaches the stream\<close>

interpretation stream: beside_rows sent
  by unfold_locales simp_all

lemma stream_HeartbeatAgent: "evolves sent (=) (HeartbeatAgent agentID status sid)"
  unfolding HeartbeatAgent_def put_agent_def
  by (intro stream.keeps_intros stream.evolves_modifyE) simp

lemma stream_oss:
  "evolves sent (=) aliyun_NewOss" "evolves sent (=) (GetObjectURL key)" "evolves sent (=) (SignPutURL key n)"
  by (rule stream.evolvesI, simp add: aliyun_NewOss_def GetObjectURL_def SignPutURL_def split: option.splits sum.splits)+

lemma stream_undo: "evolves sent (=) (undo_assignment sess task shard)"
  unfolding undo_assignment_def RollbackAssignedShard_def
  by (intro stream.keeps_intros stream.keeps_RollbackShardWithTask stream_HeartbeatAgent)

text \<open>The shard is announced exactly when the body of the assignment succeeds.\<close>

lemma assign_leased_sent:
  assumes "assign_leased sess task shard s = (r, s')"
  shows "case r of
      Inl _ \<Rightarrow> sent s' = sent s
    | Inr _ \<Rightarrow> \<exists>a. sent s' = sent s @ [(sess_stream sess, SM_AssignShard a)] \<and>
        as_ShardId a = uuid_String (env s) (ID shard) \<and> as_TaskId a = uuid_String (env s) (ID task) \<and>
        as_ScriptName a = shard_ScriptName shard"
proof (cases r)
  case (Inl e)
  show ?thesis
    using assms Inl
    by (auto simp: assign_leased_def Let_def sess_Send_def bindE_Inl_iff mapErr_Inl_iff mapErr_Inr_iff stream_send_def
        dest!: stream.evolvesD[OF stream_HeartbeatAgent] stream.evolvesD[OF stream_oss(1)]
          stream.evolvesD[OF stream_oss(2)] stream.evolvesD[OF stream_oss(3)] split: option.split_asm)
next
  case (Inr x)
  then show ?thesis
    using assms
    by (auto simp: assign_leased_def Let_def sess_Send_def bindE_Inr_iff mapErr_Inr_iff stream_send_def
        dest!: stream.evolvesD[OF stream_HeartbeatAgent] stream.evolvesD[OF stream_oss(1)]
          stream.evolvesD[OF stream_oss(2)] stream.evolvesD[OF stream_oss(3)] split: option.split_asm)
qed

section \<open>Undoing a lease\<close>

definition requeued_shard :: "time \<Rightarrow> TaskShard \<Rightarrow> TaskShard" where
  "requeued_shard at r = r\<lparr>shard_AssignedAgentID := None, shard_Status := ShardStatusQueued, UpdatedAt := at\<rparr>"

lemma RollbackAssignedShard_run:
  assumes "reliable s" "task_Status task \<noteq> TaskStatusWaitingForAgents"
    and "r \<in> set (task_shards (db s))" "live r" "ID r = sid" "shard_Status r = ShardStatusLeased"
  shows "\<exists>s' at. RollbackAssignedShard sid task s = (Inr (), s') \<and>
    db s' = set_task_shards (upd_where (\<lambda>r. live r \<and> ID r = sid \<and> shard_Status r = ShardStatusLeased)
      (requeued_shard at) (task_shards (db s))) (db s)"
  using assms affected_mem[OF assms(3), of "\<lambda>r. live r \<and> ID r = sid \<and> shard_Status r = ShardStatusLeased"]
  by (auto simp: RollbackAssignedShard_def RollbackShardWithTask_def RollbackToQueued_def transitionStatus_def forward
      transaction_def requeued_shard_def[abs_def] exI[of _ "now_at (env s) (Suc (tick s))"])

lemma RollbackAssignedShard_tasks:
  assumes "RollbackAssignedShard sid task s = (r, s')" "task_Status task \<noteq> TaskStatusWaitingForAgents"
  shows "tasks (db s') = tasks (db s)"
proof (cases r)
  case (Inl e)
  then show ?thesis using assms(1)
    by (auto simp: RollbackAssignedShard_def bindE_Inl_iff orm_GetDB_def dest: transaction_Inl_db split: if_split_asm)
next
  case (Inr x)
  then obtain s1 y where "RollbackToQueued sid [ShardStatusLeased] (tick_world s) = (Inr y, s1)" "db s' = db s1"
    using assms by (auto simp: RollbackAssignedShard_def RollbackShardWithTask_def bindE_Inr_iff orm_GetDB_def
        transaction_Inr_iff split: if_split_asm)
  then show ?thesis by (auto simp: RollbackToQueued_def elim!: transitionStatus_Inr)
qed

text \<open>A lease and its undoing leave every shard in the status it had.\<close>

lemma lease_undone:
  assumes inv: "distinct (map ID (task_shards d))" "shard \<in> set (task_shards d)"
    and q: "shard_Status shard = ShardStatusQueued" "live shard"
  shows "map (\<lambda>r. (ID r, shard_Status r)) (upd_where (\<lambda>r. live r \<and> ID r = ID shard \<and> shard_Status r = ShardStatusLeased)
      (requeued_shard at'') (task_shards (lease_db agentID at at' t shard d))) =
    map (\<lambda>r. (ID r, shard_Status r)) (task_shards d)"
proof -
  have "shard_Status r = ShardStatusQueued \<and> live r" if "r \<in> set (task_shards d)" "ID r = ID shard" for r
    using distinct_map_same[OF inv(1) that(1) inv(2) that(2)] q by simp
  then show ?thesis
    by (auto simp: upd_where_def lease_db_def leased_shard_def requeued_shard_def live_def)
qed

text \<open>
  \<open>TryAssignShard\<close> on a reliable database: nothing to do, a shard handed out, or an error with the
  lease undone.
\<close>

definition lease_held :: "database \<Rightarrow> uuid \<Rightarrow> string \<Rightarrow> bool" where
  "lease_held d shardID agentID \<longleftrightarrow>
     (\<exists>r\<in>set (task_shards d). ID r = shardID \<and> shard_Status r = ShardStatusLeased \<and> shard_AssignedAgentID r = Some agentID)"

lemma undo_assignment_run:
  assumes s: "reliable s" and inv: "db_inv {} d" and d: "db s = lease_db agentID at at' t shard d"
    and shard: "shard \<in> set (task_shards d)" "shard_Status shard = ShardStatusQueued"
    and task: "task_Status task \<noteq> TaskStatusWaitingForAgents" "ID sh = ID shard"
    and run: "undo_assignment sess task sh s = (r, s')"
  shows "map (\<lambda>r. (ID r, shard_Status r)) (task_shards (db s')) = map (\<lambda>r. (ID r, shard_Status r)) (task_shards d) \<and>
    sent s' = sent s"
proof -
  have live: "live shard" using db_invD(3)[OF inv shard(1)] by (simp add: shard_row_ok_def)
  let ?l = "leased_shard agentID at' shard"
  have mem: "?l \<in> set (task_shards (db s))"
    using shard(1) image_eqI[of _ "\<lambda>q. if ID q = ID shard then leased_shard agentID at' q else q" shard]
    by (simp add: d lease_db_def set_upd_where)
  obtain s1 at'' where 1: "RollbackAssignedShard (ID shard) task s = (Inr (), s1)"
    and d1: "db s1 = set_task_shards (upd_where (\<lambda>r. live r \<and> ID r = ID shard \<and> shard_Status r = ShardStatusLeased)
      (requeued_shard at'') (task_shards (db s))) (db s)"
    using RollbackAssignedShard_run[OF s task(1) mem, of "ID shard"] live by (auto simp: leased_shard_def live_def)
  have "mapErr (Wrapf ''rollback agent heartbeat: %w'' []) (HeartbeatAgent (sess_agentID sess) AgentStatusIdle None) s1 = (r, s')"
    using run task(2) 1 by (simp add: undo_assignment_def bindE_app)
  then have "rows_view s1 = rows_view s'"
    using memory.evolvesD[OF memory.evolves_mapErr[OF memory_HeartbeatAgent]] by blast
  then have "db s' = db s1" by (simp add: rows_view_def)
  then show ?thesis
    using lease_undone[OF db_invD(2)[OF inv] shard live] stream.evolvesD[OF stream_undo run] by (simp add: d1 d)
qed

text \<open>After a lease: the assignment is announced, or the lease is taken back.\<close>

lemma assign_outcome:
  assumes s: "reliable s" and inv: "db_inv {} (db s)"
    and lease: "LeaseNextShard (sess_tenantID sess) (sess_backend sess) (sess_agentID sess) s = (Inr (task, shard'), s1)"
    and rest: "bindE (tryE (assign_leased sess task shard')) (\<lambda>r. case r of Inr _ \<Rightarrow> ret () | Inl ret_err \<Rightarrow>
          bindE (tryE (undo_assignment sess task shard')) (\<lambda>r2.
          case r2 of Inr _ \<Rightarrow> raise ret_err | Inl rollback_err \<Rightarrow>
            raise (Statusf Internal ''%v (rollback failed: %v)'' [error_Error ret_err, error_Error rollback_err]))) s1 = (r, s')"
  shows "map (\<lambda>r. (ID r, shard_Status r)) (task_shards (db s')) = map (\<lambda>r. (ID r, shard_Status r)) (task_shards (db s)) \<and>
      sent s' = sent s \<or>
    r = Inr () \<and> (\<exists>a shardID. sent s' = sent s @ [(sess_stream sess, SM_AssignShard a)] \<and>
      as_ShardId a = uuid_String (env s) shardID \<and> lease_held (db s') shardID (sess_agentID sess))"
proof -
  have keep1: "sent s1 = sent s" "env s1 = env s" "reliable s1"
    using stream.evolvesD[OF stream.keeps_LeaseNextShard lease] outside.evolvesD[OF outside.keeps_LeaseNextShard lease]
      outside_reliable[OF outside.keeps_LeaseNextShard lease] s by auto
  obtain t shard rest at at' where
      first: "lease_candidates (collate (env s)) (sess_tenantID sess) (sess_backend sess) (db s) = (t, shard) # rest"
    and d1: "db s1 = lease_db (sess_agentID sess) at at' t shard (db s)"
    and tk: "task = (if task_Status t = TaskStatusWaitingForAgents then t\<lparr>task_Status := TaskStatusQueued\<rparr> else t)"
    and "shard' = shard\<lparr>shard_Status := ShardStatusLeased, shard_AssignedAgentID := Some (sess_agentID sess)\<rparr>"
    using LeaseNextShard_Inr[OF lease inv] by blast
  then have sh: "ID shard' = ID shard" by simp
  have task: "task_Status task \<noteq> TaskStatusWaitingForAgents" by (simp add: tk)
  have mem: "shard \<in> set (task_shards (db s))" "shard_Status shard = ShardStatusQueued"
    using lease_candidates_mem[of t shard "collate (env s)" "sess_tenantID sess" "sess_backend sess" "db s"] by (simp_all add: first)
  obtain q s2 where assign: "assign_leased sess task shard' s1 = (q, s2)" by fastforce
  have keep2: "db s2 = db s1" "reliable s2"
    using memory.evolvesD[OF memory_assign_leased assign] keep1(3) by (auto simp: rows_view_def reliable_def)
  show ?thesis
  proof (cases q)
    case (Inr x)
    then have "r = Inr ()" "s' = s2" using assms(4) assign by (auto simp: bindE_app tryE_app)
    moreover have "lease_held (db s1) (ID shard) (sess_agentID sess)"
      using mem(1) unfolding d1 lease_held_def
      by (intro bexI[of _ "leased_shard (sess_agentID sess) at' shard"])
        (auto simp: leased_shard_def lease_db_def set_upd_where)
    ultimately show ?thesis
      using assign_leased_sent[OF assign] Inr keep1 keep2 sh by auto
  next
    case (Inl e)
    obtain u s3 where undo: "undo_assignment sess task shard' s2 = (u, s3)" by fastforce
    then have "s' = s3" using assms(4) assign Inl by (cases u) (auto simp: bindE_app tryE_app)
    then show ?thesis
      using undo_assignment_run[OF keep2(2) inv _ mem task sh undo] d1 keep2(1) keep1 assign_leased_sent[OF assign] Inl by auto
  qed
qed

lemma TryAssignShard_outcome:
  assumes s: "reliable s" and inv: "db_inv {} (db s)" and run: "TryAssignShard server sess s = (r, s')"
  shows "map (\<lambda>r. (ID r, shard_Status r)) (task_shards (db s')) = map (\<lambda>r. (ID r, shard_Status r)) (task_shards (db s)) \<and>
      sent s' = sent s \<or>
    r = Inr () \<and> (\<exists>a shardID. sent s' = sent s @ [(sess_stream sess, SM_AssignShard a)] \<and>
      as_ShardId a = uuid_String (env s) shardID \<and> lease_held (db s') shardID (sess_agentID sess))"
proof -
  obtain leased s1 where lease: "LeaseNextShard (sess_tenantID sess) (sess_backend sess) (sess_agentID sess) s = (leased, s1)"
    by fastforce
  consider "s' = s" | e where "leased = Inl e" "s' = s1"
    | task shard where "leased = Inr (task, shard)" "\<not> (\<not> srv_db server \<or> sess_agentID sess = [] \<or> sess_tenantID sess = uuid_Nil \<or> sess_backend sess = [])"
    using run lease unfolding TryAssignShard_def
    by (cases leased) (auto simp: bindE_app tryE_app split: if_split_asm)
  then show ?thesis
  proof cases
    case 1
    then show ?thesis by simp
  next
    case (2 e)
    then show ?thesis
      using LeaseNextShard_Inl[of _ _ _ s e s1] lease stream.evolvesD[OF stream.keeps_LeaseNextShard lease] by simp
  next
    case (3 task shard')
    then show ?thesis
      by (intro assign_outcome[OF s inv lease[unfolded 3(1)]])
        (use run lease in \<open>simp add: TryAssignShard_def bindE_app[of "tryE (LeaseNextShard a b c)" for a b c] tryE_app[of "LeaseNextShard a b c" for a b c]
          del: unit_abs_eta_conv\<close>)
  qed
qed

end
