(* ===== verification/Orphan_Results.thy ===== *)
theory Orphan_Results
  imports Assign_Results
begin

text \<open>
  The cleanup of orphan shards on a reliable database: exactly the shards that are due are put back
  in the queue, one transaction each.
\<close>

section \<open>One orphan\<close>

definition due :: "time \<Rightarrow> TaskShard \<Rightarrow> bool" where
  "due cutoff r \<longleftrightarrow> (case shard_StartedAt r of None \<Rightarrow> False | Some st \<Rightarrow> st < cutoff)"

text \<open>The rows with an identifier in \<open>B\<close> that satisfy \<open>P\<close> have been requeued, the others are as before.\<close>

definition requeued :: "(TaskShard \<Rightarrow> bool) \<Rightarrow> uuid set \<Rightarrow> TaskShard list \<Rightarrow> TaskShard list \<Rightarrow> bool" where
  "requeued P B = list_all2 (\<lambda>r r'. if ID r \<in> B \<and> P r then \<exists>at. r' = requeued_shard at r else r' = r)"

lemma requeued_simps [simp]:
  "ID (requeued_shard at r) = ID r" "shard_TaskID (requeued_shard at r) = shard_TaskID r"
  by (simp_all add: requeued_shard_def)

lemma requeued_empty: "requeued P {} rs rs' \<longleftrightarrow> rs' = rs"
  by (auto simp: requeued_def list_all2_conv_all_nth intro: nth_equalityI)

lemma requeued_ids: "requeued P B rs rs' \<Longrightarrow> map ID rs' = map ID rs"
  unfolding requeued_def by (induction rule: list_all2_induct) (auto split: if_split_asm)

lemma requeued_trans:
  assumes "requeued P {a} rs rs1" "requeued P B rs1 rs2" "a \<notin> B"
  shows "requeued P (insert a B) rs rs2"
  unfolding requeued_def
  by (rule list_all2_trans[OF _ assms(1)[unfolded requeued_def] assms(2)[unfolded requeued_def]])
    (use assms(3) in \<open>auto split: if_split_asm\<close>)

lemma requeued_mem:
  assumes "requeued P B rs rs'" "r \<in> set rs"
  shows "\<exists>r'\<in>set rs'. if ID r \<in> B \<and> P r then \<exists>at. r' = requeued_shard at r else r' = r"
  using assms unfolding requeued_def by (induction rule: list_all2_induct) auto

lemma requeued_result:
  assumes "requeued P B rs rs'" "r \<in> set rs" "c \<longleftrightarrow> ID r \<in> B \<and> P r"
  shows "\<exists>r'\<in>set rs'. if c then ID r' = ID r \<and> shard_Status r' = ShardStatusQueued \<and> shard_AssignedAgentID r' = None else r' = r"
proof -
  obtain r' where r': "r' \<in> set rs'" "if c then \<exists>at. r' = requeued_shard at r else r' = r"
    using requeued_mem[OF assms(1,2)] assms(3) by auto
  then show ?thesis by (intro bexI[OF _ r'(1)]) (auto simp: requeued_shard_def split: if_split_asm)
qed

lemma requeued_kept:
  assumes "requeued P {a} rs rs'" "r \<in> set rs" "ID r \<noteq> a"
  shows "r \<in> set rs'"
  using requeued_mem[OF assms(1,2)] assms(3) by auto

lemma rollback_task_noop:
  assumes "reliable s" "\<And>t. t \<in> set (tasks (db s)) \<Longrightarrow> ID t = ID task \<Longrightarrow> task_Status t = task_Status task"
    and "task_Status task = TaskStatusWaitingForAgents"
  shows "\<exists>s'. RollbackTaskToWaiting (ID task) s = (Inl (Sentinel ErrRecordNotFound), s') \<and> db s' = db s \<and> reliable s'"
proof -
  have "affected (\<lambda>r. live r \<and> ID r = ID task \<and> task_Status r = TaskStatusQueued) (tasks (db s)) = 0"
    using assms(2,3) by (auto simp: affected_0_iff)
  then show ?thesis using assms(1) upd_where_none[of _ "tasks (db s)"]
    by (simp add: RollbackTaskToWaiting_def forward)
qed

lemma RollbackShardWithTask_run:
  assumes s: "reliable s" and r: "r \<in> set (task_shards (db s))" "live r" "shard_Status r \<in> set cur"
    and task: "\<And>t. t \<in> set (tasks (db s)) \<Longrightarrow> ID t = ID task \<Longrightarrow> task_Status t = task_Status task"
  shows "\<exists>s' at. transaction (RollbackShardWithTask (ID r) cur task) s = (Inr (), s') \<and> reliable s' \<and>
    db s' = set_task_shards (upd_where (\<lambda>q. live q \<and> ID q = ID r \<and> shard_Status q \<in> set cur) (requeued_shard at) (task_shards (db s))) (db s)"
proof -
  let ?at = "now_at (env s) (Suc (tick s))"
  let ?d = "set_task_shards (upd_where (\<lambda>q. live q \<and> ID q = ID r \<and> shard_Status q \<in> set cur) (requeued_shard ?at) (task_shards (db s))) (db s)"
  define s1 where "s1 = (tick_world (tick_world s))\<lparr>db := ?d\<rparr>"
  have 1: "RollbackToQueued (ID r) cur (tick_world s) = (Inr (), s1)"
    using s affected_mem[OF r(1), of "\<lambda>q. live q \<and> ID q = ID r \<and> shard_Status q \<in> set cur"] r
    by (simp add: RollbackToQueued_def transitionStatus_def forward s1_def requeued_shard_def[abs_def])
  have s1: "reliable s1" "tasks (db s1) = tasks (db s)" "db s1 = ?d" using s by (simp_all add: s1_def)
  obtain s2 where 2: "RollbackShardWithTask (ID r) cur task (tick_world s) = (Inr (), s2)" "db s2 = db s1" "reliable s2"
  proof (cases "task_Status task = TaskStatusWaitingForAgents")
    case True
    obtain s2 where "RollbackTaskToWaiting (ID task) s1 = (Inl (Sentinel ErrRecordNotFound), s2)" "db s2 = db s1" "reliable s2"
      using rollback_task_noop[OF s1(1) _ True] task s1(2) by auto
    then show thesis using that[of s2] 1 True by (simp add: RollbackShardWithTask_def forward)
  next
    case False
    then show thesis using that[of s1] 1 s1(1) by (simp add: RollbackShardWithTask_def forward)
  qed
  then show ?thesis using s s1(3)
    by (intro exI[of _ "tick_world s2"] exI[of _ ?at]) (simp add: transaction_def)
qed

lemma id_image_iff:
  assumes "distinct (map ID rs)" "r \<in> set rs"
  shows "ID r \<in> ID ` {q \<in> set rs. P q} \<longleftrightarrow> P r"
proof
  assume "ID r \<in> ID ` {q \<in> set rs. P q}"
  then obtain q where q: "q \<in> set rs" "P q" "ID q = ID r" by auto
  have "q = r" by (rule distinct_map_same[OF assms(1) q(1) assms(2) q(3)])
  then show "P r" using q(2) by simp
qed (use assms(2) in simp)

lemma requeue_one:
  assumes "distinct (map ID rs)" "shard \<in> set rs" "P shard" "p shard" "\<And>q. p q \<Longrightarrow> ID q = ID shard"
  shows "requeued P {ID shard} rs (upd_where p (requeued_shard at) rs)"
proof -
  have "if ID q \<in> {ID shard} \<and> P q then \<exists>at'. (if p q then requeued_shard at q else q) = requeued_shard at' q
      else (if p q then requeued_shard at q else q) = q" if q: "q \<in> set rs" for q
  proof (cases "q = shard")
    case True
    then show ?thesis using assms(3,4) by auto
  next
    case False
    then have "ID q \<noteq> ID shard" using distinct_map_same[OF assms(1) q assms(2)] by blast
    then show ?thesis using assms(5)[of q] by auto
  qed
  then show ?thesis unfolding requeued_def upd_where_def list.rel_map list_all2_same by blast
qed

lemma cleanup_orphan_run:
  assumes s: "reliable s" and ids: "distinct (map ID (task_shards (db s)))" "distinct (map ID (tasks (db s)))"
    and shard: "shard \<in> set (task_shards (db s))" "live shard" "shard_Status shard \<in> set shard_active_statuses"
    and t: "t \<in> set (tasks (db s))" "live t" "ID t = shard_TaskID shard"
  shows "\<exists>n' s'. cleanup_orphan cutoff shard n s = (Inr n', s') \<and> reliable s' \<and> tasks (db s') = tasks (db s) \<and>
    requeued (due cutoff) {ID shard} (task_shards (db s)) (task_shards (db s'))"
proof (cases "due cutoff shard")
  case True
  then obtain st where st: "shard_StartedAt shard = Some st" "st < cutoff" by (auto simp: due_def split: option.splits)
  have load: "first_row (filter (\<lambda>r. live r \<and> ID r = shard_TaskID shard) (tasks (db s))) = Inr t"
    by (rule first_row_filter[OF ids(2) t(1)]) (use t in auto)
  have same: "task_Status q = task_Status t" if "q \<in> set (tasks (db s))" "ID q = ID t" for q
    using distinct_map_same[OF ids(2) that(1) t(1) that(2)] by simp
  obtain s' at where run: "transaction (RollbackShardWithTask (ID shard) shard_active_statuses t) (tick_world s) = (Inr (), s')"
    "reliable s'"
    and d: "db s' = set_task_shards (upd_where (\<lambda>q. live q \<and> ID q = ID shard \<and> shard_Status q \<in> set shard_active_statuses)
      (requeued_shard at) (task_shards (db s))) (db s)"
    using RollbackShardWithTask_run[of "tick_world s" shard shard_active_statuses t] s shard same by auto
  have "requeued (due cutoff) {ID shard} (task_shards (db s)) (task_shards (db s'))"
    unfolding d by (simp, rule requeue_one[OF ids(1) shard(1)]) (use shard True in auto)
  moreover have "cleanup_orphan cutoff shard n s = (Inr (Suc n), s')"
    using s st load run by (simp add: cleanup_orphan_def forward)
  ultimately show ?thesis using run d by simp
next
  case False
  have "requeued (due cutoff) {ID shard} (task_shards (db s)) (task_shards (db s))"
    using False distinct_map_same[OF ids(1) _ shard(1)] by (auto simp: requeued_def list_all2_same)
  then show ?thesis using s False by (auto simp: cleanup_orphan_def due_def split: option.splits)
qed

section \<open>The loop\<close>

definition orphan_ok :: "database \<Rightarrow> TaskShard \<Rightarrow> bool" where
  "orphan_ok d r \<longleftrightarrow> r \<in> set (task_shards d) \<and> live r \<and> shard_Status r \<in> set shard_active_statuses \<and>
     (\<exists>t\<in>set (tasks d). live t \<and> ID t = shard_TaskID r)"

lemma cleanup_loop_run:
  assumes "reliable s" "distinct (map ID (task_shards (db s)))" "distinct (map ID (tasks (db s)))"
    and "\<forall>r\<in>set shards. orphan_ok (db s) r" "distinct (map ID shards)"
  shows "\<exists>n' s'. cleanup_orphans_loop cutoff shards n s = (Inr n', s') \<and>
    requeued (due cutoff) (ID ` set shards) (task_shards (db s)) (task_shards (db s')) \<and> tasks (db s') = tasks (db s)"
  using assms
proof (induction shards arbitrary: n s)
  case Nil
  then show ?case by (simp add: requeued_empty)
next
  case (Cons shard shards)
  from Cons.prems(4) obtain t where ok: "shard \<in> set (task_shards (db s))" "live shard" "shard_Status shard \<in> set shard_active_statuses"
    and t: "t \<in> set (tasks (db s))" "live t" "ID t = shard_TaskID shard"
    by (auto simp: orphan_ok_def)
  obtain n1 s1 where 1: "cleanup_orphan cutoff shard n s = (Inr n1, s1)" "reliable s1" "tasks (db s1) = tasks (db s)"
    "requeued (due cutoff) {ID shard} (task_shards (db s)) (task_shards (db s1))"
    using cleanup_orphan_run[OF Cons.prems(1-3) ok t] by blast
  have ids: "map ID (task_shards (db s1)) = map ID (task_shards (db s))" by (rule requeued_ids[OF 1(4)])
  have fresh: "ID shard \<notin> ID ` set shards" "distinct (map ID shards)" using Cons.prems(5) by auto
  have "orphan_ok (db s1) r" if "r \<in> set shards" for r
  proof -
    have "ID r \<noteq> ID shard" using that fresh(1) by (metis imageI)
    then show ?thesis
      using Cons.prems(4) that requeued_kept[OF 1(4), of r] 1(3) by (auto simp: orphan_ok_def)
  qed
  then obtain n2 s2 where 2: "cleanup_orphans_loop cutoff shards n1 s1 = (Inr n2, s2)"
    "requeued (due cutoff) (ID ` set shards) (task_shards (db s1)) (task_shards (db s2))" "tasks (db s2) = tasks (db s1)"
    using Cons.IH[OF 1(2) _ _ _ fresh(2)] Cons.prems(2,3) ids 1(3) by metis
  then show ?case
    using requeued_trans[OF 1(4) 2(2) fresh(1)] 1 by (simp add: bindE_app)
qed

text \<open>The shards \<open>CleanupOrphanShards\<close> takes for orphans.\<close>

definition orphan :: "string list \<Rightarrow> TaskShard \<Rightarrow> bool" where
  "orphan registered r \<longleftrightarrow> shard_Status r \<in> set shard_active_statuses \<and>
     (\<exists>a. shard_AssignedAgentID r = Some a \<and> a \<noteq> [] \<and> a \<notin> set registered)"

lemma CleanupOrphanShards_run:
  assumes s: "reliable s" and inv: "db_inv {} (db s)"
  shows "\<exists>s'. CleanupOrphanShards threshold s = (Inr (), s') \<and> tasks (db s') = tasks (db s) \<and>
    requeued (due (now_at (env s) (Suc (tick s)) - threshold)) (ID ` {r \<in> set (task_shards (db s)). orphan (map fst (agents s)) r})
      (task_shards (db s)) (task_shards (db s'))"
proof -
  let ?p = "\<lambda>r. live r \<and> shard_Status r \<in> set shard_active_statuses \<and>
     (case shard_AssignedAgentID r of None \<Rightarrow> False
      | Some a \<Rightarrow> a \<noteq> [] \<and> (map fst (agents s) \<noteq> [] \<longrightarrow> a \<notin> set (map fst (agents s))))"
  define shards where "shards = filter ?p (task_shards (db s))"
  have "?p r = orphan (map fst (agents s)) r" if "r \<in> set (task_shards (db s))" for r
  proof -
    define ids where "ids = map fst (agents s)"
    have "live r" using db_invD(3)[OF inv that] by (simp add: shard_row_ok_def)
    then show ?thesis unfolding ids_def[symmetric] by (cases "ids = []") (auto simp: orphan_def split: option.splits)
  qed
  then have set_shards: "set shards = {r \<in> set (task_shards (db s)). orphan (map fst (agents s)) r}"
    unfolding shards_def set_filter by blast
  have "orphan_ok (db s) r" if "r \<in> set shards" for r
  proof -
    have r: "r \<in> set (task_shards (db s))" "live r" "shard_Status r \<in> set shard_active_statuses" using that by (auto simp: shards_def)
    obtain t where "t \<in> set (tasks (db s))" "ID t = shard_TaskID r" using db_invD(4)[OF inv r(1)] by auto
    moreover from this have "live t" using db_invD(5)[OF inv, of t] by (simp add: task_row_ok_def)
    ultimately show ?thesis using r by (auto simp: orphan_ok_def)
  qed
  then obtain n' s' where "cleanup_orphans_loop (now_at (env s) (Suc (tick s)) - threshold) shards 0 (tick_world (tick_world s)) = (Inr n', s')"
    "requeued (due (now_at (env s) (Suc (tick s)) - threshold)) (ID ` set shards) (task_shards (db s)) (task_shards (db s'))"
    "tasks (db s') = tasks (db s)"
    using cleanup_loop_run[of "tick_world (tick_world s)" shards "now_at (env s) (Suc (tick s)) - threshold" 0]
      s db_invD(1,2)[OF inv] distinct_map_filter[OF db_invD(2)[OF inv], of ?p] by (auto simp flip: shards_def)
  then show ?thesis using s set_shards
    by (simp add: CleanupOrphanShards_def task_shard_orm_CleanupOrphanShards_def FindOrphanShards_def forward shards_def)
qed

section \<open>The shards of one agent\<close>

lemma rollback_agent_run:
  assumes "reliable s" "distinct (map ID (task_shards (db s)))" "distinct (map ID shards)"
    and "\<forall>r\<in>set shards. r \<in> set (task_shards (db s)) \<and> live r"
  shows "\<exists>n' s'. rollback_agent_loop shards n s = (Inr n', s') \<and> reliable s' \<and>
    requeued (\<lambda>_. True) (ID ` set shards) (task_shards (db s)) (task_shards (db s')) \<and> tasks (db s') = tasks (db s)"
  using assms
proof (induction shards arbitrary: n s)
  case Nil
  then show ?case by (simp add: requeued_empty)
next
  case (Cons shard shards)
  then have shard: "shard \<in> set (task_shards (db s))" "live shard" by simp_all
  let ?p = "\<lambda>r. live r \<and> ID r = ID shard \<and> shard_Status r = shard_Status shard"
  define s1 where "s1 = (tick_world s)\<lparr>db := set_task_shards (upd_where ?p
      (requeued_shard (now_at (env s) (tick s))) (task_shards (db s))) (db s)\<rparr>"
  have 1: "RollbackToQueued (ID shard) [shard_Status shard] s = (Inr (), s1)"
    using Cons.prems(1) affected_mem[OF shard(1), of ?p] shard(2)
    by (simp add: RollbackToQueued_def transitionStatus_def forward s1_def requeued_shard_def[abs_def])
  have s1: "reliable s1" "tasks (db s1) = tasks (db s)" using Cons.prems(1) by (simp_all add: s1_def)
  have rq: "requeued (\<lambda>_. True) {ID shard} (task_shards (db s)) (task_shards (db s1))"
    unfolding s1_def by (simp, rule requeue_one[OF Cons.prems(2) shard(1)]) (use shard in auto)
  have fresh: "ID shard \<notin> ID ` set shards" "distinct (map ID shards)" using Cons.prems(3) by auto
  have keep: "r \<in> set (task_shards (db s1)) \<and> live r" if r: "r \<in> set shards" for r
  proof -
    have "ID r \<noteq> ID shard" using r fresh(1) by (metis imageI)
    then show ?thesis using Cons.prems(4) r requeued_kept[OF rq, of r] by simp
  qed
  obtain n2 s2 where 2: "rollback_agent_loop shards (Suc n) s1 = (Inr n2, s2)" "reliable s2" "tasks (db s2) = tasks (db s1)"
    "requeued (\<lambda>_. True) (ID ` set shards) (task_shards (db s1)) (task_shards (db s2))"
    using Cons.IH[OF s1(1) _ fresh(2), of "Suc n"] requeued_ids[OF rq] Cons.prems(2) keep by auto
  then show ?case
    using requeued_trans[OF rq 2(4) fresh(1)] 1 s1(2) by (simp add: bindE_app tryE_app)
qed

lemma RollbackOrphanShardsForAgent_run:
  assumes s: "reliable s" and inv: "db_inv {} (db s)"
  shows "\<exists>n s'. RollbackOrphanShardsForAgent agentID s = (Inr n, s') \<and> tasks (db s') = tasks (db s) \<and>
    requeued (\<lambda>_. True) (ID ` {r \<in> set (task_shards (db s)). shard_AssignedAgentID r = Some agentID \<and>
      shard_Status r \<in> set shard_active_statuses}) (task_shards (db s)) (task_shards (db s'))"
proof -
  let ?p = "\<lambda>r. live r \<and> shard_AssignedAgentID r = Some agentID \<and> shard_Status r \<in> set shard_active_statuses"
  define shards where "shards = filter ?p (task_shards (db s))"
  have set_shards: "set shards = {r \<in> set (task_shards (db s)). shard_AssignedAgentID r = Some agentID \<and>
      shard_Status r \<in> set shard_active_statuses}"
    using db_invD(3)[OF inv] unfolding shards_def by (auto simp: shard_row_ok_def)
  obtain n s' where "rollback_agent_loop shards 0 (tick_world s) = (Inr n, s')" "tasks (db s') = tasks (db s)"
    "requeued (\<lambda>_. True) (ID ` set shards) (task_shards (db s)) (task_shards (db s'))"
    using rollback_agent_run[of "tick_world s" shards 0] s db_invD(2)[OF inv] distinct_map_filter[OF db_invD(2)[OF inv], of ?p]
    by (auto simp flip: shards_def) (auto simp: shards_def)
  then show ?thesis using s set_shards
    by (simp add: RollbackOrphanShardsForAgent_def GetActiveTaskShardByAgent_def forward shards_def)
qed

end
