(* ===== verification/Demo_States.thy ===== *)
theory Demo_States
  imports Demo Reliable
begin

text \<open>
  The concrete states the witnesses evaluate satisfy the general hypotheses: the database answers and the
  tables are consistent. \<open>demo_ready\<close> has two shards in the queue, in \<open>demo_running\<close> one runs and one is done.
\<close>

lemma demo_reliable [simp]: "reliable demo_ready" "reliable demo_world"
  by (simp_all add: reliable_def demo_ready_def demo_world_def demo_env_def)

lemma demo_ready_inv: "db_inv {} (db demo_ready)"
  by (simp add: demo_ready_def demo_db_inv)

definition demo_running :: world where
  "demo_running = demo_world\<lparr>db := \<lparr>tenants = [demo_tenant],
     tasks = [demo_task\<lparr>task_Status := TaskStatusRunning, task_StartedAt := Some 1\<rparr>],
     task_shards = [(demo_shard 30 ''a.sh'')\<lparr>shard_Status := ShardStatusRunning, shard_AssignedAgentID := Some ''agent-1'', shard_StartedAt := Some 3\<rparr>,
       (demo_shard 31 ''b.sh'')\<lparr>shard_Status := ShardStatusSucceeded, shard_AssignedAgentID := Some ''agent-2'',
         shard_StartedAt := Some 1, shard_FinishedAt := Some 2\<rparr>], clusters = []\<rparr>\<rparr>"

definition demo_success :: ReportShardStatusParams where
  "demo_success = \<lparr>rp_ShardID = 30, rp_ShardStatus = ShardStatusSucceeded, rp_ErrorMessage = None,
     rp_OutputOSSKey = ''key'', rp_OutputSHA256 = ''sha''\<rparr>"

lemma demo_running_facts:
  "reliable demo_running" "db_inv {} (db demo_running)"
  by (simp add: reliable_def demo_running_def demo_world_def demo_env_def) code_simp

end
