(* ===== verification/Props_Scheduling.thy ===== *)
theory Props_Scheduling
  imports Queue_Results Orphan_Results Demo_States
begin

text \<open>
  The scheduler's operations: which shard an agent is given, what a report does to the shard, its
  task and the completion hook, and what happens to a shard whose agent is gone.
\<close>

section \<open>Leasing\<close>

text \<open>
  C8: \<open>LeaseNextShard\<close> gives the agent a shard of its own tenant and backend, and the oldest one: the
  shard of the earliest created task, and among its shards the first script name. The shard's row becomes
  leased to the agent, every other shard stays as it is, and the returned task is queued or running.
\<close>

theorem lease_takes_oldest:
  assumes "db_inv {} (db s)" and "LeaseNextShard tenantID backendName agentID s = (Inr (task, shard), s')"
  shows "\<exists>t r at. leasable tenantID backendName (db s) t r \<and> ID task = ID t \<and> ID shard = ID r \<and>
    (\<forall>t' r'. leasable tenantID backendName (db s) t' r' \<longrightarrow>
       (CreatedAt t, collate (env s) (shard_ScriptName r)) \<le> (CreatedAt t', collate (env s) (shard_ScriptName r'))) \<and>
    set (task_shards (db s')) = insert (r\<lparr>shard_Status := ShardStatusLeased, shard_AssignedAgentID := Some agentID,
       UpdatedAt := at\<rparr>) (set (task_shards (db s)) - {r}) \<and>
    task_Status task \<in> {TaskStatusQueued, TaskStatusRunning}"
proof -
  obtain t r rest at at' where first: "lease_candidates (collate (env s)) tenantID backendName (db s) = (t, r) # rest"
    and d: "db s' = lease_db agentID at at' t r (db s)"
    and task: "task = (if task_Status t = TaskStatusWaitingForAgents then t\<lparr>task_Status := TaskStatusQueued\<rparr> else t)"
    and shard: "shard = r\<lparr>shard_Status := ShardStatusLeased, shard_AssignedAgentID := Some agentID\<rparr>"
    using LeaseNextShard_Inr[OF assms(2,1)] by blast
  have ok: "leasable tenantID backendName (db s) t r"
    using leasable_iff[OF assms(1), of t r "collate (env s)" tenantID backendName] by (simp add: first)
  have "(CreatedAt t, collate (env s) (shard_ScriptName r)) \<le> (CreatedAt t', collate (env s) (shard_ScriptName r'))"
    if "leasable tenantID backendName (db s) t' r'" for t' r'
    using lease_candidates_first[OF first] that leasable_iff[OF assms(1)] by blast
  moreover have "set (task_shards (db s')) = insert (leased_shard agentID at' r) (set (task_shards (db s)) - {r})"
    unfolding d by (rule lease_db_shards[OF db_invD(2)[OF assms(1)]]) (use ok in \<open>simp add: leasable_def\<close>)
  moreover have "task_Status task \<in> {TaskStatusQueued, TaskStatusRunning}" "ID task = ID t" "ID shard = ID r"
    using ok by (auto simp: task shard leasable_def)
  ultimately show ?thesis
    using ok by (intro exI[of _ t] exI[of _ r] exI[of _ at']) (simp add: leased_shard_def)
qed

lemma demo_leasable: "leasable 7 ''kubernetes'' (db demo_ready) demo_task (demo_shard 30 ''a.sh'')"
  by code_simp

lemma demo_lease: "\<exists>task shard s'. LeaseNextShard 7 ''kubernetes'' ''agent-1'' demo_ready = (Inr (task, shard), s')"
  using LeaseNextShard_run[OF demo_reliable(1) demo_ready_inv, of 7 "''kubernetes''" "''agent-1''"] demo_leasable
    leasable_iff[OF demo_ready_inv, of demo_task "demo_shard 30 ''a.sh''"] by (metis empty_iff list.set(1) surj_pair)

theorem lease_takes_oldest_witness:
  "\<exists>task shard s'. LeaseNextShard 7 ''kubernetes'' ''agent-1'' demo_ready = (Inr (task, shard), s') \<and>
     (\<exists>t r. leasable 7 ''kubernetes'' (db demo_ready) t r \<and> ID task = ID t \<and> ID shard = ID r)"
  using demo_lease lease_takes_oldest[OF demo_ready_inv, of 7 "''kubernetes''" "''agent-1''"] by meson

text \<open>
  C9: on a database that answers, \<open>LeaseNextShard\<close> succeeds exactly when a shard may be leased; otherwise it
  returns \<open>ErrRecordNotFound\<close> and changes no row. The retry loop never runs out.
\<close>

theorem lease_exactly_when_leasable:
  assumes "reliable s" and "db_inv {} (db s)"
  shows "if \<exists>t r. leasable tenantID backendName (db s) t r
    then \<exists>x s'. LeaseNextShard tenantID backendName agentID s = (Inr x, s')
    else \<exists>e s'. LeaseNextShard tenantID backendName agentID s = (Inl e, s') \<and> errors_Is e ErrRecordNotFound \<and> db s' = db s"
proof (cases "lease_candidates (collate (env s)) tenantID backendName (db s) = []")
  case True
  then have "\<not> leasable tenantID backendName (db s) t r" for t r
    using leasable_iff[OF assms(2), of t r "collate (env s)" tenantID backendName] by simp
  then show ?thesis using LeaseNextShard_none[OF assms(1) True] by simp
next
  case False
  then obtain t r where "leasable tenantID backendName (db s) t r"
    using leasable_iff[OF assms(2)] by (metis list.set_intros(1) neq_Nil_conv surj_pair)
  then show ?thesis using LeaseNextShard_run[OF assms False] by auto
qed

theorem lease_exactly_when_leasable_witness:
  "\<exists>x s'. LeaseNextShard 7 ''kubernetes'' ''agent-1'' demo_ready = (Inr x, s')"
  using lease_exactly_when_leasable[of demo_ready 7 "''kubernetes''" "''agent-1''"] demo_leasable demo_ready_inv
  by (auto split: if_split_asm)

text \<open>
  C10: leases are exclusive: two leases in a row, by any agents, give different shards, and
  after the second one each shard is still leased to the agent it was given to.
\<close>

theorem leases_are_exclusive:
  assumes "db_inv {} (db s)"
    and "LeaseNextShard tenant1 backend1 agent1 s = (Inr (task1, shard1), s1)"
    and "LeaseNextShard tenant2 backend2 agent2 s1 = (Inr (task2, shard2), s2)"
  shows "ID shard1 \<noteq> ID shard2 \<and>
    (\<exists>r1\<in>set (task_shards (db s2)). ID r1 = ID shard1 \<and> shard_Status r1 = ShardStatusLeased \<and> shard_AssignedAgentID r1 = Some agent1) \<and>
    (\<exists>r2\<in>set (task_shards (db s2)). ID r2 = ID shard2 \<and> shard_Status r2 = ShardStatusLeased \<and> shard_AssignedAgentID r2 = Some agent2)"
proof -
  obtain t r rest at at' where 1: "lease_candidates (collate (env s)) tenant1 backend1 (db s) = (t, r) # rest"
    "db s1 = lease_db agent1 at at' t r (db s)" "ID shard1 = ID r"
    using LeaseNextShard_Inr[OF assms(2,1)] by auto
  have mem: "leasable tenant1 backend1 (db s) t r"
    using leasable_iff[OF assms(1), of t r "collate (env s)" tenant1 backend1] by (simp add: 1)
  have inv1: "db_inv {} (db s1)"
    unfolding 1(2) by (rule lease_db_inv[OF assms(1)]) (use mem in \<open>auto simp: leasable_def shardQueryStatuses_def\<close>)
  have set1: "set (task_shards (db s1)) = insert (leased_shard agent1 at' r) (set (task_shards (db s)) - {r})"
    unfolding 1(2) by (rule lease_db_shards[OF db_invD(2)[OF assms(1)]]) (use mem in \<open>simp add: leasable_def\<close>)
  obtain t2 r2 rest2 at2 at2' where 2: "lease_candidates (collate (env s1)) tenant2 backend2 (db s1) = (t2, r2) # rest2"
    "db s2 = lease_db agent2 at2 at2' t2 r2 (db s1)" "ID shard2 = ID r2"
    using LeaseNextShard_Inr[OF assms(3) inv1] by auto
  have mem2: "leasable tenant2 backend2 (db s1) t2 r2"
    using leasable_iff[OF inv1, of t2 r2 "collate (env s1)" tenant2 backend2] by (simp add: 2)
  have set2: "set (task_shards (db s2)) = insert (leased_shard agent2 at2' r2) (set (task_shards (db s1)) - {r2})"
    unfolding 2(2) by (rule lease_db_shards[OF db_invD(2)[OF inv1]]) (use mem2 in \<open>simp add: leasable_def\<close>)
  have other: "leased_shard agent1 at' r \<noteq> r2"
    using mem2 by (auto simp: leasable_def leased_shard_def)
  then have "ID shard1 \<noteq> ID shard2"
    using distinct_map_same[OF db_invD(2)[OF inv1], of "leased_shard agent1 at' r" r2] mem2 set1 1(3) 2(3)
    by (auto simp: leasable_def leased_shard_def)
  moreover have "leased_shard agent1 at' r \<in> set (task_shards (db s2))" "leased_shard agent2 at2' r2 \<in> set (task_shards (db s2))"
    using set1 set2 other by auto
  ultimately show ?thesis
    using 1(3) 2(3)
    by (intro conjI bexI[of _ "leased_shard agent1 at' r"] bexI[of _ "leased_shard agent2 at2' r2"]) (auto simp: leased_shard_def)
qed

lemma demo_two_leases:
  "map_sum (\<lambda>_. ()) (\<lambda>_. ()) (fst (LeaseNextShard 7 ''kubernetes'' ''agent-2''
     (snd (LeaseNextShard 7 ''kubernetes'' ''agent-1'' demo_ready)))) = Inr ()"
  by code_simp

theorem leases_are_exclusive_witness:
  "\<exists>task1 shard1 s1 task2 shard2 s2. LeaseNextShard 7 ''kubernetes'' ''agent-1'' demo_ready = (Inr (task1, shard1), s1) \<and>
     LeaseNextShard 7 ''kubernetes'' ''agent-2'' s1 = (Inr (task2, shard2), s2) \<and> ID shard1 \<noteq> ID shard2"
proof -
  obtain task1 shard1 s1 where 1: "LeaseNextShard 7 ''kubernetes'' ''agent-1'' demo_ready = (Inr (task1, shard1), s1)"
    using demo_lease by blast
  obtain x s2 where x: "LeaseNextShard 7 ''kubernetes'' ''agent-2'' s1 = (x, s2)" by fastforce
  obtain task2 shard2 where 2: "LeaseNextShard 7 ''kubernetes'' ''agent-2'' s1 = (Inr (task2, shard2), s2)"
    using demo_two_leases x by (cases x) (auto simp: 1)
  show ?thesis using leases_are_exclusive[OF demo_ready_inv 1 2] 1 2 by blast
qed

section \<open>Reports\<close>

text \<open>
  C11: a report that a running shard has finished is stored by a database that answers, and does exactly
  this: the shard's row gets its status, finish time and output or error; if another shard of
  the task is unfinished the task and the hooks stay as they are; otherwise the task becomes failed when any
  of its shards failed, with the error of the shard that failed last, and succeeded when none did, and its hook
  is queued if it has one.
\<close>

theorem report_finishes_shard:
  assumes "reliable s" and "db_inv {} (db s)"
    and "rp_ShardStatus params \<in> {ShardStatusSucceeded, ShardStatusFailed}"
    and "shard \<in> set (task_shards (db s))" and "ID shard = rp_ShardID params" and "shard_Status shard = ShardStatusRunning"
    and "task \<in> set (tasks (db s))" and "ID task = shard_TaskID shard"
  shows "\<exists>s' hook. ReportShardStatus params s = (Inr (), s') \<and>
    report_effect params shard task (db s) (db s') hook \<and>
    hooks_pending s' = hooks_pending s @ (case hook of None \<Rightarrow> [] | Some payload \<Rightarrow> [payload])"
  using report_finished[OF assms] .

theorem report_finishes_shard_witness:
  "\<exists>s' hook. ReportShardStatus demo_success demo_running = (Inr (), s') \<and>
     report_effect demo_success (hd (task_shards (db demo_running))) (hd (tasks (db demo_running))) (db demo_running) (db s') hook"
  using report_finishes_shard[OF demo_running_facts, of demo_success "hd (task_shards (db demo_running))" "hd (tasks (db demo_running))"]
  by (auto simp: demo_success_def demo_running_def demo_shard_def new_shard_def demo_task_def new_task_def)

text \<open>
  C12: the queue of a tenant can be worked off. On a database that answers, an agent that leases a shard, reports its
  start and then its result, as often as there are shards to lease, never gets an error; afterwards
  nothing is left to lease, every shard of the queue has the reported status, and a task all of whose shards were in the
  queue is SUCCEEDED, or FAILED if one of them was reported failed. No task gets stuck.
\<close>

theorem queue_drains:
  assumes "reliable s" and "db_inv {} (db s)" and "reports_results report"
  shows "\<exists>s'. work_off (card (queue tenantID backendName (db s))) tenantID backendName agentID report s = (Inr (), s') \<and>
    queue tenantID backendName (db s') = {} \<and>
    (\<forall>r\<in>queue tenantID backendName (db s). \<exists>r'\<in>set (task_shards (db s')).
       ID r' = ID r \<and> shard_Status r' = rp_ShardStatus (report (ID r))) \<and>
    (\<forall>t\<in>set (tasks (db s)). task_Status t \<in> set dispatched \<longrightarrow>
       (\<forall>r\<in>set (task_shards (db s)). shard_TaskID r = ID t \<longrightarrow> r \<in> queue tenantID backendName (db s)) \<longrightarrow>
       (\<exists>t'\<in>set (tasks (db s')). ID t' = ID t \<and> task_Status t' =
          (if \<exists>r\<in>set (task_shards (db s)). shard_TaskID r = ID t \<and> rp_ShardStatus (report (ID r)) = ShardStatusFailed
           then TaskStatusFailed else TaskStatusSucceeded)))"
proof -
  obtain s' where run: "work_off (card (queue tenantID backendName (db s))) tenantID backendName agentID report s = (Inr (), s')"
    and inv: "db_inv {} (db s')" and empty: "queue tenantID backendName (db s') = {}"
    and off: "worked_off tenantID backendName report (db s) (db s')"
    using work_off_run[OF assms refl] by blast
  have "\<exists>r'\<in>set (task_shards (db s')). ID r' = ID r \<and> shard_Status r' = rp_ShardStatus (report (ID r))"
    if r: "r \<in> queue tenantID backendName (db s)" for r
  proof -
    have "r \<in> set (task_shards (db s))" using r by (auto simp: queue_def leasable_def)
    then show ?thesis using off r unfolding worked_off_def by metis
  qed
  then show ?thesis using run empty worked_off_task[OF assms(2) inv assms(3) off] by blast
qed

definition demo_report :: "uuid \<Rightarrow> ReportShardStatusParams" where
  "demo_report i = demo_success\<lparr>rp_ShardID := i\<rparr>"

theorem queue_drains_witness:
  "\<exists>s'. work_off (card (queue 7 ''kubernetes'' (db demo_ready))) 7 ''kubernetes'' ''agent-1'' demo_report demo_ready = (Inr (), s') \<and>
     queue 7 ''kubernetes'' (db s') = {} \<and> demo_shard 30 ''a.sh'' \<in> queue 7 ''kubernetes'' (db demo_ready)"
proof -
  have "reports_results demo_report" by (simp add: reports_results_def demo_report_def demo_success_def)
  moreover have "demo_shard 30 ''a.sh'' \<in> queue 7 ''kubernetes'' (db demo_ready)" using demo_leasable by (auto simp: queue_def)
  ultimately show ?thesis using queue_drains[OF demo_reliable(1) demo_ready_inv] by blast
qed

lemma report_transition_from:
  assumes "report_transition params s = (Inr y, s')"
    and "distinct (map ID (task_shards (db s)))" "shard \<in> set (task_shards (db s))" "ID shard = rp_ShardID params"
    and "rp_ShardStatus params \<in> {ShardStatusRunning, ShardStatusSucceeded, ShardStatusFailed}"
  shows "shard_Status shard = (if rp_ShardStatus params = ShardStatusRunning then ShardStatusLeased else ShardStatusRunning)"
proof -
  have "shard_Status shard = cur" if "transitionStatus (rp_ShardID params) target [cur] upd (tick_world s) = (Inr y, s')" for target cur upd
    using transition_row[OF that, of shard] assms(2-4) by simp
  then show ?thesis using assms(1,5)
    by (auto simp: report_transition_def MarkRunning_def MarkSucceeded_def MarkFailed_def run_iff)
qed

text \<open>
  A report only takes effect in order: a shard is started from the leased state and finished
  from the running state. A repeated report of a stored success is accepted and changes nothing.
\<close>

lemma report_in_order:
  assumes "ReportShardStatus params s = (Inr (), s')"
    and "rp_ShardStatus params \<in> {ShardStatusRunning, ShardStatusSucceeded, ShardStatusFailed}"
    and "db_inv {} (db s)" and "shard \<in> set (task_shards (db s))" and "ID shard = rp_ShardID params"
  shows "shard_Status shard = (if rp_ShardStatus params = ShardStatusRunning then ShardStatusLeased else ShardStatusRunning) \<or>
    rp_ShardStatus params = ShardStatusSucceeded \<and> shard_Status shard = ShardStatusSucceeded \<and>
      db s' = db s \<and> hooks_pending s' = hooks_pending s"
proof -
  obtain x s1 where b: "report_body params (now_at (env s) (tick s)) (tick_world (tick_world s)) = (Inr x, s1)"
    and d: "db s' = db s1"
    and h: "hooks_pending s' = hooks_pending s @ (case x of None \<Rightarrow> [] | Some p \<Rightarrow> if hook_CompletionHookURL p = [] then [] else [p])"
    using ReportShardStatus_Inr[OF assms(1)] by blast
  obtain r where r: "r \<in> set (task_shards (db s))" "ID r = rp_ShardID params"
    and rest: "rp_ShardStatus params = ShardStatusSucceeded \<and> shard_Status r = ShardStatusSucceeded \<and> x = None \<and> db s1 = db s \<or>
      (\<exists>y s3. report_transition params (tick_world (tick_world (tick_world (tick_world s)))) = (Inr y, s3))"
    using report_body_Inr[OF b] by (auto split: if_split_asm)
  have eq: "r = shard" using distinct_map_same[OF db_invD(2)[OF assms(3)] r(1) assms(4)] r(2) assms(5) by simp
  show ?thesis
  proof (cases "rp_ShardStatus params = ShardStatusSucceeded \<and> shard_Status shard = ShardStatusSucceeded \<and> x = None \<and> db s1 = db s")
    case True
    then show ?thesis using d h by simp
  next
    case False
    then obtain y s3 where "report_transition params (tick_world (tick_world (tick_world (tick_world s)))) = (Inr y, s3)"
      using rest eq by auto
    then show ?thesis using report_transition_from[OF _ _ _ assms(5,2)] db_invD(2)[OF assms(3)] assms(4) by simp
  qed
qed

lemma report_hook_from:
  assumes b: "report_body params now s = (Inr (Some p), s')" and inv: "db_inv {} (db s)"
  shows "\<exists>shard. shard \<in> set (task_shards (db s)) \<and> ID shard = rp_ShardID params \<and> shard_Status shard = ShardStatusRunning \<and>
    rp_ShardStatus params \<in> {ShardStatusSucceeded, ShardStatusFailed}"
proof -
  obtain shard task y z s3 s4 where sh: "shard \<in> set (task_shards (db s))" "ID shard = rp_ShardID params"
    and 3: "report_transition params (tick_world (tick_world s)) = (Inr y, s3)"
    and 5: "report_task params shard task now s4 = (Inr (Some p), s')"
    using report_body_Inr[OF b] by (auto split: if_split_asm)
  have st: "rp_ShardStatus params \<in> {ShardStatusSucceeded, ShardStatusFailed}"
    using 5 by (auto simp: report_task_def run_iff split: if_split_asm)
  then show ?thesis
    using report_transition_from[OF 3, of shard] sh db_invD(2)[OF inv] by auto
qed

lemma payload_fields:
  assumes "newCompletionHookPayload t status err at avail = Some p"
  shows "hook_TaskID p = ID t" "hook_TenantID p = task_TenantID t" "hook_Status p = status" "hook_LastError p = err"
    "hook_FinishedAt p = at" "hook_CompletionHookURL p = task_CompletionHookURL t" "hook_CompletionHookURL p \<noteq> []"
  using assms by (auto simp: newCompletionHookPayload_def split: if_split_asm)

lemma report_effect_hook:
  assumes "report_effect params shard t d d' (Some p)"
  shows "\<exists>t'\<in>set (tasks d'). ID t' = ID t \<and> task_Status t' \<in> {TaskStatusSucceeded, TaskStatusFailed} \<and>
    newCompletionHookPayload t (task_Status t') (task_LastError t') (task_FinishedAt t') (hook_ResultAvailable p) = Some p"
proof -
  from assms obtain t' err status avail where "closed_task status err t t'" "set (tasks d') = insert t' (set (tasks d) - {t})"
    "status \<in> {TaskStatusSucceeded, TaskStatusFailed}" "Some p = newCompletionHookPayload t status err (task_FinishedAt t') avail"
    by (auto simp: report_effect_def Let_def split: if_split_asm)
  then show ?thesis
    by (intro bexI[of _ t']) (auto simp: closed_task_def newCompletionHookPayload_def split: if_split_asm)
qed

text \<open>
  C13: a report queues at most one hook, and only when it closes its task: the task had not finished
  before and has afterwards, and the hook carries its identity, its new status and its own
  address. Since a finished task stays finished, no task has its hook queued by two reports.
\<close>

theorem hook_only_when_task_closes:
  assumes "db_inv {} (db s)" and "ReportShardStatus params s = (r, s')" and "hooks_pending s' \<noteq> hooks_pending s"
  shows "\<exists>p. hooks_pending s' = hooks_pending s @ [p] \<and>
    (\<exists>t\<in>set (tasks (db s)). \<exists>t'\<in>set (tasks (db s')). ID t = hook_TaskID p \<and> ID t' = hook_TaskID p \<and>
       task_Status t \<notin> {TaskStatusSucceeded, TaskStatusFailed, TaskStatusCancelled} \<and>
       task_Status t' \<in> {TaskStatusSucceeded, TaskStatusFailed} \<and>
       hook_Status p = task_Status t' \<and> hook_TenantID p = task_TenantID t \<and> hook_LastError p = task_LastError t' \<and>
       hook_FinishedAt p = task_FinishedAt t' \<and> hook_CompletionHookURL p = task_CompletionHookURL t)"
proof -
  have run: "ReportShardStatus params s = (Inr (), s')"
    using assms(2,3) ReportShardStatus_Inl[of params s _ s'] by (cases r) auto
  obtain x s1 where b: "report_body params (now_at (env s) (tick s)) (tick_world (tick_world s)) = (Inr x, s1)"
    and d: "db s' = db s1"
    and h: "hooks_pending s' = hooks_pending s @ (case x of None \<Rightarrow> [] | Some p \<Rightarrow> if hook_CompletionHookURL p = [] then [] else [p])"
    using ReportShardStatus_Inr[OF run] by blast
  then obtain p where p: "x = Some p" "hooks_pending s' = hooks_pending s @ [p]"
    using assms(3) by (auto split: option.split_asm if_split_asm)
  obtain shard where sh: "shard \<in> set (task_shards (db s))" "ID shard = rp_ShardID params"
    and st: "rp_ShardStatus params \<in> {ShardStatusSucceeded, ShardStatusFailed}" "shard_Status shard = ShardStatusRunning"
    using report_hook_from[OF b[unfolded p]] assms(1) by auto
  obtain t where t: "t \<in> set (tasks (db s))" "ID t = shard_TaskID shard" using db_invD(4)[OF assms(1) sh(1)] by auto
  have mid: "task_Status t \<in> set dispatched"
    using active_shard_task[OF assms(1) sh(1) _ t] st by (simp add: task_mid_def status_lists)
  have eff: "report_effect params shard t (db s) (db s') (Some p)"
    using report_body_effect[OF b st(1)] assms(1) sh st(2) t d p(1) by simp
  then obtain t' where t': "t' \<in> set (tasks (db s'))" "ID t' = ID t" "task_Status t' \<in> {TaskStatusSucceeded, TaskStatusFailed}"
    "newCompletionHookPayload t (task_Status t') (task_LastError t') (task_FinishedAt t') (hook_ResultAvailable p) = Some p"
    using report_effect_hook by blast
  have "task_Status t \<notin> {TaskStatusSucceeded, TaskStatusFailed, TaskStatusCancelled}"
    using mid by (auto simp: status_lists)
  then show ?thesis
    using p(2) t t' payload_fields[OF t'(4)] by (intro exI[of _ p] conjI bexI[of _ t] bexI[of _ t']) simp_all
qed

theorem hook_only_when_task_closes_witness:
  "\<exists>r s' p. ReportShardStatus demo_success demo_running = (r, s') \<and> hooks_pending s' = [p] \<and> hook_TaskID p = 20 \<and>
     hook_CompletionHookURL p = ''https://example.org/hook''"
proof -
  obtain r s' where run: "ReportShardStatus demo_success demo_running = (r, s')" by fastforce
  have "hooks_pending (snd (ReportShardStatus demo_success demo_running)) \<noteq> []" by code_simp
  then have "hooks_pending s' \<noteq> hooks_pending demo_running" using run by (simp add: demo_running_def demo_world_def)
  then show ?thesis
    using hook_only_when_task_closes[OF demo_running_facts(2) run] run
    by (auto simp: demo_running_def demo_world_def demo_task_def new_task_def)
qed

section \<open>Assignment\<close>

text \<open>
  C14: \<open>TryAssignShard\<close> never loses a shard. On a database that answers, whatever the object store, the
  registry and the stream do, it either sends the session exactly one assignment and the agent holds the lease of the
  announced shard, or it sends nothing and every shard has the status it had before.
\<close>

theorem assignment_or_requeue:
  assumes "reliable s" and "db_inv {} (db s)" and "TryAssignShard server sess s = (r, s')"
  shows "map (\<lambda>q. (ID q, shard_Status q)) (task_shards (db s')) = map (\<lambda>q. (ID q, shard_Status q)) (task_shards (db s)) \<and>
      sent s' = sent s \<or>
    r = Inr () \<and> (\<exists>a shardID. sent s' = sent s @ [(sess_stream sess, SM_AssignShard a)] \<and>
      as_ShardId a = uuid_String (env s) shardID \<and> lease_held (db s') shardID (sess_agentID sess))"
  using TryAssignShard_outcome[OF assms] .

theorem assignment_or_requeue_witness:
  "\<exists>r s'. TryAssignShard demo_server (demo_session\<lparr>sess_tenantID := 7\<rparr>) demo_ready = (r, s') \<and>
     map (\<lambda>q. (ID q, shard_Status q)) (task_shards (db s')) = map (\<lambda>q. (ID q, shard_Status q)) (task_shards (db demo_ready)) \<and>
     sent s' = []"
proof -
  obtain r s' where run: "TryAssignShard demo_server (demo_session\<lparr>sess_tenantID := 7\<rparr>) demo_ready = (r, s')" by fastforce
  have "case fst (TryAssignShard demo_server (demo_session\<lparr>sess_tenantID := 7\<rparr>) demo_ready) of Inl _ \<Rightarrow> True | Inr _ \<Rightarrow> False"
    by code_simp
  then have "r \<noteq> Inr ()" using run by auto
  then show ?thesis
    using assignment_or_requeue[OF demo_reliable(1) demo_ready_inv run] run by (auto simp: demo_ready_def demo_world_def)
qed

text \<open>
  Undoing a lease never takes the task's promotion back. \<open>LeaseNextShard\<close> has already set the status of the
  task it returns to queued, so the branch of \<open>RollbackShardWithTask\<close> that restores
  \<open>WAITING_FOR_AGENTS\<close> is not taken when an assignment fails: the task's row stays promoted.
\<close>

lemma undone_lease_keeps_promotion:
  assumes "db_inv {} (db s)" and "LeaseNextShard tenantID backendName agentID s = (Inr (task, shard), s1)"
    and "RollbackAssignedShard (ID shard) task s1 = (r, s2)"
  shows "tasks (db s2) = tasks (db s1) \<and>
    (\<forall>t\<in>set (tasks (db s2)). ID t = ID task \<longrightarrow> task_Status t \<noteq> TaskStatusWaitingForAgents)"
proof -
  obtain t shard0 rest at at' where
      first: "lease_candidates (collate (env s)) tenantID backendName (db s) = (t, shard0) # rest"
    and d: "db s1 = lease_db agentID at at' t shard0 (db s)"
    and task: "task = (if task_Status t = TaskStatusWaitingForAgents then t\<lparr>task_Status := TaskStatusQueued\<rparr> else t)"
    using LeaseNextShard_Inr[OF assms(2,1)] by blast
  have "tasks (db s2) = tasks (db s1)"
    by (rule RollbackAssignedShard_tasks[OF assms(3)]) (simp add: task)
  moreover have "task_Status q \<noteq> TaskStatusWaitingForAgents" if "q \<in> set (tasks (db s1))" "ID q = ID task" for q
    using that by (auto simp: d lease_db_def set_upd_where promoted_task_def task split: if_split_asm)
  ultimately show ?thesis by simp
qed

section \<open>Orphans\<close>

text \<open>
  C15: the orphan cleanup requeues exactly the shards that are due: leased or running, assigned to an agent that is not
  registered, and started before the threshold. Every other shard, and every task, stays as it is.
\<close>

theorem cleanup_requeues_due_orphans:
  assumes "reliable s" and "db_inv {} (db s)"
  shows "\<exists>s'. CleanupOrphanShards threshold s = (Inr (), s') \<and> tasks (db s') = tasks (db s) \<and>
    (\<forall>r\<in>set (task_shards (db s)). \<exists>r'\<in>set (task_shards (db s')).
       if orphan (map fst (agents s)) r \<and> due (now_at (env s) (Suc (tick s)) - threshold) r
       then ID r' = ID r \<and> shard_Status r' = ShardStatusQueued \<and> shard_AssignedAgentID r' = None
       else r' = r)"
proof -
  let ?B = "ID ` {r \<in> set (task_shards (db s)). orphan (map fst (agents s)) r}"
  let ?due = "due (now_at (env s) (Suc (tick s)) - threshold)"
  obtain s' where run: "CleanupOrphanShards threshold s = (Inr (), s')" "tasks (db s') = tasks (db s)"
    and rq: "requeued ?due ?B (task_shards (db s)) (task_shards (db s'))"
    using CleanupOrphanShards_run[OF assms] by blast
  have "\<exists>r'\<in>set (task_shards (db s')). if orphan (map fst (agents s)) r \<and> ?due r
       then ID r' = ID r \<and> shard_Status r' = ShardStatusQueued \<and> shard_AssignedAgentID r' = None else r' = r"
    if r: "r \<in> set (task_shards (db s))" for r
    by (rule requeued_result[OF rq r]) (simp only: id_image_iff[OF db_invD(2)[OF assms(2)] r])
  then show ?thesis using run by blast
qed

theorem cleanup_requeues_due_orphans_witness:
  "\<exists>s'. CleanupOrphanShards 50 (demo_running\<lparr>agents := []\<rparr>) = (Inr (), s') \<and>
     (\<exists>r'\<in>set (task_shards (db s')). ID r' = 30 \<and> shard_Status r' = ShardStatusQueued)"
proof -
  let ?s = "demo_running\<lparr>agents := []\<rparr>" and ?r = "hd (task_shards (db demo_running))"
  let ?due = "due (now_at (env ?s) (Suc (tick ?s)) - 50)"
  have orph: "orphan (map fst (agents ?s)) ?r \<and> ?due ?r"
    by (simp add: demo_running_def demo_world_def demo_env_def orphan_def due_def Second_def shard_active_statuses_def)
  have r: "?r \<in> set (task_shards (db ?s))" "ID ?r = 30" by (simp_all add: demo_running_def demo_shard_def)
  have "reliable ?s" "db_inv {} (db ?s)" using demo_running_facts by simp_all
  then obtain s' where run: "CleanupOrphanShards 50 ?s = (Inr (), s')"
    and all: "\<forall>r\<in>set (task_shards (db ?s)). \<exists>r'\<in>set (task_shards (db s')). if orphan (map fst (agents ?s)) r \<and> ?due r
       then ID r' = ID r \<and> shard_Status r' = ShardStatusQueued \<and> shard_AssignedAgentID r' = None else r' = r"
    using cleanup_requeues_due_orphans[of ?s 50] by auto
  show ?thesis using bspec[OF all r(1)] orph r(2) run by (simp only: if_True simp_thms) blast
qed

text \<open>
  The cleanup never frees a leased shard that was not started: a shard whose agent is gone before it
  reported the start has no start time and keeps its lease, whatever the threshold and however long ago it was leased.
\<close>

lemma cleanup_skips_unstarted:
  assumes "reliable s" and "db_inv {} (db s)" and "r \<in> set (task_shards (db s))" and "shard_StartedAt r = None"
  shows "\<exists>s'. CleanupOrphanShards threshold s = (Inr (), s') \<and> r \<in> set (task_shards (db s'))"
proof -
  obtain s' B where run: "CleanupOrphanShards threshold s = (Inr (), s')"
    and rq: "requeued (due (now_at (env s) (Suc (tick s)) - threshold)) B (task_shards (db s)) (task_shards (db s'))"
    using CleanupOrphanShards_run[OF assms(1,2)] by blast
  have "\<not> due (now_at (env s) (Suc (tick s)) - threshold) r" using assms(4) by (simp add: due_def)
  then show ?thesis using requeued_mem[OF rq assms(3)] run by auto
qed

text \<open>
  When an agent says it is idle, or reconnects after losing its state, all shards leased to it or
  running on it go back to the queue, and no other shard is touched.
\<close>

lemma idle_agent_holds_no_shard:
  assumes "reliable s" and "db_inv {} (db s)"
  shows "\<exists>n s'. RollbackOrphanShardsForAgent agentID s = (Inr n, s') \<and> tasks (db s') = tasks (db s) \<and>
    (\<forall>r\<in>set (task_shards (db s)). \<exists>r'\<in>set (task_shards (db s')).
       if shard_AssignedAgentID r = Some agentID \<and> shard_Status r \<in> {ShardStatusLeased, ShardStatusRunning}
       then ID r' = ID r \<and> shard_Status r' = ShardStatusQueued \<and> shard_AssignedAgentID r' = None
       else r' = r)"
proof -
  let ?B = "ID ` {r \<in> set (task_shards (db s)). shard_AssignedAgentID r = Some agentID \<and> shard_Status r \<in> set shard_active_statuses}"
  obtain n s' where run: "RollbackOrphanShardsForAgent agentID s = (Inr n, s')" "tasks (db s') = tasks (db s)"
    and rq: "requeued (\<lambda>_. True) ?B (task_shards (db s)) (task_shards (db s'))"
    using RollbackOrphanShardsForAgent_run[OF assms] by blast
  have "\<exists>r'\<in>set (task_shards (db s')). if shard_AssignedAgentID r = Some agentID \<and> shard_Status r \<in> {ShardStatusLeased, ShardStatusRunning}
       then ID r' = ID r \<and> shard_Status r' = ShardStatusQueued \<and> shard_AssignedAgentID r' = None else r' = r"
    if r: "r \<in> set (task_shards (db s))" for r
    by (rule requeued_result[OF rq r]) (simp add: id_image_iff[OF db_invD(2)[OF assms(2)] r] shard_active_statuses_def)
  then show ?thesis using run by blast
qed

end
