(* ===== verification/Props_Api.thy ===== *)
theory Props_Api
  imports Assign_Results Report_Results Demo "HOL-Library.Multiset"
begin

text \<open>
  The GraphQL side: submitting, cancelling and reading tasks, the scripts of a bundle, and the
  separation of tenants.
\<close>

section \<open>The scripts of a bundle\<close>

text \<open>The declarative reading of the two conditions on the archive.\<close>

definition bundle_scripts :: "(string \<times> bool) list \<Rightarrow> string list" where
  "bundle_scripts entries =
     [snd (path_Split name). (name, isDir) \<leftarrow> entries, \<not> isDir, path_Clean (fst (path_Split name)) = ''cmd'',
        strings_HasSuffix (snd (path_Split name)) ''.sh'']"

definition has_install :: "(string \<times> bool) list \<Rightarrow> bool" where
  "has_install entries \<longleftrightarrow> (\<exists>(name, isDir)\<in>set entries. \<not> isDir \<and> path_Clean name = ''install.sh'')"

lemma extract_loop_spec: "extract_loop entries inst acc = (inst \<or> has_install entries, acc @ bundle_scripts entries)"
  by (induction entries arbitrary: inst acc) (auto simp: has_install_def bundle_scripts_def Let_def split: prod.splits)

text \<open>
  C16: a bundle is accepted exactly when it has \<open>install.sh\<close> at its root and a script in \<open>cmd/\<close>; the scripts are then
  the base names of all of them, each as often as it occurs, in ascending order.
\<close>

theorem extracted_scripts:
  assumes "newReader zipBytes = Inr entries"
  shows "case extractScriptsFromZip newReader zipBytes of
      Inl _ \<Rightarrow> \<not> has_install entries \<or> bundle_scripts entries = []
    | Inr scripts \<Rightarrow> has_install entries \<and> bundle_scripts entries \<noteq> [] \<and>
        sorted scripts \<and> mset scripts = mset (bundle_scripts entries)"
proof -
  have "extract_loop entries False [] = (has_install entries, bundle_scripts entries)"
    by (simp add: extract_loop_spec)
  then show ?thesis
    using assms by (simp add: extractScriptsFromZip_def sort_Strings_def)
qed

theorem extracted_scripts_witness:
  "case extractScriptsFromZip (zip_NewReader demo_env) ''zip'' of Inl _ \<Rightarrow> False | Inr scripts \<Rightarrow> mset scripts = {#''a.sh'', ''b.sh''#}"
proof -
  let ?entries = "[(''install.sh'', False), (''cmd/'', True), (''cmd/b.sh'', False), (''cmd/a.sh'', False)]"
  have e: "zip_NewReader demo_env ''zip'' = Inr ?entries" by (simp add: demo_env_def)
  have "has_install ?entries" "bundle_scripts ?entries = [''b.sh'', ''a.sh'']" by code_simp+
  then show ?thesis using extracted_scripts[of "zip_NewReader demo_env" "''zip''", OF e] by (auto split: sum.splits)
qed

section \<open>Submitting\<close>

lemma liftE_iff: "liftE r s = (q, s') \<longleftrightarrow> r = q \<and> s' = s"
  by (cases r) (auto simp: liftE_def)

lemma uuid_New_iff: "uuid_New s = (Inr u, s') \<longleftrightarrow> uuid_NewV7 (env s) (tick s) = Inr u \<and> s' = tick_world s"
  by (auto simp: uuid_New_def split: sum.splits)

lemma UploadBytes_iff:
  "UploadBytes key bytes s = (Inr u, s') \<longleftrightarrow>
     oss_UploadBytes (env s) (tick s) = None \<and> s' = (tick_world s)\<lparr>uploads := uploads s @ [(key, bytes)]\<rparr>"
  by (auto simp: UploadBytes_def split: option.splits)

lemma aliyun_NewOss_iff: "aliyun_NewOss s = (Inr u, s') \<longleftrightarrow> oss_New (env s) (tick s) = None \<and> s' = tick_world s"
  by (auto simp: aliyun_NewOss_def split: option.splits)

lemma GetByName_Inr:
  "tenant_orm_GetByName name s = (Inr n, s') \<Longrightarrow>
   n \<in> set (tenants (db s)) \<and> live n \<and> tenant_Name n = name \<and> name \<noteq> [] \<and> s' = tick_world s"
  by (auto simp: tenant_orm_GetByName_def run_iff dest!: first_row_Inr split: if_split_asm)

interpretation uploaded: beside_rows uploads
  by unfold_locales simp_all

lemma uploaded_Create: "evolves uploads (=) (task_orm_Create t)" "evolves uploads (=) (task_shard_orm_Create r)"
proof -
  have new: "evolves uploads (=) uuid_New"
    by (rule uploaded.evolvesI) (simp add: uuid_New_def split: sum.splits)
  show "evolves uploads (=) (task_orm_Create t)" "evolves uploads (=) (task_shard_orm_Create r)"
    unfolding task_orm_Create_def task_shard_orm_Create_def BeforeCreate_def by (intro uploaded.keeps_intros new)+
qed

lemma uploaded_submit_body: "evolves uploads (=) (submit_body task scripts)"
  unfolding submit_body_def by (intro uploaded.keeps_intros uploaded_Create)

lemma SubmitTask_Inr:
  assumes "SubmitTask params s = (Inr taskID, s')"
  shows "\<exists>hookURL tenant scripts s1 s2 m. check_hook_url (env s) (sp_CompletionHookURL params) = Inr hookURL \<and>
    tenant \<in> set (tenants (db s)) \<and> live tenant \<and> tenant_Name tenant = sp_TenantName params \<and>
    extractScriptsFromZip (zip_NewReader (env s)) (sp_ZipBytes params) = Inr scripts \<and>
    uuid_NewV7 (env s) m = Inr taskID \<and> db s1 = db s \<and>
    uploads s1 = uploads s @ [(bundle_key (uuid_String (env s) taskID), sp_ZipBytes params)] \<and>
    submit_body (new_task taskID (ID tenant) hookURL (int (length scripts))) scripts s1 = (Inr (), s2) \<and>
    s' = tick_world s2"
proof -
  from assms obtain hookURL tenant scripts where
      1: "check_hook_url (env s) (sp_CompletionHookURL params) = Inr hookURL"
    and 2: "tenant_orm_GetByName (sp_TenantName params) s = (Inr tenant, tick_world s)"
    and 3: "extractScriptsFromZip (zip_NewReader (env s)) (sp_ZipBytes params) = Inr scripts"
    and rest: "bindE (mapErr (Wrapf ''generate task id: %w'' []) uuid_New) (\<lambda>taskID.
     bindE (mapErr (Wrapf ''init oss: %w'' []) aliyun_NewOss) (\<lambda>_.
     bindE (mapErr (Wrapf ''upload bundle to oss: %w'' [])
       (UploadBytes (bundle_key (uuid_String (env s) taskID)) (sp_ZipBytes params))) (\<lambda>_.
     bindE (transaction (submit_body
        (new_task taskID (ID tenant) hookURL (int (length scripts))) scripts)) (\<lambda>_.
     ret taskID)))) (tick_world s) = (Inr taskID, s')"
    unfolding SubmitTask_def bindE_getsE
    by (auto simp: bindE_Inr_iff[of orm_GetDB] bindE_getsE bindE_Inr_iff[of "liftE _"] liftE_iff bindE_Inr_iff[of "mapErr _ (tenant_orm_GetByName _)"]
        mapErr_Inr_iff orm_GetDB_def dest: GetByName_Inr split: if_split_asm)
  let ?s1 = "tick_world ((tick_world (tick_world (tick_world (tick_world s))))\<lparr>uploads :=
      uploads s @ [(bundle_key (uuid_String (env s) taskID), sp_ZipBytes params)]\<rparr>)"
  from rest obtain s2 where 4: "uuid_NewV7 (env s) (Suc (tick s)) = Inr taskID"
    and 5: "submit_body (new_task taskID (ID tenant) hookURL (int (length scripts))) scripts ?s1 = (Inr (), s2)" "s' = tick_world s2"
    by (auto simp: bindE_Inr_iff mapErr_Inr_iff uuid_New_iff aliyun_NewOss_iff UploadBytes_iff transaction_Inr_iff)
  show ?thesis
    using 1 GetByName_Inr[OF 2] 3 4 5
    by (intro exI[of _ hookURL] exI[of _ tenant] exI[of _ scripts] exI[of _ ?s1] exI[of _ s2] exI[of _ "Suc (tick s)"]) simp
qed

text \<open>
  C17: a successful \<open>SubmitTask\<close> stores the uploaded bundle under the new task's key and adds, in one
  transaction, one pending task of the named tenant whose shard count is the number of scripts, and
  one queued shard for every script of the bundle, in order.
\<close>

theorem submit_creates_task:
  assumes "SubmitTask params s = (Inr taskID, s')" and "uuid_ok (env s)"
  shows "\<exists>tenant scripts hookURL now rows.
    tenant \<in> set (tenants (db s)) \<and> tenant_Name tenant = sp_TenantName params \<and>
    check_hook_url (env s) (sp_CompletionHookURL params) = Inr hookURL \<and>
    extractScriptsFromZip (zip_NewReader (env s)) (sp_ZipBytes params) = Inr scripts \<and>
    uploads s' = uploads s @ [(bundle_key (uuid_String (env s) taskID), sp_ZipBytes params)] \<and>
    db s' = (db s)\<lparr>tasks := tasks (db s) @ [(new_task taskID (ID tenant) hookURL (int (length scripts)))\<lparr>CreatedAt := now, UpdatedAt := now\<rparr>],
      task_shards := task_shards (db s) @ rows\<rparr> \<and>
    map shard_ScriptName rows = scripts \<and>
    (\<forall>r\<in>set rows. shard_TaskID r = taskID \<and> shard_Status r = ShardStatusQueued)"
proof -
  obtain hookURL tenant scripts s1 s2 m where
      hook: "check_hook_url (env s) (sp_CompletionHookURL params) = Inr hookURL"
    and tenant: "tenant \<in> set (tenants (db s))" "tenant_Name tenant = sp_TenantName params"
    and scripts: "extractScriptsFromZip (zip_NewReader (env s)) (sp_ZipBytes params) = Inr scripts"
    and id: "uuid_NewV7 (env s) m = Inr taskID" and s1: "db s1 = db s"
      "uploads s1 = uploads s @ [(bundle_key (uuid_String (env s) taskID), sp_ZipBytes params)]"
    and body: "submit_body (new_task taskID (ID tenant) hookURL (int (length scripts))) scripts s1 = (Inr (), s2)"
    and s': "s' = tick_world s2"
    using SubmitTask_Inr[OF assms(1)] by blast
  let ?t = "new_task taskID (ID tenant) hookURL (int (length scripts))"
  have tid: "ID ?t = taskID" by (simp add: new_task_def)
  have "taskID \<noteq> uuid_Nil" using assms(2) id by (auto simp: uuid_ok_def)
  then obtain now rows where rows: "db s2 = (db s1)\<lparr>tasks := tasks (db s1) @ [?t\<lparr>CreatedAt := now, UpdatedAt := now\<rparr>],
      task_shards := task_shards (db s1) @ rows\<rparr>" "map shard_ScriptName rows = scripts" "\<forall>r\<in>set rows. created_shard taskID r"
    using submit_body_Inr[OF body] tid by auto
  have "\<forall>r\<in>set rows. shard_TaskID r = taskID \<and> shard_Status r = ShardStatusQueued"
    using rows(3) created_shardD by blast
  moreover have "uploads s' = uploads s1" using uploaded.evolvesD[OF uploaded_submit_body body] s' by simp
  ultimately show ?thesis
    using hook tenant scripts s1 s' rows(1,2)
    by (intro exI[of _ tenant] exI[of _ scripts] exI[of _ hookURL] exI[of _ now] exI[of _ rows]) simp
qed

definition demo_submit :: SubmitTaskParams where
  "demo_submit = \<lparr>sp_TenantName = ''acme'', sp_ZipBytes = ''zip'', sp_CompletionHookURL = []\<rparr>"

lemma demo_submit_ok: "case fst (SubmitTask demo_submit demo_ready) of Inl _ \<Rightarrow> False | Inr _ \<Rightarrow> True"
  by code_simp

theorem submit_creates_task_witness:
  "\<exists>taskID s'. SubmitTask demo_submit demo_ready = (Inr taskID, s') \<and>
     uploads s' = [(bundle_key (demo_uuid_String taskID), ''zip'')]"
proof -
  obtain x s' where x: "SubmitTask demo_submit demo_ready = (x, s')" by fastforce
  then obtain taskID where run: "SubmitTask demo_submit demo_ready = (Inr taskID, s')"
    using demo_submit_ok by (cases x) auto
  then have "uploads s' = uploads demo_ready @ [(bundle_key (uuid_String (env demo_ready) taskID), sp_ZipBytes demo_submit)]"
    using submit_creates_task[OF run] by auto
  then have "uploads s' = [(bundle_key (demo_uuid_String taskID), ''zip'')]"
    by (simp add: demo_ready_def demo_world_def demo_env_def demo_submit_def)
  then show ?thesis using run by blast
qed

lemma read_db:
  "tenant_orm_GetByName name s = (r, s') \<Longrightarrow> db s' = db s" "task_orm_GetByID taskID s = (q, s') \<Longrightarrow> db s' = db s"
  by (cases r; auto simp: tenant_orm_GetByName_def run_iff split: if_split_asm)
    (cases q; auto simp: task_orm_GetByID_def run_iff)



section \<open>Cancelling\<close>

lemma memory_NotifyCancelShard: "evolves rows_view (=) (NotifyCancelShard agentID shardID)"
proof -
  have "evolves rows_view (=) (delete_stream agentID)"
    unfolding delete_stream_def by (rule memory.evolves_modifyE) (simp add: rows_view_def)
  then show ?thesis
    unfolding NotifyCancelShard_def SendWithContext_def by (intro memory.evolves_intros memory_stream_send)
qed

lemma memory_notify_loop: "evolves rows_view (=) (notify_loop NotifyCancelShard ps)"
  by (induction ps; unfold notify_loop.simps; intro memory.evolves_intros memory_NotifyCancelShard; assumption?)

text \<open>The statements of \<open>CancelTask\<close> around its transaction.\<close>

lemma notify_loop_Inr: "\<exists>s'. notify_loop f ps s = (Inr (), s')"
  by (induction ps arbitrary: s) (auto simp: bindE_app tryE_app split: prod.splits)

definition cancel_hook :: "Task \<Rightarrow> uuid \<Rightarrow> unit w" where
  "cancel_hook task taskID =
     (case newCompletionHookPayload task TaskStatusCancelled [] (task_FinishedAt task) False of
        None \<Rightarrow> ret ()
      | Some payload \<Rightarrow>
          bindE (tryE (task_orm_GetByID taskID)) (\<lambda>r.
          dispatchCompletionHookAsync (case r of
            Inl getErr \<Rightarrow> payload
          | Inr refreshedTask \<Rightarrow> payload\<lparr>hook_FinishedAt := cloneTimePtr (task_FinishedAt refreshedTask)\<rparr>)))"

lemma keeps_GetByID: "evolves hooks_pending (=) (task_orm_GetByID taskID)" "evolves sent (=) (task_orm_GetByID taskID)"
  "evolves hooks_pending (=) (tenant_orm_GetByName name)" "evolves sent (=) (tenant_orm_GetByName name)"
  unfolding task_orm_GetByID_def tenant_orm_GetByName_def by (intro hooks.keeps_intros stream.keeps_intros)+

lemma cancel_hook_run:
  "\<exists>s' at. cancel_hook task taskID s = (Inr (), s') \<and> db s' = db s \<and>
     hooks_pending s' = hooks_pending s @ (if task_CompletionHookURL task = [] then [] else
       [the (newCompletionHookPayload task TaskStatusCancelled [] at False)])"
proof (cases "task_CompletionHookURL task = []")
  case True
  then show ?thesis by (simp add: cancel_hook_def newCompletionHookPayload_def)
next
  case False
  obtain r s1 where 1: "task_orm_GetByID taskID s = (r, s1)" by fastforce
  have "hooks_pending s1 = hooks_pending s" "db s1 = db s"
    using hooks.evolvesD[OF keeps_GetByID(1) 1] read_db(2)[OF 1] by simp_all
  then show ?thesis using False 1
    by (cases r) (auto simp: cancel_hook_def newCompletionHookPayload_def bindE_app tryE_app dispatchCompletionHookAsync_def)
qed

text \<open>\<open>CancelTask\<close> in three parts: the checks, the transaction, and what cannot fail any more.\<close>

lemma CancelTask_parts:
  "CancelTask (Some NotifyCancelShard) tenantName taskID =
     bindE orm_GetDB (\<lambda>_.
     bindE (mapErr (\<lambda>_. Wrapf ''%w: %s'' [tenantName] (Sentinel ErrTenantNotFound)) (tenant_orm_GetByName tenantName)) (\<lambda>tenant.
     bindE (task_orm_GetByID taskID) (\<lambda>task.
     bindE (select (running_shards taskID)) (\<lambda>runningShards.
     bindE (transaction (cancel_body (ID tenant) taskID)) (\<lambda>_.
     bindE (cancel_hook task taskID) (\<lambda>_. notify_loop NotifyCancelShard runningShards))))))"
  by (simp add: CancelTask_def cancel_hook_def)

lemma task_orm_GetByID_Inr:
  assumes "task_orm_GetByID taskID s = (Inr task, s')"
  shows "\<exists>t0. first_row (filter (\<lambda>r. live r \<and> ID r = taskID) (tasks (db s))) = Inr t0 \<and>
    task = t0\<lparr>task_Shards := preload_Shards (collate (env s)) (ID t0) (db s)\<rparr> \<and> s' = tick_world (tick_world s)"
  using assms by (auto simp: task_orm_GetByID_def run_iff)

lemma CancelTask_Inr:
  assumes "CancelTask (Some NotifyCancelShard) tenantName taskID s = (Inr (), s')"
  shows "\<exists>tenant t0 s1 s2 at. tenant \<in> set (tenants (db s)) \<and> live tenant \<and> tenant_Name tenant = tenantName \<and>
    first_row (filter (\<lambda>r. live r \<and> ID r = taskID) (tasks (db s))) = Inr t0 \<and>
    cancel_body (ID tenant) taskID s1 = (Inr (), s2) \<and> db s1 = db s \<and> db s' = db s2 \<and>
    hooks_pending s' = hooks_pending s @ (if task_CompletionHookURL t0 = [] then [] else
       [the (newCompletionHookPayload t0 TaskStatusCancelled [] at False)])"
proof -
  define s3 where "s3 = tick_world (tick_world (tick_world s))"
  from assms obtain tenant task q1 q2 s5 where
      g1: "tenant_orm_GetByName tenantName s = (Inr tenant, q1)"
    and g2: "task_orm_GetByID taskID q1 = (Inr task, q2)"
    and g4: "transaction (cancel_body (ID tenant) taskID) (tick_world q2) = (Inr (), s5)"
    and g5: "bindE (cancel_hook task taskID) (\<lambda>_. notify_loop NotifyCancelShard (running_shards taskID (db q2))) s5 = (Inr (), s')"
    unfolding CancelTask_parts
    by (auto simp: bindE_Inr_iff[of orm_GetDB] bindE_Inr_iff[of "mapErr _ _"] bindE_Inr_iff[of "task_orm_GetByID _"]
        bindE_Inr_iff[of "select _"] bindE_Inr_iff[of "transaction _"] mapErr_Inr_iff select_Inr_iff orm_GetDB_def
        split: if_split_asm)
  have "q1 = tick_world s" using GetByName_Inr[OF g1] by simp
  moreover from this have "q2 = s3" using task_orm_GetByID_Inr[OF g2] by (auto simp: s3_def)
  ultimately have 1: "tenant_orm_GetByName tenantName s = (Inr tenant, tick_world s)"
    and 2: "task_orm_GetByID taskID (tick_world s) = (Inr task, s3)"
    and 4: "transaction (cancel_body (ID tenant) taskID) (tick_world s3) = (Inr (), s5)"
    and 5: "bindE (cancel_hook task taskID) (\<lambda>_. notify_loop NotifyCancelShard (running_shards taskID (db s3))) s5 = (Inr (), s')"
    using g1 g2 g4 g5 by simp_all
  obtain t0 where t0: "first_row (filter (\<lambda>r. live r \<and> ID r = taskID) (tasks (db s))) = Inr t0"
    "task = t0\<lparr>task_Shards := preload_Shards (collate (env s)) (ID t0) (db s)\<rparr>"
    using task_orm_GetByID_Inr[OF 2] by auto
  obtain s6 where c: "cancel_body (ID tenant) taskID (tick_world (tick_world s3)) = (Inr (), s6)" "s5 = tick_world s6"
    using 4 by (auto simp: transaction_Inr_iff)
  obtain s7 at where h: "cancel_hook task taskID s5 = (Inr (), s7)" "db s7 = db s5"
    "hooks_pending s7 = hooks_pending s5 @ (if task_CompletionHookURL task = [] then [] else
       [the (newCompletionHookPayload task TaskStatusCancelled [] at False)])"
    using cancel_hook_run[of task taskID s5] by blast
  have n: "notify_loop NotifyCancelShard (running_shards taskID (db s3)) s7 = (Inr (), s')" using 5 h(1) by (simp add: bindE_app)
  have mem: "db s' = db s7" "hooks_pending s' = hooks_pending s7"
    using memory.evolvesD[OF memory_notify_loop n] by (simp_all add: rows_view_def)
  have "hooks_pending s5 = hooks_pending s"
    using hooks.evolvesD[OF hooks.keeps_transaction[OF hooks.keeps_cancel_body] 4] by (simp add: s3_def)
  moreover have "newCompletionHookPayload task TaskStatusCancelled [] at False = newCompletionHookPayload t0 TaskStatusCancelled [] at False"
    "task_CompletionHookURL task = task_CompletionHookURL t0"
    by (simp_all add: newCompletionHookPayload_def t0(2))
  ultimately have hooks': "hooks_pending s' = hooks_pending s @ (if task_CompletionHookURL t0 = [] then [] else
       [the (newCompletionHookPayload t0 TaskStatusCancelled [] at False)])"
    using h(3) mem(2) by simp
  have "db s' = db s6" using mem(1) h(2) c(2) by simp
  then show ?thesis
    using GetByName_Inr[OF 1] t0(1) c(1) hooks' unfolding s3_def
    by (intro exI[of "\<lambda>tenant. \<exists>t0 s1 s2 at. _ tenant t0 s1 s2 at" tenant] exI[of "\<lambda>t0. \<exists>s1 s2 at. _ t0 s1 s2 at" t0]
        exI[of "\<lambda>s1. \<exists>s2 at. _ s1 s2 at" "tick_world (tick_world (tick_world (tick_world (tick_world s))))"]
        exI[of "\<lambda>s2. \<exists>at. _ s2 at" s6] exI[of _ at]) simp
qed

lemma read_frame:
  "tenant_orm_GetByName name s = (r, s') \<Longrightarrow> db s' = db s \<and> hooks_pending s' = hooks_pending s \<and> sent s' = sent s"
  "task_orm_GetByID taskID s = (q, s') \<Longrightarrow> db s' = db s \<and> hooks_pending s' = hooks_pending s \<and> sent s' = sent s"
  using read_db hooks.evolvesD keeps_GetByID stream.evolvesD by metis+

lemma cancel_frame:
  assumes "transaction (cancel_body tenantID taskID) s = (Inl e, s')"
  shows "db s' = db s \<and> hooks_pending s' = hooks_pending s \<and> sent s' = sent s"
  using transaction_Inl_db[OF assms] hooks.evolvesD[OF hooks.keeps_transaction[OF hooks.keeps_cancel_body] assms]
    stream.evolvesD[OF stream.keeps_transaction[OF stream.keeps_cancel_body] assms] by simp

lemma CancelTask_Inl:
  assumes "CancelTask (Some NotifyCancelShard) tenantName taskID s = (Inl e, s')"
  shows "db s' = db s \<and> hooks_pending s' = hooks_pending s \<and> sent s' = sent s"
proof -
  have tail: "bindE (cancel_hook task taskID) (\<lambda>_. notify_loop NotifyCancelShard ps) q \<noteq> (Inl e, s')" for task ps q
    using cancel_hook_run[of task taskID q] notify_loop_Inr[of NotifyCancelShard ps]
    by (auto simp: bindE_app) (metis sum.distinct(1) prod.inject)
  show ?thesis
    using assms unfolding CancelTask_parts
    by (auto simp: bindE_Inl_iff[of orm_GetDB] bindE_Inl_iff[of "mapErr _ _"] bindE_Inl_iff[of "task_orm_GetByID _"]
        bindE_Inl_iff[of "select _"] bindE_Inl_iff[of "transaction _"] mapErr_Inl_iff mapErr_Inr_iff select_Inl_iff select_Inr_iff
        orm_GetDB_def tail dest!: read_frame cancel_frame split: if_split_asm)
qed

lemma upd_where_row:
  assumes "r \<in> set rs"
  shows "\<exists>r'\<in>set (upd_where p f rs). r' = (if p r then f r else r)"
  using assms by (auto simp: set_upd_where)

text \<open>
  C18: a successful \<open>CancelTask\<close> cancels a task of the named tenant that had not finished: the task and all its
  unfinished shards become cancelled, unassigned and finished, in one transaction; finished shards, other tasks and
  their shards stay as they are; and a hook with status cancelled is queued if the task has one.
\<close>

theorem cancel_effect:
  assumes "db_inv {} (db s)" and "CancelTask (Some NotifyCancelShard) tenantName taskID s = (Inr (), s')"
  shows "\<exists>tenant\<in>set (tenants (db s)). \<exists>t\<in>set (tasks (db s)). \<exists>t'\<in>set (tasks (db s')). \<exists>at.
    tenant_Name tenant = tenantName \<and> task_TenantID t = ID tenant \<and> ID t = taskID \<and>
    task_Status t \<notin> {TaskStatusSucceeded, TaskStatusFailed, TaskStatusCancelled} \<and>
    ID t' = taskID \<and> task_Status t' = TaskStatusCancelled \<and> task_FinishedAt t' \<noteq> None \<and>
    (\<forall>q\<in>set (tasks (db s)). ID q \<noteq> taskID \<longrightarrow> q \<in> set (tasks (db s'))) \<and>
    (\<forall>r\<in>set (task_shards (db s)). \<exists>r'\<in>set (task_shards (db s')).
       if shard_TaskID r = taskID \<and> shard_Status r \<notin> {ShardStatusSucceeded, ShardStatusFailed, ShardStatusCancelled}
       then ID r' = ID r \<and> shard_Status r' = ShardStatusCancelled \<and> shard_AssignedAgentID r' = None \<and> shard_FinishedAt r' \<noteq> None
       else r' = r) \<and>
    hooks_pending s' = hooks_pending s @ (if task_CompletionHookURL t = [] then [] else
       [the (newCompletionHookPayload t TaskStatusCancelled [] at False)])"
proof -
  obtain tenant t0 s1 s2 at where tenant: "tenant \<in> set (tenants (db s))" "tenant_Name tenant = tenantName"
    and load: "first_row (filter (\<lambda>r. live r \<and> ID r = taskID) (tasks (db s))) = Inr t0"
    and run: "cancel_body (ID tenant) taskID s1 = (Inr (), s2)" and d: "db s1 = db s" "db s' = db s2"
    and hooks: "hooks_pending s' = hooks_pending s @ (if task_CompletionHookURL t0 = [] then [] else
       [the (newCompletionHookPayload t0 TaskStatusCancelled [] at False)])"
    using CancelTask_Inr[OF assms(2)] by blast
  obtain t where t: "t \<in> set (tasks (db s))" "cancellable (ID tenant) taskID t"
    using cancel_body_Inr(1)[OF run] d by auto
  have "t0 = t" by (rule unique_row[OF db_invD(1)[OF assms(1)] t(1) _ _ load]) (use t(2) in \<open>auto simp: cancellable_def\<close>)
  note hooks = hooks[unfolded this]
  obtain now at1 now' at2 where d': "db s' = (db s)\<lparr>tasks := upd_where (cancellable (ID tenant) taskID) (cancelled_task now at1) (tasks (db s)),
       task_shards := upd_where (unfinished_shard taskID) (cancelled_shard now' at2) (task_shards (db s))\<rparr>"
    using cancel_body_Inr(2)[OF run] d by auto
  have t': "cancelled_task now at1 t \<in> set (tasks (db s'))"
    using upd_where_row[OF t(1), of "cancellable (ID tenant) taskID" "cancelled_task now at1"] t(2) by (simp add: d')
  have others: "\<forall>q\<in>set (tasks (db s)). ID q \<noteq> taskID \<longrightarrow> q \<in> set (tasks (db s'))"
  proof (intro ballI impI)
    fix q assume q: "q \<in> set (tasks (db s))" "ID q \<noteq> taskID"
    then have "\<not> cancellable (ID tenant) taskID q" by (simp add: cancellable_def)
    then show "q \<in> set (tasks (db s'))"
      using upd_where_row[OF q(1), of "cancellable (ID tenant) taskID" "cancelled_task now at1"] by (simp add: d')
  qed
  have shards: "\<exists>r'\<in>set (task_shards (db s')).
       if shard_TaskID r = taskID \<and> shard_Status r \<notin> {ShardStatusSucceeded, ShardStatusFailed, ShardStatusCancelled}
       then ID r' = ID r \<and> shard_Status r' = ShardStatusCancelled \<and> shard_AssignedAgentID r' = None \<and> shard_FinishedAt r' \<noteq> None
       else r' = r" if r: "r \<in> set (task_shards (db s))" for r
  proof -
    have c: "unfinished_shard taskID r \<longleftrightarrow> shard_TaskID r = taskID \<and> shard_Status r \<notin> {ShardStatusSucceeded, ShardStatusFailed, ShardStatusCancelled}"
      using db_invD(3)[OF assms(1) r] by (simp add: unfinished_shard_def shard_row_ok_def shard_terminal_statuses_def)
    obtain r' where "r' \<in> set (task_shards (db s'))" "r' = (if unfinished_shard taskID r then cancelled_shard now' at2 r else r)"
      using upd_where_row[OF r, of "unfinished_shard taskID" "cancelled_shard now' at2"] by (auto simp: d')
    then show ?thesis unfolding c by (intro bexI[of _ r']) (simp_all add: cancelled_shard_def)
  qed
  have "task_TenantID t = ID tenant" "ID t = taskID" "task_Status t \<notin> {TaskStatusSucceeded, TaskStatusFailed, TaskStatusCancelled}"
    using t(2) by (auto simp: cancellable_def task_terminal_statuses_def)
  then show ?thesis
    using others shards hooks tenant(2)
    by (intro bexI[OF _ tenant(1)] bexI[OF _ t(1)] bexI[OF _ t'] exI[of _ at]) (simp add: cancelled_task_def)
qed

lemma demo_cancel_ok: "case fst (CancelTask (Some NotifyCancelShard) ''acme'' 20 demo_ready) of Inl _ \<Rightarrow> False | Inr _ \<Rightarrow> True"
  by code_simp

theorem cancel_effect_witness:
  "\<exists>s'. CancelTask (Some NotifyCancelShard) ''acme'' 20 demo_ready = (Inr (), s') \<and>
     (\<exists>t'\<in>set (tasks (db s')). ID t' = 20 \<and> task_Status t' = TaskStatusCancelled)"
proof -
  obtain x s' where x: "CancelTask (Some NotifyCancelShard) ''acme'' 20 demo_ready = (x, s')" by fastforce
  then have run: "CancelTask (Some NotifyCancelShard) ''acme'' 20 demo_ready = (Inr (), s')"
    using demo_cancel_ok by (cases x) auto
  have "db_inv {} (db demo_ready)" by (simp add: demo_ready_def demo_db_inv)
  then show ?thesis using cancel_effect[OF _ run] run by auto
qed

text \<open>
  C19: cancelling a task that is not the named tenant's, or has already finished, or does not exist, is an error, and a
  cancellation that returns an error has changed no row, queued no hook and sent no message.
\<close>

theorem cancel_needs_owner:
  assumes "db_inv {} (db s)"
    and "\<And>tenant t. tenant \<in> set (tenants (db s)) \<Longrightarrow> tenant_Name tenant = tenantName \<Longrightarrow>
       t \<in> set (tasks (db s)) \<Longrightarrow> ID t = taskID \<Longrightarrow> task_TenantID t = ID tenant \<Longrightarrow>
       task_Status t \<in> {TaskStatusSucceeded, TaskStatusFailed, TaskStatusCancelled}"
  shows "\<exists>e s'. CancelTask (Some NotifyCancelShard) tenantName taskID s = (Inl e, s') \<and>
    db s' = db s \<and> hooks_pending s' = hooks_pending s \<and> sent s' = sent s"
proof -
  obtain r s' where run: "CancelTask (Some NotifyCancelShard) tenantName taskID s = (r, s')" by fastforce
  show ?thesis
  proof (cases r)
    case (Inl e)
    then show ?thesis using run CancelTask_Inl by blast
  next
    case (Inr u)
    then obtain tenant s1 s2 where "tenant \<in> set (tenants (db s))" "tenant_Name tenant = tenantName"
      "cancel_body (ID tenant) taskID s1 = (Inr (), s2)" "db s1 = db s"
      using CancelTask_Inr[of tenantName taskID s s'] run by auto
    then show ?thesis using cancel_body_Inr(1)[of "ID tenant" taskID s1] assms(2)
      by (fastforce simp: cancellable_def task_terminal_statuses_def)
  qed
qed

theorem cancel_needs_owner_witness:
  "\<exists>e s'. CancelTask (Some NotifyCancelShard) ''nobody'' 20 demo_ready = (Inl e, s') \<and> db s' = db demo_ready"
  using cancel_needs_owner[of demo_ready "''nobody''" 20] demo_db_inv
  by (auto simp: demo_ready_def) (auto simp: demo_db_def demo_tenant_def)

section \<open>Failures\<close>



section \<open>Reading\<close>

text \<open>
  C20: tenants are separated: \<open>GetTask\<close> and \<open>ListTasks\<close> under a tenant's name return only tasks of a tenant with that
  name, with only their own shards, sorted by script name, and change no row.
\<close>

theorem reads_are_separated:
  assumes "GetTask tenantName taskID s = (Inr task, s1)" and "ListTasks tenantName status s = (Inr found, s2)"
  shows "db s1 = db s \<and> db s2 = db s \<and> ID task = taskID \<and>
    (\<forall>t\<in>insert task (set found). \<exists>tenant\<in>set (tenants (db s)). tenant_Name tenant = tenantName \<and> task_TenantID t = ID tenant \<and>
       (\<exists>t0\<in>set (tasks (db s)). t = t0\<lparr>task_Shards := task_Shards t\<rparr>) \<and>
       (\<forall>r\<in>set (task_Shards t). r \<in> set (task_shards (db s)) \<and> shard_TaskID r = ID t) \<and>
       sorted (map (\<lambda>r. collate (env s) (shard_ScriptName r)) (task_Shards t))) \<and>
    (status \<noteq> [] \<longrightarrow> (\<forall>t\<in>set found. task_Status t = status))"
proof -
  have preload: "(\<forall>r\<in>set (preload_Shards coll u d). r \<in> set (task_shards d) \<and> shard_TaskID r = u) \<and>
      sorted (map (\<lambda>r. coll (shard_ScriptName r)) (preload_Shards coll u d))" for coll u d
    by (simp add: preload_Shards_def)
  from assms(1) obtain tenant q1 where 1: "tenant_orm_GetByName tenantName s = (Inr tenant, q1)"
    "task_orm_GetByID taskID q1 = (Inr task, s1)" "task_TenantID task = ID tenant"
    by (auto simp: GetTask_def bindE_Inr_iff mapErr_Inr_iff orm_GetDB_def split: if_split_asm)
  have q1: "q1 = tick_world s" using GetByName_Inr[OF 1(1)] by simp
  obtain t0 where t0: "first_row (filter (\<lambda>r. live r \<and> ID r = taskID) (tasks (db s))) = Inr t0"
    "task = t0\<lparr>task_Shards := preload_Shards (collate (env s)) (ID t0) (db s)\<rparr>"
    using task_orm_GetByID_Inr[OF 1(2)] by (auto simp: q1)
  have task: "t0 \<in> set (tasks (db s))" "ID t0 = taskID" using first_row_Inr[OF t0(1)] by auto
  have db1: "db s1 = db s" using read_db(2)[OF 1(2)] q1 by simp
  from assms(2) obtain tenant' q2 where 2: "tenant_orm_GetByName tenantName s = (Inr tenant', q2)"
    "ListTasksByTenant (ID tenant') status q2 = (Inr found, s2)"
    by (auto simp: ListTasks_def bindE_Inr_iff mapErr_Inr_iff orm_GetDB_def split: if_split_asm)
  have q2: "q2 = tick_world s" using GetByName_Inr[OF 2(1)] by simp
  have ls: "db s2 = db s \<and> (\<forall>t\<in>set found. \<exists>t0\<in>set (tasks (db s)). task_TenantID t0 = ID tenant' \<and>
      (status \<noteq> [] \<longrightarrow> task_Status t0 = status) \<and> t = t0\<lparr>task_Shards := preload_Shards (collate (env s)) (ID t0) (db s)\<rparr>)"
    using 2(2) unfolding q2 by (auto simp: ListTasksByTenant_def run_iff split: if_split_asm)
  show ?thesis
    using db1 ls task t0(2) 1(3) GetByName_Inr[OF 1(1)] GetByName_Inr[OF 2(1)] preload by fastforce
qed

lemma demo_reads:
  "case fst (GetTask ''acme'' 20 demo_ready) of Inl _ \<Rightarrow> False | Inr _ \<Rightarrow> True"
  "case fst (ListTasks ''acme'' [] demo_ready) of Inl _ \<Rightarrow> False | Inr _ \<Rightarrow> True"
  by code_simp+

theorem reads_are_separated_witness:
  "\<exists>task s1 found s2. GetTask ''acme'' 20 demo_ready = (Inr task, s1) \<and> ListTasks ''acme'' [] demo_ready = (Inr found, s2) \<and>
     ID task = 20 \<and> db s1 = db demo_ready \<and> db s2 = db demo_ready"
proof -
  obtain x s1 y s2 where x: "GetTask ''acme'' 20 demo_ready = (x, s1)" "ListTasks ''acme'' [] demo_ready = (y, s2)" by fastforce
  obtain task where 1: "GetTask ''acme'' 20 demo_ready = (Inr task, s1)" using x demo_reads(1) by (cases x) auto
  obtain found where 2: "ListTasks ''acme'' [] demo_ready = (Inr found, s2)" using x demo_reads(2) by (cases y) auto
  show ?thesis using reads_are_separated[OF 1 2] 1 2 by blast
qed

end
