(* ===== verification/Gqlgen.thy ===== *)
theory Gqlgen
  imports Graph_Api
begin

text \<open>
  The vocabulary of the generated GraphQL executor (\<open>graph/generated\<close>). The executor is written
  against two libraries that are not part of the repository, \<open>gqlgen/graphql\<close> and \<open>gqlparser\<close>. Their
  functions are the fields of the record \<open>gqlgen\<close>, an argument of every definition that calls
  them; their types of contexts, collected fields and selection sets are the type variables \<open>'c\<close>,
  \<open>'f\<close> and \<open>'s\<close>, and what they keep for themselves between calls (the errors of the response, the
  tracing) is \<open>'l\<close>. Nothing is said here about what these functions do.

  An executor function runs on the state \<open>exec\<close>: the world of the server, the library's state, the
  counters of the execution context and the flag \<open>first\<close> of a response handler. It is a \<open>go\<close> function
  whose \<open>Inl\<close> is a panic. A Go result \<open>(T, error)\<close> is a sum; the value that
  stands beside a non-nil error is not kept, no caller in the executor reads it. A library function that is
  generic in a type \<open>T\<close> gets the conversion to and from \<open>any\<close> at \<open>T\<close> as part of its arguments.
\<close>

section \<open>Values of type any\<close>

text \<open>
  The dynamic types that reach an \<open>any\<close> of the executor; a pointer is an option, and so is a slice
  the code compares with nil. An object of the library's \<open>introspection\<close> package is
  known by a reference.
\<close>

type_synonym iref = nat

datatype go_any =
    is_nil: AnyNil
  | AnyString string
  | AnyInt int
  | AnyBool bool
  | AnyList "go_any list"
  | AnyMap "string \<Rightarrow> go_any option"
  | AnyUpload "string + string"
  | AnyUUID uuid
  | AnyTime time
  | AnyStringPtr "string option"
  | AnyTimePtr "time option"
  | AnyCreateTenantInput CreateTenantInput
  | AnySubmitTaskInput SubmitTaskInput
  | AnySubmitTaskResponse "SubmitTaskResponse option"
  | AnyCancelTaskPayload "CancelTaskPayload option"
  | AnyTenant "gql_Tenant option"
  | AnyTask "gql_Task option"
  | AnyTasks "gql_Task option list"
  | AnyTaskShards "gql_TaskShard option list"
  | AnyBoolPtr "bool option"
  | AnyStrings "string list"
  | AnySchema "iref option"
  | AnyType "iref option"
  | AnyTypes "iref list option"
  | AnyFields "iref list option"
  | AnyInputValues "iref list option"
  | AnyEnumValues "iref list option"
  | AnyDirectives "iref list option"

type_synonym any_map = "string \<Rightarrow> go_any option"

text \<open>The type assertions \<open>v.(T)\<close>, \<open>None\<close> when the dynamic type is another.\<close>

fun any_string :: "go_any \<Rightarrow> string option" where
  "any_string (AnyString x) = Some x" | "any_string _ = None"

fun any_int :: "go_any \<Rightarrow> int option" where
  "any_int (AnyInt x) = Some x" | "any_int _ = None"

fun any_map_of :: "go_any \<Rightarrow> any_map option" where
  "any_map_of (AnyMap x) = Some x" | "any_map_of _ = None"

fun any_UUID :: "go_any \<Rightarrow> uuid option" where
  "any_UUID (AnyUUID x) = Some x" | "any_UUID _ = None"

fun any_Time :: "go_any \<Rightarrow> time option" where
  "any_Time (AnyTime x) = Some x" | "any_Time _ = None"

fun any_string_ptr :: "go_any \<Rightarrow> string option option" where
  "any_string_ptr (AnyStringPtr x) = Some x" | "any_string_ptr _ = None"

fun any_Time_ptr :: "go_any \<Rightarrow> time option option" where
  "any_Time_ptr (AnyTimePtr x) = Some x" | "any_Time_ptr _ = None"

fun any_CreateTenantInput :: "go_any \<Rightarrow> CreateTenantInput option" where
  "any_CreateTenantInput (AnyCreateTenantInput x) = Some x" | "any_CreateTenantInput _ = None"

fun any_SubmitTaskInput :: "go_any \<Rightarrow> SubmitTaskInput option" where
  "any_SubmitTaskInput (AnySubmitTaskInput x) = Some x" | "any_SubmitTaskInput _ = None"

fun any_SubmitTaskResponse :: "go_any \<Rightarrow> SubmitTaskResponse option option" where
  "any_SubmitTaskResponse (AnySubmitTaskResponse x) = Some x" | "any_SubmitTaskResponse _ = None"

fun any_CancelTaskPayload :: "go_any \<Rightarrow> CancelTaskPayload option option" where
  "any_CancelTaskPayload (AnyCancelTaskPayload x) = Some x" | "any_CancelTaskPayload _ = None"

fun any_Tenant :: "go_any \<Rightarrow> gql_Tenant option option" where
  "any_Tenant (AnyTenant x) = Some x" | "any_Tenant _ = None"

fun any_Task :: "go_any \<Rightarrow> gql_Task option option" where
  "any_Task (AnyTask x) = Some x" | "any_Task _ = None"

fun any_Tasks :: "go_any \<Rightarrow> gql_Task option list option" where
  "any_Tasks (AnyTasks x) = Some x" | "any_Tasks _ = None"

fun any_TaskShards :: "go_any \<Rightarrow> gql_TaskShard option list option" where
  "any_TaskShards (AnyTaskShards x) = Some x" | "any_TaskShards _ = None"

fun any_bool :: "go_any \<Rightarrow> bool option" where
  "any_bool (AnyBool x) = Some x" | "any_bool _ = None"

fun any_bool_ptr :: "go_any \<Rightarrow> bool option option" where
  "any_bool_ptr (AnyBoolPtr x) = Some x" | "any_bool_ptr _ = None"

fun any_strings :: "go_any \<Rightarrow> string list option" where
  "any_strings (AnyStrings x) = Some x" | "any_strings _ = None"

fun any_Schema :: "go_any \<Rightarrow> iref option option" where
  "any_Schema (AnySchema x) = Some x" | "any_Schema _ = None"

fun any_Type :: "go_any \<Rightarrow> iref option option" where
  "any_Type (AnyType x) = Some x" | "any_Type _ = None"

fun any_Types :: "go_any \<Rightarrow> iref list option option" where
  "any_Types (AnyTypes x) = Some x" | "any_Types _ = None"

fun any_Fields :: "go_any \<Rightarrow> iref list option option" where
  "any_Fields (AnyFields x) = Some x" | "any_Fields _ = None"

fun any_InputValues :: "go_any \<Rightarrow> iref list option option" where
  "any_InputValues (AnyInputValues x) = Some x" | "any_InputValues _ = None"

fun any_EnumValues :: "go_any \<Rightarrow> iref list option option" where
  "any_EnumValues (AnyEnumValues x) = Some x" | "any_EnumValues _ = None"

fun any_Directives :: "go_any \<Rightarrow> iref list option option" where
  "any_Directives (AnyDirectives x) = Some x" | "any_Directives _ = None"

text \<open>The zero values of the input types. The zero upload has a nil \<open>File\<close>, which cannot be read.\<close>

definition zero_Upload :: "string + string" where
  "zero_Upload = Inl ''invalid memory address or nil pointer dereference''"

definition zero_CreateTenantInput :: CreateTenantInput where
  "zero_CreateTenantInput = \<lparr>in_Name = [], in_PrimaryBackendName = [], in_MaxAgents = 0\<rparr>"

definition zero_SubmitTaskInput :: SubmitTaskInput where
  "zero_SubmitTaskInput = \<lparr>in_TenantName = [], in_BundleZip = zero_Upload, in_CompletionHookURL = None\<rparr>"

section \<open>Marshalers and field contexts\<close>

text \<open>
  A \<open>graphql.Marshaler\<close>: the nil interface, the value \<open>graphql.Null\<close>, a writer function (what it
  writes, or how it panics), a field set with the values of its fields, an array.
\<close>

datatype 'f marshaler =
    MNil
  | is_Null: MNull
  | MWriter "error + string"
  | MFieldSet "'f list" "'f marshaler list"
  | MArray "'f marshaler list"

text \<open>
  \<open>graphql.FieldContext\<close>. Its \<open>Child\<close> is always a closure that calls \<open>childFields_T\<close> for one object type
  \<open>T\<close>; it is kept as the name of that type. \<open>Field\<close> is unset in the context of a root object.
\<close>

record 'f field_context =
  fc_Object :: string
  fc_Field :: "'f option"
  fc_IsMethod :: bool
  fc_IsResolver :: bool
  fc_Child :: "string option"
  fc_Args :: any_map

type_synonym 'f fc_result = "'f field_context option \<times> error option"

datatype path_element = PathName string | PathIndex int

section \<open>The state of an execution\<close>

record 'l exec =
  ex_world :: world
  ex_lib :: 'l
  ex_Invalids :: "32 word"
  ex_Deferred :: "32 word"
  ex_PendingDeferred :: "32 word"
  ex_first :: bool

type_synonym ('l, 'a) x = "('l exec, 'a) go"

text \<open>A function of the server called from the executor: its error is a value here, not a panic.\<close>

definition in_world :: "'a w \<Rightarrow> ('l, error + 'a) x" where
  "in_world m s = (case m (ex_world s) of (r, w) \<Rightarrow> (Inr r, s\<lparr>ex_world := w\<rparr>))"

text \<open>\<open>defer func() { if r := recover(); r != nil { h(r) } }()\<close>\<close>

definition recovering :: "('l, 'a) x \<Rightarrow> (error \<Rightarrow> ('l, 'a) x) \<Rightarrow> ('l, 'a) x" where
  "recovering m h s = (case m s of (Inl p, s') \<Rightarrow> h p s' | (Inr v, s') \<Rightarrow> (Inr v, s'))"

text \<open>\<open>v.(T)\<close> without the comma-ok form panics on another type.\<close>

definition assert_type :: "(go_any \<Rightarrow> 'a option) \<Rightarrow> go_any option \<Rightarrow> ('l, 'a) x" where
  "assert_type as v = (case Option.bind v as of
       None \<Rightarrow> raise (External ''interface conversion'')
     | Some y \<Rightarrow> ret y)"

text \<open>A call whose only failure is a panic.\<close>

definition or_panic :: "error + 'a \<Rightarrow> ('l, 'a) x" where
  "or_panic r = (case r of Inl p \<Rightarrow> raise p | Inr v \<Rightarrow> ret v)"

section \<open>The libraries\<close>

record 's operation_context =
  oc_Operation :: string
  oc_SelectionSet :: 's
  oc_Variables :: any_map

record 'f deferred_result =
  dr_Result :: "'f marshaler"
  dr_Path :: "path_element list"
  dr_Label :: string
  dr_Errors :: "error list"

record response =
  rsp_Data :: "string option"
  rsp_Path :: "path_element list"
  rsp_Label :: string
  rsp_Errors :: "error list"
  rsp_HasNext :: "bool option"

text \<open>The fields and methods of the objects of \<open>gqlgen/graphql/introspection\<close>, and the two entry points to them.\<close>

record introspection =
  IntrospectType :: "string \<Rightarrow> error + iref option"
  IntrospectSchema :: "error + iref option"
  Directive_Name :: "iref \<Rightarrow> string"
  Directive_Description :: "iref \<Rightarrow> string option"
  Directive_IsRepeatable :: "iref \<Rightarrow> bool"
  Directive_Locations :: "iref \<Rightarrow> string list"
  Directive_Args :: "iref \<Rightarrow> iref list option"
  EnumValue_Name :: "iref \<Rightarrow> string"
  EnumValue_Description :: "iref \<Rightarrow> string option"
  EnumValue_IsDeprecated :: "iref \<Rightarrow> bool"
  EnumValue_DeprecationReason :: "iref \<Rightarrow> string option"
  Field_Name :: "iref \<Rightarrow> string"
  Field_Description :: "iref \<Rightarrow> string option"
  Field_Args :: "iref \<Rightarrow> iref list option"
  Field_Type :: "iref \<Rightarrow> iref option"
  Field_IsDeprecated :: "iref \<Rightarrow> bool"
  Field_DeprecationReason :: "iref \<Rightarrow> string option"
  InputValue_Name :: "iref \<Rightarrow> string"
  InputValue_Description :: "iref \<Rightarrow> string option"
  InputValue_Type :: "iref \<Rightarrow> iref option"
  InputValue_DefaultValue :: "iref \<Rightarrow> string option"
  InputValue_IsDeprecated :: "iref \<Rightarrow> bool"
  InputValue_DeprecationReason :: "iref \<Rightarrow> string option"
  Schema_Description :: "iref \<Rightarrow> string option"
  Schema_Types :: "iref \<Rightarrow> iref list option"
  Schema_QueryType :: "iref \<Rightarrow> iref option"
  Schema_MutationType :: "iref \<Rightarrow> iref option"
  Schema_SubscriptionType :: "iref \<Rightarrow> iref option"
  Schema_Directives :: "iref \<Rightarrow> iref list option"
  Type_Kind :: "iref \<Rightarrow> string"
  Type_Name :: "iref \<Rightarrow> string option"
  Type_Description :: "iref \<Rightarrow> string option"
  Type_SpecifiedByURL :: "iref \<Rightarrow> string option"
  Type_Fields :: "iref \<Rightarrow> bool \<Rightarrow> iref list option"
  Type_Interfaces :: "iref \<Rightarrow> iref list option"
  Type_PossibleTypes :: "iref \<Rightarrow> iref list option"
  Type_EnumValues :: "iref \<Rightarrow> bool \<Rightarrow> iref list option"
  Type_InputFields :: "iref \<Rightarrow> iref list option"
  Type_OfType :: "iref \<Rightarrow> iref option"
  Type_IsOneOf :: "iref \<Rightarrow> bool"

text \<open>
  \<open>lib_ResolveField\<close> gets the initialiser of the field context, the resolver, the marshaler at the field's
  type and the two flags \<open>recoverFromPanic\<close> and \<open>nonNull\<close> (the middleware chain is nil
  everywhere in the source). \<open>lib_ProcessArgField\<close> gets the zero value of the argument's type.
  \<open>lib_Dispatch\<close> runs the functions given to \<open>Concurrently\<close> and yields the values it stores, by index.
  \<open>lib_DeferredResults\<close> is a receive from the channel of deferred results. \<open>lib_set_Result\<close> stores, in the field
  context of \<open>ctx\<close>, the address of an element of the slice that is being marshalled.
\<close>

record ('c, 'f, 's, 'l) gqlgen =
  lib_CollectFields :: "'s operation_context \<Rightarrow> 's \<Rightarrow> string list \<Rightarrow> 'f list"
  lib_GetOperationContext :: "'c \<Rightarrow> 's operation_context"
  lib_Name :: "'f \<Rightarrow> string"
  lib_ArgumentMap :: "'f \<Rightarrow> any_map \<Rightarrow> error + any_map"
  lib_GetFieldContext :: "'c \<Rightarrow> 'f field_context option"
  lib_WithFieldContext :: "'c \<Rightarrow> 'f field_context \<Rightarrow> 'c"
  lib_WithRootFieldContext :: "'c \<Rightarrow> string \<Rightarrow> 'f \<Rightarrow> 'c"
  lib_WithPathField :: "'c \<Rightarrow> string \<Rightarrow> 'c"
  lib_WithPathIndex :: "'c \<Rightarrow> nat \<Rightarrow> 'c"
  lib_GetPath :: "'c \<Rightarrow> path_element list"
  lib_WithUnmarshalerMap :: "'c \<Rightarrow> ('c \<Rightarrow> go_any \<Rightarrow> ('l, error + CreateTenantInput) x) \<Rightarrow>
    ('c \<Rightarrow> go_any \<Rightarrow> ('l, error + SubmitTaskInput) x) \<Rightarrow> 'c"
  lib_NewScalarFieldContext :: "string \<Rightarrow> 'f \<Rightarrow> bool \<Rightarrow> bool \<Rightarrow> error \<Rightarrow> 'f fc_result"
  lib_ErrorOnPath :: "'c \<Rightarrow> error \<Rightarrow> error"
  lib_HasFieldError :: "'c \<Rightarrow> 'f field_context option \<Rightarrow> 'l \<Rightarrow> bool"
  lib_AddErrorf :: "'c \<Rightarrow> string \<Rightarrow> 'l \<Rightarrow> 'l"
  lib_Error :: "'c \<Rightarrow> error \<Rightarrow> 'l \<Rightarrow> 'l"
  lib_Recover :: "'c \<Rightarrow> error \<Rightarrow> error"
  lib_set_Result :: "'c \<Rightarrow> nat \<Rightarrow> 'l \<Rightarrow> 'l"
  lib_CoerceList :: "go_any \<Rightarrow> go_any list"
  lib_UnmarshalString :: "go_any \<Rightarrow> error + string"
  lib_UnmarshalBoolean :: "go_any \<Rightarrow> error + bool"
  lib_UnmarshalInt :: "go_any \<Rightarrow> error + int"
  lib_UnmarshalTime :: "go_any \<Rightarrow> error + time"
  lib_UnmarshalUpload :: "go_any \<Rightarrow> error + (string + string)"
  lib_MarshalString :: "string \<Rightarrow> 'f marshaler"
  lib_MarshalBoolean :: "bool \<Rightarrow> 'f marshaler"
  lib_MarshalInt :: "int \<Rightarrow> 'f marshaler"
  lib_MarshalTime :: "time \<Rightarrow> 'f marshaler"
  lib_MarshalUpload :: "string + string \<Rightarrow> 'f marshaler"
  lib_MarshalGQL :: "'f marshaler \<Rightarrow> error + string"
  lib_ProcessArgField :: "'c \<Rightarrow> any_map \<Rightarrow> string \<Rightarrow> go_any \<Rightarrow>
    ('c \<Rightarrow> go_any \<Rightarrow> ('l, error + go_any) x) \<Rightarrow> ('l, error + go_any) x"
  lib_ResolveField :: "'c \<Rightarrow> 's operation_context \<Rightarrow> 'f \<Rightarrow>
    ('c \<Rightarrow> 'f \<Rightarrow> ('l, 'f fc_result) x) \<Rightarrow> ('c \<Rightarrow> ('l, error + go_any) x) \<Rightarrow>
    ('c \<Rightarrow> 's \<Rightarrow> go_any \<Rightarrow> ('l, 'f marshaler) x option) \<Rightarrow> bool \<Rightarrow> bool \<Rightarrow> ('l, 'f marshaler) x"
  lib_MarshalSliceConcurrently :: "'c \<Rightarrow> nat \<Rightarrow> nat \<Rightarrow> bool \<Rightarrow>
    ('c \<Rightarrow> nat \<Rightarrow> ('l, 'f marshaler) x) \<Rightarrow> ('l, 'f marshaler list) x"
  lib_RootResolverMiddleware :: "'c \<Rightarrow> ('c \<Rightarrow> ('l, 'f marshaler) x) \<Rightarrow> ('l, 'f marshaler) x"
  lib_Dispatch :: "'c \<Rightarrow> (nat \<times> ('c \<Rightarrow> ('l, 'f marshaler) x)) list \<Rightarrow> ('l, (nat \<times> 'f marshaler) list) x"
  lib_ProcessDeferredGroup :: "string \<Rightarrow> path_element list \<Rightarrow> 'f marshaler \<Rightarrow> 'c \<Rightarrow> ('l, unit) x"
  lib_DeferredResults :: "('l, 'f deferred_result) x"
  lib_ErrorResponse :: "'c \<Rightarrow> string \<Rightarrow> response"
  lib_OneShot :: "response \<Rightarrow> 'c \<Rightarrow> ('l, response option) x"
  lib_introspection :: introspection

text \<open>A marshaler at a type \<open>T\<close> as \<open>lib_ResolveField\<close> takes it: the library asserts the type of the resolver's result.\<close>

definition at_type :: "(go_any \<Rightarrow> 'a option) \<Rightarrow> ('c \<Rightarrow> 's \<Rightarrow> 'a \<Rightarrow> 'b) \<Rightarrow> 'c \<Rightarrow> 's \<Rightarrow> go_any \<Rightarrow> 'b option" where
  "at_type as f ctx sel v = map_option (f ctx sel) (as v)"

text \<open>\<open>res, err := ...; return res, graphql.ErrorOnPath(ctx, err)\<close>; \<open>ErrorOnPath\<close> keeps a nil error.\<close>

definition on_path :: "('c, 'f, 's, 'l) gqlgen \<Rightarrow> 'c \<Rightarrow> error + 'a \<Rightarrow> error + 'a" where
  "on_path G ctx r = map_sum (lib_ErrorOnPath G ctx) id r"

text \<open>\<open>if !graphql.HasFieldError(ctx, graphql.GetFieldContext(ctx)) { graphql.AddErrorf(ctx, ...) }\<close>\<close>

definition null_error :: "('c, 'f, 's, 'l) gqlgen \<Rightarrow> 'c \<Rightarrow> ('l, unit) x" where
  "null_error G ctx = modifyE (\<lambda>s.
     if lib_HasFieldError G ctx (lib_GetFieldContext G ctx) (ex_lib s) then s
     else s\<lparr>ex_lib := lib_AddErrorf G ctx ''the requested element is null which the schema does not allow'' (ex_lib s)\<rparr>)"

definition ec_Error :: "('c, 'f, 's, 'l) gqlgen \<Rightarrow> 'c \<Rightarrow> error \<Rightarrow> ('l, unit) x" where
  "ec_Error G ctx err = modifyE (\<lambda>s. s\<lparr>ex_lib := lib_Error G ctx err (ex_lib s)\<rparr>)"

definition nil_dereference :: error where
  "nil_dereference = External ''invalid memory address or nil pointer dereference''"

text \<open>\<open>fc := graphql.GetFieldContext(ctx)\<close>, then \<open>fc.Args[key].(T)\<close> or \<open>fc.Result = &v[i]\<close>.\<close>

definition field_Arg :: "('c, 'f, 's, 'l) gqlgen \<Rightarrow> 'c \<Rightarrow> string \<Rightarrow> (go_any \<Rightarrow> 'a option) \<Rightarrow> ('l, 'a) x" where
  "field_Arg G ctx key as = (case lib_GetFieldContext G ctx of
       None \<Rightarrow> raise nil_dereference
     | Some fc \<Rightarrow> assert_type as (fc_Args fc key))"

definition set_Result :: "('c, 'f, 's, 'l) gqlgen \<Rightarrow> 'c \<Rightarrow> nat \<Rightarrow> ('l, unit) x" where
  "set_Result G ctx i = (case lib_GetFieldContext G ctx of
       None \<Rightarrow> raise nil_dereference
     | Some fc \<Rightarrow> modifyE (\<lambda>s. s\<lparr>ex_lib := lib_set_Result G ctx i (ex_lib s)\<rparr>))"

section \<open>The execution context\<close>

text \<open>
  The resolver interfaces, and the optional complexity functions of a schema. A resolver returns a
  pointer and an error; for the list the elements are pointers.
\<close>

record ResolverRoot =
  Mutation_SubmitTask :: "SubmitTaskInput \<Rightarrow> SubmitTaskResponse option w"
  Mutation_CancelTask :: "string \<Rightarrow> uuid \<Rightarrow> CancelTaskPayload option w"
  Mutation_CreateTenant :: "CreateTenantInput \<Rightarrow> gql_Tenant option w"
  Query_GetTaskByID :: "string \<Rightarrow> uuid \<Rightarrow> gql_Task option w"
  Query_GetTaskList :: "string \<Rightarrow> string option \<Rightarrow> gql_Task option list w"

definition mapR :: "('a \<Rightarrow> 'b) \<Rightarrow> ('s, 'a) go \<Rightarrow> ('s, 'b) go" where
  "mapR f m = bindE m (\<lambda>v. ret (f v))"

text \<open>The resolvers of \<open>graph/\<close>, as \<open>cmd/server\<close> puts them into the schema.\<close>

definition graph_Resolver ::
  "(Tenant \<Rightarrow> error + gql_Tenant) \<Rightarrow> (Task \<Rightarrow> error + gql_Task) \<Rightarrow>
   (string \<Rightarrow> uuid \<Rightarrow> unit w) option \<Rightarrow> ResolverRoot" where
  "graph_Resolver copyTenant copyTask notify =
     \<lparr>Mutation_SubmitTask = (\<lambda>input. mapR Some (resolver_SubmitTask input)),
      Mutation_CancelTask = (\<lambda>tenantName taskID. mapR Some (resolver_CancelTask notify tenantName taskID)),
      Mutation_CreateTenant = (\<lambda>input. mapR Some (resolver_CreateTenant copyTenant input)),
      Query_GetTaskByID = (\<lambda>tenantName taskID. mapR Some (resolver_GetTaskByID copyTask tenantName taskID)),
      Query_GetTaskList = (\<lambda>tenantName status. mapR (map Some) (resolver_GetTaskList copyTask tenantName status))\<rparr>"

text \<open>
  \<open>executionContext\<close>: the operation and the resolvers. \<open>StackDepth\<close> is how deep the one recursive
  function of the executor, \<open>___Type\<close>, may nest.
\<close>

record 's executionContext =
  OperationContext :: "'s operation_context"
  Resolvers :: ResolverRoot
  StackDepth :: nat

end
