(* ===== verification/Gql_Codec.thy ===== *)
theory Gql_Codec
  imports Gqlgen
begin

text \<open>
  How the executor reads and writes scalar values: \<open>graph/model/uuid.go\<close>, \<open>graph/generated/uuid.go\<close> and
  the scalar, input object and argument functions of \<open>graph/generated/generated.go\<close>. The suffix
  \<open>_ptr\<close> marks the functions on pointers, \<open>_slice\<close> those on slices.
\<close>

section \<open>Combinators\<close>

text \<open>\<open>v, err := m(); if err != nil { return nil, err }\<close> in a function whose errors are values.\<close>

definition bindR :: "('l, error + 'a) x \<Rightarrow> ('a \<Rightarrow> ('l, error + 'b) x) \<Rightarrow> ('l, error + 'b) x" where
  "bindR m f = bindE m (\<lambda>r. case r of Inl err \<Rightarrow> ret (Inl err) | Inr v \<Rightarrow> f v)"

definition boxed ::
  "('a \<Rightarrow> go_any) \<Rightarrow> ('c \<Rightarrow> go_any \<Rightarrow> ('l, error + 'a) x) \<Rightarrow> 'c \<Rightarrow> go_any \<Rightarrow> ('l, error + go_any) x" where
  "boxed box f ctx v = mapR (map_sum id box) (f ctx v)"

definition non_null :: "('c, 'f, 's, 'l) gqlgen \<Rightarrow> 'c \<Rightarrow> 'f marshaler \<Rightarrow> ('l, 'f marshaler) x" where
  "non_null G ctx res = (if is_Null res then bindE (null_error G ctx) (\<lambda>_. ret res) else ret res)"

section \<open>UUIDs\<close>

text \<open>The parser and printer of the \<open>uuid\<close> package are those of the environment.\<close>

definition MarshalUUID :: "('c, 'f, 's, 'l) gqlgen \<Rightarrow> uuid \<Rightarrow> ('l, 'f marshaler) x" where
  "MarshalUUID G u = getsE (\<lambda>s. MWriter (lib_MarshalGQL G (lib_MarshalString G (uuid_String (env (ex_world s)) u))))"

definition UnmarshalUUID :: "('c, 'f, 's, 'l) gqlgen \<Rightarrow> go_any \<Rightarrow> ('l, error + uuid) x" where
  "UnmarshalUUID G v = (case lib_UnmarshalString G v of
       Inl err \<Rightarrow> ret (Inl err)
     | Inr value \<Rightarrow> getsE (\<lambda>s. case uuid_Parse (env (ex_world s)) value of
           Inl err \<Rightarrow> Inl (Wrapf ''parse uuid: %w'' [] (External err))
         | Inr u \<Rightarrow> Inr u))"

definition unmarshalInputUUID :: "('c, 'f, 's, 'l) gqlgen \<Rightarrow> 'c \<Rightarrow> go_any \<Rightarrow> ('l, error + uuid) x" where
  "unmarshalInputUUID G ctx v = mapR (on_path G ctx) (UnmarshalUUID G v)"

definition exec_UUID :: "('c, 'f, 's, 'l) gqlgen \<Rightarrow> uuid option \<Rightarrow> ('l, 'f marshaler) x" where
  "exec_UUID G v = (case v of None \<Rightarrow> ret MNull | Some u \<Rightarrow> MarshalUUID G u)"

section \<open>Scalars\<close>

definition unmarshalNBoolean2bool :: "('c, 'f, 's, 'l) gqlgen \<Rightarrow> 'c \<Rightarrow> go_any \<Rightarrow> ('l, error + bool) x" where
  "unmarshalNBoolean2bool G ctx v = ret (on_path G ctx (lib_UnmarshalBoolean G v))"

definition marshalNBoolean2bool :: "('c, 'f, 's, 'l) gqlgen \<Rightarrow> 'c \<Rightarrow> 's \<Rightarrow> bool \<Rightarrow> ('l, 'f marshaler) x" where
  "marshalNBoolean2bool G ctx sel v = non_null G ctx (lib_MarshalBoolean G v)"

definition unmarshalNInt2int :: "('c, 'f, 's, 'l) gqlgen \<Rightarrow> 'c \<Rightarrow> go_any \<Rightarrow> ('l, error + int) x" where
  "unmarshalNInt2int G ctx v = ret (on_path G ctx (lib_UnmarshalInt G v))"

definition marshalNInt2int :: "('c, 'f, 's, 'l) gqlgen \<Rightarrow> 'c \<Rightarrow> 's \<Rightarrow> int \<Rightarrow> ('l, 'f marshaler) x" where
  "marshalNInt2int G ctx sel v = non_null G ctx (lib_MarshalInt G v)"

definition unmarshalNString2string :: "('c, 'f, 's, 'l) gqlgen \<Rightarrow> 'c \<Rightarrow> go_any \<Rightarrow> ('l, error + string) x" where
  "unmarshalNString2string G ctx v = ret (on_path G ctx (lib_UnmarshalString G v))"

definition marshalNString2string :: "('c, 'f, 's, 'l) gqlgen \<Rightarrow> 'c \<Rightarrow> 's \<Rightarrow> string \<Rightarrow> ('l, 'f marshaler) x" where
  "marshalNString2string G ctx sel v = non_null G ctx (lib_MarshalString G v)"

definition unmarshalNTime2Time :: "('c, 'f, 's, 'l) gqlgen \<Rightarrow> 'c \<Rightarrow> go_any \<Rightarrow> ('l, error + time) x" where
  "unmarshalNTime2Time G ctx v = ret (on_path G ctx (lib_UnmarshalTime G v))"

definition marshalNTime2Time :: "('c, 'f, 's, 'l) gqlgen \<Rightarrow> 'c \<Rightarrow> 's \<Rightarrow> time \<Rightarrow> ('l, 'f marshaler) x" where
  "marshalNTime2Time G ctx sel v = non_null G ctx (lib_MarshalTime G v)"

definition unmarshalNUUID2UUID :: "('c, 'f, 's, 'l) gqlgen \<Rightarrow> 'c \<Rightarrow> go_any \<Rightarrow> ('l, error + uuid) x" where
  "unmarshalNUUID2UUID G ctx v = mapR (on_path G ctx) (unmarshalInputUUID G ctx v)"

definition marshalNUUID2UUID :: "('c, 'f, 's, 'l) gqlgen \<Rightarrow> 'c \<Rightarrow> 's \<Rightarrow> uuid \<Rightarrow> ('l, 'f marshaler) x" where
  "marshalNUUID2UUID G ctx sel v = exec_UUID G (Some v)"

definition unmarshalNUpload2Upload :: "('c, 'f, 's, 'l) gqlgen \<Rightarrow> 'c \<Rightarrow> go_any \<Rightarrow> ('l, error + (string + string)) x" where
  "unmarshalNUpload2Upload G ctx v = ret (on_path G ctx (lib_UnmarshalUpload G v))"

definition marshalNUpload2Upload :: "('c, 'f, 's, 'l) gqlgen \<Rightarrow> 'c \<Rightarrow> 's \<Rightarrow> string + string \<Rightarrow> ('l, 'f marshaler) x" where
  "marshalNUpload2Upload G ctx sel v = non_null G ctx (lib_MarshalUpload G v)"

definition unmarshalN__DirectiveLocation2string :: "('c, 'f, 's, 'l) gqlgen \<Rightarrow> 'c \<Rightarrow> go_any \<Rightarrow> ('l, error + string) x" where
  "unmarshalN__DirectiveLocation2string G ctx v = ret (on_path G ctx (lib_UnmarshalString G v))"

definition marshalN__DirectiveLocation2string :: "('c, 'f, 's, 'l) gqlgen \<Rightarrow> 'c \<Rightarrow> 's \<Rightarrow> string \<Rightarrow> ('l, 'f marshaler) x" where
  "marshalN__DirectiveLocation2string G ctx sel v = non_null G ctx (lib_MarshalString G v)"

text \<open>The loop over the elements of a list value, each under the path of its index.\<close>

primrec unmarshal_elements ::
  "('c, 'f, 's, 'l) gqlgen \<Rightarrow> ('c \<Rightarrow> go_any \<Rightarrow> ('l, error + 'a) x) \<Rightarrow> 'c \<Rightarrow> nat \<Rightarrow> go_any list \<Rightarrow> ('l, error + 'a list) x" where
  "unmarshal_elements G f ctx i [] = ret (Inr [])"
| "unmarshal_elements G f ctx i (v # vs) =
     bindR (f (lib_WithPathIndex G ctx i) v) (\<lambda>y.
     bindR (unmarshal_elements G f ctx (Suc i) vs) (\<lambda>ys. ret (Inr (y # ys))))"

definition unmarshalN__DirectiveLocation2string_slice ::
  "('c, 'f, 's, 'l) gqlgen \<Rightarrow> 'c \<Rightarrow> go_any \<Rightarrow> ('l, error + string list) x" where
  "unmarshalN__DirectiveLocation2string_slice G ctx v =
     unmarshal_elements G (unmarshalN__DirectiveLocation2string G) ctx 0 (lib_CoerceList G v)"

definition unmarshalN__TypeKind2string :: "('c, 'f, 's, 'l) gqlgen \<Rightarrow> 'c \<Rightarrow> go_any \<Rightarrow> ('l, error + string) x" where
  "unmarshalN__TypeKind2string G ctx v = ret (on_path G ctx (lib_UnmarshalString G v))"

definition marshalN__TypeKind2string :: "('c, 'f, 's, 'l) gqlgen \<Rightarrow> 'c \<Rightarrow> 's \<Rightarrow> string \<Rightarrow> ('l, 'f marshaler) x" where
  "marshalN__TypeKind2string G ctx sel v = non_null G ctx (lib_MarshalString G v)"

definition unmarshalOBoolean2bool :: "('c, 'f, 's, 'l) gqlgen \<Rightarrow> 'c \<Rightarrow> go_any \<Rightarrow> ('l, error + bool) x" where
  "unmarshalOBoolean2bool G ctx v = ret (on_path G ctx (lib_UnmarshalBoolean G v))"

definition marshalOBoolean2bool :: "('c, 'f, 's, 'l) gqlgen \<Rightarrow> 'c \<Rightarrow> 's \<Rightarrow> bool \<Rightarrow> ('l, 'f marshaler) x" where
  "marshalOBoolean2bool G ctx sel v = ret (lib_MarshalBoolean G v)"

definition unmarshalOBoolean2bool_ptr :: "('c, 'f, 's, 'l) gqlgen \<Rightarrow> 'c \<Rightarrow> go_any \<Rightarrow> ('l, error + bool option) x" where
  "unmarshalOBoolean2bool_ptr G ctx v =
     (if is_nil v then ret (Inr None) else ret (on_path G ctx (map_sum id Some (lib_UnmarshalBoolean G v))))"

definition marshalOBoolean2bool_ptr :: "('c, 'f, 's, 'l) gqlgen \<Rightarrow> 'c \<Rightarrow> 's \<Rightarrow> bool option \<Rightarrow> ('l, 'f marshaler) x" where
  "marshalOBoolean2bool_ptr G ctx sel v = (case v of None \<Rightarrow> ret MNull | Some b \<Rightarrow> ret (lib_MarshalBoolean G b))"

definition unmarshalOString2string_ptr :: "('c, 'f, 's, 'l) gqlgen \<Rightarrow> 'c \<Rightarrow> go_any \<Rightarrow> ('l, error + string option) x" where
  "unmarshalOString2string_ptr G ctx v =
     (if is_nil v then ret (Inr None) else ret (on_path G ctx (map_sum id Some (lib_UnmarshalString G v))))"

definition marshalOString2string_ptr :: "('c, 'f, 's, 'l) gqlgen \<Rightarrow> 'c \<Rightarrow> 's \<Rightarrow> string option \<Rightarrow> ('l, 'f marshaler) x" where
  "marshalOString2string_ptr G ctx sel v = (case v of None \<Rightarrow> ret MNull | Some t \<Rightarrow> ret (lib_MarshalString G t))"

definition unmarshalOTime2Time_ptr :: "('c, 'f, 's, 'l) gqlgen \<Rightarrow> 'c \<Rightarrow> go_any \<Rightarrow> ('l, error + time option) x" where
  "unmarshalOTime2Time_ptr G ctx v =
     (if is_nil v then ret (Inr None) else ret (on_path G ctx (map_sum id Some (lib_UnmarshalTime G v))))"

definition marshalOTime2Time_ptr :: "('c, 'f, 's, 'l) gqlgen \<Rightarrow> 'c \<Rightarrow> 's \<Rightarrow> time option \<Rightarrow> ('l, 'f marshaler) x" where
  "marshalOTime2Time_ptr G ctx sel v = (case v of None \<Rightarrow> ret MNull | Some t \<Rightarrow> ret (lib_MarshalTime G t))"

section \<open>Input objects\<close>

text \<open>The loop over \<open>fieldsInOrder\<close>: a key the map lacks is skipped, the first error ends it.\<close>

primrec fields_in_order ::
  "('i \<Rightarrow> string \<Rightarrow> go_any \<Rightarrow> ('l, error + 'i) x) \<Rightarrow> any_map \<Rightarrow> string list \<Rightarrow> 'i \<Rightarrow> ('l, error + 'i) x" where
  "fields_in_order set_field asMap [] it = ret (Inr it)"
| "fields_in_order set_field asMap (k # ks) it = (case asMap k of
       None \<Rightarrow> fields_in_order set_field asMap ks it
     | Some v \<Rightarrow> bindR (set_field it k v) (fields_in_order set_field asMap ks))"

text \<open>\<open>data, err := unmarshal(ctx, v); if err != nil { return it, err }; it.F = data\<close>\<close>

definition assign :: "('a \<Rightarrow> 'i \<Rightarrow> 'i) \<Rightarrow> ('l, error + 'a) x \<Rightarrow> 'i \<Rightarrow> ('l, error + 'i) x" where
  "assign upd m it = bindR m (\<lambda>data. ret (Inr (upd data it)))"

definition unmarshalInputCreateTenantInput ::
  "('c, 'f, 's, 'l) gqlgen \<Rightarrow> 'c \<Rightarrow> go_any \<Rightarrow> ('l, error + CreateTenantInput) x" where
  "unmarshalInputCreateTenantInput G ctx obj =
     (if is_nil obj then ret (Inr zero_CreateTenantInput)
      else bindE (assert_type any_map_of (Some obj)) (\<lambda>asMap.
        fields_in_order
          (\<lambda>it k v.
             if k = ''name'' then
               assign (\<lambda>data it. it\<lparr>in_Name := data\<rparr>)
                 (unmarshalNString2string G (lib_WithPathField G ctx ''name'') v) it
             else if k = ''primary_backend_name'' then
               assign (\<lambda>data it. it\<lparr>in_PrimaryBackendName := data\<rparr>)
                 (unmarshalNString2string G (lib_WithPathField G ctx ''primary_backend_name'') v) it
             else if k = ''max_agents'' then
               assign (\<lambda>data it. it\<lparr>in_MaxAgents := data\<rparr>)
                 (unmarshalNInt2int G (lib_WithPathField G ctx ''max_agents'') v) it
             else ret (Inr it))
          asMap [''name'', ''primary_backend_name'', ''max_agents''] zero_CreateTenantInput))"

definition unmarshalInputSubmitTaskInput ::
  "('c, 'f, 's, 'l) gqlgen \<Rightarrow> 'c \<Rightarrow> go_any \<Rightarrow> ('l, error + SubmitTaskInput) x" where
  "unmarshalInputSubmitTaskInput G ctx obj =
     (if is_nil obj then ret (Inr zero_SubmitTaskInput)
      else bindE (assert_type any_map_of (Some obj)) (\<lambda>asMap.
        fields_in_order
          (\<lambda>it k v.
             if k = ''tenant_name'' then
               assign (\<lambda>data it. it\<lparr>in_TenantName := data\<rparr>)
                 (unmarshalNString2string G (lib_WithPathField G ctx ''tenant_name'') v) it
             else if k = ''bundle_zip'' then
               assign (\<lambda>data it. it\<lparr>in_BundleZip := data\<rparr>)
                 (unmarshalNUpload2Upload G (lib_WithPathField G ctx ''bundle_zip'') v) it
             else if k = ''completion_hook_url'' then
               assign (\<lambda>data it. it\<lparr>in_CompletionHookURL := data\<rparr>)
                 (unmarshalOString2string_ptr G (lib_WithPathField G ctx ''completion_hook_url'') v) it
             else ret (Inr it))
          asMap [''tenant_name'', ''bundle_zip'', ''completion_hook_url''] zero_SubmitTaskInput))"

definition unmarshalNCreateTenantInput ::
  "('c, 'f, 's, 'l) gqlgen \<Rightarrow> 'c \<Rightarrow> go_any \<Rightarrow> ('l, error + CreateTenantInput) x" where
  "unmarshalNCreateTenantInput G ctx v = mapR (on_path G ctx) (unmarshalInputCreateTenantInput G ctx v)"

definition unmarshalNSubmitTaskInput ::
  "('c, 'f, 's, 'l) gqlgen \<Rightarrow> 'c \<Rightarrow> go_any \<Rightarrow> ('l, error + SubmitTaskInput) x" where
  "unmarshalNSubmitTaskInput G ctx v = mapR (on_path G ctx) (unmarshalInputSubmitTaskInput G ctx v)"

section \<open>Arguments\<close>

definition field_Mutation_CancelTask_args ::
  "('c, 'f, 's, 'l) gqlgen \<Rightarrow> 'c \<Rightarrow> any_map \<Rightarrow> ('l, error + any_map) x" where
  "field_Mutation_CancelTask_args G ctx rawArgs =
     bindR (lib_ProcessArgField G ctx rawArgs ''tenant_name'' (AnyString [])
              (boxed AnyString (unmarshalNString2string G))) (\<lambda>arg0.
     bindR (lib_ProcessArgField G ctx rawArgs ''task_id'' (AnyUUID uuid_Nil)
              (boxed AnyUUID (unmarshalNUUID2UUID G))) (\<lambda>arg1.
     ret (Inr [''tenant_name'' \<mapsto> arg0, ''task_id'' \<mapsto> arg1])))"

definition field_Mutation_CreateTenant_args ::
  "('c, 'f, 's, 'l) gqlgen \<Rightarrow> 'c \<Rightarrow> any_map \<Rightarrow> ('l, error + any_map) x" where
  "field_Mutation_CreateTenant_args G ctx rawArgs =
     bindR (lib_ProcessArgField G ctx rawArgs ''input'' (AnyCreateTenantInput zero_CreateTenantInput)
              (boxed AnyCreateTenantInput (unmarshalNCreateTenantInput G))) (\<lambda>arg0.
     ret (Inr [''input'' \<mapsto> arg0]))"

definition field_Mutation_SubmitTask_args ::
  "('c, 'f, 's, 'l) gqlgen \<Rightarrow> 'c \<Rightarrow> any_map \<Rightarrow> ('l, error + any_map) x" where
  "field_Mutation_SubmitTask_args G ctx rawArgs =
     bindR (lib_ProcessArgField G ctx rawArgs ''input'' (AnySubmitTaskInput zero_SubmitTaskInput)
              (boxed AnySubmitTaskInput (unmarshalNSubmitTaskInput G))) (\<lambda>arg0.
     ret (Inr [''input'' \<mapsto> arg0]))"

definition field_Query_GetTaskByID_args ::
  "('c, 'f, 's, 'l) gqlgen \<Rightarrow> 'c \<Rightarrow> any_map \<Rightarrow> ('l, error + any_map) x" where
  "field_Query_GetTaskByID_args G ctx rawArgs =
     bindR (lib_ProcessArgField G ctx rawArgs ''tenant_name'' (AnyString [])
              (boxed AnyString (unmarshalNString2string G))) (\<lambda>arg0.
     bindR (lib_ProcessArgField G ctx rawArgs ''task_id'' (AnyUUID uuid_Nil)
              (boxed AnyUUID (unmarshalNUUID2UUID G))) (\<lambda>arg1.
     ret (Inr [''tenant_name'' \<mapsto> arg0, ''task_id'' \<mapsto> arg1])))"

definition field_Query_GetTaskList_args ::
  "('c, 'f, 's, 'l) gqlgen \<Rightarrow> 'c \<Rightarrow> any_map \<Rightarrow> ('l, error + any_map) x" where
  "field_Query_GetTaskList_args G ctx rawArgs =
     bindR (lib_ProcessArgField G ctx rawArgs ''tenant_name'' (AnyString [])
              (boxed AnyString (unmarshalNString2string G))) (\<lambda>arg0.
     bindR (lib_ProcessArgField G ctx rawArgs ''status'' (AnyStringPtr None)
              (boxed AnyStringPtr (unmarshalOString2string_ptr G))) (\<lambda>arg1.
     ret (Inr [''tenant_name'' \<mapsto> arg0, ''status'' \<mapsto> arg1])))"

definition field_Query___type_args ::
  "('c, 'f, 's, 'l) gqlgen \<Rightarrow> 'c \<Rightarrow> any_map \<Rightarrow> ('l, error + any_map) x" where
  "field_Query___type_args G ctx rawArgs =
     bindR (lib_ProcessArgField G ctx rawArgs ''name'' (AnyString [])
              (boxed AnyString (unmarshalNString2string G))) (\<lambda>arg0.
     ret (Inr [''name'' \<mapsto> arg0]))"

definition field___Directive_args_args ::
  "('c, 'f, 's, 'l) gqlgen \<Rightarrow> 'c \<Rightarrow> any_map \<Rightarrow> ('l, error + any_map) x" where
  "field___Directive_args_args G ctx rawArgs =
     bindR (lib_ProcessArgField G ctx rawArgs ''includeDeprecated'' (AnyBoolPtr None)
              (boxed AnyBoolPtr (unmarshalOBoolean2bool_ptr G))) (\<lambda>arg0.
     ret (Inr [''includeDeprecated'' \<mapsto> arg0]))"

definition field___Field_args_args ::
  "('c, 'f, 's, 'l) gqlgen \<Rightarrow> 'c \<Rightarrow> any_map \<Rightarrow> ('l, error + any_map) x" where
  "field___Field_args_args G ctx rawArgs =
     bindR (lib_ProcessArgField G ctx rawArgs ''includeDeprecated'' (AnyBoolPtr None)
              (boxed AnyBoolPtr (unmarshalOBoolean2bool_ptr G))) (\<lambda>arg0.
     ret (Inr [''includeDeprecated'' \<mapsto> arg0]))"

definition field___Type_enumValues_args ::
  "('c, 'f, 's, 'l) gqlgen \<Rightarrow> 'c \<Rightarrow> any_map \<Rightarrow> ('l, error + any_map) x" where
  "field___Type_enumValues_args G ctx rawArgs =
     bindR (lib_ProcessArgField G ctx rawArgs ''includeDeprecated'' (AnyBool False)
              (boxed AnyBool (unmarshalOBoolean2bool G))) (\<lambda>arg0.
     ret (Inr [''includeDeprecated'' \<mapsto> arg0]))"

definition field___Type_fields_args ::
  "('c, 'f, 's, 'l) gqlgen \<Rightarrow> 'c \<Rightarrow> any_map \<Rightarrow> ('l, error + any_map) x" where
  "field___Type_fields_args G ctx rawArgs =
     bindR (lib_ProcessArgField G ctx rawArgs ''includeDeprecated'' (AnyBool False)
              (boxed AnyBool (unmarshalOBoolean2bool G))) (\<lambda>arg0.
     ret (Inr [''includeDeprecated'' \<mapsto> arg0]))"

end
