(* ===== verification/Gql_Contexts.thy ===== *)
theory Gql_Contexts
  imports Gql_Codec
begin

text \<open>
  The field contexts of \<open>graph/generated/generated.go\<close>: \<open>fieldContext_T_f\<close> describes the field \<open>f\<close> of the
  object type \<open>T\<close> to the library, with its arguments read when it has any, and \<open>childFields_T\<close> finds the
  context of a field by its name.
\<close>

named_theorems gql_defs \<open>the definitions of the field contexts, the fields and the objects of the executor\<close>

section \<open>Contexts with arguments\<close>

text \<open>
  The body the context functions of fields with arguments share. A panic while the arguments are read is
  recovered, reported and returned as the error; the context is returned in every case. The
  library sees the context through \<open>lib_WithFieldContext\<close> before its arguments are set.
\<close>

definition context_with_args ::
  "('c, 'f, 's, 'l) gqlgen \<Rightarrow> 's executionContext \<Rightarrow> 'c \<Rightarrow> 'f \<Rightarrow> 'f field_context \<Rightarrow>
   ('c \<Rightarrow> any_map \<Rightarrow> ('l, error + any_map) x) \<Rightarrow> ('l, 'f fc_result) x" where
  "context_with_args G ec ctx field fc args_of =
     (let ctx = lib_WithFieldContext G ctx fc in
      recovering
        (bindE (or_panic (lib_ArgumentMap G field (oc_Variables (OperationContext ec)))) (\<lambda>rawArgs.
         bindE (args_of ctx rawArgs) (\<lambda>r. case r of
             Inl err \<Rightarrow> bindE (ec_Error G ctx err) (\<lambda>_. ret (Some fc, Some err))
           | Inr args \<Rightarrow> ret (Some (fc\<lparr>fc_Args := args\<rparr>), None))))
        (\<lambda>p. bindE (ec_Error G ctx (lib_Recover G ctx p)) (\<lambda>_. ret (Some fc, Some (lib_Recover G ctx p)))))"

section \<open>Contexts\<close>

definition fieldContext_CancelTaskPayload_task_id :: "('c, 'f, 's, 'l) gqlgen \<Rightarrow> 'f \<Rightarrow> 'f fc_result" where [gql_defs]:
  "fieldContext_CancelTaskPayload_task_id G field = lib_NewScalarFieldContext G ''CancelTaskPayload'' field False False
     (Errorf ''field of type UUID does not have child fields'' [])"

definition fieldContext_CancelTaskPayload_status :: "('c, 'f, 's, 'l) gqlgen \<Rightarrow> 'f \<Rightarrow> 'f fc_result" where [gql_defs]:
  "fieldContext_CancelTaskPayload_status G field = lib_NewScalarFieldContext G ''CancelTaskPayload'' field False False
     (Errorf ''field of type String does not have child fields'' [])"

definition fieldContext_Mutation_SubmitTask :: "('c, 'f, 's, 'l) gqlgen \<Rightarrow> 's executionContext \<Rightarrow> 'c \<Rightarrow> 'f \<Rightarrow> ('l, 'f fc_result) x" where [gql_defs]:
  "fieldContext_Mutation_SubmitTask G ec ctx field = context_with_args G ec ctx field
       \<lparr>fc_Object = ''Mutation'', fc_Field = Some field, fc_IsMethod = True, fc_IsResolver = True,
        fc_Child = Some ''SubmitTaskResponse'', fc_Args = Map.empty\<rparr>
       (field_Mutation_SubmitTask_args G)"

definition fieldContext_Mutation_CancelTask :: "('c, 'f, 's, 'l) gqlgen \<Rightarrow> 's executionContext \<Rightarrow> 'c \<Rightarrow> 'f \<Rightarrow> ('l, 'f fc_result) x" where [gql_defs]:
  "fieldContext_Mutation_CancelTask G ec ctx field = context_with_args G ec ctx field
       \<lparr>fc_Object = ''Mutation'', fc_Field = Some field, fc_IsMethod = True, fc_IsResolver = True,
        fc_Child = Some ''CancelTaskPayload'', fc_Args = Map.empty\<rparr>
       (field_Mutation_CancelTask_args G)"

definition fieldContext_Mutation_CreateTenant :: "('c, 'f, 's, 'l) gqlgen \<Rightarrow> 's executionContext \<Rightarrow> 'c \<Rightarrow> 'f \<Rightarrow> ('l, 'f fc_result) x" where [gql_defs]:
  "fieldContext_Mutation_CreateTenant G ec ctx field = context_with_args G ec ctx field
       \<lparr>fc_Object = ''Mutation'', fc_Field = Some field, fc_IsMethod = True, fc_IsResolver = True,
        fc_Child = Some ''Tenant'', fc_Args = Map.empty\<rparr>
       (field_Mutation_CreateTenant_args G)"

definition fieldContext_Query_GetTaskByID :: "('c, 'f, 's, 'l) gqlgen \<Rightarrow> 's executionContext \<Rightarrow> 'c \<Rightarrow> 'f \<Rightarrow> ('l, 'f fc_result) x" where [gql_defs]:
  "fieldContext_Query_GetTaskByID G ec ctx field = context_with_args G ec ctx field
       \<lparr>fc_Object = ''Query'', fc_Field = Some field, fc_IsMethod = True, fc_IsResolver = True,
        fc_Child = Some ''Task'', fc_Args = Map.empty\<rparr>
       (field_Query_GetTaskByID_args G)"

definition fieldContext_Query_GetTaskList :: "('c, 'f, 's, 'l) gqlgen \<Rightarrow> 's executionContext \<Rightarrow> 'c \<Rightarrow> 'f \<Rightarrow> ('l, 'f fc_result) x" where [gql_defs]:
  "fieldContext_Query_GetTaskList G ec ctx field = context_with_args G ec ctx field
       \<lparr>fc_Object = ''Query'', fc_Field = Some field, fc_IsMethod = True, fc_IsResolver = True,
        fc_Child = Some ''Task'', fc_Args = Map.empty\<rparr>
       (field_Query_GetTaskList_args G)"

definition fieldContext_Query___type :: "('c, 'f, 's, 'l) gqlgen \<Rightarrow> 's executionContext \<Rightarrow> 'c \<Rightarrow> 'f \<Rightarrow> ('l, 'f fc_result) x" where [gql_defs]:
  "fieldContext_Query___type G ec ctx field = context_with_args G ec ctx field
       \<lparr>fc_Object = ''Query'', fc_Field = Some field, fc_IsMethod = True, fc_IsResolver = False,
        fc_Child = Some ''__Type'', fc_Args = Map.empty\<rparr>
       (field_Query___type_args G)"

definition fieldContext_Query___schema :: "'f \<Rightarrow> 'f fc_result" where [gql_defs]:
  "fieldContext_Query___schema field =
     (Some \<lparr>fc_Object = ''Query'', fc_Field = Some field, fc_IsMethod = True, fc_IsResolver = False,
        fc_Child = Some ''__Schema'', fc_Args = Map.empty\<rparr>, None)"

definition fieldContext_SubmitTaskResponse_task_id :: "('c, 'f, 's, 'l) gqlgen \<Rightarrow> 'f \<Rightarrow> 'f fc_result" where [gql_defs]:
  "fieldContext_SubmitTaskResponse_task_id G field = lib_NewScalarFieldContext G ''SubmitTaskResponse'' field False False
     (Errorf ''field of type UUID does not have child fields'' [])"

definition fieldContext_Task_id :: "('c, 'f, 's, 'l) gqlgen \<Rightarrow> 'f \<Rightarrow> 'f fc_result" where [gql_defs]:
  "fieldContext_Task_id G field = lib_NewScalarFieldContext G ''Task'' field False False
     (Errorf ''field of type UUID does not have child fields'' [])"

definition fieldContext_Task_status :: "('c, 'f, 's, 'l) gqlgen \<Rightarrow> 'f \<Rightarrow> 'f fc_result" where [gql_defs]:
  "fieldContext_Task_status G field = lib_NewScalarFieldContext G ''Task'' field False False
     (Errorf ''field of type String does not have child fields'' [])"

definition fieldContext_Task_last_error :: "('c, 'f, 's, 'l) gqlgen \<Rightarrow> 'f \<Rightarrow> 'f fc_result" where [gql_defs]:
  "fieldContext_Task_last_error G field = lib_NewScalarFieldContext G ''Task'' field False False
     (Errorf ''field of type String does not have child fields'' [])"

definition fieldContext_Task_created_at :: "('c, 'f, 's, 'l) gqlgen \<Rightarrow> 'f \<Rightarrow> 'f fc_result" where [gql_defs]:
  "fieldContext_Task_created_at G field = lib_NewScalarFieldContext G ''Task'' field False False
     (Errorf ''field of type Time does not have child fields'' [])"

definition fieldContext_Task_started_at :: "('c, 'f, 's, 'l) gqlgen \<Rightarrow> 'f \<Rightarrow> 'f fc_result" where [gql_defs]:
  "fieldContext_Task_started_at G field = lib_NewScalarFieldContext G ''Task'' field False False
     (Errorf ''field of type Time does not have child fields'' [])"

definition fieldContext_Task_finished_at :: "('c, 'f, 's, 'l) gqlgen \<Rightarrow> 'f \<Rightarrow> 'f fc_result" where [gql_defs]:
  "fieldContext_Task_finished_at G field = lib_NewScalarFieldContext G ''Task'' field False False
     (Errorf ''field of type Time does not have child fields'' [])"

definition fieldContext_Task_shard_count :: "('c, 'f, 's, 'l) gqlgen \<Rightarrow> 'f \<Rightarrow> 'f fc_result" where [gql_defs]:
  "fieldContext_Task_shard_count G field = lib_NewScalarFieldContext G ''Task'' field False False
     (Errorf ''field of type Int does not have child fields'' [])"

definition fieldContext_Task_shards :: "'f \<Rightarrow> 'f fc_result" where [gql_defs]:
  "fieldContext_Task_shards field =
     (Some \<lparr>fc_Object = ''Task'', fc_Field = Some field, fc_IsMethod = False, fc_IsResolver = False,
        fc_Child = Some ''TaskShard'', fc_Args = Map.empty\<rparr>, None)"

definition fieldContext_TaskShard_id :: "('c, 'f, 's, 'l) gqlgen \<Rightarrow> 'f \<Rightarrow> 'f fc_result" where [gql_defs]:
  "fieldContext_TaskShard_id G field = lib_NewScalarFieldContext G ''TaskShard'' field False False
     (Errorf ''field of type UUID does not have child fields'' [])"

definition fieldContext_TaskShard_script_name :: "('c, 'f, 's, 'l) gqlgen \<Rightarrow> 'f \<Rightarrow> 'f fc_result" where [gql_defs]:
  "fieldContext_TaskShard_script_name G field = lib_NewScalarFieldContext G ''TaskShard'' field False False
     (Errorf ''field of type String does not have child fields'' [])"

definition fieldContext_TaskShard_status :: "('c, 'f, 's, 'l) gqlgen \<Rightarrow> 'f \<Rightarrow> 'f fc_result" where [gql_defs]:
  "fieldContext_TaskShard_status G field = lib_NewScalarFieldContext G ''TaskShard'' field False False
     (Errorf ''field of type String does not have child fields'' [])"

definition fieldContext_TaskShard_output_oss_key :: "('c, 'f, 's, 'l) gqlgen \<Rightarrow> 'f \<Rightarrow> 'f fc_result" where [gql_defs]:
  "fieldContext_TaskShard_output_oss_key G field = lib_NewScalarFieldContext G ''TaskShard'' field False False
     (Errorf ''field of type String does not have child fields'' [])"

definition fieldContext_TaskShard_output_sha256 :: "('c, 'f, 's, 'l) gqlgen \<Rightarrow> 'f \<Rightarrow> 'f fc_result" where [gql_defs]:
  "fieldContext_TaskShard_output_sha256 G field = lib_NewScalarFieldContext G ''TaskShard'' field False False
     (Errorf ''field of type String does not have child fields'' [])"

definition fieldContext_TaskShard_last_error :: "('c, 'f, 's, 'l) gqlgen \<Rightarrow> 'f \<Rightarrow> 'f fc_result" where [gql_defs]:
  "fieldContext_TaskShard_last_error G field = lib_NewScalarFieldContext G ''TaskShard'' field False False
     (Errorf ''field of type String does not have child fields'' [])"

definition fieldContext_TaskShard_started_at :: "('c, 'f, 's, 'l) gqlgen \<Rightarrow> 'f \<Rightarrow> 'f fc_result" where [gql_defs]:
  "fieldContext_TaskShard_started_at G field = lib_NewScalarFieldContext G ''TaskShard'' field False False
     (Errorf ''field of type Time does not have child fields'' [])"

definition fieldContext_TaskShard_finished_at :: "('c, 'f, 's, 'l) gqlgen \<Rightarrow> 'f \<Rightarrow> 'f fc_result" where [gql_defs]:
  "fieldContext_TaskShard_finished_at G field = lib_NewScalarFieldContext G ''TaskShard'' field False False
     (Errorf ''field of type Time does not have child fields'' [])"

definition fieldContext_Tenant_id :: "('c, 'f, 's, 'l) gqlgen \<Rightarrow> 'f \<Rightarrow> 'f fc_result" where [gql_defs]:
  "fieldContext_Tenant_id G field = lib_NewScalarFieldContext G ''Tenant'' field False False
     (Errorf ''field of type UUID does not have child fields'' [])"

definition fieldContext_Tenant_name :: "('c, 'f, 's, 'l) gqlgen \<Rightarrow> 'f \<Rightarrow> 'f fc_result" where [gql_defs]:
  "fieldContext_Tenant_name G field = lib_NewScalarFieldContext G ''Tenant'' field False False
     (Errorf ''field of type String does not have child fields'' [])"

definition fieldContext_Tenant_primary_backend_name :: "('c, 'f, 's, 'l) gqlgen \<Rightarrow> 'f \<Rightarrow> 'f fc_result" where [gql_defs]:
  "fieldContext_Tenant_primary_backend_name G field = lib_NewScalarFieldContext G ''Tenant'' field False False
     (Errorf ''field of type String does not have child fields'' [])"

definition fieldContext_Tenant_max_agents :: "('c, 'f, 's, 'l) gqlgen \<Rightarrow> 'f \<Rightarrow> 'f fc_result" where [gql_defs]:
  "fieldContext_Tenant_max_agents G field = lib_NewScalarFieldContext G ''Tenant'' field False False
     (Errorf ''field of type Int does not have child fields'' [])"

definition fieldContext___Directive_name :: "('c, 'f, 's, 'l) gqlgen \<Rightarrow> 'f \<Rightarrow> 'f fc_result" where [gql_defs]:
  "fieldContext___Directive_name G field = lib_NewScalarFieldContext G ''__Directive'' field False False
     (Errorf ''field of type String does not have child fields'' [])"

definition fieldContext___Directive_description :: "('c, 'f, 's, 'l) gqlgen \<Rightarrow> 'f \<Rightarrow> 'f fc_result" where [gql_defs]:
  "fieldContext___Directive_description G field = lib_NewScalarFieldContext G ''__Directive'' field True False
     (Errorf ''field of type String does not have child fields'' [])"

definition fieldContext___Directive_isRepeatable :: "('c, 'f, 's, 'l) gqlgen \<Rightarrow> 'f \<Rightarrow> 'f fc_result" where [gql_defs]:
  "fieldContext___Directive_isRepeatable G field = lib_NewScalarFieldContext G ''__Directive'' field False False
     (Errorf ''field of type Boolean does not have child fields'' [])"

definition fieldContext___Directive_locations :: "('c, 'f, 's, 'l) gqlgen \<Rightarrow> 'f \<Rightarrow> 'f fc_result" where [gql_defs]:
  "fieldContext___Directive_locations G field = lib_NewScalarFieldContext G ''__Directive'' field False False
     (Errorf ''field of type __DirectiveLocation does not have child fields'' [])"

definition fieldContext___Directive_args :: "('c, 'f, 's, 'l) gqlgen \<Rightarrow> 's executionContext \<Rightarrow> 'c \<Rightarrow> 'f \<Rightarrow> ('l, 'f fc_result) x" where [gql_defs]:
  "fieldContext___Directive_args G ec ctx field = context_with_args G ec ctx field
       \<lparr>fc_Object = ''__Directive'', fc_Field = Some field, fc_IsMethod = False, fc_IsResolver = False,
        fc_Child = Some ''__InputValue'', fc_Args = Map.empty\<rparr>
       (field___Directive_args_args G)"

definition fieldContext___EnumValue_name :: "('c, 'f, 's, 'l) gqlgen \<Rightarrow> 'f \<Rightarrow> 'f fc_result" where [gql_defs]:
  "fieldContext___EnumValue_name G field = lib_NewScalarFieldContext G ''__EnumValue'' field False False
     (Errorf ''field of type String does not have child fields'' [])"

definition fieldContext___EnumValue_description :: "('c, 'f, 's, 'l) gqlgen \<Rightarrow> 'f \<Rightarrow> 'f fc_result" where [gql_defs]:
  "fieldContext___EnumValue_description G field = lib_NewScalarFieldContext G ''__EnumValue'' field True False
     (Errorf ''field of type String does not have child fields'' [])"

definition fieldContext___EnumValue_isDeprecated :: "('c, 'f, 's, 'l) gqlgen \<Rightarrow> 'f \<Rightarrow> 'f fc_result" where [gql_defs]:
  "fieldContext___EnumValue_isDeprecated G field = lib_NewScalarFieldContext G ''__EnumValue'' field True False
     (Errorf ''field of type Boolean does not have child fields'' [])"

definition fieldContext___EnumValue_deprecationReason :: "('c, 'f, 's, 'l) gqlgen \<Rightarrow> 'f \<Rightarrow> 'f fc_result" where [gql_defs]:
  "fieldContext___EnumValue_deprecationReason G field = lib_NewScalarFieldContext G ''__EnumValue'' field True False
     (Errorf ''field of type String does not have child fields'' [])"

definition fieldContext___Field_name :: "('c, 'f, 's, 'l) gqlgen \<Rightarrow> 'f \<Rightarrow> 'f fc_result" where [gql_defs]:
  "fieldContext___Field_name G field = lib_NewScalarFieldContext G ''__Field'' field False False
     (Errorf ''field of type String does not have child fields'' [])"

definition fieldContext___Field_description :: "('c, 'f, 's, 'l) gqlgen \<Rightarrow> 'f \<Rightarrow> 'f fc_result" where [gql_defs]:
  "fieldContext___Field_description G field = lib_NewScalarFieldContext G ''__Field'' field True False
     (Errorf ''field of type String does not have child fields'' [])"

definition fieldContext___Field_args :: "('c, 'f, 's, 'l) gqlgen \<Rightarrow> 's executionContext \<Rightarrow> 'c \<Rightarrow> 'f \<Rightarrow> ('l, 'f fc_result) x" where [gql_defs]:
  "fieldContext___Field_args G ec ctx field = context_with_args G ec ctx field
       \<lparr>fc_Object = ''__Field'', fc_Field = Some field, fc_IsMethod = False, fc_IsResolver = False,
        fc_Child = Some ''__InputValue'', fc_Args = Map.empty\<rparr>
       (field___Field_args_args G)"

definition fieldContext___Field_type :: "'f \<Rightarrow> 'f fc_result" where [gql_defs]:
  "fieldContext___Field_type field =
     (Some \<lparr>fc_Object = ''__Field'', fc_Field = Some field, fc_IsMethod = False, fc_IsResolver = False,
        fc_Child = Some ''__Type'', fc_Args = Map.empty\<rparr>, None)"

definition fieldContext___Field_isDeprecated :: "('c, 'f, 's, 'l) gqlgen \<Rightarrow> 'f \<Rightarrow> 'f fc_result" where [gql_defs]:
  "fieldContext___Field_isDeprecated G field = lib_NewScalarFieldContext G ''__Field'' field True False
     (Errorf ''field of type Boolean does not have child fields'' [])"

definition fieldContext___Field_deprecationReason :: "('c, 'f, 's, 'l) gqlgen \<Rightarrow> 'f \<Rightarrow> 'f fc_result" where [gql_defs]:
  "fieldContext___Field_deprecationReason G field = lib_NewScalarFieldContext G ''__Field'' field True False
     (Errorf ''field of type String does not have child fields'' [])"

definition fieldContext___InputValue_name :: "('c, 'f, 's, 'l) gqlgen \<Rightarrow> 'f \<Rightarrow> 'f fc_result" where [gql_defs]:
  "fieldContext___InputValue_name G field = lib_NewScalarFieldContext G ''__InputValue'' field False False
     (Errorf ''field of type String does not have child fields'' [])"

definition fieldContext___InputValue_description :: "('c, 'f, 's, 'l) gqlgen \<Rightarrow> 'f \<Rightarrow> 'f fc_result" where [gql_defs]:
  "fieldContext___InputValue_description G field = lib_NewScalarFieldContext G ''__InputValue'' field True False
     (Errorf ''field of type String does not have child fields'' [])"

definition fieldContext___InputValue_type :: "'f \<Rightarrow> 'f fc_result" where [gql_defs]:
  "fieldContext___InputValue_type field =
     (Some \<lparr>fc_Object = ''__InputValue'', fc_Field = Some field, fc_IsMethod = False, fc_IsResolver = False,
        fc_Child = Some ''__Type'', fc_Args = Map.empty\<rparr>, None)"

definition fieldContext___InputValue_defaultValue :: "('c, 'f, 's, 'l) gqlgen \<Rightarrow> 'f \<Rightarrow> 'f fc_result" where [gql_defs]:
  "fieldContext___InputValue_defaultValue G field = lib_NewScalarFieldContext G ''__InputValue'' field False False
     (Errorf ''field of type String does not have child fields'' [])"

definition fieldContext___InputValue_isDeprecated :: "('c, 'f, 's, 'l) gqlgen \<Rightarrow> 'f \<Rightarrow> 'f fc_result" where [gql_defs]:
  "fieldContext___InputValue_isDeprecated G field = lib_NewScalarFieldContext G ''__InputValue'' field True False
     (Errorf ''field of type Boolean does not have child fields'' [])"

definition fieldContext___InputValue_deprecationReason :: "('c, 'f, 's, 'l) gqlgen \<Rightarrow> 'f \<Rightarrow> 'f fc_result" where [gql_defs]:
  "fieldContext___InputValue_deprecationReason G field = lib_NewScalarFieldContext G ''__InputValue'' field True False
     (Errorf ''field of type String does not have child fields'' [])"

definition fieldContext___Schema_description :: "('c, 'f, 's, 'l) gqlgen \<Rightarrow> 'f \<Rightarrow> 'f fc_result" where [gql_defs]:
  "fieldContext___Schema_description G field = lib_NewScalarFieldContext G ''__Schema'' field True False
     (Errorf ''field of type String does not have child fields'' [])"

definition fieldContext___Schema_types :: "'f \<Rightarrow> 'f fc_result" where [gql_defs]:
  "fieldContext___Schema_types field =
     (Some \<lparr>fc_Object = ''__Schema'', fc_Field = Some field, fc_IsMethod = True, fc_IsResolver = False,
        fc_Child = Some ''__Type'', fc_Args = Map.empty\<rparr>, None)"

definition fieldContext___Schema_queryType :: "'f \<Rightarrow> 'f fc_result" where [gql_defs]:
  "fieldContext___Schema_queryType field =
     (Some \<lparr>fc_Object = ''__Schema'', fc_Field = Some field, fc_IsMethod = True, fc_IsResolver = False,
        fc_Child = Some ''__Type'', fc_Args = Map.empty\<rparr>, None)"

definition fieldContext___Schema_mutationType :: "'f \<Rightarrow> 'f fc_result" where [gql_defs]:
  "fieldContext___Schema_mutationType field =
     (Some \<lparr>fc_Object = ''__Schema'', fc_Field = Some field, fc_IsMethod = True, fc_IsResolver = False,
        fc_Child = Some ''__Type'', fc_Args = Map.empty\<rparr>, None)"

definition fieldContext___Schema_subscriptionType :: "'f \<Rightarrow> 'f fc_result" where [gql_defs]:
  "fieldContext___Schema_subscriptionType field =
     (Some \<lparr>fc_Object = ''__Schema'', fc_Field = Some field, fc_IsMethod = True, fc_IsResolver = False,
        fc_Child = Some ''__Type'', fc_Args = Map.empty\<rparr>, None)"

definition fieldContext___Schema_directives :: "'f \<Rightarrow> 'f fc_result" where [gql_defs]:
  "fieldContext___Schema_directives field =
     (Some \<lparr>fc_Object = ''__Schema'', fc_Field = Some field, fc_IsMethod = True, fc_IsResolver = False,
        fc_Child = Some ''__Directive'', fc_Args = Map.empty\<rparr>, None)"

definition fieldContext___Type_kind :: "('c, 'f, 's, 'l) gqlgen \<Rightarrow> 'f \<Rightarrow> 'f fc_result" where [gql_defs]:
  "fieldContext___Type_kind G field = lib_NewScalarFieldContext G ''__Type'' field True False
     (Errorf ''field of type __TypeKind does not have child fields'' [])"

definition fieldContext___Type_name :: "('c, 'f, 's, 'l) gqlgen \<Rightarrow> 'f \<Rightarrow> 'f fc_result" where [gql_defs]:
  "fieldContext___Type_name G field = lib_NewScalarFieldContext G ''__Type'' field True False
     (Errorf ''field of type String does not have child fields'' [])"

definition fieldContext___Type_description :: "('c, 'f, 's, 'l) gqlgen \<Rightarrow> 'f \<Rightarrow> 'f fc_result" where [gql_defs]:
  "fieldContext___Type_description G field = lib_NewScalarFieldContext G ''__Type'' field True False
     (Errorf ''field of type String does not have child fields'' [])"

definition fieldContext___Type_specifiedByURL :: "('c, 'f, 's, 'l) gqlgen \<Rightarrow> 'f \<Rightarrow> 'f fc_result" where [gql_defs]:
  "fieldContext___Type_specifiedByURL G field = lib_NewScalarFieldContext G ''__Type'' field True False
     (Errorf ''field of type String does not have child fields'' [])"

definition fieldContext___Type_fields :: "('c, 'f, 's, 'l) gqlgen \<Rightarrow> 's executionContext \<Rightarrow> 'c \<Rightarrow> 'f \<Rightarrow> ('l, 'f fc_result) x" where [gql_defs]:
  "fieldContext___Type_fields G ec ctx field = context_with_args G ec ctx field
       \<lparr>fc_Object = ''__Type'', fc_Field = Some field, fc_IsMethod = True, fc_IsResolver = False,
        fc_Child = Some ''__Field'', fc_Args = Map.empty\<rparr>
       (field___Type_fields_args G)"

definition fieldContext___Type_interfaces :: "'f \<Rightarrow> 'f fc_result" where [gql_defs]:
  "fieldContext___Type_interfaces field =
     (Some \<lparr>fc_Object = ''__Type'', fc_Field = Some field, fc_IsMethod = True, fc_IsResolver = False,
        fc_Child = Some ''__Type'', fc_Args = Map.empty\<rparr>, None)"

definition fieldContext___Type_possibleTypes :: "'f \<Rightarrow> 'f fc_result" where [gql_defs]:
  "fieldContext___Type_possibleTypes field =
     (Some \<lparr>fc_Object = ''__Type'', fc_Field = Some field, fc_IsMethod = True, fc_IsResolver = False,
        fc_Child = Some ''__Type'', fc_Args = Map.empty\<rparr>, None)"

definition fieldContext___Type_enumValues :: "('c, 'f, 's, 'l) gqlgen \<Rightarrow> 's executionContext \<Rightarrow> 'c \<Rightarrow> 'f \<Rightarrow> ('l, 'f fc_result) x" where [gql_defs]:
  "fieldContext___Type_enumValues G ec ctx field = context_with_args G ec ctx field
       \<lparr>fc_Object = ''__Type'', fc_Field = Some field, fc_IsMethod = True, fc_IsResolver = False,
        fc_Child = Some ''__EnumValue'', fc_Args = Map.empty\<rparr>
       (field___Type_enumValues_args G)"

definition fieldContext___Type_inputFields :: "'f \<Rightarrow> 'f fc_result" where [gql_defs]:
  "fieldContext___Type_inputFields field =
     (Some \<lparr>fc_Object = ''__Type'', fc_Field = Some field, fc_IsMethod = True, fc_IsResolver = False,
        fc_Child = Some ''__InputValue'', fc_Args = Map.empty\<rparr>, None)"

definition fieldContext___Type_ofType :: "'f \<Rightarrow> 'f fc_result" where [gql_defs]:
  "fieldContext___Type_ofType field =
     (Some \<lparr>fc_Object = ''__Type'', fc_Field = Some field, fc_IsMethod = True, fc_IsResolver = False,
        fc_Child = Some ''__Type'', fc_Args = Map.empty\<rparr>, None)"

definition fieldContext___Type_isOneOf :: "('c, 'f, 's, 'l) gqlgen \<Rightarrow> 'f \<Rightarrow> 'f fc_result" where [gql_defs]:
  "fieldContext___Type_isOneOf G field = lib_NewScalarFieldContext G ''__Type'' field True False
     (Errorf ''field of type Boolean does not have child fields'' [])"

definition childFields_CancelTaskPayload :: "('c, 'f, 's, 'l) gqlgen \<Rightarrow> 's executionContext \<Rightarrow> 'c \<Rightarrow> 'f \<Rightarrow> ('l, 'f fc_result) x" where [gql_defs]:
  "childFields_CancelTaskPayload G ec ctx field =
     (if lib_Name G field = ''task_id'' then ret (fieldContext_CancelTaskPayload_task_id G field)
      else if lib_Name G field = ''status'' then ret (fieldContext_CancelTaskPayload_status G field)
      else ret (None, Some (Errorf ''no field named %q was found under type CancelTaskPayload'' [lib_Name G field])))"

definition childFields_SubmitTaskResponse :: "('c, 'f, 's, 'l) gqlgen \<Rightarrow> 's executionContext \<Rightarrow> 'c \<Rightarrow> 'f \<Rightarrow> ('l, 'f fc_result) x" where [gql_defs]:
  "childFields_SubmitTaskResponse G ec ctx field =
     (if lib_Name G field = ''task_id'' then ret (fieldContext_SubmitTaskResponse_task_id G field)
      else ret (None, Some (Errorf ''no field named %q was found under type SubmitTaskResponse'' [lib_Name G field])))"

definition childFields_Task :: "('c, 'f, 's, 'l) gqlgen \<Rightarrow> 's executionContext \<Rightarrow> 'c \<Rightarrow> 'f \<Rightarrow> ('l, 'f fc_result) x" where [gql_defs]:
  "childFields_Task G ec ctx field =
     (if lib_Name G field = ''id'' then ret (fieldContext_Task_id G field)
      else if lib_Name G field = ''status'' then ret (fieldContext_Task_status G field)
      else if lib_Name G field = ''last_error'' then ret (fieldContext_Task_last_error G field)
      else if lib_Name G field = ''created_at'' then ret (fieldContext_Task_created_at G field)
      else if lib_Name G field = ''started_at'' then ret (fieldContext_Task_started_at G field)
      else if lib_Name G field = ''finished_at'' then ret (fieldContext_Task_finished_at G field)
      else if lib_Name G field = ''shard_count'' then ret (fieldContext_Task_shard_count G field)
      else if lib_Name G field = ''shards'' then ret (fieldContext_Task_shards field)
      else ret (None, Some (Errorf ''no field named %q was found under type Task'' [lib_Name G field])))"

definition childFields_TaskShard :: "('c, 'f, 's, 'l) gqlgen \<Rightarrow> 's executionContext \<Rightarrow> 'c \<Rightarrow> 'f \<Rightarrow> ('l, 'f fc_result) x" where [gql_defs]:
  "childFields_TaskShard G ec ctx field =
     (if lib_Name G field = ''id'' then ret (fieldContext_TaskShard_id G field)
      else if lib_Name G field = ''script_name'' then ret (fieldContext_TaskShard_script_name G field)
      else if lib_Name G field = ''status'' then ret (fieldContext_TaskShard_status G field)
      else if lib_Name G field = ''output_oss_key'' then ret (fieldContext_TaskShard_output_oss_key G field)
      else if lib_Name G field = ''output_sha256'' then ret (fieldContext_TaskShard_output_sha256 G field)
      else if lib_Name G field = ''last_error'' then ret (fieldContext_TaskShard_last_error G field)
      else if lib_Name G field = ''started_at'' then ret (fieldContext_TaskShard_started_at G field)
      else if lib_Name G field = ''finished_at'' then ret (fieldContext_TaskShard_finished_at G field)
      else ret (None, Some (Errorf ''no field named %q was found under type TaskShard'' [lib_Name G field])))"

definition childFields_Tenant :: "('c, 'f, 's, 'l) gqlgen \<Rightarrow> 's executionContext \<Rightarrow> 'c \<Rightarrow> 'f \<Rightarrow> ('l, 'f fc_result) x" where [gql_defs]:
  "childFields_Tenant G ec ctx field =
     (if lib_Name G field = ''id'' then ret (fieldContext_Tenant_id G field)
      else if lib_Name G field = ''name'' then ret (fieldContext_Tenant_name G field)
      else if lib_Name G field = ''primary_backend_name'' then ret (fieldContext_Tenant_primary_backend_name G field)
      else if lib_Name G field = ''max_agents'' then ret (fieldContext_Tenant_max_agents G field)
      else ret (None, Some (Errorf ''no field named %q was found under type Tenant'' [lib_Name G field])))"

definition childFields___Directive :: "('c, 'f, 's, 'l) gqlgen \<Rightarrow> 's executionContext \<Rightarrow> 'c \<Rightarrow> 'f \<Rightarrow> ('l, 'f fc_result) x" where [gql_defs]:
  "childFields___Directive G ec ctx field =
     (if lib_Name G field = ''name'' then ret (fieldContext___Directive_name G field)
      else if lib_Name G field = ''description'' then ret (fieldContext___Directive_description G field)
      else if lib_Name G field = ''isRepeatable'' then ret (fieldContext___Directive_isRepeatable G field)
      else if lib_Name G field = ''locations'' then ret (fieldContext___Directive_locations G field)
      else if lib_Name G field = ''args'' then fieldContext___Directive_args G ec ctx field
      else ret (None, Some (Errorf ''no field named %q was found under type __Directive'' [lib_Name G field])))"

definition childFields___EnumValue :: "('c, 'f, 's, 'l) gqlgen \<Rightarrow> 's executionContext \<Rightarrow> 'c \<Rightarrow> 'f \<Rightarrow> ('l, 'f fc_result) x" where [gql_defs]:
  "childFields___EnumValue G ec ctx field =
     (if lib_Name G field = ''name'' then ret (fieldContext___EnumValue_name G field)
      else if lib_Name G field = ''description'' then ret (fieldContext___EnumValue_description G field)
      else if lib_Name G field = ''isDeprecated'' then ret (fieldContext___EnumValue_isDeprecated G field)
      else if lib_Name G field = ''deprecationReason'' then ret (fieldContext___EnumValue_deprecationReason G field)
      else ret (None, Some (Errorf ''no field named %q was found under type __EnumValue'' [lib_Name G field])))"

definition childFields___Field :: "('c, 'f, 's, 'l) gqlgen \<Rightarrow> 's executionContext \<Rightarrow> 'c \<Rightarrow> 'f \<Rightarrow> ('l, 'f fc_result) x" where [gql_defs]:
  "childFields___Field G ec ctx field =
     (if lib_Name G field = ''name'' then ret (fieldContext___Field_name G field)
      else if lib_Name G field = ''description'' then ret (fieldContext___Field_description G field)
      else if lib_Name G field = ''args'' then fieldContext___Field_args G ec ctx field
      else if lib_Name G field = ''type'' then ret (fieldContext___Field_type field)
      else if lib_Name G field = ''isDeprecated'' then ret (fieldContext___Field_isDeprecated G field)
      else if lib_Name G field = ''deprecationReason'' then ret (fieldContext___Field_deprecationReason G field)
      else ret (None, Some (Errorf ''no field named %q was found under type __Field'' [lib_Name G field])))"

definition childFields___InputValue :: "('c, 'f, 's, 'l) gqlgen \<Rightarrow> 's executionContext \<Rightarrow> 'c \<Rightarrow> 'f \<Rightarrow> ('l, 'f fc_result) x" where [gql_defs]:
  "childFields___InputValue G ec ctx field =
     (if lib_Name G field = ''name'' then ret (fieldContext___InputValue_name G field)
      else if lib_Name G field = ''description'' then ret (fieldContext___InputValue_description G field)
      else if lib_Name G field = ''type'' then ret (fieldContext___InputValue_type field)
      else if lib_Name G field = ''defaultValue'' then ret (fieldContext___InputValue_defaultValue G field)
      else if lib_Name G field = ''isDeprecated'' then ret (fieldContext___InputValue_isDeprecated G field)
      else if lib_Name G field = ''deprecationReason'' then ret (fieldContext___InputValue_deprecationReason G field)
      else ret (None, Some (Errorf ''no field named %q was found under type __InputValue'' [lib_Name G field])))"

definition childFields___Schema :: "('c, 'f, 's, 'l) gqlgen \<Rightarrow> 's executionContext \<Rightarrow> 'c \<Rightarrow> 'f \<Rightarrow> ('l, 'f fc_result) x" where [gql_defs]:
  "childFields___Schema G ec ctx field =
     (if lib_Name G field = ''description'' then ret (fieldContext___Schema_description G field)
      else if lib_Name G field = ''types'' then ret (fieldContext___Schema_types field)
      else if lib_Name G field = ''queryType'' then ret (fieldContext___Schema_queryType field)
      else if lib_Name G field = ''mutationType'' then ret (fieldContext___Schema_mutationType field)
      else if lib_Name G field = ''subscriptionType'' then ret (fieldContext___Schema_subscriptionType field)
      else if lib_Name G field = ''directives'' then ret (fieldContext___Schema_directives field)
      else ret (None, Some (Errorf ''no field named %q was found under type __Schema'' [lib_Name G field])))"

definition childFields___Type :: "('c, 'f, 's, 'l) gqlgen \<Rightarrow> 's executionContext \<Rightarrow> 'c \<Rightarrow> 'f \<Rightarrow> ('l, 'f fc_result) x" where [gql_defs]:
  "childFields___Type G ec ctx field =
     (if lib_Name G field = ''kind'' then ret (fieldContext___Type_kind G field)
      else if lib_Name G field = ''name'' then ret (fieldContext___Type_name G field)
      else if lib_Name G field = ''description'' then ret (fieldContext___Type_description G field)
      else if lib_Name G field = ''specifiedByURL'' then ret (fieldContext___Type_specifiedByURL G field)
      else if lib_Name G field = ''fields'' then fieldContext___Type_fields G ec ctx field
      else if lib_Name G field = ''interfaces'' then ret (fieldContext___Type_interfaces field)
      else if lib_Name G field = ''possibleTypes'' then ret (fieldContext___Type_possibleTypes field)
      else if lib_Name G field = ''enumValues'' then fieldContext___Type_enumValues G ec ctx field
      else if lib_Name G field = ''inputFields'' then ret (fieldContext___Type_inputFields field)
      else if lib_Name G field = ''ofType'' then ret (fieldContext___Type_ofType field)
      else if lib_Name G field = ''isOneOf'' then ret (fieldContext___Type_isOneOf G field)
      else ret (None, Some (Errorf ''no field named %q was found under type __Type'' [lib_Name G field])))"

end
