(* ===== verification/Gql_Objects.thy ===== *)
theory Gql_Objects
  imports Gql_Contexts
begin

text \<open>
  The objects of the schema in \<open>graph/generated/generated.go\<close>: \<open>field_T_f\<close> resolves and marshals one field
  (the source's \<open>_T_f\<close>), \<open>exec_T\<close> an object (the source's \<open>_T\<close>), and \<open>marshalN...\<close> an object behind a
  pointer or in a slice.
\<close>

section \<open>The loop over the collected fields\<close>

text \<open>
  Each field yields its value and whether it counts as invalid: \<open>required\<close> is the branch of a non-null
  field, \<open>optional\<close> that of a nullable one. \<open>Invalids\<close> is an unsigned 32-bit counter.
\<close>

definition required :: "('l, 'f marshaler) x \<Rightarrow> ('l, 'f marshaler \<times> bool) x" where
  "required m = bindE m (\<lambda>v. ret (v, is_Null v))"

definition optional :: "('l, 'f marshaler) x \<Rightarrow> ('l, 'f marshaler \<times> bool) x" where
  "optional m = bindE m (\<lambda>v. ret (v, False))"

definition unknown_field :: "string \<Rightarrow> ('l, 'a) x" where
  "unknown_field name = raise (Errorf ''unknown field %q'' [name])"

primrec run_fields ::
  "('f \<Rightarrow> ('l, 'f marshaler \<times> bool) x) \<Rightarrow> 'f list \<Rightarrow> ('l, 'f marshaler list \<times> 32 word) x" where
  "run_fields f [] = ret ([], 0)"
| "run_fields f (field # rest) =
     bindE (f field) (\<lambda>(v, invalid).
     bindE (run_fields f rest) (\<lambda>(vs, Invalids).
     ret (v # vs, if invalid then Invalids + 1 else Invalids)))"

text \<open>The end of every object function. The map \<open>deferred\<close> is made and never filled in the source.\<close>

definition process_deferred ::
  "('c, 'f, 's, 'l) gqlgen \<Rightarrow> 'c \<Rightarrow> (string \<times> 'f marshaler) list \<Rightarrow> ('l, unit) x" where
  "process_deferred G ctx deferred =
     bindE (modifyE (\<lambda>s. s\<lparr>ex_Deferred := ex_Deferred s + of_nat (min (length deferred) (2 ^ 31 - 1))\<rparr>)) (\<lambda>_.
     forE deferred (\<lambda>(label, dfs). lib_ProcessDeferredGroup G label (lib_GetPath G ctx) dfs ctx))"

text \<open>\<open>out.Dispatch(ctx)\<close> stores what the delayed functions return; no field of these objects is delayed.\<close>

definition store_values :: "(nat \<times> 'v) list \<Rightarrow> 'v list \<Rightarrow> 'v list" where
  "store_values stored values = foldl (\<lambda>vs (i, v). vs[i := v]) values stored"

definition exec_object ::
  "('c, 'f, 's, 'l) gqlgen \<Rightarrow> 's executionContext \<Rightarrow> 'c \<Rightarrow> 's \<Rightarrow> string \<Rightarrow>
   ('f \<Rightarrow> ('l, 'f marshaler \<times> bool) x) \<Rightarrow> ('l, 'f marshaler) x" where
  "exec_object G ec ctx sel implementor f =
     (let fields = lib_CollectFields G (OperationContext ec) sel [implementor] in
      bindE (run_fields f fields) (\<lambda>(Values, Invalids).
      bindE (lib_Dispatch G ctx []) (\<lambda>stored.
      if 0 < Invalids then ret MNull
      else bindE (process_deferred G ctx []) (\<lambda>_. ret (MFieldSet fields (store_values stored Values))))))"

section \<open>Slices\<close>

definition slice_elements :: "'a list option \<Rightarrow> 'a list" where
  "slice_elements v = (case v of None \<Rightarrow> [] | Some vs \<Rightarrow> vs)"

definition marshal_slice ::
  "('c, 'f, 's, 'l) gqlgen \<Rightarrow> 'c \<Rightarrow> ('c \<Rightarrow> 'a \<Rightarrow> ('l, 'f marshaler) x) \<Rightarrow> 'a list \<Rightarrow> ('l, 'f marshaler) x" where
  "marshal_slice G ctx f v =
     bindE (lib_MarshalSliceConcurrently G ctx (length v) 0 False (\<lambda>ctx i.
        if i < length v then bindE (set_Result G ctx i) (\<lambda>_. f ctx (v ! i))
        else raise (External ''index out of range''))) (\<lambda>res.
     ret (if list_ex is_Null res then MNull else MArray res))"

section \<open>Fields, objects and marshalers\<close>

definition field_CancelTaskPayload_task_id ::
  "('c, 'f, 's, 'l) gqlgen \<Rightarrow> 's executionContext \<Rightarrow> 'c \<Rightarrow> 'f \<Rightarrow> CancelTaskPayload \<Rightarrow> ('l, 'f marshaler) x" where [gql_defs]:
  "field_CancelTaskPayload_task_id G ec ctx field obj =
     lib_ResolveField G ctx (OperationContext ec) field (\<lambda>ctx field. ret (fieldContext_CancelTaskPayload_task_id G field))
       (\<lambda>ctx. ret (Inr (AnyUUID (cancelled_TaskID obj))))
       (at_type any_UUID (marshalNUUID2UUID G)) True True"

definition field_CancelTaskPayload_status ::
  "('c, 'f, 's, 'l) gqlgen \<Rightarrow> 's executionContext \<Rightarrow> 'c \<Rightarrow> 'f \<Rightarrow> CancelTaskPayload \<Rightarrow> ('l, 'f marshaler) x" where [gql_defs]:
  "field_CancelTaskPayload_status G ec ctx field obj =
     lib_ResolveField G ctx (OperationContext ec) field (\<lambda>ctx field. ret (fieldContext_CancelTaskPayload_status G field))
       (\<lambda>ctx. ret (Inr (AnyString (cancelled_Status obj))))
       (at_type any_string (marshalNString2string G)) True True"

definition exec_CancelTaskPayload ::
  "('c, 'f, 's, 'l) gqlgen \<Rightarrow> 's executionContext \<Rightarrow> 'c \<Rightarrow> 's \<Rightarrow> CancelTaskPayload \<Rightarrow> ('l, 'f marshaler) x" where [gql_defs]:
  "exec_CancelTaskPayload G ec ctx sel obj =
     exec_object G ec ctx sel ''CancelTaskPayload'' (\<lambda>field.
       if lib_Name G field = ''__typename'' then optional (ret (lib_MarshalString G ''CancelTaskPayload''))
       else if lib_Name G field = ''task_id'' then required (field_CancelTaskPayload_task_id G ec ctx field obj)
       else if lib_Name G field = ''status'' then required (field_CancelTaskPayload_status G ec ctx field obj)
       else unknown_field (lib_Name G field))"

definition field_SubmitTaskResponse_task_id ::
  "('c, 'f, 's, 'l) gqlgen \<Rightarrow> 's executionContext \<Rightarrow> 'c \<Rightarrow> 'f \<Rightarrow> SubmitTaskResponse \<Rightarrow> ('l, 'f marshaler) x" where [gql_defs]:
  "field_SubmitTaskResponse_task_id G ec ctx field obj =
     lib_ResolveField G ctx (OperationContext ec) field (\<lambda>ctx field. ret (fieldContext_SubmitTaskResponse_task_id G field))
       (\<lambda>ctx. ret (Inr (AnyUUID (resp_TaskID obj))))
       (at_type any_UUID (marshalNUUID2UUID G)) True True"

definition exec_SubmitTaskResponse ::
  "('c, 'f, 's, 'l) gqlgen \<Rightarrow> 's executionContext \<Rightarrow> 'c \<Rightarrow> 's \<Rightarrow> SubmitTaskResponse \<Rightarrow> ('l, 'f marshaler) x" where [gql_defs]:
  "exec_SubmitTaskResponse G ec ctx sel obj =
     exec_object G ec ctx sel ''SubmitTaskResponse'' (\<lambda>field.
       if lib_Name G field = ''__typename'' then optional (ret (lib_MarshalString G ''SubmitTaskResponse''))
       else if lib_Name G field = ''task_id'' then required (field_SubmitTaskResponse_task_id G ec ctx field obj)
       else unknown_field (lib_Name G field))"

definition field_Task_id ::
  "('c, 'f, 's, 'l) gqlgen \<Rightarrow> 's executionContext \<Rightarrow> 'c \<Rightarrow> 'f \<Rightarrow> gql_Task \<Rightarrow> ('l, 'f marshaler) x" where [gql_defs]:
  "field_Task_id G ec ctx field obj =
     lib_ResolveField G ctx (OperationContext ec) field (\<lambda>ctx field. ret (fieldContext_Task_id G field))
       (\<lambda>ctx. ret (Inr (AnyUUID (gql_task_ID obj))))
       (at_type any_UUID (marshalNUUID2UUID G)) True True"

definition field_Task_status ::
  "('c, 'f, 's, 'l) gqlgen \<Rightarrow> 's executionContext \<Rightarrow> 'c \<Rightarrow> 'f \<Rightarrow> gql_Task \<Rightarrow> ('l, 'f marshaler) x" where [gql_defs]:
  "field_Task_status G ec ctx field obj =
     lib_ResolveField G ctx (OperationContext ec) field (\<lambda>ctx field. ret (fieldContext_Task_status G field))
       (\<lambda>ctx. ret (Inr (AnyString (gql_task_Status obj))))
       (at_type any_string (marshalNString2string G)) True True"

definition field_Task_last_error ::
  "('c, 'f, 's, 'l) gqlgen \<Rightarrow> 's executionContext \<Rightarrow> 'c \<Rightarrow> 'f \<Rightarrow> gql_Task \<Rightarrow> ('l, 'f marshaler) x" where [gql_defs]:
  "field_Task_last_error G ec ctx field obj =
     lib_ResolveField G ctx (OperationContext ec) field (\<lambda>ctx field. ret (fieldContext_Task_last_error G field))
       (\<lambda>ctx. ret (Inr (AnyString (gql_task_LastError obj))))
       (at_type any_string (marshalNString2string G)) True True"

definition field_Task_created_at ::
  "('c, 'f, 's, 'l) gqlgen \<Rightarrow> 's executionContext \<Rightarrow> 'c \<Rightarrow> 'f \<Rightarrow> gql_Task \<Rightarrow> ('l, 'f marshaler) x" where [gql_defs]:
  "field_Task_created_at G ec ctx field obj =
     lib_ResolveField G ctx (OperationContext ec) field (\<lambda>ctx field. ret (fieldContext_Task_created_at G field))
       (\<lambda>ctx. ret (Inr (AnyTime (gql_task_CreatedAt obj))))
       (at_type any_Time (marshalNTime2Time G)) True True"

definition field_Task_started_at ::
  "('c, 'f, 's, 'l) gqlgen \<Rightarrow> 's executionContext \<Rightarrow> 'c \<Rightarrow> 'f \<Rightarrow> gql_Task \<Rightarrow> ('l, 'f marshaler) x" where [gql_defs]:
  "field_Task_started_at G ec ctx field obj =
     lib_ResolveField G ctx (OperationContext ec) field (\<lambda>ctx field. ret (fieldContext_Task_started_at G field))
       (\<lambda>ctx. ret (Inr (AnyTimePtr (gql_task_StartedAt obj))))
       (at_type any_Time_ptr (marshalOTime2Time_ptr G)) True False"

definition field_Task_finished_at ::
  "('c, 'f, 's, 'l) gqlgen \<Rightarrow> 's executionContext \<Rightarrow> 'c \<Rightarrow> 'f \<Rightarrow> gql_Task \<Rightarrow> ('l, 'f marshaler) x" where [gql_defs]:
  "field_Task_finished_at G ec ctx field obj =
     lib_ResolveField G ctx (OperationContext ec) field (\<lambda>ctx field. ret (fieldContext_Task_finished_at G field))
       (\<lambda>ctx. ret (Inr (AnyTimePtr (gql_task_FinishedAt obj))))
       (at_type any_Time_ptr (marshalOTime2Time_ptr G)) True False"

definition field_Task_shard_count ::
  "('c, 'f, 's, 'l) gqlgen \<Rightarrow> 's executionContext \<Rightarrow> 'c \<Rightarrow> 'f \<Rightarrow> gql_Task \<Rightarrow> ('l, 'f marshaler) x" where [gql_defs]:
  "field_Task_shard_count G ec ctx field obj =
     lib_ResolveField G ctx (OperationContext ec) field (\<lambda>ctx field. ret (fieldContext_Task_shard_count G field))
       (\<lambda>ctx. ret (Inr (AnyInt (gql_task_ShardCount obj))))
       (at_type any_int (marshalNInt2int G)) True True"

definition field_TaskShard_id ::
  "('c, 'f, 's, 'l) gqlgen \<Rightarrow> 's executionContext \<Rightarrow> 'c \<Rightarrow> 'f \<Rightarrow> gql_TaskShard \<Rightarrow> ('l, 'f marshaler) x" where [gql_defs]:
  "field_TaskShard_id G ec ctx field obj =
     lib_ResolveField G ctx (OperationContext ec) field (\<lambda>ctx field. ret (fieldContext_TaskShard_id G field))
       (\<lambda>ctx. ret (Inr (AnyUUID (gql_shard_ID obj))))
       (at_type any_UUID (marshalNUUID2UUID G)) True True"

definition field_TaskShard_script_name ::
  "('c, 'f, 's, 'l) gqlgen \<Rightarrow> 's executionContext \<Rightarrow> 'c \<Rightarrow> 'f \<Rightarrow> gql_TaskShard \<Rightarrow> ('l, 'f marshaler) x" where [gql_defs]:
  "field_TaskShard_script_name G ec ctx field obj =
     lib_ResolveField G ctx (OperationContext ec) field (\<lambda>ctx field. ret (fieldContext_TaskShard_script_name G field))
       (\<lambda>ctx. ret (Inr (AnyString (gql_shard_ScriptName obj))))
       (at_type any_string (marshalNString2string G)) True True"

definition field_TaskShard_status ::
  "('c, 'f, 's, 'l) gqlgen \<Rightarrow> 's executionContext \<Rightarrow> 'c \<Rightarrow> 'f \<Rightarrow> gql_TaskShard \<Rightarrow> ('l, 'f marshaler) x" where [gql_defs]:
  "field_TaskShard_status G ec ctx field obj =
     lib_ResolveField G ctx (OperationContext ec) field (\<lambda>ctx field. ret (fieldContext_TaskShard_status G field))
       (\<lambda>ctx. ret (Inr (AnyString (gql_shard_Status obj))))
       (at_type any_string (marshalNString2string G)) True True"

definition field_TaskShard_output_oss_key ::
  "('c, 'f, 's, 'l) gqlgen \<Rightarrow> 's executionContext \<Rightarrow> 'c \<Rightarrow> 'f \<Rightarrow> gql_TaskShard \<Rightarrow> ('l, 'f marshaler) x" where [gql_defs]:
  "field_TaskShard_output_oss_key G ec ctx field obj =
     lib_ResolveField G ctx (OperationContext ec) field (\<lambda>ctx field. ret (fieldContext_TaskShard_output_oss_key G field))
       (\<lambda>ctx. ret (Inr (AnyStringPtr (gql_shard_OutputOssKey obj))))
       (at_type any_string_ptr (marshalOString2string_ptr G)) True False"

definition field_TaskShard_output_sha256 ::
  "('c, 'f, 's, 'l) gqlgen \<Rightarrow> 's executionContext \<Rightarrow> 'c \<Rightarrow> 'f \<Rightarrow> gql_TaskShard \<Rightarrow> ('l, 'f marshaler) x" where [gql_defs]:
  "field_TaskShard_output_sha256 G ec ctx field obj =
     lib_ResolveField G ctx (OperationContext ec) field (\<lambda>ctx field. ret (fieldContext_TaskShard_output_sha256 G field))
       (\<lambda>ctx. ret (Inr (AnyStringPtr (gql_shard_OutputSha256 obj))))
       (at_type any_string_ptr (marshalOString2string_ptr G)) True False"

definition field_TaskShard_last_error ::
  "('c, 'f, 's, 'l) gqlgen \<Rightarrow> 's executionContext \<Rightarrow> 'c \<Rightarrow> 'f \<Rightarrow> gql_TaskShard \<Rightarrow> ('l, 'f marshaler) x" where [gql_defs]:
  "field_TaskShard_last_error G ec ctx field obj =
     lib_ResolveField G ctx (OperationContext ec) field (\<lambda>ctx field. ret (fieldContext_TaskShard_last_error G field))
       (\<lambda>ctx. ret (Inr (AnyStringPtr (gql_shard_LastError obj))))
       (at_type any_string_ptr (marshalOString2string_ptr G)) True False"

definition field_TaskShard_started_at ::
  "('c, 'f, 's, 'l) gqlgen \<Rightarrow> 's executionContext \<Rightarrow> 'c \<Rightarrow> 'f \<Rightarrow> gql_TaskShard \<Rightarrow> ('l, 'f marshaler) x" where [gql_defs]:
  "field_TaskShard_started_at G ec ctx field obj =
     lib_ResolveField G ctx (OperationContext ec) field (\<lambda>ctx field. ret (fieldContext_TaskShard_started_at G field))
       (\<lambda>ctx. ret (Inr (AnyTimePtr (gql_shard_StartedAt obj))))
       (at_type any_Time_ptr (marshalOTime2Time_ptr G)) True False"

definition field_TaskShard_finished_at ::
  "('c, 'f, 's, 'l) gqlgen \<Rightarrow> 's executionContext \<Rightarrow> 'c \<Rightarrow> 'f \<Rightarrow> gql_TaskShard \<Rightarrow> ('l, 'f marshaler) x" where [gql_defs]:
  "field_TaskShard_finished_at G ec ctx field obj =
     lib_ResolveField G ctx (OperationContext ec) field (\<lambda>ctx field. ret (fieldContext_TaskShard_finished_at G field))
       (\<lambda>ctx. ret (Inr (AnyTimePtr (gql_shard_FinishedAt obj))))
       (at_type any_Time_ptr (marshalOTime2Time_ptr G)) True False"

definition exec_TaskShard ::
  "('c, 'f, 's, 'l) gqlgen \<Rightarrow> 's executionContext \<Rightarrow> 'c \<Rightarrow> 's \<Rightarrow> gql_TaskShard \<Rightarrow> ('l, 'f marshaler) x" where [gql_defs]:
  "exec_TaskShard G ec ctx sel obj =
     exec_object G ec ctx sel ''TaskShard'' (\<lambda>field.
       if lib_Name G field = ''__typename'' then optional (ret (lib_MarshalString G ''TaskShard''))
       else if lib_Name G field = ''id'' then required (field_TaskShard_id G ec ctx field obj)
       else if lib_Name G field = ''script_name'' then required (field_TaskShard_script_name G ec ctx field obj)
       else if lib_Name G field = ''status'' then required (field_TaskShard_status G ec ctx field obj)
       else if lib_Name G field = ''output_oss_key'' then optional (field_TaskShard_output_oss_key G ec ctx field obj)
       else if lib_Name G field = ''output_sha256'' then optional (field_TaskShard_output_sha256 G ec ctx field obj)
       else if lib_Name G field = ''last_error'' then optional (field_TaskShard_last_error G ec ctx field obj)
       else if lib_Name G field = ''started_at'' then optional (field_TaskShard_started_at G ec ctx field obj)
       else if lib_Name G field = ''finished_at'' then optional (field_TaskShard_finished_at G ec ctx field obj)
       else unknown_field (lib_Name G field))"

definition marshalNTaskShard_ptr ::
  "('c, 'f, 's, 'l) gqlgen \<Rightarrow> 's executionContext \<Rightarrow> 'c \<Rightarrow> 's \<Rightarrow> gql_TaskShard option \<Rightarrow> ('l, 'f marshaler) x" where [gql_defs]:
  "marshalNTaskShard_ptr G ec ctx sel v = (case v of
       None \<Rightarrow> bindE (null_error G ctx) (\<lambda>_. ret MNull)
     | Some obj \<Rightarrow> exec_TaskShard G ec ctx sel obj)"

definition marshalNTaskShard_slice ::
  "('c, 'f, 's, 'l) gqlgen \<Rightarrow> 's executionContext \<Rightarrow> 'c \<Rightarrow> 's \<Rightarrow> gql_TaskShard option list \<Rightarrow> ('l, 'f marshaler) x" where [gql_defs]:
  "marshalNTaskShard_slice G ec ctx sel v = marshal_slice G ctx (\<lambda>ctx. marshalNTaskShard_ptr G ec ctx sel) v"

definition field_Task_shards ::
  "('c, 'f, 's, 'l) gqlgen \<Rightarrow> 's executionContext \<Rightarrow> 'c \<Rightarrow> 'f \<Rightarrow> gql_Task \<Rightarrow> ('l, 'f marshaler) x" where [gql_defs]:
  "field_Task_shards G ec ctx field obj =
     lib_ResolveField G ctx (OperationContext ec) field (\<lambda>ctx field. ret (fieldContext_Task_shards field))
       (\<lambda>ctx. ret (Inr (AnyTaskShards (gql_task_Shards obj))))
       (at_type any_TaskShards (marshalNTaskShard_slice G ec)) True True"

definition exec_Task ::
  "('c, 'f, 's, 'l) gqlgen \<Rightarrow> 's executionContext \<Rightarrow> 'c \<Rightarrow> 's \<Rightarrow> gql_Task \<Rightarrow> ('l, 'f marshaler) x" where [gql_defs]:
  "exec_Task G ec ctx sel obj =
     exec_object G ec ctx sel ''Task'' (\<lambda>field.
       if lib_Name G field = ''__typename'' then optional (ret (lib_MarshalString G ''Task''))
       else if lib_Name G field = ''id'' then required (field_Task_id G ec ctx field obj)
       else if lib_Name G field = ''status'' then required (field_Task_status G ec ctx field obj)
       else if lib_Name G field = ''last_error'' then required (field_Task_last_error G ec ctx field obj)
       else if lib_Name G field = ''created_at'' then required (field_Task_created_at G ec ctx field obj)
       else if lib_Name G field = ''started_at'' then optional (field_Task_started_at G ec ctx field obj)
       else if lib_Name G field = ''finished_at'' then optional (field_Task_finished_at G ec ctx field obj)
       else if lib_Name G field = ''shard_count'' then required (field_Task_shard_count G ec ctx field obj)
       else if lib_Name G field = ''shards'' then required (field_Task_shards G ec ctx field obj)
       else unknown_field (lib_Name G field))"

definition field_Tenant_id ::
  "('c, 'f, 's, 'l) gqlgen \<Rightarrow> 's executionContext \<Rightarrow> 'c \<Rightarrow> 'f \<Rightarrow> gql_Tenant \<Rightarrow> ('l, 'f marshaler) x" where [gql_defs]:
  "field_Tenant_id G ec ctx field obj =
     lib_ResolveField G ctx (OperationContext ec) field (\<lambda>ctx field. ret (fieldContext_Tenant_id G field))
       (\<lambda>ctx. ret (Inr (AnyUUID (gql_tenant_ID obj))))
       (at_type any_UUID (marshalNUUID2UUID G)) True True"

definition field_Tenant_name ::
  "('c, 'f, 's, 'l) gqlgen \<Rightarrow> 's executionContext \<Rightarrow> 'c \<Rightarrow> 'f \<Rightarrow> gql_Tenant \<Rightarrow> ('l, 'f marshaler) x" where [gql_defs]:
  "field_Tenant_name G ec ctx field obj =
     lib_ResolveField G ctx (OperationContext ec) field (\<lambda>ctx field. ret (fieldContext_Tenant_name G field))
       (\<lambda>ctx. ret (Inr (AnyString (gql_tenant_Name obj))))
       (at_type any_string (marshalNString2string G)) True True"

definition field_Tenant_primary_backend_name ::
  "('c, 'f, 's, 'l) gqlgen \<Rightarrow> 's executionContext \<Rightarrow> 'c \<Rightarrow> 'f \<Rightarrow> gql_Tenant \<Rightarrow> ('l, 'f marshaler) x" where [gql_defs]:
  "field_Tenant_primary_backend_name G ec ctx field obj =
     lib_ResolveField G ctx (OperationContext ec) field (\<lambda>ctx field. ret (fieldContext_Tenant_primary_backend_name G field))
       (\<lambda>ctx. ret (Inr (AnyString (gql_tenant_PrimaryBackendName obj))))
       (at_type any_string (marshalNString2string G)) True True"

definition field_Tenant_max_agents ::
  "('c, 'f, 's, 'l) gqlgen \<Rightarrow> 's executionContext \<Rightarrow> 'c \<Rightarrow> 'f \<Rightarrow> gql_Tenant \<Rightarrow> ('l, 'f marshaler) x" where [gql_defs]:
  "field_Tenant_max_agents G ec ctx field obj =
     lib_ResolveField G ctx (OperationContext ec) field (\<lambda>ctx field. ret (fieldContext_Tenant_max_agents G field))
       (\<lambda>ctx. ret (Inr (AnyInt (gql_tenant_MaxAgents obj))))
       (at_type any_int (marshalNInt2int G)) True True"

definition exec_Tenant ::
  "('c, 'f, 's, 'l) gqlgen \<Rightarrow> 's executionContext \<Rightarrow> 'c \<Rightarrow> 's \<Rightarrow> gql_Tenant \<Rightarrow> ('l, 'f marshaler) x" where [gql_defs]:
  "exec_Tenant G ec ctx sel obj =
     exec_object G ec ctx sel ''Tenant'' (\<lambda>field.
       if lib_Name G field = ''__typename'' then optional (ret (lib_MarshalString G ''Tenant''))
       else if lib_Name G field = ''id'' then required (field_Tenant_id G ec ctx field obj)
       else if lib_Name G field = ''name'' then required (field_Tenant_name G ec ctx field obj)
       else if lib_Name G field = ''primary_backend_name'' then required (field_Tenant_primary_backend_name G ec ctx field obj)
       else if lib_Name G field = ''max_agents'' then required (field_Tenant_max_agents G ec ctx field obj)
       else unknown_field (lib_Name G field))"

definition marshalNCancelTaskPayload ::
  "('c, 'f, 's, 'l) gqlgen \<Rightarrow> 's executionContext \<Rightarrow> 'c \<Rightarrow> 's \<Rightarrow> CancelTaskPayload \<Rightarrow> ('l, 'f marshaler) x" where [gql_defs]:
  "marshalNCancelTaskPayload G ec ctx sel v = exec_CancelTaskPayload G ec ctx sel v"

definition marshalNCancelTaskPayload_ptr ::
  "('c, 'f, 's, 'l) gqlgen \<Rightarrow> 's executionContext \<Rightarrow> 'c \<Rightarrow> 's \<Rightarrow> CancelTaskPayload option \<Rightarrow> ('l, 'f marshaler) x" where [gql_defs]:
  "marshalNCancelTaskPayload_ptr G ec ctx sel v = (case v of
       None \<Rightarrow> bindE (null_error G ctx) (\<lambda>_. ret MNull)
     | Some obj \<Rightarrow> exec_CancelTaskPayload G ec ctx sel obj)"

definition marshalNSubmitTaskResponse ::
  "('c, 'f, 's, 'l) gqlgen \<Rightarrow> 's executionContext \<Rightarrow> 'c \<Rightarrow> 's \<Rightarrow> SubmitTaskResponse \<Rightarrow> ('l, 'f marshaler) x" where [gql_defs]:
  "marshalNSubmitTaskResponse G ec ctx sel v = exec_SubmitTaskResponse G ec ctx sel v"

definition marshalNSubmitTaskResponse_ptr ::
  "('c, 'f, 's, 'l) gqlgen \<Rightarrow> 's executionContext \<Rightarrow> 'c \<Rightarrow> 's \<Rightarrow> SubmitTaskResponse option \<Rightarrow> ('l, 'f marshaler) x" where [gql_defs]:
  "marshalNSubmitTaskResponse_ptr G ec ctx sel v = (case v of
       None \<Rightarrow> bindE (null_error G ctx) (\<lambda>_. ret MNull)
     | Some obj \<Rightarrow> exec_SubmitTaskResponse G ec ctx sel obj)"

definition marshalNTask ::
  "('c, 'f, 's, 'l) gqlgen \<Rightarrow> 's executionContext \<Rightarrow> 'c \<Rightarrow> 's \<Rightarrow> gql_Task \<Rightarrow> ('l, 'f marshaler) x" where [gql_defs]:
  "marshalNTask G ec ctx sel v = exec_Task G ec ctx sel v"

definition marshalNTask_ptr ::
  "('c, 'f, 's, 'l) gqlgen \<Rightarrow> 's executionContext \<Rightarrow> 'c \<Rightarrow> 's \<Rightarrow> gql_Task option \<Rightarrow> ('l, 'f marshaler) x" where [gql_defs]:
  "marshalNTask_ptr G ec ctx sel v = (case v of
       None \<Rightarrow> bindE (null_error G ctx) (\<lambda>_. ret MNull)
     | Some obj \<Rightarrow> exec_Task G ec ctx sel obj)"

definition marshalNTask_slice ::
  "('c, 'f, 's, 'l) gqlgen \<Rightarrow> 's executionContext \<Rightarrow> 'c \<Rightarrow> 's \<Rightarrow> gql_Task option list \<Rightarrow> ('l, 'f marshaler) x" where [gql_defs]:
  "marshalNTask_slice G ec ctx sel v = marshal_slice G ctx (\<lambda>ctx. marshalNTask_ptr G ec ctx sel) v"

definition marshalNTenant ::
  "('c, 'f, 's, 'l) gqlgen \<Rightarrow> 's executionContext \<Rightarrow> 'c \<Rightarrow> 's \<Rightarrow> gql_Tenant \<Rightarrow> ('l, 'f marshaler) x" where [gql_defs]:
  "marshalNTenant G ec ctx sel v = exec_Tenant G ec ctx sel v"

definition marshalNTenant_ptr ::
  "('c, 'f, 's, 'l) gqlgen \<Rightarrow> 's executionContext \<Rightarrow> 'c \<Rightarrow> 's \<Rightarrow> gql_Tenant option \<Rightarrow> ('l, 'f marshaler) x" where [gql_defs]:
  "marshalNTenant_ptr G ec ctx sel v = (case v of
       None \<Rightarrow> bindE (null_error G ctx) (\<lambda>_. ret MNull)
     | Some obj \<Rightarrow> exec_Tenant G ec ctx sel obj)"

end
