(* ===== verification/Gql_Introspection.thy ===== *)
theory Gql_Introspection
  imports Gql_Objects
begin

text \<open>
  The introspection part of \<open>graph/generated/generated.go\<close>. A type refers to types: \<open>___Type\<close> calls itself
  through its fields. The functions on the way take the function for \<open>___Type\<close> as their argument
  \<open>typ\<close>, \<open>type_object\<close> is its body and \<open>exec___Type\<close> the recursive function, which runs out of stack when
  it nests deeper than its first argument.
\<close>

definition field___Directive_name ::
  "('c, 'f, 's, 'l) gqlgen \<Rightarrow> 's executionContext \<Rightarrow> 'c \<Rightarrow> 'f \<Rightarrow> iref \<Rightarrow> ('l, 'f marshaler) x" where [gql_defs]:
  "field___Directive_name G ec ctx field obj =
     lib_ResolveField G ctx (OperationContext ec) field (\<lambda>ctx field. ret (fieldContext___Directive_name G field))
       (\<lambda>ctx. ret (Inr (AnyString (Directive_Name (lib_introspection G) obj))))
       (at_type any_string (marshalNString2string G)) True True"

definition field___Directive_description ::
  "('c, 'f, 's, 'l) gqlgen \<Rightarrow> 's executionContext \<Rightarrow> 'c \<Rightarrow> 'f \<Rightarrow> iref \<Rightarrow> ('l, 'f marshaler) x" where [gql_defs]:
  "field___Directive_description G ec ctx field obj =
     lib_ResolveField G ctx (OperationContext ec) field (\<lambda>ctx field. ret (fieldContext___Directive_description G field))
       (\<lambda>ctx. ret (Inr (AnyStringPtr (Directive_Description (lib_introspection G) obj))))
       (at_type any_string_ptr (marshalOString2string_ptr G)) True False"

definition field___Directive_isRepeatable ::
  "('c, 'f, 's, 'l) gqlgen \<Rightarrow> 's executionContext \<Rightarrow> 'c \<Rightarrow> 'f \<Rightarrow> iref \<Rightarrow> ('l, 'f marshaler) x" where [gql_defs]:
  "field___Directive_isRepeatable G ec ctx field obj =
     lib_ResolveField G ctx (OperationContext ec) field (\<lambda>ctx field. ret (fieldContext___Directive_isRepeatable G field))
       (\<lambda>ctx. ret (Inr (AnyBool (Directive_IsRepeatable (lib_introspection G) obj))))
       (at_type any_bool (marshalNBoolean2bool G)) True True"

definition marshalN__DirectiveLocation2string_slice ::
  "('c, 'f, 's, 'l) gqlgen \<Rightarrow> 's executionContext \<Rightarrow> 'c \<Rightarrow> 's \<Rightarrow> string list \<Rightarrow> ('l, 'f marshaler) x" where [gql_defs]:
  "marshalN__DirectiveLocation2string_slice G ec ctx sel v = marshal_slice G ctx (\<lambda>ctx. marshalN__DirectiveLocation2string G ctx sel) v"

definition field___Directive_locations ::
  "('c, 'f, 's, 'l) gqlgen \<Rightarrow> 's executionContext \<Rightarrow> 'c \<Rightarrow> 'f \<Rightarrow> iref \<Rightarrow> ('l, 'f marshaler) x" where [gql_defs]:
  "field___Directive_locations G ec ctx field obj =
     lib_ResolveField G ctx (OperationContext ec) field (\<lambda>ctx field. ret (fieldContext___Directive_locations G field))
       (\<lambda>ctx. ret (Inr (AnyStrings (Directive_Locations (lib_introspection G) obj))))
       (at_type any_strings (marshalN__DirectiveLocation2string_slice G ec)) True True"

definition field___InputValue_name ::
  "('c, 'f, 's, 'l) gqlgen \<Rightarrow> 's executionContext \<Rightarrow> 'c \<Rightarrow> 'f \<Rightarrow> iref \<Rightarrow> ('l, 'f marshaler) x" where [gql_defs]:
  "field___InputValue_name G ec ctx field obj =
     lib_ResolveField G ctx (OperationContext ec) field (\<lambda>ctx field. ret (fieldContext___InputValue_name G field))
       (\<lambda>ctx. ret (Inr (AnyString (InputValue_Name (lib_introspection G) obj))))
       (at_type any_string (marshalNString2string G)) True True"

definition field___InputValue_description ::
  "('c, 'f, 's, 'l) gqlgen \<Rightarrow> 's executionContext \<Rightarrow> 'c \<Rightarrow> 'f \<Rightarrow> iref \<Rightarrow> ('l, 'f marshaler) x" where [gql_defs]:
  "field___InputValue_description G ec ctx field obj =
     lib_ResolveField G ctx (OperationContext ec) field (\<lambda>ctx field. ret (fieldContext___InputValue_description G field))
       (\<lambda>ctx. ret (Inr (AnyStringPtr (InputValue_Description (lib_introspection G) obj))))
       (at_type any_string_ptr (marshalOString2string_ptr G)) True False"

definition marshalN__Type_ptr ::
  "('c \<Rightarrow> 's \<Rightarrow> iref \<Rightarrow> ('l, 'f marshaler) x) \<Rightarrow> ('c, 'f, 's, 'l) gqlgen \<Rightarrow> 's executionContext \<Rightarrow> 'c \<Rightarrow> 's \<Rightarrow> iref option \<Rightarrow> ('l, 'f marshaler) x" where [gql_defs]:
  "marshalN__Type_ptr typ G ec ctx sel v = (case v of
       None \<Rightarrow> bindE (null_error G ctx) (\<lambda>_. ret MNull)
     | Some obj \<Rightarrow> typ ctx sel obj)"

definition field___InputValue_type ::
  "('c \<Rightarrow> 's \<Rightarrow> iref \<Rightarrow> ('l, 'f marshaler) x) \<Rightarrow> ('c, 'f, 's, 'l) gqlgen \<Rightarrow> 's executionContext \<Rightarrow> 'c \<Rightarrow> 'f \<Rightarrow> iref \<Rightarrow> ('l, 'f marshaler) x" where [gql_defs]:
  "field___InputValue_type typ G ec ctx field obj =
     lib_ResolveField G ctx (OperationContext ec) field (\<lambda>ctx field. ret (fieldContext___InputValue_type field))
       (\<lambda>ctx. ret (Inr (AnyType (InputValue_Type (lib_introspection G) obj))))
       (at_type any_Type (marshalN__Type_ptr typ G ec)) True True"

definition field___InputValue_defaultValue ::
  "('c, 'f, 's, 'l) gqlgen \<Rightarrow> 's executionContext \<Rightarrow> 'c \<Rightarrow> 'f \<Rightarrow> iref \<Rightarrow> ('l, 'f marshaler) x" where [gql_defs]:
  "field___InputValue_defaultValue G ec ctx field obj =
     lib_ResolveField G ctx (OperationContext ec) field (\<lambda>ctx field. ret (fieldContext___InputValue_defaultValue G field))
       (\<lambda>ctx. ret (Inr (AnyStringPtr (InputValue_DefaultValue (lib_introspection G) obj))))
       (at_type any_string_ptr (marshalOString2string_ptr G)) True False"

definition field___InputValue_isDeprecated ::
  "('c, 'f, 's, 'l) gqlgen \<Rightarrow> 's executionContext \<Rightarrow> 'c \<Rightarrow> 'f \<Rightarrow> iref \<Rightarrow> ('l, 'f marshaler) x" where [gql_defs]:
  "field___InputValue_isDeprecated G ec ctx field obj =
     lib_ResolveField G ctx (OperationContext ec) field (\<lambda>ctx field. ret (fieldContext___InputValue_isDeprecated G field))
       (\<lambda>ctx. ret (Inr (AnyBool (InputValue_IsDeprecated (lib_introspection G) obj))))
       (at_type any_bool (marshalNBoolean2bool G)) True True"

definition field___InputValue_deprecationReason ::
  "('c, 'f, 's, 'l) gqlgen \<Rightarrow> 's executionContext \<Rightarrow> 'c \<Rightarrow> 'f \<Rightarrow> iref \<Rightarrow> ('l, 'f marshaler) x" where [gql_defs]:
  "field___InputValue_deprecationReason G ec ctx field obj =
     lib_ResolveField G ctx (OperationContext ec) field (\<lambda>ctx field. ret (fieldContext___InputValue_deprecationReason G field))
       (\<lambda>ctx. ret (Inr (AnyStringPtr (InputValue_DeprecationReason (lib_introspection G) obj))))
       (at_type any_string_ptr (marshalOString2string_ptr G)) True False"

definition exec___InputValue ::
  "('c \<Rightarrow> 's \<Rightarrow> iref \<Rightarrow> ('l, 'f marshaler) x) \<Rightarrow> ('c, 'f, 's, 'l) gqlgen \<Rightarrow> 's executionContext \<Rightarrow> 'c \<Rightarrow> 's \<Rightarrow> iref \<Rightarrow> ('l, 'f marshaler) x" where [gql_defs]:
  "exec___InputValue typ G ec ctx sel obj =
     exec_object G ec ctx sel ''__InputValue'' (\<lambda>field.
       if lib_Name G field = ''__typename'' then optional (ret (lib_MarshalString G ''__InputValue''))
       else if lib_Name G field = ''name'' then required (field___InputValue_name G ec ctx field obj)
       else if lib_Name G field = ''description'' then optional (field___InputValue_description G ec ctx field obj)
       else if lib_Name G field = ''type'' then required (field___InputValue_type typ G ec ctx field obj)
       else if lib_Name G field = ''defaultValue'' then optional (field___InputValue_defaultValue G ec ctx field obj)
       else if lib_Name G field = ''isDeprecated'' then required (field___InputValue_isDeprecated G ec ctx field obj)
       else if lib_Name G field = ''deprecationReason'' then optional (field___InputValue_deprecationReason G ec ctx field obj)
       else unknown_field (lib_Name G field))"

definition marshalN__InputValue ::
  "('c \<Rightarrow> 's \<Rightarrow> iref \<Rightarrow> ('l, 'f marshaler) x) \<Rightarrow> ('c, 'f, 's, 'l) gqlgen \<Rightarrow> 's executionContext \<Rightarrow> 'c \<Rightarrow> 's \<Rightarrow> iref \<Rightarrow> ('l, 'f marshaler) x" where [gql_defs]:
  "marshalN__InputValue typ G ec ctx sel v = exec___InputValue typ G ec ctx sel v"

definition marshalN__InputValue_slice ::
  "('c \<Rightarrow> 's \<Rightarrow> iref \<Rightarrow> ('l, 'f marshaler) x) \<Rightarrow> ('c, 'f, 's, 'l) gqlgen \<Rightarrow> 's executionContext \<Rightarrow> 'c \<Rightarrow> 's \<Rightarrow> iref list option \<Rightarrow> ('l, 'f marshaler) x" where [gql_defs]:
  "marshalN__InputValue_slice typ G ec ctx sel v = marshal_slice G ctx (\<lambda>ctx. marshalN__InputValue typ G ec ctx sel) (slice_elements v)"

definition field___Directive_args ::
  "('c \<Rightarrow> 's \<Rightarrow> iref \<Rightarrow> ('l, 'f marshaler) x) \<Rightarrow> ('c, 'f, 's, 'l) gqlgen \<Rightarrow> 's executionContext \<Rightarrow> 'c \<Rightarrow> 'f \<Rightarrow> iref \<Rightarrow> ('l, 'f marshaler) x" where [gql_defs]:
  "field___Directive_args typ G ec ctx field obj =
     lib_ResolveField G ctx (OperationContext ec) field (\<lambda>ctx field. fieldContext___Directive_args G ec ctx field)
       (\<lambda>ctx. ret (Inr (AnyInputValues (Directive_Args (lib_introspection G) obj))))
       (at_type any_InputValues (marshalN__InputValue_slice typ G ec)) True True"

definition field___EnumValue_name ::
  "('c, 'f, 's, 'l) gqlgen \<Rightarrow> 's executionContext \<Rightarrow> 'c \<Rightarrow> 'f \<Rightarrow> iref \<Rightarrow> ('l, 'f marshaler) x" where [gql_defs]:
  "field___EnumValue_name G ec ctx field obj =
     lib_ResolveField G ctx (OperationContext ec) field (\<lambda>ctx field. ret (fieldContext___EnumValue_name G field))
       (\<lambda>ctx. ret (Inr (AnyString (EnumValue_Name (lib_introspection G) obj))))
       (at_type any_string (marshalNString2string G)) True True"

definition field___EnumValue_description ::
  "('c, 'f, 's, 'l) gqlgen \<Rightarrow> 's executionContext \<Rightarrow> 'c \<Rightarrow> 'f \<Rightarrow> iref \<Rightarrow> ('l, 'f marshaler) x" where [gql_defs]:
  "field___EnumValue_description G ec ctx field obj =
     lib_ResolveField G ctx (OperationContext ec) field (\<lambda>ctx field. ret (fieldContext___EnumValue_description G field))
       (\<lambda>ctx. ret (Inr (AnyStringPtr (EnumValue_Description (lib_introspection G) obj))))
       (at_type any_string_ptr (marshalOString2string_ptr G)) True False"

definition field___EnumValue_isDeprecated ::
  "('c, 'f, 's, 'l) gqlgen \<Rightarrow> 's executionContext \<Rightarrow> 'c \<Rightarrow> 'f \<Rightarrow> iref \<Rightarrow> ('l, 'f marshaler) x" where [gql_defs]:
  "field___EnumValue_isDeprecated G ec ctx field obj =
     lib_ResolveField G ctx (OperationContext ec) field (\<lambda>ctx field. ret (fieldContext___EnumValue_isDeprecated G field))
       (\<lambda>ctx. ret (Inr (AnyBool (EnumValue_IsDeprecated (lib_introspection G) obj))))
       (at_type any_bool (marshalNBoolean2bool G)) True True"

definition field___EnumValue_deprecationReason ::
  "('c, 'f, 's, 'l) gqlgen \<Rightarrow> 's executionContext \<Rightarrow> 'c \<Rightarrow> 'f \<Rightarrow> iref \<Rightarrow> ('l, 'f marshaler) x" where [gql_defs]:
  "field___EnumValue_deprecationReason G ec ctx field obj =
     lib_ResolveField G ctx (OperationContext ec) field (\<lambda>ctx field. ret (fieldContext___EnumValue_deprecationReason G field))
       (\<lambda>ctx. ret (Inr (AnyStringPtr (EnumValue_DeprecationReason (lib_introspection G) obj))))
       (at_type any_string_ptr (marshalOString2string_ptr G)) True False"

definition field___Field_name ::
  "('c, 'f, 's, 'l) gqlgen \<Rightarrow> 's executionContext \<Rightarrow> 'c \<Rightarrow> 'f \<Rightarrow> iref \<Rightarrow> ('l, 'f marshaler) x" where [gql_defs]:
  "field___Field_name G ec ctx field obj =
     lib_ResolveField G ctx (OperationContext ec) field (\<lambda>ctx field. ret (fieldContext___Field_name G field))
       (\<lambda>ctx. ret (Inr (AnyString (Field_Name (lib_introspection G) obj))))
       (at_type any_string (marshalNString2string G)) True True"

definition field___Field_description ::
  "('c, 'f, 's, 'l) gqlgen \<Rightarrow> 's executionContext \<Rightarrow> 'c \<Rightarrow> 'f \<Rightarrow> iref \<Rightarrow> ('l, 'f marshaler) x" where [gql_defs]:
  "field___Field_description G ec ctx field obj =
     lib_ResolveField G ctx (OperationContext ec) field (\<lambda>ctx field. ret (fieldContext___Field_description G field))
       (\<lambda>ctx. ret (Inr (AnyStringPtr (Field_Description (lib_introspection G) obj))))
       (at_type any_string_ptr (marshalOString2string_ptr G)) True False"

definition field___Field_args ::
  "('c \<Rightarrow> 's \<Rightarrow> iref \<Rightarrow> ('l, 'f marshaler) x) \<Rightarrow> ('c, 'f, 's, 'l) gqlgen \<Rightarrow> 's executionContext \<Rightarrow> 'c \<Rightarrow> 'f \<Rightarrow> iref \<Rightarrow> ('l, 'f marshaler) x" where [gql_defs]:
  "field___Field_args typ G ec ctx field obj =
     lib_ResolveField G ctx (OperationContext ec) field (\<lambda>ctx field. fieldContext___Field_args G ec ctx field)
       (\<lambda>ctx. ret (Inr (AnyInputValues (Field_Args (lib_introspection G) obj))))
       (at_type any_InputValues (marshalN__InputValue_slice typ G ec)) True True"

definition field___Field_type ::
  "('c \<Rightarrow> 's \<Rightarrow> iref \<Rightarrow> ('l, 'f marshaler) x) \<Rightarrow> ('c, 'f, 's, 'l) gqlgen \<Rightarrow> 's executionContext \<Rightarrow> 'c \<Rightarrow> 'f \<Rightarrow> iref \<Rightarrow> ('l, 'f marshaler) x" where [gql_defs]:
  "field___Field_type typ G ec ctx field obj =
     lib_ResolveField G ctx (OperationContext ec) field (\<lambda>ctx field. ret (fieldContext___Field_type field))
       (\<lambda>ctx. ret (Inr (AnyType (Field_Type (lib_introspection G) obj))))
       (at_type any_Type (marshalN__Type_ptr typ G ec)) True True"

definition field___Field_isDeprecated ::
  "('c, 'f, 's, 'l) gqlgen \<Rightarrow> 's executionContext \<Rightarrow> 'c \<Rightarrow> 'f \<Rightarrow> iref \<Rightarrow> ('l, 'f marshaler) x" where [gql_defs]:
  "field___Field_isDeprecated G ec ctx field obj =
     lib_ResolveField G ctx (OperationContext ec) field (\<lambda>ctx field. ret (fieldContext___Field_isDeprecated G field))
       (\<lambda>ctx. ret (Inr (AnyBool (Field_IsDeprecated (lib_introspection G) obj))))
       (at_type any_bool (marshalNBoolean2bool G)) True True"

definition field___Field_deprecationReason ::
  "('c, 'f, 's, 'l) gqlgen \<Rightarrow> 's executionContext \<Rightarrow> 'c \<Rightarrow> 'f \<Rightarrow> iref \<Rightarrow> ('l, 'f marshaler) x" where [gql_defs]:
  "field___Field_deprecationReason G ec ctx field obj =
     lib_ResolveField G ctx (OperationContext ec) field (\<lambda>ctx field. ret (fieldContext___Field_deprecationReason G field))
       (\<lambda>ctx. ret (Inr (AnyStringPtr (Field_DeprecationReason (lib_introspection G) obj))))
       (at_type any_string_ptr (marshalOString2string_ptr G)) True False"

definition field___Schema_description ::
  "('c, 'f, 's, 'l) gqlgen \<Rightarrow> 's executionContext \<Rightarrow> 'c \<Rightarrow> 'f \<Rightarrow> iref \<Rightarrow> ('l, 'f marshaler) x" where [gql_defs]:
  "field___Schema_description G ec ctx field obj =
     lib_ResolveField G ctx (OperationContext ec) field (\<lambda>ctx field. ret (fieldContext___Schema_description G field))
       (\<lambda>ctx. ret (Inr (AnyStringPtr (Schema_Description (lib_introspection G) obj))))
       (at_type any_string_ptr (marshalOString2string_ptr G)) True False"

definition marshalN__Type ::
  "('c \<Rightarrow> 's \<Rightarrow> iref \<Rightarrow> ('l, 'f marshaler) x) \<Rightarrow> ('c, 'f, 's, 'l) gqlgen \<Rightarrow> 's executionContext \<Rightarrow> 'c \<Rightarrow> 's \<Rightarrow> iref \<Rightarrow> ('l, 'f marshaler) x" where [gql_defs]:
  "marshalN__Type typ G ec ctx sel v = typ ctx sel v"

definition marshalN__Type_slice ::
  "('c \<Rightarrow> 's \<Rightarrow> iref \<Rightarrow> ('l, 'f marshaler) x) \<Rightarrow> ('c, 'f, 's, 'l) gqlgen \<Rightarrow> 's executionContext \<Rightarrow> 'c \<Rightarrow> 's \<Rightarrow> iref list option \<Rightarrow> ('l, 'f marshaler) x" where [gql_defs]:
  "marshalN__Type_slice typ G ec ctx sel v = marshal_slice G ctx (\<lambda>ctx. marshalN__Type typ G ec ctx sel) (slice_elements v)"

definition field___Schema_types ::
  "('c \<Rightarrow> 's \<Rightarrow> iref \<Rightarrow> ('l, 'f marshaler) x) \<Rightarrow> ('c, 'f, 's, 'l) gqlgen \<Rightarrow> 's executionContext \<Rightarrow> 'c \<Rightarrow> 'f \<Rightarrow> iref \<Rightarrow> ('l, 'f marshaler) x" where [gql_defs]:
  "field___Schema_types typ G ec ctx field obj =
     lib_ResolveField G ctx (OperationContext ec) field (\<lambda>ctx field. ret (fieldContext___Schema_types field))
       (\<lambda>ctx. ret (Inr (AnyTypes (Schema_Types (lib_introspection G) obj))))
       (at_type any_Types (marshalN__Type_slice typ G ec)) True True"

definition field___Schema_queryType ::
  "('c \<Rightarrow> 's \<Rightarrow> iref \<Rightarrow> ('l, 'f marshaler) x) \<Rightarrow> ('c, 'f, 's, 'l) gqlgen \<Rightarrow> 's executionContext \<Rightarrow> 'c \<Rightarrow> 'f \<Rightarrow> iref \<Rightarrow> ('l, 'f marshaler) x" where [gql_defs]:
  "field___Schema_queryType typ G ec ctx field obj =
     lib_ResolveField G ctx (OperationContext ec) field (\<lambda>ctx field. ret (fieldContext___Schema_queryType field))
       (\<lambda>ctx. ret (Inr (AnyType (Schema_QueryType (lib_introspection G) obj))))
       (at_type any_Type (marshalN__Type_ptr typ G ec)) True True"

definition marshalO__Type_ptr ::
  "('c \<Rightarrow> 's \<Rightarrow> iref \<Rightarrow> ('l, 'f marshaler) x) \<Rightarrow> ('c, 'f, 's, 'l) gqlgen \<Rightarrow> 's executionContext \<Rightarrow> 'c \<Rightarrow> 's \<Rightarrow> iref option \<Rightarrow> ('l, 'f marshaler) x" where [gql_defs]:
  "marshalO__Type_ptr typ G ec ctx sel v = (case v of
       None \<Rightarrow> ret MNull
     | Some obj \<Rightarrow> typ ctx sel obj)"

definition field___Schema_mutationType ::
  "('c \<Rightarrow> 's \<Rightarrow> iref \<Rightarrow> ('l, 'f marshaler) x) \<Rightarrow> ('c, 'f, 's, 'l) gqlgen \<Rightarrow> 's executionContext \<Rightarrow> 'c \<Rightarrow> 'f \<Rightarrow> iref \<Rightarrow> ('l, 'f marshaler) x" where [gql_defs]:
  "field___Schema_mutationType typ G ec ctx field obj =
     lib_ResolveField G ctx (OperationContext ec) field (\<lambda>ctx field. ret (fieldContext___Schema_mutationType field))
       (\<lambda>ctx. ret (Inr (AnyType (Schema_MutationType (lib_introspection G) obj))))
       (at_type any_Type (marshalO__Type_ptr typ G ec)) True False"

definition field___Schema_subscriptionType ::
  "('c \<Rightarrow> 's \<Rightarrow> iref \<Rightarrow> ('l, 'f marshaler) x) \<Rightarrow> ('c, 'f, 's, 'l) gqlgen \<Rightarrow> 's executionContext \<Rightarrow> 'c \<Rightarrow> 'f \<Rightarrow> iref \<Rightarrow> ('l, 'f marshaler) x" where [gql_defs]:
  "field___Schema_subscriptionType typ G ec ctx field obj =
     lib_ResolveField G ctx (OperationContext ec) field (\<lambda>ctx field. ret (fieldContext___Schema_subscriptionType field))
       (\<lambda>ctx. ret (Inr (AnyType (Schema_SubscriptionType (lib_introspection G) obj))))
       (at_type any_Type (marshalO__Type_ptr typ G ec)) True False"

definition exec___Directive ::
  "('c \<Rightarrow> 's \<Rightarrow> iref \<Rightarrow> ('l, 'f marshaler) x) \<Rightarrow> ('c, 'f, 's, 'l) gqlgen \<Rightarrow> 's executionContext \<Rightarrow> 'c \<Rightarrow> 's \<Rightarrow> iref \<Rightarrow> ('l, 'f marshaler) x" where [gql_defs]:
  "exec___Directive typ G ec ctx sel obj =
     exec_object G ec ctx sel ''__Directive'' (\<lambda>field.
       if lib_Name G field = ''__typename'' then optional (ret (lib_MarshalString G ''__Directive''))
       else if lib_Name G field = ''name'' then required (field___Directive_name G ec ctx field obj)
       else if lib_Name G field = ''description'' then optional (field___Directive_description G ec ctx field obj)
       else if lib_Name G field = ''isRepeatable'' then required (field___Directive_isRepeatable G ec ctx field obj)
       else if lib_Name G field = ''locations'' then required (field___Directive_locations G ec ctx field obj)
       else if lib_Name G field = ''args'' then required (field___Directive_args typ G ec ctx field obj)
       else unknown_field (lib_Name G field))"

definition marshalN__Directive ::
  "('c \<Rightarrow> 's \<Rightarrow> iref \<Rightarrow> ('l, 'f marshaler) x) \<Rightarrow> ('c, 'f, 's, 'l) gqlgen \<Rightarrow> 's executionContext \<Rightarrow> 'c \<Rightarrow> 's \<Rightarrow> iref \<Rightarrow> ('l, 'f marshaler) x" where [gql_defs]:
  "marshalN__Directive typ G ec ctx sel v = exec___Directive typ G ec ctx sel v"

definition marshalN__Directive_slice ::
  "('c \<Rightarrow> 's \<Rightarrow> iref \<Rightarrow> ('l, 'f marshaler) x) \<Rightarrow> ('c, 'f, 's, 'l) gqlgen \<Rightarrow> 's executionContext \<Rightarrow> 'c \<Rightarrow> 's \<Rightarrow> iref list option \<Rightarrow> ('l, 'f marshaler) x" where [gql_defs]:
  "marshalN__Directive_slice typ G ec ctx sel v = marshal_slice G ctx (\<lambda>ctx. marshalN__Directive typ G ec ctx sel) (slice_elements v)"

definition field___Schema_directives ::
  "('c \<Rightarrow> 's \<Rightarrow> iref \<Rightarrow> ('l, 'f marshaler) x) \<Rightarrow> ('c, 'f, 's, 'l) gqlgen \<Rightarrow> 's executionContext \<Rightarrow> 'c \<Rightarrow> 'f \<Rightarrow> iref \<Rightarrow> ('l, 'f marshaler) x" where [gql_defs]:
  "field___Schema_directives typ G ec ctx field obj =
     lib_ResolveField G ctx (OperationContext ec) field (\<lambda>ctx field. ret (fieldContext___Schema_directives field))
       (\<lambda>ctx. ret (Inr (AnyDirectives (Schema_Directives (lib_introspection G) obj))))
       (at_type any_Directives (marshalN__Directive_slice typ G ec)) True True"

definition field___Type_kind ::
  "('c, 'f, 's, 'l) gqlgen \<Rightarrow> 's executionContext \<Rightarrow> 'c \<Rightarrow> 'f \<Rightarrow> iref \<Rightarrow> ('l, 'f marshaler) x" where [gql_defs]:
  "field___Type_kind G ec ctx field obj =
     lib_ResolveField G ctx (OperationContext ec) field (\<lambda>ctx field. ret (fieldContext___Type_kind G field))
       (\<lambda>ctx. ret (Inr (AnyString (Type_Kind (lib_introspection G) obj))))
       (at_type any_string (marshalN__TypeKind2string G)) True True"

definition field___Type_name ::
  "('c, 'f, 's, 'l) gqlgen \<Rightarrow> 's executionContext \<Rightarrow> 'c \<Rightarrow> 'f \<Rightarrow> iref \<Rightarrow> ('l, 'f marshaler) x" where [gql_defs]:
  "field___Type_name G ec ctx field obj =
     lib_ResolveField G ctx (OperationContext ec) field (\<lambda>ctx field. ret (fieldContext___Type_name G field))
       (\<lambda>ctx. ret (Inr (AnyStringPtr (Type_Name (lib_introspection G) obj))))
       (at_type any_string_ptr (marshalOString2string_ptr G)) True False"

definition field___Type_description ::
  "('c, 'f, 's, 'l) gqlgen \<Rightarrow> 's executionContext \<Rightarrow> 'c \<Rightarrow> 'f \<Rightarrow> iref \<Rightarrow> ('l, 'f marshaler) x" where [gql_defs]:
  "field___Type_description G ec ctx field obj =
     lib_ResolveField G ctx (OperationContext ec) field (\<lambda>ctx field. ret (fieldContext___Type_description G field))
       (\<lambda>ctx. ret (Inr (AnyStringPtr (Type_Description (lib_introspection G) obj))))
       (at_type any_string_ptr (marshalOString2string_ptr G)) True False"

definition field___Type_specifiedByURL ::
  "('c, 'f, 's, 'l) gqlgen \<Rightarrow> 's executionContext \<Rightarrow> 'c \<Rightarrow> 'f \<Rightarrow> iref \<Rightarrow> ('l, 'f marshaler) x" where [gql_defs]:
  "field___Type_specifiedByURL G ec ctx field obj =
     lib_ResolveField G ctx (OperationContext ec) field (\<lambda>ctx field. ret (fieldContext___Type_specifiedByURL G field))
       (\<lambda>ctx. ret (Inr (AnyStringPtr (Type_SpecifiedByURL (lib_introspection G) obj))))
       (at_type any_string_ptr (marshalOString2string_ptr G)) True False"

definition exec___Field ::
  "('c \<Rightarrow> 's \<Rightarrow> iref \<Rightarrow> ('l, 'f marshaler) x) \<Rightarrow> ('c, 'f, 's, 'l) gqlgen \<Rightarrow> 's executionContext \<Rightarrow> 'c \<Rightarrow> 's \<Rightarrow> iref \<Rightarrow> ('l, 'f marshaler) x" where [gql_defs]:
  "exec___Field typ G ec ctx sel obj =
     exec_object G ec ctx sel ''__Field'' (\<lambda>field.
       if lib_Name G field = ''__typename'' then optional (ret (lib_MarshalString G ''__Field''))
       else if lib_Name G field = ''name'' then required (field___Field_name G ec ctx field obj)
       else if lib_Name G field = ''description'' then optional (field___Field_description G ec ctx field obj)
       else if lib_Name G field = ''args'' then required (field___Field_args typ G ec ctx field obj)
       else if lib_Name G field = ''type'' then required (field___Field_type typ G ec ctx field obj)
       else if lib_Name G field = ''isDeprecated'' then required (field___Field_isDeprecated G ec ctx field obj)
       else if lib_Name G field = ''deprecationReason'' then optional (field___Field_deprecationReason G ec ctx field obj)
       else unknown_field (lib_Name G field))"

definition marshalN__Field ::
  "('c \<Rightarrow> 's \<Rightarrow> iref \<Rightarrow> ('l, 'f marshaler) x) \<Rightarrow> ('c, 'f, 's, 'l) gqlgen \<Rightarrow> 's executionContext \<Rightarrow> 'c \<Rightarrow> 's \<Rightarrow> iref \<Rightarrow> ('l, 'f marshaler) x" where [gql_defs]:
  "marshalN__Field typ G ec ctx sel v = exec___Field typ G ec ctx sel v"

definition marshalO__Field_slice ::
  "('c \<Rightarrow> 's \<Rightarrow> iref \<Rightarrow> ('l, 'f marshaler) x) \<Rightarrow> ('c, 'f, 's, 'l) gqlgen \<Rightarrow> 's executionContext \<Rightarrow> 'c \<Rightarrow> 's \<Rightarrow> iref list option \<Rightarrow> ('l, 'f marshaler) x" where [gql_defs]:
  "marshalO__Field_slice typ G ec ctx sel v = (case v of
       None \<Rightarrow> ret MNull
     | Some vs \<Rightarrow> marshal_slice G ctx (\<lambda>ctx. marshalN__Field typ G ec ctx sel) vs)"

definition field___Type_fields ::
  "('c \<Rightarrow> 's \<Rightarrow> iref \<Rightarrow> ('l, 'f marshaler) x) \<Rightarrow> ('c, 'f, 's, 'l) gqlgen \<Rightarrow> 's executionContext \<Rightarrow> 'c \<Rightarrow> 'f \<Rightarrow> iref \<Rightarrow> ('l, 'f marshaler) x" where [gql_defs]:
  "field___Type_fields typ G ec ctx field obj =
     lib_ResolveField G ctx (OperationContext ec) field (\<lambda>ctx field. fieldContext___Type_fields G ec ctx field)
       (\<lambda>ctx. bindE (field_Arg G ctx ''includeDeprecated'' any_bool) (\<lambda>arg.
        ret (Inr (AnyFields (Type_Fields (lib_introspection G) obj arg)))))
       (at_type any_Fields (marshalO__Field_slice typ G ec)) True False"

definition marshalO__Type_slice ::
  "('c \<Rightarrow> 's \<Rightarrow> iref \<Rightarrow> ('l, 'f marshaler) x) \<Rightarrow> ('c, 'f, 's, 'l) gqlgen \<Rightarrow> 's executionContext \<Rightarrow> 'c \<Rightarrow> 's \<Rightarrow> iref list option \<Rightarrow> ('l, 'f marshaler) x" where [gql_defs]:
  "marshalO__Type_slice typ G ec ctx sel v = (case v of
       None \<Rightarrow> ret MNull
     | Some vs \<Rightarrow> marshal_slice G ctx (\<lambda>ctx. marshalN__Type typ G ec ctx sel) vs)"

definition field___Type_interfaces ::
  "('c \<Rightarrow> 's \<Rightarrow> iref \<Rightarrow> ('l, 'f marshaler) x) \<Rightarrow> ('c, 'f, 's, 'l) gqlgen \<Rightarrow> 's executionContext \<Rightarrow> 'c \<Rightarrow> 'f \<Rightarrow> iref \<Rightarrow> ('l, 'f marshaler) x" where [gql_defs]:
  "field___Type_interfaces typ G ec ctx field obj =
     lib_ResolveField G ctx (OperationContext ec) field (\<lambda>ctx field. ret (fieldContext___Type_interfaces field))
       (\<lambda>ctx. ret (Inr (AnyTypes (Type_Interfaces (lib_introspection G) obj))))
       (at_type any_Types (marshalO__Type_slice typ G ec)) True False"

definition field___Type_possibleTypes ::
  "('c \<Rightarrow> 's \<Rightarrow> iref \<Rightarrow> ('l, 'f marshaler) x) \<Rightarrow> ('c, 'f, 's, 'l) gqlgen \<Rightarrow> 's executionContext \<Rightarrow> 'c \<Rightarrow> 'f \<Rightarrow> iref \<Rightarrow> ('l, 'f marshaler) x" where [gql_defs]:
  "field___Type_possibleTypes typ G ec ctx field obj =
     lib_ResolveField G ctx (OperationContext ec) field (\<lambda>ctx field. ret (fieldContext___Type_possibleTypes field))
       (\<lambda>ctx. ret (Inr (AnyTypes (Type_PossibleTypes (lib_introspection G) obj))))
       (at_type any_Types (marshalO__Type_slice typ G ec)) True False"

definition exec___EnumValue ::
  "('c, 'f, 's, 'l) gqlgen \<Rightarrow> 's executionContext \<Rightarrow> 'c \<Rightarrow> 's \<Rightarrow> iref \<Rightarrow> ('l, 'f marshaler) x" where [gql_defs]:
  "exec___EnumValue G ec ctx sel obj =
     exec_object G ec ctx sel ''__EnumValue'' (\<lambda>field.
       if lib_Name G field = ''__typename'' then optional (ret (lib_MarshalString G ''__EnumValue''))
       else if lib_Name G field = ''name'' then required (field___EnumValue_name G ec ctx field obj)
       else if lib_Name G field = ''description'' then optional (field___EnumValue_description G ec ctx field obj)
       else if lib_Name G field = ''isDeprecated'' then required (field___EnumValue_isDeprecated G ec ctx field obj)
       else if lib_Name G field = ''deprecationReason'' then optional (field___EnumValue_deprecationReason G ec ctx field obj)
       else unknown_field (lib_Name G field))"

definition marshalN__EnumValue ::
  "('c, 'f, 's, 'l) gqlgen \<Rightarrow> 's executionContext \<Rightarrow> 'c \<Rightarrow> 's \<Rightarrow> iref \<Rightarrow> ('l, 'f marshaler) x" where [gql_defs]:
  "marshalN__EnumValue G ec ctx sel v = exec___EnumValue G ec ctx sel v"

definition marshalO__EnumValue_slice ::
  "('c, 'f, 's, 'l) gqlgen \<Rightarrow> 's executionContext \<Rightarrow> 'c \<Rightarrow> 's \<Rightarrow> iref list option \<Rightarrow> ('l, 'f marshaler) x" where [gql_defs]:
  "marshalO__EnumValue_slice G ec ctx sel v = (case v of
       None \<Rightarrow> ret MNull
     | Some vs \<Rightarrow> marshal_slice G ctx (\<lambda>ctx. marshalN__EnumValue G ec ctx sel) vs)"

definition field___Type_enumValues ::
  "('c, 'f, 's, 'l) gqlgen \<Rightarrow> 's executionContext \<Rightarrow> 'c \<Rightarrow> 'f \<Rightarrow> iref \<Rightarrow> ('l, 'f marshaler) x" where [gql_defs]:
  "field___Type_enumValues G ec ctx field obj =
     lib_ResolveField G ctx (OperationContext ec) field (\<lambda>ctx field. fieldContext___Type_enumValues G ec ctx field)
       (\<lambda>ctx. bindE (field_Arg G ctx ''includeDeprecated'' any_bool) (\<lambda>arg.
        ret (Inr (AnyEnumValues (Type_EnumValues (lib_introspection G) obj arg)))))
       (at_type any_EnumValues (marshalO__EnumValue_slice G ec)) True False"

definition marshalO__InputValue_slice ::
  "('c \<Rightarrow> 's \<Rightarrow> iref \<Rightarrow> ('l, 'f marshaler) x) \<Rightarrow> ('c, 'f, 's, 'l) gqlgen \<Rightarrow> 's executionContext \<Rightarrow> 'c \<Rightarrow> 's \<Rightarrow> iref list option \<Rightarrow> ('l, 'f marshaler) x" where [gql_defs]:
  "marshalO__InputValue_slice typ G ec ctx sel v = (case v of
       None \<Rightarrow> ret MNull
     | Some vs \<Rightarrow> marshal_slice G ctx (\<lambda>ctx. marshalN__InputValue typ G ec ctx sel) vs)"

definition field___Type_inputFields ::
  "('c \<Rightarrow> 's \<Rightarrow> iref \<Rightarrow> ('l, 'f marshaler) x) \<Rightarrow> ('c, 'f, 's, 'l) gqlgen \<Rightarrow> 's executionContext \<Rightarrow> 'c \<Rightarrow> 'f \<Rightarrow> iref \<Rightarrow> ('l, 'f marshaler) x" where [gql_defs]:
  "field___Type_inputFields typ G ec ctx field obj =
     lib_ResolveField G ctx (OperationContext ec) field (\<lambda>ctx field. ret (fieldContext___Type_inputFields field))
       (\<lambda>ctx. ret (Inr (AnyInputValues (Type_InputFields (lib_introspection G) obj))))
       (at_type any_InputValues (marshalO__InputValue_slice typ G ec)) True False"

definition field___Type_ofType ::
  "('c \<Rightarrow> 's \<Rightarrow> iref \<Rightarrow> ('l, 'f marshaler) x) \<Rightarrow> ('c, 'f, 's, 'l) gqlgen \<Rightarrow> 's executionContext \<Rightarrow> 'c \<Rightarrow> 'f \<Rightarrow> iref \<Rightarrow> ('l, 'f marshaler) x" where [gql_defs]:
  "field___Type_ofType typ G ec ctx field obj =
     lib_ResolveField G ctx (OperationContext ec) field (\<lambda>ctx field. ret (fieldContext___Type_ofType field))
       (\<lambda>ctx. ret (Inr (AnyType (Type_OfType (lib_introspection G) obj))))
       (at_type any_Type (marshalO__Type_ptr typ G ec)) True False"

definition field___Type_isOneOf ::
  "('c, 'f, 's, 'l) gqlgen \<Rightarrow> 's executionContext \<Rightarrow> 'c \<Rightarrow> 'f \<Rightarrow> iref \<Rightarrow> ('l, 'f marshaler) x" where [gql_defs]:
  "field___Type_isOneOf G ec ctx field obj =
     lib_ResolveField G ctx (OperationContext ec) field (\<lambda>ctx field. ret (fieldContext___Type_isOneOf G field))
       (\<lambda>ctx. ret (Inr (AnyBool (Type_IsOneOf (lib_introspection G) obj))))
       (at_type any_bool (marshalOBoolean2bool G)) True False"

definition exec___Schema ::
  "('c \<Rightarrow> 's \<Rightarrow> iref \<Rightarrow> ('l, 'f marshaler) x) \<Rightarrow> ('c, 'f, 's, 'l) gqlgen \<Rightarrow> 's executionContext \<Rightarrow> 'c \<Rightarrow> 's \<Rightarrow> iref \<Rightarrow> ('l, 'f marshaler) x" where [gql_defs]:
  "exec___Schema typ G ec ctx sel obj =
     exec_object G ec ctx sel ''__Schema'' (\<lambda>field.
       if lib_Name G field = ''__typename'' then optional (ret (lib_MarshalString G ''__Schema''))
       else if lib_Name G field = ''description'' then optional (field___Schema_description G ec ctx field obj)
       else if lib_Name G field = ''types'' then required (field___Schema_types typ G ec ctx field obj)
       else if lib_Name G field = ''queryType'' then required (field___Schema_queryType typ G ec ctx field obj)
       else if lib_Name G field = ''mutationType'' then optional (field___Schema_mutationType typ G ec ctx field obj)
       else if lib_Name G field = ''subscriptionType'' then optional (field___Schema_subscriptionType typ G ec ctx field obj)
       else if lib_Name G field = ''directives'' then required (field___Schema_directives typ G ec ctx field obj)
       else unknown_field (lib_Name G field))"

definition marshalO__Schema_ptr ::
  "('c \<Rightarrow> 's \<Rightarrow> iref \<Rightarrow> ('l, 'f marshaler) x) \<Rightarrow> ('c, 'f, 's, 'l) gqlgen \<Rightarrow> 's executionContext \<Rightarrow> 'c \<Rightarrow> 's \<Rightarrow> iref option \<Rightarrow> ('l, 'f marshaler) x" where [gql_defs]:
  "marshalO__Schema_ptr typ G ec ctx sel v = (case v of
       None \<Rightarrow> ret MNull
     | Some obj \<Rightarrow> exec___Schema typ G ec ctx sel obj)"

definition type_object ::
  "('c \<Rightarrow> 's \<Rightarrow> iref \<Rightarrow> ('l, 'f marshaler) x) \<Rightarrow> ('c, 'f, 's, 'l) gqlgen \<Rightarrow> 's executionContext \<Rightarrow> 'c \<Rightarrow> 's \<Rightarrow> iref \<Rightarrow> ('l, 'f marshaler) x" where [gql_defs]:
  "type_object typ G ec ctx sel obj =
     exec_object G ec ctx sel ''__Type'' (\<lambda>field.
       if lib_Name G field = ''__typename'' then optional (ret (lib_MarshalString G ''__Type''))
       else if lib_Name G field = ''kind'' then required (field___Type_kind G ec ctx field obj)
       else if lib_Name G field = ''name'' then optional (field___Type_name G ec ctx field obj)
       else if lib_Name G field = ''description'' then optional (field___Type_description G ec ctx field obj)
       else if lib_Name G field = ''specifiedByURL'' then optional (field___Type_specifiedByURL G ec ctx field obj)
       else if lib_Name G field = ''fields'' then optional (field___Type_fields typ G ec ctx field obj)
       else if lib_Name G field = ''interfaces'' then optional (field___Type_interfaces typ G ec ctx field obj)
       else if lib_Name G field = ''possibleTypes'' then optional (field___Type_possibleTypes typ G ec ctx field obj)
       else if lib_Name G field = ''enumValues'' then optional (field___Type_enumValues G ec ctx field obj)
       else if lib_Name G field = ''inputFields'' then optional (field___Type_inputFields typ G ec ctx field obj)
       else if lib_Name G field = ''ofType'' then optional (field___Type_ofType typ G ec ctx field obj)
       else if lib_Name G field = ''isOneOf'' then optional (field___Type_isOneOf G ec ctx field obj)
       else unknown_field (lib_Name G field))"

primrec exec___Type ::
  "nat \<Rightarrow> ('c, 'f, 's, 'l) gqlgen \<Rightarrow> 's executionContext \<Rightarrow> 'c \<Rightarrow> 's \<Rightarrow> iref \<Rightarrow> ('l, 'f marshaler) x" where
  "exec___Type 0 G ec ctx sel obj = raise (External ''stack overflow'')"
| "exec___Type (Suc n) G ec ctx sel obj = type_object (exec___Type n G ec) G ec ctx sel obj"

end
