(* ===== verification/Gql_Exec.thy ===== *)
theory Gql_Exec
  imports Gql_Introspection
begin

text \<open>
  The root objects and the entry points of \<open>graph/generated/generated.go\<close>: \<open>exec_Mutation\<close> runs the fields of a
  mutation one after the other, \<open>exec_Query\<close> hands those of a query to the library to be run concurrently,
  \<open>Exec\<close> makes the response handler of an operation and \<open>Complexity\<close> is what the library asks for the cost
  of a field.
\<close>

section \<open>Root fields\<close>

definition field_Mutation_SubmitTask ::
  "('c, 'f, 's, 'l) gqlgen \<Rightarrow> 's executionContext \<Rightarrow> 'c \<Rightarrow> 'f \<Rightarrow> ('l, 'f marshaler) x" where [gql_defs]:
  "field_Mutation_SubmitTask G ec ctx field =
     lib_ResolveField G ctx (OperationContext ec) field (\<lambda>ctx field. fieldContext_Mutation_SubmitTask G ec ctx field)
       (\<lambda>ctx.
        bindE (field_Arg G ctx ''input'' any_SubmitTaskInput) (\<lambda>input.
        mapR (map_sum id AnySubmitTaskResponse) (in_world (Mutation_SubmitTask (Resolvers ec) input))))
       (at_type any_SubmitTaskResponse (marshalNSubmitTaskResponse_ptr G ec)) True True"

definition field_Mutation_CancelTask ::
  "('c, 'f, 's, 'l) gqlgen \<Rightarrow> 's executionContext \<Rightarrow> 'c \<Rightarrow> 'f \<Rightarrow> ('l, 'f marshaler) x" where [gql_defs]:
  "field_Mutation_CancelTask G ec ctx field =
     lib_ResolveField G ctx (OperationContext ec) field (\<lambda>ctx field. fieldContext_Mutation_CancelTask G ec ctx field)
       (\<lambda>ctx.
        bindE (field_Arg G ctx ''tenant_name'' any_string) (\<lambda>tenant_name.
        bindE (field_Arg G ctx ''task_id'' any_UUID) (\<lambda>task_id.
        mapR (map_sum id AnyCancelTaskPayload) (in_world (Mutation_CancelTask (Resolvers ec) tenant_name task_id)))))
       (at_type any_CancelTaskPayload (marshalNCancelTaskPayload_ptr G ec)) True True"

definition field_Mutation_CreateTenant ::
  "('c, 'f, 's, 'l) gqlgen \<Rightarrow> 's executionContext \<Rightarrow> 'c \<Rightarrow> 'f \<Rightarrow> ('l, 'f marshaler) x" where [gql_defs]:
  "field_Mutation_CreateTenant G ec ctx field =
     lib_ResolveField G ctx (OperationContext ec) field (\<lambda>ctx field. fieldContext_Mutation_CreateTenant G ec ctx field)
       (\<lambda>ctx.
        bindE (field_Arg G ctx ''input'' any_CreateTenantInput) (\<lambda>input.
        mapR (map_sum id AnyTenant) (in_world (Mutation_CreateTenant (Resolvers ec) input))))
       (at_type any_Tenant (marshalNTenant_ptr G ec)) True True"

definition field_Query_GetTaskByID ::
  "('c, 'f, 's, 'l) gqlgen \<Rightarrow> 's executionContext \<Rightarrow> 'c \<Rightarrow> 'f \<Rightarrow> ('l, 'f marshaler) x" where [gql_defs]:
  "field_Query_GetTaskByID G ec ctx field =
     lib_ResolveField G ctx (OperationContext ec) field (\<lambda>ctx field. fieldContext_Query_GetTaskByID G ec ctx field)
       (\<lambda>ctx.
        bindE (field_Arg G ctx ''tenant_name'' any_string) (\<lambda>tenant_name.
        bindE (field_Arg G ctx ''task_id'' any_UUID) (\<lambda>task_id.
        mapR (map_sum id AnyTask) (in_world (Query_GetTaskByID (Resolvers ec) tenant_name task_id)))))
       (at_type any_Task (marshalNTask_ptr G ec)) True True"

definition field_Query_GetTaskList ::
  "('c, 'f, 's, 'l) gqlgen \<Rightarrow> 's executionContext \<Rightarrow> 'c \<Rightarrow> 'f \<Rightarrow> ('l, 'f marshaler) x" where [gql_defs]:
  "field_Query_GetTaskList G ec ctx field =
     lib_ResolveField G ctx (OperationContext ec) field (\<lambda>ctx field. fieldContext_Query_GetTaskList G ec ctx field)
       (\<lambda>ctx.
        bindE (field_Arg G ctx ''tenant_name'' any_string) (\<lambda>tenant_name.
        bindE (field_Arg G ctx ''status'' any_string_ptr) (\<lambda>status.
        mapR (map_sum id AnyTasks) (in_world (Query_GetTaskList (Resolvers ec) tenant_name status)))))
       (at_type any_Tasks (marshalNTask_slice G ec)) True True"

definition field_Query___type ::
  "('c \<Rightarrow> 's \<Rightarrow> iref \<Rightarrow> ('l, 'f marshaler) x) \<Rightarrow> ('c, 'f, 's, 'l) gqlgen \<Rightarrow> 's executionContext \<Rightarrow> 'c \<Rightarrow> 'f \<Rightarrow> ('l, 'f marshaler) x" where [gql_defs]:
  "field_Query___type typ G ec ctx field =
     lib_ResolveField G ctx (OperationContext ec) field (\<lambda>ctx field. fieldContext_Query___type G ec ctx field)
       (\<lambda>ctx. bindE (field_Arg G ctx ''name'' any_string) (\<lambda>name.
        ret (map_sum id AnyType (IntrospectType (lib_introspection G) name))))
       (at_type any_Type (marshalO__Type_ptr typ G ec)) True False"

definition field_Query___schema ::
  "('c \<Rightarrow> 's \<Rightarrow> iref \<Rightarrow> ('l, 'f marshaler) x) \<Rightarrow> ('c, 'f, 's, 'l) gqlgen \<Rightarrow> 's executionContext \<Rightarrow> 'c \<Rightarrow> 'f \<Rightarrow> ('l, 'f marshaler) x" where [gql_defs]:
  "field_Query___schema typ G ec ctx field =
     lib_ResolveField G ctx (OperationContext ec) field (\<lambda>ctx field. ret (fieldContext_Query___schema field))
       (\<lambda>ctx. ret (map_sum id AnySchema (IntrospectSchema (lib_introspection G))))
       (at_type any_Schema (marshalO__Schema_ptr typ G ec)) True False"

section \<open>Root objects\<close>

definition root_context :: "string \<Rightarrow> 'f field_context" where
  "root_context name =
     \<lparr>fc_Object = name, fc_Field = None, fc_IsMethod = False, fc_IsResolver = False, fc_Child = None, fc_Args = Map.empty\<rparr>"

definition exec_Mutation ::
  "('c, 'f, 's, 'l) gqlgen \<Rightarrow> 's executionContext \<Rightarrow> 'c \<Rightarrow> 's \<Rightarrow> ('l, 'f marshaler) x" where
  "exec_Mutation G ec ctx sel =
     (let ctx = lib_WithFieldContext G ctx (root_context ''Mutation'') in
      exec_object G ec ctx sel ''Mutation'' (\<lambda>field.
        let innerCtx = lib_WithRootFieldContext G ctx (lib_Name G field) field in
        if lib_Name G field = ''__typename'' then optional (ret (lib_MarshalString G ''Mutation''))
        else if lib_Name G field = ''SubmitTask'' then
          required (lib_RootResolverMiddleware G innerCtx (\<lambda>ctx. field_Mutation_SubmitTask G ec ctx field))
        else if lib_Name G field = ''CancelTask'' then
          required (lib_RootResolverMiddleware G innerCtx (\<lambda>ctx. field_Mutation_CancelTask G ec ctx field))
        else if lib_Name G field = ''CreateTenant'' then
          required (lib_RootResolverMiddleware G innerCtx (\<lambda>ctx. field_Mutation_CreateTenant G ec ctx field))
        else unknown_field (lib_Name G field)))"

text \<open>
  A field of a query is either evaluated at once or delayed. A delayed field is wrapped in a
  recover and counts itself as invalid in the field set that the goroutines share.
\<close>

definition innerFunc ::
  "('c, 'f, 's, 'l) gqlgen \<Rightarrow> 'c \<Rightarrow> ('l, 'f marshaler) x \<Rightarrow> ('l, 'f marshaler) x" where
  "innerFunc G ctx m =
     recovering
       (bindE m (\<lambda>res.
        if is_Null res then bindE (modifyE (\<lambda>s. s\<lparr>ex_Invalids := ex_Invalids s + 1\<rparr>)) (\<lambda>_. ret res)
        else ret res))
       (\<lambda>p. bindE (ec_Error G ctx (lib_Recover G ctx p)) (\<lambda>_. ret MNil))"

definition query_field ::
  "('c, 'f, 's, 'l) gqlgen \<Rightarrow> 's executionContext \<Rightarrow> 'c \<Rightarrow> 'f \<Rightarrow>
   ('l, 'f marshaler + ('c \<Rightarrow> ('l, 'f marshaler) x)) x" where
  "query_field G ec ctx field =
     (let innerCtx = lib_WithRootFieldContext G ctx (lib_Name G field) field;
          typ = exec___Type (StackDepth ec) G ec in
      if lib_Name G field = ''__typename'' then ret (Inl (lib_MarshalString G ''Query''))
      else if lib_Name G field = ''GetTaskByID'' then
        ret (Inr (\<lambda>_. lib_RootResolverMiddleware G innerCtx (\<lambda>ctx. innerFunc G ctx (field_Query_GetTaskByID G ec ctx field))))
      else if lib_Name G field = ''GetTaskList'' then
        ret (Inr (\<lambda>_. lib_RootResolverMiddleware G innerCtx (\<lambda>ctx. innerFunc G ctx (field_Query_GetTaskList G ec ctx field))))
      else if lib_Name G field = ''__type'' then
        mapR Inl (lib_RootResolverMiddleware G innerCtx (\<lambda>ctx. field_Query___type typ G ec ctx field))
      else if lib_Name G field = ''__schema'' then
        mapR Inl (lib_RootResolverMiddleware G innerCtx (\<lambda>ctx. field_Query___schema typ G ec ctx field))
      else unknown_field (lib_Name G field))"

primrec query_fields ::
  "('f \<Rightarrow> ('l, 'f marshaler + ('c \<Rightarrow> ('l, 'f marshaler) x)) x) \<Rightarrow> 'f list \<Rightarrow>
   ('l, ('f marshaler + ('c \<Rightarrow> ('l, 'f marshaler) x)) list) x" where
  "query_fields f [] = ret []"
| "query_fields f (field # rest) = bindE (f field) (\<lambda>v. bindE (query_fields f rest) (\<lambda>vs. ret (v # vs)))"

text \<open>The values set in the loop, nil for a delayed field, and the delayed functions by index.\<close>

definition slot_values :: "('f marshaler + 'd) list \<Rightarrow> 'f marshaler list" where
  "slot_values slots = map (case_sum id (\<lambda>_. MNil)) slots"

definition slot_delayed :: "('v + 'd) list \<Rightarrow> (nat \<times> 'd) list" where
  "slot_delayed slots = concat (map (\<lambda>(i, v). case v of Inl _ \<Rightarrow> [] | Inr d \<Rightarrow> [(i, d)]) (enumerate 0 slots))"

definition exec_Query ::
  "('c, 'f, 's, 'l) gqlgen \<Rightarrow> 's executionContext \<Rightarrow> 'c \<Rightarrow> 's \<Rightarrow> ('l, 'f marshaler) x" where
  "exec_Query G ec ctx sel =
     (let fields = lib_CollectFields G (OperationContext ec) sel [''Query''];
          ctx = lib_WithFieldContext G ctx (root_context ''Query'') in
      bindE (modifyE (\<lambda>s. s\<lparr>ex_Invalids := 0\<rparr>)) (\<lambda>_.
      bindE (query_fields (query_field G ec ctx) fields) (\<lambda>slots.
      bindE (lib_Dispatch G ctx (slot_delayed slots)) (\<lambda>stored.
      bindE (getsE ex_Invalids) (\<lambda>Invalids.
      if 0 < Invalids then ret MNull
      else bindE (process_deferred G ctx []) (\<lambda>_.
        ret (MFieldSet fields (store_values stored (slot_values slots)))))))))"

section \<open>The schema and its complexity functions\<close>

record ComplexityRoot =
  cx_CancelTaskPayload_Status :: "(int \<Rightarrow> int) option"
  cx_CancelTaskPayload_TaskID :: "(int \<Rightarrow> int) option"
  cx_Mutation_CancelTask :: "(int \<Rightarrow> string \<Rightarrow> uuid \<Rightarrow> int) option"
  cx_Mutation_CreateTenant :: "(int \<Rightarrow> CreateTenantInput \<Rightarrow> int) option"
  cx_Mutation_SubmitTask :: "(int \<Rightarrow> SubmitTaskInput \<Rightarrow> int) option"
  cx_Query_GetTaskByID :: "(int \<Rightarrow> string \<Rightarrow> uuid \<Rightarrow> int) option"
  cx_Query_GetTaskList :: "(int \<Rightarrow> string \<Rightarrow> string option \<Rightarrow> int) option"
  cx_SubmitTaskResponse_TaskID :: "(int \<Rightarrow> int) option"
  cx_Task_CreatedAt :: "(int \<Rightarrow> int) option"
  cx_Task_FinishedAt :: "(int \<Rightarrow> int) option"
  cx_Task_ID :: "(int \<Rightarrow> int) option"
  cx_Task_LastError :: "(int \<Rightarrow> int) option"
  cx_Task_ShardCount :: "(int \<Rightarrow> int) option"
  cx_Task_Shards :: "(int \<Rightarrow> int) option"
  cx_Task_StartedAt :: "(int \<Rightarrow> int) option"
  cx_Task_Status :: "(int \<Rightarrow> int) option"
  cx_TaskShard_FinishedAt :: "(int \<Rightarrow> int) option"
  cx_TaskShard_ID :: "(int \<Rightarrow> int) option"
  cx_TaskShard_LastError :: "(int \<Rightarrow> int) option"
  cx_TaskShard_OutputOssKey :: "(int \<Rightarrow> int) option"
  cx_TaskShard_OutputSha256 :: "(int \<Rightarrow> int) option"
  cx_TaskShard_ScriptName :: "(int \<Rightarrow> int) option"
  cx_TaskShard_StartedAt :: "(int \<Rightarrow> int) option"
  cx_TaskShard_Status :: "(int \<Rightarrow> int) option"
  cx_Tenant_ID :: "(int \<Rightarrow> int) option"
  cx_Tenant_MaxAgents :: "(int \<Rightarrow> int) option"
  cx_Tenant_Name :: "(int \<Rightarrow> int) option"
  cx_Tenant_PrimaryBackendName :: "(int \<Rightarrow> int) option"

definition zero_ComplexityRoot :: ComplexityRoot where
  "zero_ComplexityRoot =
     \<lparr>cx_CancelTaskPayload_Status = None, cx_CancelTaskPayload_TaskID = None, cx_Mutation_CancelTask = None,
      cx_Mutation_CreateTenant = None, cx_Mutation_SubmitTask = None, cx_Query_GetTaskByID = None,
      cx_Query_GetTaskList = None, cx_SubmitTaskResponse_TaskID = None, cx_Task_CreatedAt = None,
      cx_Task_FinishedAt = None, cx_Task_ID = None, cx_Task_LastError = None,
      cx_Task_ShardCount = None, cx_Task_Shards = None, cx_Task_StartedAt = None,
      cx_Task_Status = None, cx_TaskShard_FinishedAt = None, cx_TaskShard_ID = None,
      cx_TaskShard_LastError = None, cx_TaskShard_OutputOssKey = None, cx_TaskShard_OutputSha256 = None,
      cx_TaskShard_ScriptName = None, cx_TaskShard_StartedAt = None, cx_TaskShard_Status = None,
      cx_Tenant_ID = None, cx_Tenant_MaxAgents = None, cx_Tenant_Name = None,
      cx_Tenant_PrimaryBackendName = None\<rparr>"

text \<open>The configuration of a schema and the executable schema; the type of directives is empty.\<close>

record 'schema gql_Config =
  gc_Schema :: "'schema option"
  gc_Resolvers :: ResolverRoot
  gc_Complexity :: ComplexityRoot

record 'schema executableSchema =
  es_SchemaData :: "'schema option"
  es_Resolvers :: ResolverRoot
  es_ComplexityRoot :: ComplexityRoot

definition NewExecutableSchema :: "'schema gql_Config \<Rightarrow> 'schema executableSchema" where
  "NewExecutableSchema cfg =
     \<lparr>es_SchemaData = gc_Schema cfg, es_Resolvers = gc_Resolvers cfg, es_ComplexityRoot = gc_Complexity cfg\<rparr>"

text \<open>\<open>parsedSchema\<close> is what \<open>gqlparser\<close> makes of the schema files.\<close>

definition executableSchema_Schema :: "'schema \<Rightarrow> 'schema executableSchema \<Rightarrow> 'schema" where
  "executableSchema_Schema parsedSchema e = (case es_SchemaData e of Some d \<Rightarrow> d | None \<Rightarrow> parsedSchema)"

definition simple_complexity :: "int \<Rightarrow> (int \<Rightarrow> int) option \<Rightarrow> ('l, int \<times> bool) x" where
  "simple_complexity childComplexity f = ret (case f of None \<Rightarrow> (0, False) | Some f \<Rightarrow> (f childComplexity, True))"

definition with_args :: "('l, error + any_map) x \<Rightarrow> (any_map \<Rightarrow> ('l, int \<times> bool) x) \<Rightarrow> ('l, int \<times> bool) x" where
  "with_args m f = bindE m (\<lambda>r. case r of Inl err \<Rightarrow> ret (0, False) | Inr args \<Rightarrow> f args)"

definition Complexity ::
  "('c, 'f, 's, 'l) gqlgen \<Rightarrow> 'schema executableSchema \<Rightarrow> 'c \<Rightarrow> string \<Rightarrow> string \<Rightarrow> int \<Rightarrow> any_map \<Rightarrow> ('l, int \<times> bool) x" where
  "Complexity G e ctx typeName field childComplexity rawArgs =
     (let key = typeName @ ''.'' @ field; root = es_ComplexityRoot e in
      if key = ''CancelTaskPayload.status'' then
        simple_complexity childComplexity (cx_CancelTaskPayload_Status root)
      else if key = ''CancelTaskPayload.task_id'' then
        simple_complexity childComplexity (cx_CancelTaskPayload_TaskID root)
      else if key = ''Mutation.CancelTask'' then
        (case cx_Mutation_CancelTask root of None \<Rightarrow> ret (0, False) | Some f \<Rightarrow>
        with_args (field_Mutation_CancelTask_args G ctx rawArgs) (\<lambda>args.
          bindE (assert_type any_string (args ''tenant_name'')) (\<lambda>tenant_name.
          bindE (assert_type any_UUID (args ''task_id'')) (\<lambda>task_id.
          ret (f childComplexity tenant_name task_id, True)))))
      else if key = ''Mutation.CreateTenant'' then
        (case cx_Mutation_CreateTenant root of None \<Rightarrow> ret (0, False) | Some f \<Rightarrow>
        with_args (field_Mutation_CreateTenant_args G ctx rawArgs) (\<lambda>args.
          bindE (assert_type any_CreateTenantInput (args ''input'')) (\<lambda>input.
          ret (f childComplexity input, True))))
      else if key = ''Mutation.SubmitTask'' then
        (case cx_Mutation_SubmitTask root of None \<Rightarrow> ret (0, False) | Some f \<Rightarrow>
        with_args (field_Mutation_SubmitTask_args G ctx rawArgs) (\<lambda>args.
          bindE (assert_type any_SubmitTaskInput (args ''input'')) (\<lambda>input.
          ret (f childComplexity input, True))))
      else if key = ''Query.GetTaskByID'' then
        (case cx_Query_GetTaskByID root of None \<Rightarrow> ret (0, False) | Some f \<Rightarrow>
        with_args (field_Query_GetTaskByID_args G ctx rawArgs) (\<lambda>args.
          bindE (assert_type any_string (args ''tenant_name'')) (\<lambda>tenant_name.
          bindE (assert_type any_UUID (args ''task_id'')) (\<lambda>task_id.
          ret (f childComplexity tenant_name task_id, True)))))
      else if key = ''Query.GetTaskList'' then
        (case cx_Query_GetTaskList root of None \<Rightarrow> ret (0, False) | Some f \<Rightarrow>
        with_args (field_Query_GetTaskList_args G ctx rawArgs) (\<lambda>args.
          bindE (assert_type any_string (args ''tenant_name'')) (\<lambda>tenant_name.
          bindE (assert_type any_string_ptr (args ''status'')) (\<lambda>status.
          ret (f childComplexity tenant_name status, True)))))
      else if key = ''SubmitTaskResponse.task_id'' then
        simple_complexity childComplexity (cx_SubmitTaskResponse_TaskID root)
      else if key = ''Task.created_at'' then
        simple_complexity childComplexity (cx_Task_CreatedAt root)
      else if key = ''Task.finished_at'' then
        simple_complexity childComplexity (cx_Task_FinishedAt root)
      else if key = ''Task.id'' then
        simple_complexity childComplexity (cx_Task_ID root)
      else if key = ''Task.last_error'' then
        simple_complexity childComplexity (cx_Task_LastError root)
      else if key = ''Task.shard_count'' then
        simple_complexity childComplexity (cx_Task_ShardCount root)
      else if key = ''Task.shards'' then
        simple_complexity childComplexity (cx_Task_Shards root)
      else if key = ''Task.started_at'' then
        simple_complexity childComplexity (cx_Task_StartedAt root)
      else if key = ''Task.status'' then
        simple_complexity childComplexity (cx_Task_Status root)
      else if key = ''TaskShard.finished_at'' then
        simple_complexity childComplexity (cx_TaskShard_FinishedAt root)
      else if key = ''TaskShard.id'' then
        simple_complexity childComplexity (cx_TaskShard_ID root)
      else if key = ''TaskShard.last_error'' then
        simple_complexity childComplexity (cx_TaskShard_LastError root)
      else if key = ''TaskShard.output_oss_key'' then
        simple_complexity childComplexity (cx_TaskShard_OutputOssKey root)
      else if key = ''TaskShard.output_sha256'' then
        simple_complexity childComplexity (cx_TaskShard_OutputSha256 root)
      else if key = ''TaskShard.script_name'' then
        simple_complexity childComplexity (cx_TaskShard_ScriptName root)
      else if key = ''TaskShard.started_at'' then
        simple_complexity childComplexity (cx_TaskShard_StartedAt root)
      else if key = ''TaskShard.status'' then
        simple_complexity childComplexity (cx_TaskShard_Status root)
      else if key = ''Tenant.id'' then
        simple_complexity childComplexity (cx_Tenant_ID root)
      else if key = ''Tenant.max_agents'' then
        simple_complexity childComplexity (cx_Tenant_MaxAgents root)
      else if key = ''Tenant.name'' then
        simple_complexity childComplexity (cx_Tenant_Name root)
      else if key = ''Tenant.primary_backend_name'' then
        simple_complexity childComplexity (cx_Tenant_PrimaryBackendName root)
      else ret (0, False))"

section \<open>Execution\<close>

definition newExecutionContext :: "nat \<Rightarrow> 's operation_context \<Rightarrow> 'schema executableSchema \<Rightarrow> 's executionContext" where
  "newExecutionContext depth opCtx execSchema =
     \<lparr>OperationContext = opCtx, Resolvers = es_Resolvers execSchema, StackDepth = depth\<rparr>"

definition MarshalGQL :: "('c, 'f, 's, 'l) gqlgen \<Rightarrow> 'f marshaler \<Rightarrow> ('l, string) x" where
  "MarshalGQL G data = (case data of MNil \<Rightarrow> raise nil_dereference | _ \<Rightarrow> or_panic (lib_MarshalGQL G data))"

definition data_response :: "string \<Rightarrow> response" where
  "data_response buf = \<lparr>rsp_Data = Some buf, rsp_Path = [], rsp_Label = [], rsp_Errors = [], rsp_HasNext = None\<rparr>"

text \<open>
  The two handlers that \<open>Exec\<close> returns; \<open>first\<close> is the variable they close over. A later call of the
  query handler waits for a deferred result if one is pending.
\<close>

definition query_handler ::
  "('c, 'f, 's, 'l) gqlgen \<Rightarrow> 's executionContext \<Rightarrow> 'c \<Rightarrow> ('l, response option) x" where
  "query_handler G ec ctx =
     (let finish = (\<lambda>resp data.
        bindE (MarshalGQL G data) (\<lambda>buf.
        bindE (getsE (\<lambda>s. if 0 < sint (ex_Deferred s) then Some (0 < sint (ex_PendingDeferred s)) else None)) (\<lambda>hasNext.
        ret (Some (resp\<lparr>rsp_Data := Some buf, rsp_HasNext := hasNext\<rparr>)))))
      in
      bindE (getsE ex_first) (\<lambda>first.
      if first then
        bindE (modifyE (\<lambda>s. s\<lparr>ex_first := False\<rparr>)) (\<lambda>_.
        bindE (exec_Query G ec
                 (lib_WithUnmarshalerMap G ctx (unmarshalInputCreateTenantInput G) (unmarshalInputSubmitTaskInput G))
                 (oc_SelectionSet (OperationContext ec)))
          (finish (data_response [])))
      else
        bindE (getsE (\<lambda>s. 0 < sint (ex_PendingDeferred s))) (\<lambda>pending.
        if pending then
          bindE (lib_DeferredResults G) (\<lambda>result.
          bindE (modifyE (\<lambda>s. s\<lparr>ex_PendingDeferred := ex_PendingDeferred s - 1\<rparr>)) (\<lambda>_.
          finish ((data_response [])\<lparr>rsp_Path := dr_Path result, rsp_Label := dr_Label result, rsp_Errors := dr_Errors result\<rparr>)
            (dr_Result result)))
        else ret None)))"

definition mutation_handler ::
  "('c, 'f, 's, 'l) gqlgen \<Rightarrow> 's executionContext \<Rightarrow> 'c \<Rightarrow> ('l, response option) x" where
  "mutation_handler G ec ctx =
     bindE (getsE ex_first) (\<lambda>first.
     if \<not> first then ret None
     else
       bindE (modifyE (\<lambda>s. s\<lparr>ex_first := False\<rparr>)) (\<lambda>_.
       bindE (exec_Mutation G ec
                (lib_WithUnmarshalerMap G ctx (unmarshalInputCreateTenantInput G) (unmarshalInputSubmitTaskInput G))
                (oc_SelectionSet (OperationContext ec))) (\<lambda>data.
       bindE (MarshalGQL G data) (\<lambda>buf. ret (Some (data_response buf))))))"

definition Exec ::
  "nat \<Rightarrow> ('c, 'f, 's, 'l) gqlgen \<Rightarrow> 'schema executableSchema \<Rightarrow> 'c \<Rightarrow>
   ('l, 'c \<Rightarrow> ('l, response option) x) x" where
  "Exec depth G e ctx =
     (let opCtx = lib_GetOperationContext G ctx; ec = newExecutionContext depth opCtx e in
      bindE (modifyE (\<lambda>s. s\<lparr>ex_Deferred := 0, ex_PendingDeferred := 0, ex_first := True\<rparr>)) (\<lambda>_.
      ret (if oc_Operation opCtx = ''query'' then query_handler G ec
           else if oc_Operation opCtx = ''mutation'' then mutation_handler G ec
           else lib_OneShot G (lib_ErrorResponse G ctx ''unsupported GraphQL operation''))))"

text \<open>The schema \<open>cmd/server\<close> serves.\<close>

definition graphql_schema ::
  "(Tenant \<Rightarrow> error + gql_Tenant) \<Rightarrow> (Task \<Rightarrow> error + gql_Task) \<Rightarrow>
   (string \<Rightarrow> uuid \<Rightarrow> unit w) option \<Rightarrow> 'schema executableSchema" where
  "graphql_schema copyTenant copyTask notify =
     NewExecutableSchema \<lparr>gc_Schema = None, gc_Resolvers = graph_Resolver copyTenant copyTask notify,
       gc_Complexity = zero_ComplexityRoot\<rparr>"

end
