(* ===== verification/Gql_Moves.thy ===== *)
theory Gql_Moves
  imports Gql_Exec System
begin

text \<open>
  What the executor does to the state of the server. The library is a parameter, so the one thing
  assumed of it is \<open>calls_back\<close>: it changes what is outside its own state only by calling the functions it was
  given. Then every executor function moves the state along a relation if the resolvers do.
\<close>

section \<open>Moving along a relation\<close>

abbreviation within :: "('l exec \<Rightarrow> 'l exec \<Rightarrow> bool) \<Rightarrow> ('l, 'a) x \<Rightarrow> bool" where
  "within R m \<equiv> evolves (\<lambda>s. s) R m"

text \<open>A relation that ignores the library's state and the counter of invalid fields.\<close>

definition admissible :: "('l exec \<Rightarrow> 'l exec \<Rightarrow> bool) \<Rightarrow> bool" where
  "admissible R \<longleftrightarrow> (\<forall>s. R s s) \<and> (\<forall>s t u. R s t \<longrightarrow> R t u \<longrightarrow> R s u) \<and>
     (\<forall>s l i. R s (s\<lparr>ex_lib := l, ex_Invalids := i\<rparr>))"

definition callback_laws :: "('c, 'f, 's, 'l) gqlgen \<Rightarrow> ('l exec \<Rightarrow> 'l exec \<Rightarrow> bool) \<Rightarrow> bool" where
  "callback_laws G R \<longleftrightarrow>
     (\<forall>ctx oc field init res mar rc nn.
        (\<forall>c f. within R (init c f)) \<longrightarrow> (\<forall>c. within R (res c)) \<longrightarrow>
        (\<forall>c sel v m. mar c sel v = Some m \<longrightarrow> within R m) \<longrightarrow>
        within R (lib_ResolveField G ctx oc field init res mar rc nn)) \<and>
     (\<forall>ctx raw k z f. (\<forall>c v. within R (f c v)) \<longrightarrow> within R (lib_ProcessArgField G ctx raw k z f)) \<and>
     (\<forall>ctx n lim om f. (\<forall>c i. within R (f c i)) \<longrightarrow> within R (lib_MarshalSliceConcurrently G ctx n lim om f)) \<and>
     (\<forall>ctx f. (\<forall>c. within R (f c)) \<longrightarrow> within R (lib_RootResolverMiddleware G ctx f)) \<and>
     (\<forall>ctx ds. (\<forall>i d. (i, d) \<in> set ds \<longrightarrow> (\<forall>c. within R (d c))) \<longrightarrow> within R (lib_Dispatch G ctx ds)) \<and>
     within R (lib_DeferredResults G) \<and>
     (\<forall>resp ctx. within R (lib_OneShot G resp ctx))"

definition calls_back :: "('c, 'f, 's, 'l) gqlgen \<Rightarrow> bool" where
  "calls_back G \<longleftrightarrow> (\<forall>R. admissible R \<longrightarrow> callback_laws G R)"

lemma admissible_evolution: "admissible R \<Longrightarrow> evolution R"
  unfolding admissible_def by unfold_locales blast+

lemmas within_simple =
  evolution.evolves_ret[OF admissible_evolution] evolution.evolves_raise[OF admissible_evolution]
  evolution.evolves_getsE[OF admissible_evolution]

lemmas within_bindE = evolution.evolves_bindE[OF admissible_evolution]
lemmas within_if = evolution.evolves_if[OF admissible_evolution]
lemmas within_sum = evolution.evolves_sum[OF admissible_evolution]
lemmas within_option = evolution.evolves_option[OF admissible_evolution]
lemmas within_prod = evolution.evolves_prod[OF admissible_evolution]

lemma withinI: "(\<And>s. R s (snd (m s))) \<Longrightarrow> within R m"
  by (simp add: evolves_def)

lemma within_lib: "admissible R \<Longrightarrow> within R (modifyE (\<lambda>s. s\<lparr>ex_lib := f s\<rparr>))"
proof (rule withinI)
  fix s assume "admissible R"
  then have "R s (s\<lparr>ex_lib := f s, ex_Invalids := ex_Invalids s\<rparr>)" unfolding admissible_def by blast
  then show "R s (snd (modifyE (\<lambda>s. s\<lparr>ex_lib := f s\<rparr>) s))" by simp
qed

lemma within_Invalids: "admissible R \<Longrightarrow> within R (modifyE (\<lambda>s. s\<lparr>ex_Invalids := f s\<rparr>))"
proof (rule withinI)
  fix s assume "admissible R"
  then have "R s (s\<lparr>ex_lib := ex_lib s, ex_Invalids := f s\<rparr>)" unfolding admissible_def by blast
  then show "R s (snd (modifyE (\<lambda>s. s\<lparr>ex_Invalids := f s\<rparr>) s))" by simp
qed

lemma within_recovering:
  assumes "admissible R" "within R m" "\<And>p. within R (h p)"
  shows "within R (recovering m h)"
proof (rule withinI)
  fix s
  obtain r t where m: "m s = (r, t)" by fastforce
  then have st: "R s t" using assms(2) unfolding evolves_def by (metis snd_conv)
  show "R s (snd (recovering m h s))"
  proof (cases r)
    case (Inl p)
    have "R t (snd (h p t))" using assms(3) by (simp add: evolves_def)
    then show ?thesis using st assms(1) m Inl unfolding admissible_def recovering_def by auto
  qed (use st m in \<open>simp add: recovering_def\<close>)
qed

lemma within_mapR: "admissible R \<Longrightarrow> within R m \<Longrightarrow> within R (mapR f m)"
  unfolding mapR_def by (intro within_bindE within_simple)

lemma within_bindR: "admissible R \<Longrightarrow> within R m \<Longrightarrow> (\<And>v. within R (f v)) \<Longrightarrow> within R (bindR m f)"
  unfolding bindR_def by (intro within_bindE within_sum within_simple)

lemma within_in_world:
  "(\<And>s. R s (s\<lparr>ex_world := snd (m (ex_world s))\<rparr>)) \<Longrightarrow> within R (in_world m)"
  by (rule withinI) (simp add: in_world_def split: prod.splits, metis snd_conv)

lemmas within_rules =
  within_simple within_bindE within_if within_sum within_option within_prod
  within_lib within_Invalids within_recovering within_mapR within_bindR

section \<open>The helpers of the executor\<close>

lemma within_null_error: "admissible R \<Longrightarrow> within R (null_error G ctx)"
proof (rule withinI)
  fix s assume A: "admissible R"
  let ?f = "\<lambda>s. if lib_HasFieldError G ctx (lib_GetFieldContext G ctx) (ex_lib s) then ex_lib s
    else lib_AddErrorf G ctx ''the requested element is null which the schema does not allow'' (ex_lib s)"
  have "R s (snd (modifyE (\<lambda>s. s\<lparr>ex_lib := ?f s\<rparr>) s))" using within_lib[OF A] by (simp only: evolves_def)
  then show "R s (snd (null_error G ctx s))" by (simp add: null_error_def split: if_splits)
qed

lemma within_assert_type: "admissible R \<Longrightarrow> within R (assert_type as v)"
  unfolding assert_type_def by (intro within_rules)

lemma within_access:
  assumes A: "admissible R"
  shows "within R (ec_Error G ctx err)" "within R (set_Result G ctx i)" "within R (or_panic r)"
    "within R (field_Arg G ctx key as)"
  unfolding ec_Error_def set_Result_def or_panic_def field_Arg_def
  by (intro within_rules within_assert_type A)+

lemma within_non_null: "admissible R \<Longrightarrow> within R (non_null G ctx res)"
  unfolding non_null_def by (intro within_rules within_null_error)

lemma within_fields_in_order:
  "admissible R \<Longrightarrow> (\<And>it k v. within R (set_field it k v)) \<Longrightarrow> within R (fields_in_order set_field asMap ks it)"
  by (induction ks arbitrary: it) (auto intro!: within_rules)

lemma within_assign: "admissible R \<Longrightarrow> within R m \<Longrightarrow> within R (assign upd m it)"
  unfolding assign_def by (intro within_rules)

lemma within_run_fields:
  assumes A: "admissible R" and f: "\<And>field. within R (f field)"
  shows "within R (run_fields f xs)"
proof (induction xs)
  case (Cons y ys)
  then show ?case by (simp only: run_fields.simps) (intro within_rules A f)
qed (simp only: run_fields.simps, intro within_rules A)

lemma process_deferred_none [simp]: "process_deferred G ctx [] = ret ()"
  by (rule ext) (simp add: process_deferred_def bindE_def)

lemma callback_lawsD:
  assumes "callback_laws G R"
  shows "(\<And>c f. within R (init c f)) \<Longrightarrow> (\<And>c. within R (res c)) \<Longrightarrow>
      (\<And>c sel v m. mar c sel v = Some m \<Longrightarrow> within R m) \<Longrightarrow>
      within R (lib_ResolveField G ctx oc field init res mar rc nn)"
    and "(\<And>c v. within R (g c v)) \<Longrightarrow> within R (lib_ProcessArgField G ctx raw k z g)"
    and "(\<And>c i. within R (h c i)) \<Longrightarrow> within R (lib_MarshalSliceConcurrently G ctx n lim om h)"
    and "(\<And>c. within R (q c)) \<Longrightarrow> within R (lib_RootResolverMiddleware G ctx q)"
    and "(\<And>i d c. (i, d) \<in> set ds \<Longrightarrow> within R (d c)) \<Longrightarrow> within R (lib_Dispatch G ctx ds)"
    and "within R (lib_DeferredResults G)"
    and "within R (lib_OneShot G resp ctx)"
  using assms unfolding callback_laws_def by simp_all

lemma within_exec_object:
  assumes A: "admissible R" and L: "callback_laws G R" and f: "\<And>field. within R (f field)"
  shows "within R (exec_object G ec ctx sel t f)"
proof -
  have "within R (run_fields f xs)" for xs by (rule within_run_fields[OF A f])
  moreover have "within R (lib_Dispatch G ctx [])" by (rule callback_lawsD(5)[OF L]) simp
  ultimately show ?thesis unfolding exec_object_def Let_def process_deferred_none by (intro within_rules A)
qed

lemma within_field_branch:
  assumes "admissible R"
  shows "within R m \<Longrightarrow> within R (required m)" "within R m \<Longrightarrow> within R (optional m)" "within R (unknown_field name)"
  unfolding required_def optional_def unknown_field_def by (intro within_rules assms; assumption)+

lemma within_marshal_slice:
  assumes A: "admissible R" and L: "callback_laws G R" and f: "\<And>c v. within R (f c v)"
  shows "within R (marshal_slice G ctx f v)"
  unfolding marshal_slice_def by (intro within_rules A callback_lawsD(3)[OF L] within_access f)

lemma within_at_type:
  "(\<And>c sel v. within R (f c sel v)) \<Longrightarrow> at_type as f c sel x = Some m \<Longrightarrow> within R m"
  by (auto simp: at_type_def)

section \<open>Scalars, inputs and arguments\<close>

lemmas marshal_scalar_defs =
  marshalNBoolean2bool_def marshalNInt2int_def marshalNString2string_def marshalNTime2Time_def
  marshalNUUID2UUID_def marshalNUpload2Upload_def marshalN__DirectiveLocation2string_def
  marshalN__TypeKind2string_def marshalOBoolean2bool_def marshalOBoolean2bool_ptr_def
  marshalOString2string_ptr_def marshalOTime2Time_ptr_def exec_UUID_def MarshalUUID_def

lemmas unmarshal_scalar_defs =
  unmarshalNBoolean2bool_def unmarshalNInt2int_def unmarshalNString2string_def unmarshalNTime2Time_def
  unmarshalNUUID2UUID_def unmarshalNUpload2Upload_def unmarshalN__DirectiveLocation2string_def
  unmarshalN__TypeKind2string_def unmarshalOBoolean2bool_def unmarshalOBoolean2bool_ptr_def
  unmarshalOString2string_ptr_def unmarshalOTime2Time_ptr_def unmarshalInputUUID_def UnmarshalUUID_def

lemma within_marshal_scalar:
  assumes "admissible R"
  shows "within R (marshalNBoolean2bool G ctx sel b)" "within R (marshalNInt2int G ctx sel i)"
    "within R (marshalNString2string G ctx sel t)" "within R (marshalNTime2Time G ctx sel d)"
    "within R (marshalNUUID2UUID G ctx sel u)" "within R (marshalN__DirectiveLocation2string G ctx sel t)"
    "within R (marshalN__TypeKind2string G ctx sel t)" "within R (marshalOBoolean2bool G ctx sel b)"
    "within R (marshalOString2string_ptr G ctx sel p)" "within R (marshalOTime2Time_ptr G ctx sel q)"
  unfolding marshal_scalar_defs option.case by (intro within_rules within_non_null assms)+

lemma within_unmarshal:
  assumes "admissible R"
  shows "within R (unmarshalNString2string G ctx v)" "within R (unmarshalNInt2int G ctx v)"
    "within R (unmarshalNUUID2UUID G ctx v)" "within R (unmarshalNUpload2Upload G ctx v)"
    "within R (unmarshalOString2string_ptr G ctx v)" "within R (unmarshalOBoolean2bool G ctx v)"
    "within R (unmarshalOBoolean2bool_ptr G ctx v)"
  unfolding unmarshal_scalar_defs by (intro within_rules assms)+

lemma within_inputs:
  assumes A: "admissible R"
  shows "within R (unmarshalInputCreateTenantInput G ctx v)" "within R (unmarshalInputSubmitTaskInput G ctx v)"
    "within R (unmarshalNCreateTenantInput G ctx v)" "within R (unmarshalNSubmitTaskInput G ctx v)"
  unfolding unmarshalNCreateTenantInput_def unmarshalNSubmitTaskInput_def
    unmarshalInputCreateTenantInput_def unmarshalInputSubmitTaskInput_def
  by (intro within_rules within_assert_type within_fields_in_order within_assign within_unmarshal A)+

lemma within_boxed: "admissible R \<Longrightarrow> (\<And>c v. within R (f c v)) \<Longrightarrow> within R (boxed box f c v)"
  unfolding boxed_def by (intro within_rules)

lemmas args_defs =
  field_Mutation_CancelTask_args_def field_Mutation_CreateTenant_args_def field_Mutation_SubmitTask_args_def
  field_Query_GetTaskByID_args_def field_Query_GetTaskList_args_def field_Query___type_args_def
  field___Directive_args_args_def field___Field_args_args_def field___Type_enumValues_args_def
  field___Type_fields_args_def

lemma within_context_with_args:
  assumes "admissible R" "\<And>c raw. within R (args_of c raw)"
  shows "within R (context_with_args G ec ctx field fc args_of)"
  unfolding context_with_args_def Let_def by (intro within_rules within_access assms)

section \<open>Objects\<close>

lemma within_ResolveField:
  assumes "callback_laws G R" "\<And>c f. within R (init c f)" "\<And>c. within R (res c)" "\<And>c sel v. within R (mar c sel v)"
  shows "within R (lib_ResolveField G ctx oc field init res (at_type as mar) rc nn)"
  by (rule callback_lawsD(1)[OF assms(1)]) (auto intro: assms(2,3) within_at_type[OF assms(4)])

lemmas within_exec_rules =
  within_rules within_null_error within_access within_marshal_scalar within_unmarshal within_inputs
  within_boxed within_context_with_args within_field_branch

lemma within_contexts:
  assumes A: "admissible R" and L: "callback_laws G R"
  shows "within R (fieldContext_Mutation_SubmitTask G ec ctx field)"
    "within R (fieldContext_Mutation_CancelTask G ec ctx field)"
    "within R (fieldContext_Mutation_CreateTenant G ec ctx field)"
    "within R (fieldContext_Query_GetTaskByID G ec ctx field)"
    "within R (fieldContext_Query_GetTaskList G ec ctx field)"
    "within R (fieldContext_Query___type G ec ctx field)"
    "within R (fieldContext___Directive_args G ec ctx field)"
    "within R (fieldContext___Field_args G ec ctx field)"
    "within R (fieldContext___Type_enumValues G ec ctx field)"
    "within R (fieldContext___Type_fields G ec ctx field)"
  unfolding gql_defs args_defs
  by (intro within_exec_rules callback_lawsD(2)[OF L] A)+

lemma within_objects:
  assumes A: "admissible R" and L: "callback_laws G R"
  shows "within R (exec_CancelTaskPayload G ec ctx sel payload)" "within R (exec_SubmitTaskResponse G ec ctx sel resp)"
    "within R (exec_Tenant G ec ctx sel tenant)" "within R (exec_TaskShard G ec ctx sel shard)"
  unfolding gql_defs by (intro within_exec_rules within_exec_object within_ResolveField A L)+

lemma within_exec_Task:
  assumes A: "admissible R" and L: "callback_laws G R"
  shows "within R (exec_Task G ec ctx sel task)"
  unfolding exec_Task_def field_Task_shards_def marshalNTaskShard_slice_def marshalNTaskShard_ptr_def
    field_Task_id_def field_Task_status_def field_Task_last_error_def field_Task_created_at_def
    field_Task_started_at_def field_Task_finished_at_def field_Task_shard_count_def
  by (intro within_exec_rules within_exec_object within_ResolveField within_marshal_slice within_objects A L)

text \<open>The type object, as long as the function for the types it refers to stays within the relation.\<close>

lemma within_type_object:
  assumes A: "admissible R" and L: "callback_laws G R" and t: "\<And>ctx sel obj. within R (typ ctx sel obj)"
  shows "within R (type_object typ G ec ctx sel obj)" "within R (exec___Schema typ G ec ctx sel obj)"
  unfolding gql_defs args_defs
  by (intro within_exec_rules within_exec_object within_ResolveField within_marshal_slice callback_lawsD(2)[OF L] t A L)+

lemma within_exec___Type:
  assumes A: "admissible R" and L: "callback_laws G R"
  shows "within R (exec___Type n G ec ctx sel obj)"
proof (induction n arbitrary: ctx sel obj)
  case 0
  then show ?case by (simp only: exec___Type.simps) (intro within_rules A)
next
  case (Suc n)
  then show ?case by (simp only: exec___Type.simps) (rule within_type_object(1)[OF A L])
qed

section \<open>Root objects and response handlers\<close>

text \<open>The resolvers keep to the relation.\<close>

definition resolvers_within :: "('l exec \<Rightarrow> 'l exec \<Rightarrow> bool) \<Rightarrow> ResolverRoot \<Rightarrow> bool" where
  "resolvers_within R r \<longleftrightarrow>
     (\<forall>input. within R (in_world (Mutation_SubmitTask r input))) \<and>
     (\<forall>tenantName taskID. within R (in_world (Mutation_CancelTask r tenantName taskID))) \<and>
     (\<forall>input. within R (in_world (Mutation_CreateTenant r input)))"

definition query_resolvers_within :: "('l exec \<Rightarrow> 'l exec \<Rightarrow> bool) \<Rightarrow> ResolverRoot \<Rightarrow> bool" where
  "query_resolvers_within R r \<longleftrightarrow>
     (\<forall>tenantName taskID. within R (in_world (Query_GetTaskByID r tenantName taskID))) \<and>
     (\<forall>tenantName status. within R (in_world (Query_GetTaskList r tenantName status)))"

lemma within_exec_Mutation:
  assumes A: "admissible R" and L: "callback_laws G R" and r: "resolvers_within R (Resolvers ec)"
  shows "within R (exec_Mutation G ec ctx sel)"
proof -
  have r': "within R (in_world (Mutation_SubmitTask (Resolvers ec) input))"
    "within R (in_world (Mutation_CancelTask (Resolvers ec) tenantName taskID))"
    "within R (in_world (Mutation_CreateTenant (Resolvers ec) input'))" for input tenantName taskID input'
    using r by (simp_all add: resolvers_within_def)
  show ?thesis
    unfolding exec_Mutation_def Let_def field_Mutation_SubmitTask_def field_Mutation_CancelTask_def
      field_Mutation_CreateTenant_def marshalNSubmitTaskResponse_ptr_def marshalNCancelTaskPayload_ptr_def
      marshalNTenant_ptr_def
    by (intro within_exec_rules within_exec_object within_ResolveField within_contexts within_objects
        callback_lawsD(4)[OF L] r' A L)
qed

lemma within_innerFunc: "admissible R \<Longrightarrow> within R m \<Longrightarrow> within R (innerFunc G ctx m)"
  unfolding innerFunc_def by (intro within_rules within_access)

lemma mapR_Inr_iff: "mapR f m s = (Inr y, s') \<longleftrightarrow> (\<exists>v. m s = (Inr v, s') \<and> y = f v)"
  by (auto simp: mapR_def run_iff)

lemma within_query_field:
  assumes A: "admissible R" and L: "callback_laws G R" and r: "query_resolvers_within R (Resolvers ec)"
  shows "within R (query_field G ec ctx field)"
    and "query_field G ec ctx field s = (Inr (Inr d), s') \<Longrightarrow> within R (d c)"
proof -
  have r': "within R (in_world (Query_GetTaskByID (Resolvers ec) tenantName taskID))"
    "within R (in_world (Query_GetTaskList (Resolvers ec) tenantName status))" for tenantName taskID status
    using r by (simp_all add: query_resolvers_within_def)
  show "within R (query_field G ec ctx field)"
    unfolding query_field_def Let_def field_Query___type_def field_Query___schema_def
      marshalO__Type_ptr_def marshalO__Schema_ptr_def
    by (intro within_exec_rules within_ResolveField within_contexts within_type_object within_exec___Type
        callback_lawsD(4)[OF L] A L)
  have byID: "within R (lib_RootResolverMiddleware G c (\<lambda>ctx. innerFunc G ctx (field_Query_GetTaskByID G ec ctx field)))" for c
    unfolding field_Query_GetTaskByID_def marshalNTask_ptr_def
    by (intro within_exec_rules within_innerFunc within_ResolveField within_contexts within_exec_Task
        callback_lawsD(4)[OF L] r' A L)
  have list: "within R (lib_RootResolverMiddleware G c (\<lambda>ctx. innerFunc G ctx (field_Query_GetTaskList G ec ctx field)))" for c
    unfolding field_Query_GetTaskList_def marshalNTask_slice_def marshalNTask_ptr_def
    by (intro within_exec_rules within_innerFunc within_ResolveField within_contexts within_exec_Task
        within_marshal_slice callback_lawsD(4)[OF L] r' A L)
  assume "query_field G ec ctx field s = (Inr (Inr d), s')"
  then show "within R (d c)"
    by (auto simp: query_field_def Let_def mapR_Inr_iff unknown_field_def run_iff byID list split: if_split_asm)
qed

lemma within_query_fields:
  assumes A: "admissible R" and f: "\<And>field. within R (f field)"
    and d: "\<And>field s d s' c. f field s = (Inr (Inr d), s') \<Longrightarrow> within R (d c)"
  shows "within R (query_fields f xs)"
    and "query_fields f xs s = (Inr slots, s') \<Longrightarrow> Inr d \<in> set slots \<Longrightarrow> within R (d c)"
proof -
  show "within R (query_fields f xs)"
  proof (induction xs)
    case (Cons y ys)
    then show ?case by (simp only: query_fields.simps) (intro within_rules A f)
  qed (simp only: query_fields.simps, intro within_rules A)
  show "query_fields f xs s = (Inr slots, s') \<Longrightarrow> Inr d \<in> set slots \<Longrightarrow> within R (d c)"
  proof (induction xs arbitrary: s slots)
    case (Cons y ys)
    from Cons.prems(1) obtain v s1 vs where v: "f y s = (Inr v, s1)" and
      vs: "query_fields f ys s1 = (Inr vs, s')" and slots: "slots = v # vs"
      by (auto simp: run_iff)
    from Cons.prems(2) slots consider "v = Inr d" | "Inr d \<in> set vs" by auto
    then show ?case
    proof cases
      case 1
      then show ?thesis using d v by blast
    next
      case 2
      then show ?thesis using Cons.IH[OF vs] by blast
    qed
  qed (auto simp: run_iff)
qed

lemma slot_delayed_mem: "(i, d) \<in> set (slot_delayed slots) \<Longrightarrow> Inr d \<in> set slots"
  by (auto simp: slot_delayed_def in_set_enumerate_eq split: sum.split_asm) (metis nth_mem)

lemma within_exec_Query:
  assumes A: "admissible R" and L: "callback_laws G R" and r: "query_resolvers_within R (Resolvers ec)"
  shows "within R (exec_Query G ec ctx sel)"
proof -
  have fields: "within R (query_fields (query_field G ec c') fs)"
    "query_fields (query_field G ec c') fs s = (Inr slots, s') \<Longrightarrow> Inr d \<in> set slots \<Longrightarrow> within R (d c)"
    for c' fs s slots s' d c
    using within_query_fields[where f = "query_field G ec c'", OF A within_query_field(1)[OF A L r]]
      within_query_field(2)[OF A L r] by blast+
  have "within R (bindE (lib_Dispatch G c (slot_delayed slots)) (\<lambda>stored. bindE (getsE ex_Invalids) (\<lambda>Invalids.
      if 0 < Invalids then ret MNull else bindE (ret ()) (\<lambda>_. ret (g stored slots)))))"
    if "query_fields (query_field G ec c') fs s = (Inr slots, s')" for c c' fs s s' slots g
    by (intro within_rules A callback_lawsD(5)[OF L] fields(2)[OF that]) (rule slot_delayed_mem)
  note rest = this
  show ?thesis
    unfolding exec_Query_def Let_def process_deferred_none
    by (rule within_bindE[OF A within_Invalids[OF A]],
        rule evolution.evolves_bind_result[OF admissible_evolution[OF A] fields(1)]) (rule rest)
qed

text \<open>Relations on the world of the server only.\<close>

definition world_rel :: "(world \<Rightarrow> world \<Rightarrow> bool) \<Rightarrow> 'l exec \<Rightarrow> 'l exec \<Rightarrow> bool" where
  "world_rel Rw s t \<longleftrightarrow> Rw (ex_world s) (ex_world t)"

lemma admissible_world_rel: "reflp Rw \<Longrightarrow> transp Rw \<Longrightarrow> admissible (world_rel Rw)"
  by (auto simp: admissible_def world_rel_def dest: reflpD transpD)

lemma within_world_rel_in_world: "(\<And>w. Rw w (snd (m w))) \<Longrightarrow> within (world_rel Rw) (in_world m)"
  by (rule within_in_world) (simp add: world_rel_def)

lemma within_world_rel_modify:
  "reflp Rw \<Longrightarrow> (\<And>s. ex_world (f s) = ex_world s) \<Longrightarrow> within (world_rel Rw) (modifyE f)"
  by (simp add: evolves_def world_rel_def reflpD)

lemma within_MarshalGQL: "admissible R \<Longrightarrow> within R (MarshalGQL G data)"
  unfolding MarshalGQL_def by (cases data) (auto intro: within_rules within_access)

lemma within_query_handler:
  fixes G :: "('c, 'f, 's, 'l) gqlgen"
  assumes Rw: "reflp Rw" "transp Rw" and L: "callback_laws G (world_rel Rw)"
    and r: "query_resolvers_within (world_rel Rw :: 'l exec \<Rightarrow> _) (Resolvers ec)"
  shows "within (world_rel Rw) (query_handler G ec ctx)"
  unfolding query_handler_def Let_def
  by (intro within_rules within_MarshalGQL within_exec_Query within_world_rel_modify callback_lawsD(6)[OF L]
      admissible_world_rel Rw L r) simp_all

lemma within_mutation_handler:
  fixes G :: "('c, 'f, 's, 'l) gqlgen"
  assumes Rw: "reflp Rw" "transp Rw" and L: "callback_laws G (world_rel Rw)"
    and r: "resolvers_within (world_rel Rw :: 'l exec \<Rightarrow> _) (Resolvers ec)"
  shows "within (world_rel Rw) (mutation_handler G ec ctx)"
  unfolding mutation_handler_def
  by (intro within_rules within_MarshalGQL within_exec_Mutation within_world_rel_modify
      admissible_world_rel Rw L r) simp_all

lemma Exec_Inr_iff:
  "Exec depth G e ctx s = (Inr handler, s') \<longleftrightarrow>
     s' = s\<lparr>ex_Deferred := 0, ex_PendingDeferred := 0, ex_first := True\<rparr> \<and>
     handler = (if oc_Operation (lib_GetOperationContext G ctx) = ''query''
        then query_handler G (newExecutionContext depth (lib_GetOperationContext G ctx) e)
        else if oc_Operation (lib_GetOperationContext G ctx) = ''mutation''
        then mutation_handler G (newExecutionContext depth (lib_GetOperationContext G ctx) e)
        else lib_OneShot G (lib_ErrorResponse G ctx ''unsupported GraphQL operation''))"
  by (auto simp: Exec_def Let_def run_iff)

lemma Resolvers_newExecutionContext [simp]:
  "Resolvers (newExecutionContext depth opCtx e) = es_Resolvers e"
  by (simp add: newExecutionContext_def)

text \<open>What a handler does to the world, for resolvers that move it along a preorder.\<close>

lemma handler_moves_world:
  fixes G :: "('c, 'f, 's, 'l) gqlgen"
  assumes "calls_back G" "reflp Rw" "transp Rw"
    and "Exec depth G e ctx s = (Inr handler, s')"
    and m: "oc_Operation (lib_GetOperationContext G ctx) = ''mutation'' \<Longrightarrow>
      resolvers_within (world_rel Rw :: 'l exec \<Rightarrow> _) (es_Resolvers e)"
    and q: "query_resolvers_within (world_rel Rw :: 'l exec \<Rightarrow> _) (es_Resolvers e)"
  shows "Rw (ex_world t) (ex_world (snd (handler c t)))"
proof -
  have L: "callback_laws G (world_rel Rw)"
    using assms(1) admissible_world_rel[OF assms(2,3), where ?'a = 'l] by (simp add: calls_back_def)
  have "within (world_rel Rw) (handler c)"
    using assms(4) m within_query_handler[OF assms(2,3) L] within_mutation_handler[OF assms(2,3) L] q
      callback_lawsD(7)[OF L]
    by (auto simp: Exec_Inr_iff)
  then show ?thesis by (simp add: evolves_def world_rel_def)
qed

section \<open>The resolvers of the server\<close>

lemma snd_mapR [simp]: "snd (mapR f m s) = snd (m s)"
  by (auto simp: mapR_def bindE_def split: prod.splits sum.splits)

lemma graph_Resolver_steps:
  fixes cfg server
  defines "Rw \<equiv> (server_step cfg server)\<^sup>*\<^sup>*"
  shows "resolvers_within (world_rel Rw) (graph_Resolver copyT copyTask (Some NotifyCancelShard))"
    and "query_resolvers_within (world_rel Rw) (graph_Resolver copyT copyTask (Some NotifyCancelShard))"
  unfolding resolvers_within_def query_resolvers_within_def Rw_def graph_Resolver_def
  by (auto intro!: within_world_rel_in_world r_into_rtranclp server_step.intros(1-5))

text \<open>A read: the calls to the environment are counted, nothing else changes.\<close>

definition reads_only :: "world \<Rightarrow> world \<Rightarrow> bool" where
  "reads_only w w' \<longleftrightarrow> (\<exists>n. w' = w\<lparr>tick := n\<rparr>)"

lemma reads_only_refl: "reads_only w w"
  unfolding reads_only_def by (rule exI[of _ "tick w"]) simp

lemma reads_only_trans: "reads_only u v \<Longrightarrow> reads_only v w \<Longrightarrow> reads_only u w"
  by (auto simp: reads_only_def)

interpretation reading: evolution "\<lambda>w::world. w" reads_only
  by unfold_locales (auto intro: reads_only_refl reads_only_trans)

lemma reading_select: "evolves (\<lambda>w. w) reads_only (select f)" "evolves (\<lambda>w. w) reads_only (select_first g)"
  unfolding evolves_def select_def select_first_def stmt_def
  by (auto simp: reads_only_def tick_world_def split: option.splits)

lemma reading_orm_GetDB: "evolves (\<lambda>w. w) reads_only orm_GetDB"
  by (rule reading.evolvesI) (simp add: orm_GetDB_def reads_only_refl)

lemma reading_liftE: "evolves (\<lambda>w. w) reads_only (liftE r)"
  unfolding liftE_def by (intro reading.evolves_intros)

lemma reading_resolvers:
  "evolves (\<lambda>w. w) reads_only (resolver_GetTaskByID copyTask tenantName taskID)"
  "evolves (\<lambda>w. w) reads_only (resolver_GetTaskList copyTask tenantName status)"
  unfolding resolver_GetTaskByID_def resolver_GetTaskList_def GetTask_def ListTasks_def tenant_orm_GetByName_def
    task_orm_GetByID_def ListTasksByTenant_def
  by (intro reading.evolves_intros reading_select reading_orm_GetDB reading_liftE)+

lemma graph_Resolver_reads:
  "query_resolvers_within (world_rel reads_only) (graph_Resolver copyT copyTask notify)"
  unfolding query_resolvers_within_def graph_Resolver_def
  using reading_resolvers[unfolded evolves_def] by (auto intro!: within_world_rel_in_world)

section \<open>The flag and the deferred results\<close>

definition same_progress :: "'l exec \<Rightarrow> 'l exec \<Rightarrow> bool" where
  "same_progress s t \<longleftrightarrow> ex_first t = ex_first s \<and> ex_PendingDeferred t = ex_PendingDeferred s"

lemma admissible_same_progress: "admissible same_progress"
  by (simp add: admissible_def same_progress_def)

lemma resolvers_same_progress:
  "resolvers_within same_progress r" "query_resolvers_within same_progress r"
  unfolding resolvers_within_def query_resolvers_within_def
  by (auto intro!: within_in_world simp: same_progress_def)

lemma first_call:
  fixes G :: "('c, 'f, 's, 'l) gqlgen"
  assumes "calls_back G" and "ex_first s"
  shows "query_handler G ec c s = (Inr r, s') \<Longrightarrow> r \<noteq> None \<and> \<not> ex_first s' \<and> ex_PendingDeferred s' = ex_PendingDeferred s"
    and "mutation_handler G ec c s = (Inr r, s') \<Longrightarrow> r \<noteq> None \<and> \<not> ex_first s' \<and> ex_PendingDeferred s' = ex_PendingDeferred s"
proof -
  have A: "admissible (same_progress :: 'l exec \<Rightarrow> _)" by (rule admissible_same_progress)
  then have L: "callback_laws G same_progress" using assms(1) by (simp add: calls_back_def)
  have D: "same_progress t t'" if "within same_progress m" "m t = (r', t')" for m :: "('l, 'a) x" and t t' r'
    using that unfolding evolves_def by (metis snd_conv)
  note Q = D[OF within_exec_Query[OF A L resolvers_same_progress(2)]]
    and M = D[OF within_exec_Mutation[OF A L resolvers_same_progress(1)]]
    and W = D[OF within_MarshalGQL[OF A]]
  show "query_handler G ec c s = (Inr r, s') \<Longrightarrow> r \<noteq> None \<and> \<not> ex_first s' \<and> ex_PendingDeferred s' = ex_PendingDeferred s"
    using assms(2) by (auto simp: query_handler_def Let_def run_iff same_progress_def dest!: Q W)
  show "mutation_handler G ec c s = (Inr r, s') \<Longrightarrow> r \<noteq> None \<and> \<not> ex_first s' \<and> ex_PendingDeferred s' = ex_PendingDeferred s"
    using assms(2) by (auto simp: mutation_handler_def run_iff same_progress_def dest!: M W)
qed

lemma later_call:
  assumes "\<not> ex_first s"
  shows "ex_PendingDeferred s = 0 \<Longrightarrow> query_handler G ec c s = (Inr None, s)"
    and "mutation_handler G ec c s = (Inr None, s)"
  using assms by (simp_all add: query_handler_def mutation_handler_def bindE_def)

end
