(* ===== verification/Gql_Values.thy ===== *)
theory Gql_Values
  imports Gql_Exec
begin

text \<open>
  What the executor answers. The documented behaviour of the library that this rests on is stated as
  predicates: how a field that resolves without an error is completed (\<open>completes_fields\<close>), how
  an argument is read (\<open>reads_arguments\<close>), how scalars are decoded (\<open>decodes_scalars\<close>), that a panic in a field
  is recovered (\<open>recovers\<close>) and that a field only sees its own selections (\<open>descends\<close>).
\<close>

section \<open>Computations that leave the world alone\<close>

definition yields :: "world \<Rightarrow> ('l, 'a) x \<Rightarrow> 'a \<Rightarrow> bool" where
  "yields w m y \<longleftrightarrow> (\<forall>s. ex_world s = w \<longrightarrow> (\<exists>s'. m s = (Inr y, s') \<and> ex_world s' = w))"

lemma yields_ret: "yields w (ret y) y"
  by (simp add: yields_def)

lemma yields_bindE: "yields w m v \<Longrightarrow> yields w (f v) y \<Longrightarrow> yields w (bindE m f) y"
  unfolding yields_def by (metis bindE_run(1))

lemma yields_getsE: "(\<And>s. ex_world s = w \<Longrightarrow> f s = y) \<Longrightarrow> yields w (getsE f) y"
  by (simp add: yields_def)

lemma yields_modifyE: "(\<And>s. ex_world (f s) = ex_world s) \<Longrightarrow> yields w (modifyE f) ()"
  by (simp add: yields_def)

lemma yields_null_error: "yields w (null_error G ctx) ()"
  unfolding null_error_def by (rule yields_modifyE) simp

lemma yields_non_null: "yields w (non_null G ctx res) res"
  unfolding non_null_def by (auto intro!: yields_bindE[OF yields_null_error] yields_ret)

section \<open>Completing a field\<close>

definition completes_fields :: "('c, 'f, 's, 'l) gqlgen \<Rightarrow> ('f \<Rightarrow> 's) \<Rightarrow> bool" where
  "completes_fields G selections \<longleftrightarrow>
     (\<forall>w ctx oc field init res mar rc nn v y.
        \<not> is_nil v \<longrightarrow>
        (\<forall>c. \<exists>fc. yields w (init c field) (Some fc, None)) \<longrightarrow> (\<forall>c. yields w (res c) (Inr v)) \<longrightarrow>
        (\<forall>c. lib_GetFieldContext G c \<noteq> None \<longrightarrow> (\<exists>m. mar c (selections field) v = Some m \<and> yields w m y)) \<longrightarrow>
        yields w (lib_ResolveField G ctx oc field init res mar rc nn) y) \<and>
     (\<forall>w ctx lim om f ys.
        (\<forall>i<length ys. \<forall>c. lib_GetFieldContext G c \<noteq> None \<longrightarrow> yields w (f c i) (ys ! i)) \<longrightarrow>
        yields w (lib_MarshalSliceConcurrently G ctx (length ys) lim om f) ys) \<and>
     (\<forall>w ctx. yields w (lib_Dispatch G ctx []) []) \<and>
     (\<forall>obj field im ir err. \<exists>fc. lib_NewScalarFieldContext G obj field im ir err = (Some fc, None))"

lemma completes_fieldsD:
  assumes G: "completes_fields G selections"
  shows "\<not> is_nil v \<Longrightarrow> (\<And>c. \<exists>fc. yields w (init c field) (Some fc, None)) \<Longrightarrow> (\<And>c. yields w (res c) (Inr v)) \<Longrightarrow>
      (\<And>c. lib_GetFieldContext G c \<noteq> None \<Longrightarrow> \<exists>m. mar c (selections field) v = Some m \<and> yields w m y) \<Longrightarrow>
      yields w (lib_ResolveField G ctx oc field init res mar rc nn) y"
    and "(\<And>i c. i < length ys \<Longrightarrow> lib_GetFieldContext G c \<noteq> None \<Longrightarrow> yields w (f c i) (ys ! i)) \<Longrightarrow>
      yields w (lib_MarshalSliceConcurrently G ctx (length ys) lim om f) ys"
    and "yields w (lib_Dispatch G ctx []) []"
    and "\<exists>fc. lib_NewScalarFieldContext G obj field im ir err = (Some fc, None)"
  using G[unfolded completes_fields_def, THEN conjunct1, rule_format, where w = w and init = init and field = field
      and res = res and v = v and mar = mar and y = y]
    G[unfolded completes_fields_def, THEN conjunct2, THEN conjunct1, rule_format, where w = w and f = f and ys = ys]
    G[unfolded completes_fields_def, THEN conjunct2, THEN conjunct2]
  by simp_all

lemma completes_scalar_context:
  assumes "completes_fields G selections"
  shows "\<exists>fc. yields w (ret (lib_NewScalarFieldContext G obj field im ir err)) (Some fc, None)"
proof -
  obtain fc where "lib_NewScalarFieldContext G obj field im ir err = (Some fc, None)"
    using completes_fieldsD(4)[OF assms] by blast
  then show ?thesis by (auto intro!: exI[of _ fc] yields_ret)
qed

lemma yields_ResolveField:
  assumes G: "completes_fields G selections"
    and "\<And>c. \<exists>fc. yields w (init c field) (Some fc, None)"
    and "\<not> is_nil v \<and> as v = Some a"
    and "\<And>c. lib_GetFieldContext G c \<noteq> None \<Longrightarrow> yields w (mar c (selections field) a) y"
  shows "yields w (lib_ResolveField G ctx oc field init (\<lambda>c. ret (Inr v)) (at_type as mar) rc nn) y"
  by (rule completes_fieldsD(1)[OF G]) (use assms(2-4) in \<open>auto simp: at_type_def intro: yields_ret\<close>)

lemma yields_run_fields:
  assumes "\<And>field. field \<in> set xs \<Longrightarrow> yields w (f field) (value field, invalid field)"
  shows "yields w (run_fields f xs) (map value xs, of_nat (length (filter invalid xs)))"
  using assms
proof (induction xs)
  case (Cons a xs)
  let ?n = "of_nat (length (filter invalid xs)) :: 32 word"
  have "yields w (f a) (value a, invalid a)" "yields w (run_fields f xs) (map value xs, ?n)"
    using Cons by simp_all
  moreover have "yields w (ret (value a # map value xs, if invalid a then ?n + 1 else ?n))
      (map value (a # xs), of_nat (length (filter invalid (a # xs))))"
    by (auto intro!: yields_ret simp: add.commute)
  ultimately show ?case
    unfolding run_fields.simps
    apply -
    apply (rule yields_bindE, assumption, simp only: prod.case)
    apply (rule yields_bindE, assumption, simp only: prod.case)
    done
qed (simp add: yields_ret)

text \<open>A complete object: null when a non-null field of it is null, else all requested fields in order.\<close>

definition complete_object :: "('f \<Rightarrow> bool) \<Rightarrow> ('f \<Rightarrow> 'f marshaler) \<Rightarrow> 'f list \<Rightarrow> 'f marshaler" where
  "complete_object nonNull value requested =
     (if \<exists>field\<in>set requested. nonNull field \<and> is_Null (value field) then MNull
      else MFieldSet requested (map value requested))"

lemma counter_positive: "n < 2 ^ 32 \<Longrightarrow> 0 < (of_nat n :: 32 word) \<longleftrightarrow> n \<noteq> 0"
  by (simp add: word_less_nat_alt unat_of_nat take_bit_nat_eq_self)

lemma yields_exec_object:
  assumes G: "completes_fields G selections"
    and len: "length (lib_CollectFields G (OperationContext ec) sel [t]) < 2 ^ 32"
    and f: "\<And>field. field \<in> set (lib_CollectFields G (OperationContext ec) sel [t]) \<Longrightarrow>
      yields w (f field) (value field, nonNull field \<and> is_Null (value field))"
  shows "yields w (exec_object G ec ctx sel t f)
    (complete_object nonNull value (lib_CollectFields G (OperationContext ec) sel [t]))"
proof -
  let ?fs = "lib_CollectFields G (OperationContext ec) sel [t]"
  let ?bad = "filter (\<lambda>field. nonNull field \<and> is_Null (value field)) ?fs"
  have "length ?bad < 2 ^ 32" using len le_less_trans[OF length_filter_le] by blast
  then have n: "0 < (of_nat (length ?bad) :: 32 word) \<longleftrightarrow> (\<exists>field\<in>set ?fs. nonNull field \<and> is_Null (value field))"
    by (simp only: counter_positive) (auto simp: filter_empty_conv)
  have 1: "yields w (run_fields f ?fs) (map value ?fs, of_nat (length ?bad))"
    by (rule yields_run_fields) (rule f)
  have 2: "yields w (lib_Dispatch G ctx []) []" by (rule completes_fieldsD(3)[OF G])
  have 3: "yields w (if 0 < (of_nat (length ?bad) :: 32 word) then ret MNull
       else bindE (process_deferred G ctx []) (\<lambda>_. ret (MFieldSet ?fs (store_values [] (map value ?fs)))))
     (complete_object nonNull value ?fs)"
    unfolding n complete_object_def
    by (auto simp: store_values_def process_deferred_def intro!: yields_ret yields_bindE yields_modifyE)
  show ?thesis
    unfolding exec_object_def Let_def by (rule yields_bindE[OF 1], unfold prod.case) (rule yields_bindE[OF 2], rule 3)
qed

section \<open>Tasks and shards as the client sees them\<close>

definition uuid_value :: "('c, 'f, 's, 'l) gqlgen \<Rightarrow> world \<Rightarrow> uuid \<Rightarrow> 'f marshaler" where
  "uuid_value G w u = MWriter (lib_MarshalGQL G (lib_MarshalString G (uuid_String (env w) u)))"

definition nullable :: "('a \<Rightarrow> 'f marshaler) \<Rightarrow> 'a option \<Rightarrow> 'f marshaler" where
  "nullable f v = (case v of None \<Rightarrow> MNull | Some y \<Rightarrow> f y)"

text \<open>The fields of the two types in the schema, the non-null ones first.\<close>

definition shard_nonNull :: "string list" where
  "shard_nonNull = [''id'', ''script_name'', ''status'']"

definition shard_fields :: "string list" where
  "shard_fields = shard_nonNull @ [''output_oss_key'', ''output_sha256'', ''last_error'', ''started_at'', ''finished_at'', ''__typename'']"

definition shard_value :: "('c, 'f, 's, 'l) gqlgen \<Rightarrow> world \<Rightarrow> gql_TaskShard \<Rightarrow> string \<Rightarrow> 'f marshaler" where
  "shard_value G w shard name =
     (if name = ''id'' then uuid_value G w (gql_shard_ID shard)
      else if name = ''script_name'' then lib_MarshalString G (gql_shard_ScriptName shard)
      else if name = ''status'' then lib_MarshalString G (gql_shard_Status shard)
      else if name = ''output_oss_key'' then nullable (lib_MarshalString G) (gql_shard_OutputOssKey shard)
      else if name = ''output_sha256'' then nullable (lib_MarshalString G) (gql_shard_OutputSha256 shard)
      else if name = ''last_error'' then nullable (lib_MarshalString G) (gql_shard_LastError shard)
      else if name = ''started_at'' then nullable (lib_MarshalTime G) (gql_shard_StartedAt shard)
      else if name = ''finished_at'' then nullable (lib_MarshalTime G) (gql_shard_FinishedAt shard)
      else lib_MarshalString G ''TaskShard'')"

definition complete_shard ::
  "('c, 'f, 's, 'l) gqlgen \<Rightarrow> world \<Rightarrow> 's operation_context \<Rightarrow> 's \<Rightarrow> gql_TaskShard \<Rightarrow> 'f marshaler" where
  "complete_shard G w oc sel shard =
     complete_object (\<lambda>field. lib_Name G field \<in> set shard_nonNull) (\<lambda>field. shard_value G w shard (lib_Name G field))
       (lib_CollectFields G oc sel [''TaskShard''])"

text \<open>A list of non-null elements is null as soon as one of them is.\<close>

definition complete_list :: "'f marshaler list \<Rightarrow> 'f marshaler" where
  "complete_list vs = (if \<exists>v\<in>set vs. is_Null v then MNull else MArray vs)"

definition task_nonNull :: "string list" where
  "task_nonNull = [''id'', ''status'', ''last_error'', ''created_at'', ''shard_count'', ''shards'']"

definition task_fields :: "string list" where
  "task_fields = task_nonNull @ [''started_at'', ''finished_at'', ''__typename'']"

definition task_value ::
  "('c, 'f, 's, 'l) gqlgen \<Rightarrow> ('f \<Rightarrow> 's) \<Rightarrow> world \<Rightarrow> 's operation_context \<Rightarrow> gql_Task \<Rightarrow> 'f \<Rightarrow> 'f marshaler" where
  "task_value G selections w oc task field =
     (let name = lib_Name G field in
      if name = ''id'' then uuid_value G w (gql_task_ID task)
      else if name = ''status'' then lib_MarshalString G (gql_task_Status task)
      else if name = ''last_error'' then lib_MarshalString G (gql_task_LastError task)
      else if name = ''created_at'' then lib_MarshalTime G (gql_task_CreatedAt task)
      else if name = ''shard_count'' then lib_MarshalInt G (gql_task_ShardCount task)
      else if name = ''shards'' then complete_list (map (nullable (complete_shard G w oc (selections field))) (gql_task_Shards task))
      else if name = ''started_at'' then nullable (lib_MarshalTime G) (gql_task_StartedAt task)
      else if name = ''finished_at'' then nullable (lib_MarshalTime G) (gql_task_FinishedAt task)
      else lib_MarshalString G ''Task'')"

definition complete_task ::
  "('c, 'f, 's, 'l) gqlgen \<Rightarrow> ('f \<Rightarrow> 's) \<Rightarrow> world \<Rightarrow> 's operation_context \<Rightarrow> 's \<Rightarrow> gql_Task \<Rightarrow> 'f marshaler" where
  "complete_task G selections w oc sel task =
     complete_object (\<lambda>field. lib_Name G field \<in> set task_nonNull) (task_value G selections w oc task)
       (lib_CollectFields G oc sel [''Task''])"

lemma yields_marshal_scalar:
  "yields w (marshalNUUID2UUID G ctx sel u) (uuid_value G w u)"
  "yields w (marshalNString2string G ctx sel t) (lib_MarshalString G t)"
  "yields w (marshalNInt2int G ctx sel i) (lib_MarshalInt G i)"
  "yields w (marshalNTime2Time G ctx sel d) (lib_MarshalTime G d)"
  "yields w (marshalOString2string_ptr G ctx sel p) (nullable (lib_MarshalString G) p)"
  "yields w (marshalOTime2Time_ptr G ctx sel q) (nullable (lib_MarshalTime G) q)"
  unfolding marshalNUUID2UUID_def marshalNString2string_def marshalNInt2int_def marshalNTime2Time_def
    marshalOString2string_ptr_def marshalOTime2Time_ptr_def exec_UUID_def MarshalUUID_def nullable_def
  by (auto intro!: yields_non_null yields_getsE yields_ret simp: uuid_value_def split: option.splits)

lemma yields_branch:
  "yields w m v \<Longrightarrow> b = is_Null v \<Longrightarrow> yields w (required m) (v, b)"
  "yields w m v \<Longrightarrow> \<not> b \<Longrightarrow> yields w (optional m) (v, b)"
  unfolding required_def optional_def by (auto intro: yields_bindE yields_ret)

lemmas yields_scalar_field = yields_ResolveField[OF _ completes_scalar_context]

lemma yields_shard_fields:
  assumes G: "completes_fields G selections"
  shows "yields w (field_TaskShard_id G ec ctx field shard) (uuid_value G w (gql_shard_ID shard))"
    "yields w (field_TaskShard_script_name G ec ctx field shard) (lib_MarshalString G (gql_shard_ScriptName shard))"
    "yields w (field_TaskShard_status G ec ctx field shard) (lib_MarshalString G (gql_shard_Status shard))"
    "yields w (field_TaskShard_output_oss_key G ec ctx field shard) (nullable (lib_MarshalString G) (gql_shard_OutputOssKey shard))"
    "yields w (field_TaskShard_output_sha256 G ec ctx field shard) (nullable (lib_MarshalString G) (gql_shard_OutputSha256 shard))"
    "yields w (field_TaskShard_last_error G ec ctx field shard) (nullable (lib_MarshalString G) (gql_shard_LastError shard))"
    "yields w (field_TaskShard_started_at G ec ctx field shard) (nullable (lib_MarshalTime G) (gql_shard_StartedAt shard))"
    "yields w (field_TaskShard_finished_at G ec ctx field shard) (nullable (lib_MarshalTime G) (gql_shard_FinishedAt shard))"
  unfolding gql_defs by (rule yields_scalar_field[OF G G], simp, rule yields_marshal_scalar)+

lemma yields_exec_TaskShard:
  assumes G: "completes_fields G selections"
    and len: "length (lib_CollectFields G (OperationContext ec) sel [''TaskShard'']) < 2 ^ 32"
    and known: "\<And>field. field \<in> set (lib_CollectFields G (OperationContext ec) sel [''TaskShard'']) \<Longrightarrow> lib_Name G field \<in> set shard_fields"
  shows "yields w (exec_TaskShard G ec ctx sel shard) (complete_shard G w (OperationContext ec) sel shard)"
  unfolding exec_TaskShard_def complete_shard_def
proof (rule yields_exec_object[OF G len], goal_cases)
  case (1 field)
  from known[OF this] consider "lib_Name G field = ''id''" | "lib_Name G field = ''script_name''" | "lib_Name G field = ''status''"
    | "lib_Name G field = ''output_oss_key''" | "lib_Name G field = ''output_sha256''" | "lib_Name G field = ''last_error''"
    | "lib_Name G field = ''started_at''" | "lib_Name G field = ''finished_at''" | "lib_Name G field = ''__typename''"
    by (auto simp: shard_fields_def shard_nonNull_def)
  then show ?case
    by cases (simp_all add: shard_value_def shard_nonNull_def yields_branch yields_shard_fields[OF G] yields_ret)
qed

lemma yields_marshal_slice:
  assumes G: "completes_fields G selections"
    and f: "\<And>c v. lib_GetFieldContext G c \<noteq> None \<Longrightarrow> v \<in> set vs \<Longrightarrow> yields w (f c v) (g v)"
  shows "yields w (marshal_slice G ctx f vs) (complete_list (map g vs))"
proof -
  have "yields w (lib_MarshalSliceConcurrently G ctx (length (map g vs)) 0 False (\<lambda>ctx i.
      if i < length vs then bindE (set_Result G ctx i) (\<lambda>_. f ctx (vs ! i)) else raise (External ''index out of range'')))
    (map g vs)"
  proof (rule completes_fieldsD(2)[OF G], goal_cases)
    case (1 i c)
    then have "yields w (set_Result G c i) ()"
      by (auto simp: set_Result_def yields_def)
    moreover have "yields w (f c (vs ! i)) (g (vs ! i))" using 1 by (intro f) simp_all
    ultimately show ?case using 1 by (simp add: yields_bindE)
  qed
  then show ?thesis
    unfolding marshal_slice_def length_map
    by (rule yields_bindE) (auto simp: complete_list_def list_ex_iff intro!: yields_ret)
qed

lemma yields_task_fields:
  assumes G: "completes_fields G selections"
  shows "yields w (field_Task_id G ec ctx field task) (uuid_value G w (gql_task_ID task))"
    "yields w (field_Task_status G ec ctx field task) (lib_MarshalString G (gql_task_Status task))"
    "yields w (field_Task_last_error G ec ctx field task) (lib_MarshalString G (gql_task_LastError task))"
    "yields w (field_Task_created_at G ec ctx field task) (lib_MarshalTime G (gql_task_CreatedAt task))"
    "yields w (field_Task_shard_count G ec ctx field task) (lib_MarshalInt G (gql_task_ShardCount task))"
    "yields w (field_Task_started_at G ec ctx field task) (nullable (lib_MarshalTime G) (gql_task_StartedAt task))"
    "yields w (field_Task_finished_at G ec ctx field task) (nullable (lib_MarshalTime G) (gql_task_FinishedAt task))"
  unfolding gql_defs by (rule yields_scalar_field[OF G G], simp, rule yields_marshal_scalar)+

text \<open>A selection of shards that the executor knows, of a length the counter of invalid fields can hold.\<close>

definition selects_shard :: "('c, 'f, 's, 'l) gqlgen \<Rightarrow> 's operation_context \<Rightarrow> 's \<Rightarrow> bool" where
  "selects_shard G oc sel \<longleftrightarrow> length (lib_CollectFields G oc sel [''TaskShard'']) < 2 ^ 32 \<and>
     (\<forall>field\<in>set (lib_CollectFields G oc sel [''TaskShard'']). lib_Name G field \<in> set shard_fields)"

definition selects_task :: "('c, 'f, 's, 'l) gqlgen \<Rightarrow> ('f \<Rightarrow> 's) \<Rightarrow> 's operation_context \<Rightarrow> 's \<Rightarrow> bool" where
  "selects_task G selections oc sel \<longleftrightarrow> length (lib_CollectFields G oc sel [''Task'']) < 2 ^ 32 \<and>
     (\<forall>field\<in>set (lib_CollectFields G oc sel [''Task'']). lib_Name G field \<in> set task_fields \<and>
        (lib_Name G field = ''shards'' \<longrightarrow> selects_shard G oc (selections field)))"

lemma yields_field_Task_shards:
  assumes G: "completes_fields G selections"
    and sel: "selects_shard G (OperationContext ec) (selections field)"
  shows "yields w (field_Task_shards G ec ctx field task)
    (complete_list (map (nullable (complete_shard G w (OperationContext ec) (selections field))) (gql_task_Shards task)))"
  unfolding field_Task_shards_def
proof (rule yields_ResolveField[OF G])
  show "\<exists>fc. yields w (ret (fieldContext_Task_shards field)) (Some fc, None)"
    by (auto simp: fieldContext_Task_shards_def intro!: exI yields_ret)
  show "yields w (marshalNTaskShard_slice G ec c (selections field) (gql_task_Shards task))
    (complete_list (map (nullable (complete_shard G w (OperationContext ec) (selections field))) (gql_task_Shards task)))" for c
    unfolding marshalNTaskShard_slice_def
  proof (rule yields_marshal_slice[OF G])
    fix c and shard :: "gql_TaskShard option"
    show "yields w (marshalNTaskShard_ptr G ec c (selections field) shard)
        (nullable (complete_shard G w (OperationContext ec) (selections field)) shard)"
      using sel by (cases shard) (auto simp: marshalNTaskShard_ptr_def nullable_def selects_shard_def
          intro!: yields_exec_TaskShard[OF G] yields_bindE[OF yields_null_error] yields_ret)
  qed
qed simp

lemma yields_exec_Task:
  assumes G: "completes_fields G selections" and sel: "selects_task G selections (OperationContext ec) sel"
  shows "yields w (exec_Task G ec ctx sel task) (complete_task G selections w (OperationContext ec) sel task)"
  unfolding exec_Task_def complete_task_def
proof (rule yields_exec_object[OF G], goal_cases)
  case (2 field)
  have shards: "lib_Name G field = ''shards'' \<Longrightarrow> selects_shard G (OperationContext ec) (selections field)"
    using sel 2 by (simp add: selects_task_def)
  from sel 2 have "lib_Name G field \<in> set task_fields" by (simp add: selects_task_def)
  then consider "lib_Name G field = ''id''" | "lib_Name G field = ''status''" | "lib_Name G field = ''last_error''"
    | "lib_Name G field = ''created_at''" | "lib_Name G field = ''shard_count''" | "lib_Name G field = ''shards''"
    | "lib_Name G field = ''started_at''" | "lib_Name G field = ''finished_at''" | "lib_Name G field = ''__typename''"
    by (auto simp: task_fields_def task_nonNull_def)
  then show ?case
    by cases (simp_all add: task_value_def task_nonNull_def yields_branch yields_task_fields[OF G]
        yields_field_Task_shards[OF G shards] yields_ret)
qed (use sel in \<open>simp add: selects_task_def\<close>)

section \<open>Inputs\<close>

definition decodes_scalars :: "('c, 'f, 's, 'l) gqlgen \<Rightarrow> bool" where
  "decodes_scalars G \<longleftrightarrow>
     (\<forall>t. lib_UnmarshalString G (AnyString t) = Inr t) \<and>
     (\<forall>i. lib_UnmarshalInt G (AnyInt i) = Inr i) \<and>
     (\<forall>u. lib_UnmarshalUpload G (AnyUpload u) = Inr u)"

text \<open>The variables a client sends for an input; an absent optional field may also be sent as null.\<close>

definition encode_CreateTenantInput :: "CreateTenantInput \<Rightarrow> any_map" where
  "encode_CreateTenantInput input =
     [''name'' \<mapsto> AnyString (in_Name input), ''primary_backend_name'' \<mapsto> AnyString (in_PrimaryBackendName input),
      ''max_agents'' \<mapsto> AnyInt (in_MaxAgents input)]"

definition encode_SubmitTaskInput :: "SubmitTaskInput \<Rightarrow> any_map" where
  "encode_SubmitTaskInput input =
     [''tenant_name'' \<mapsto> AnyString (in_TenantName input), ''bundle_zip'' \<mapsto> AnyUpload (in_BundleZip input),
      ''completion_hook_url'' \<mapsto> (case in_CompletionHookURL input of None \<Rightarrow> AnyNil | Some url \<Rightarrow> AnyString url)]"

lemma bindR_iff [run_iff]:
  "bindR m f s = (Inr r, s') \<longleftrightarrow>
     (\<exists>v s1. m s = (Inr (Inr v), s1) \<and> f v s1 = (Inr r, s')) \<or> (\<exists>err. m s = (Inr (Inl err), s') \<and> r = Inl err)"
  by (auto simp: bindR_def run_iff split: sum.split_asm sum.split) (metis sum.exhaust)

lemma bindR_ret [simp]: "bindR (ret (Inr v)) f = f v" "bindR (ret (Inl err)) f = ret (Inl err)"
  by (simp_all add: bindR_def del: run_simps)

lemma mapR_ret [simp]: "mapR f (ret v) = ret (f v)"
  by (simp add: mapR_def del: run_simps)

lemma on_path_Inr [simp]: "on_path G ctx (Inr v) = Inr v" "on_path G ctx (Inl err) = Inl (lib_ErrorOnPath G ctx err)"
  by (simp_all add: on_path_def)

lemma assign_ret [simp]: "assign upd (ret (Inr v)) it = ret (Inr (upd v it))" "assign upd (ret (Inl err)) it = ret (Inl err)"
  by (simp_all add: assign_def del: run_simps)

lemma decode_CreateTenantInput:
  assumes "decodes_scalars G" and "\<And>k. k \<in> dom (encode_CreateTenantInput input) \<Longrightarrow> m k = encode_CreateTenantInput input k"
  shows "unmarshalInputCreateTenantInput G ctx (AnyMap m) = ret (Inr input)"
  using assms(1) assms(2)[of "''name''"] assms(2)[of "''primary_backend_name''"] assms(2)[of "''max_agents''"]
  by (cases input) (simp add: unmarshalInputCreateTenantInput_def encode_CreateTenantInput_def decodes_scalars_def assert_type_def
      unmarshalNString2string_def unmarshalNInt2int_def zero_CreateTenantInput_def del: run_simps)

lemma decode_SubmitTaskInput:
  assumes "decodes_scalars G" and "\<And>k. k \<in> dom (encode_SubmitTaskInput input) \<Longrightarrow> m k = encode_SubmitTaskInput input k"
  shows "unmarshalInputSubmitTaskInput G ctx (AnyMap m) = ret (Inr input)"
  using assms(1) assms(2)[of "''tenant_name''"] assms(2)[of "''bundle_zip''"] assms(2)[of "''completion_hook_url''"]
  by (cases input; cases "in_CompletionHookURL input")
    (simp_all add: unmarshalInputSubmitTaskInput_def encode_SubmitTaskInput_def decodes_scalars_def assert_type_def
      unmarshalNString2string_def unmarshalNUpload2Upload_def unmarshalOString2string_ptr_def zero_SubmitTaskInput_def
      del: run_simps)

section \<open>Arguments\<close>

definition reads_arguments :: "('c, 'f, 's, 'l) gqlgen \<Rightarrow> bool" where
  "reads_arguments G \<longleftrightarrow> (\<forall>ctx raw k z f s.
     (raw k = None \<longrightarrow> lib_ProcessArgField G ctx raw k z f s = (Inr (Inr z), s)) \<and>
     (\<forall>v. raw k = Some v \<longrightarrow> (\<exists>c. lib_ProcessArgField G ctx raw k z f s = f c v s)))"

text \<open>An argument has the type it was declared with, whether it was given or not.\<close>

lemma ProcessArgField_typed:
  assumes "reads_arguments G"
    and "lib_ProcessArgField G ctx raw k (box zero) (boxed box f) s = (Inr (Inr arg), s')"
  obtains v where "arg = box v"
proof (cases "raw k")
  case None
  then have "arg = box zero" using assms by (simp add: reads_arguments_def)
  then show ?thesis by (rule that)
next
  case (Some v)
  then obtain c where "boxed box f c v s = (Inr (Inr arg), s')"
    using assms unfolding reads_arguments_def by metis
  then obtain r where "map_sum id box r = (Inr arg :: error + go_any)" by (auto simp: boxed_def mapR_def run_iff)
  then show ?thesis by (cases r) (auto intro: that)
qed

lemma ProcessArgField_given:
  assumes "reads_arguments G" "raw k = Some v" "\<And>c. f c v = ret (Inr arg)" "g arg s = q"
  shows "bindR (lib_ProcessArgField G ctx raw k z f) g s = q"
proof -
  obtain c where "lib_ProcessArgField G ctx raw k z f s = f c v s"
    using assms(1,2) unfolding reads_arguments_def by metis
  then show ?thesis using assms(3,4) by (simp add: bindR_def bindE_def)
qed

section \<open>Panics\<close>

definition never_panics :: "('l, 'a) x \<Rightarrow> bool" where
  "never_panics m \<longleftrightarrow> (\<forall>s. \<exists>v s'. m s = (Inr v, s'))"

text \<open>
  \<open>ResolveField\<close> with \<open>recoverFromPanic\<close> recovers from a panic of the resolver and of the marshaler; the initialiser of the
  field context is called before that and must not panic itself. The dispatch of no function does not panic.
\<close>

definition recovers :: "('c, 'f, 's, 'l) gqlgen \<Rightarrow> bool" where
  "recovers G \<longleftrightarrow>
     (\<forall>ctx oc field init res mar nn. (\<forall>c. never_panics (init c field)) \<longrightarrow>
        never_panics (lib_ResolveField G ctx oc field init res mar True nn)) \<and>
     (\<forall>ctx. never_panics (lib_Dispatch G ctx []))"

lemma never_panics_ret: "never_panics (ret v)"
  by (simp add: never_panics_def)

lemma never_panics_bindE: "never_panics m \<Longrightarrow> (\<And>v. never_panics (f v)) \<Longrightarrow> never_panics (bindE m f)"
  unfolding never_panics_def by (metis bindE_run(1))

lemma never_panics_branch: "never_panics m \<Longrightarrow> never_panics (required m)" "never_panics m \<Longrightarrow> never_panics (optional m)"
  unfolding required_def optional_def by (auto intro: never_panics_bindE never_panics_ret)

lemma never_panics_ResolveField:
  "recovers G \<Longrightarrow> (\<And>c. never_panics (init c field)) \<Longrightarrow> never_panics (lib_ResolveField G ctx oc field init res mar True nn)"
  by (simp add: recovers_def)

text \<open>The initialisers recover by themselves.\<close>

lemma never_panics_recovering: "(\<And>p. never_panics (h p)) \<Longrightarrow> never_panics (recovering m h)"
  unfolding never_panics_def recovering_def by (auto split: prod.split sum.split)

lemma never_panics_context_with_args: "never_panics (context_with_args G ec ctx field fc args_of)"
  unfolding context_with_args_def Let_def
  by (rule never_panics_recovering) (simp add: never_panics_def ec_Error_def bindE_def)

lemma never_panics_run_fields: "(\<And>field. field \<in> set xs \<Longrightarrow> never_panics (f field)) \<Longrightarrow> never_panics (run_fields f xs)"
  by (induction xs) (auto intro!: never_panics_bindE never_panics_ret split: prod.split)

lemma never_panics_exec_object:
  assumes "recovers G" "\<And>field. field \<in> set (lib_CollectFields G (OperationContext ec) sel [t]) \<Longrightarrow> never_panics (f field)"
  shows "never_panics (exec_object G ec ctx sel t f)"
proof -
  have "never_panics (lib_Dispatch G ctx [])" using assms(1) by (simp add: recovers_def)
  moreover have "never_panics (process_deferred G ctx [])" by (simp add: process_deferred_def never_panics_def bindE_def)
  ultimately show ?thesis
    unfolding exec_object_def Let_def using never_panics_run_fields[OF assms(2)]
    by (auto intro!: never_panics_bindE never_panics_ret split: prod.split)
qed

text \<open>The names that \<open>childFields_T\<close> finds.\<close>

definition found :: "('l, 'f fc_result) x \<Rightarrow> bool" where
  "found m \<longleftrightarrow> (\<exists>s fc err s'. m s = (Inr (Some fc, err), s'))"

lemma found_None: "\<not> found (ret (None, err))"
  by (simp add: found_def)

text \<open>
  A selection on the type \<open>T\<close> as validation lets it through: every collected field is \<open>__typename\<close> or a
  field that \<open>childFields_T\<close> finds.
\<close>

definition validated ::
  "('c, 'f, 's, 'l) gqlgen \<Rightarrow> 's executionContext \<Rightarrow> 's \<Rightarrow> string \<Rightarrow> ('f \<Rightarrow> ('l, 'f fc_result) x) \<Rightarrow> bool" where
  "validated G ec sel T childFields \<longleftrightarrow>
     (\<forall>field\<in>set (lib_CollectFields G (OperationContext ec) sel [T]). lib_Name G field = ''__typename'' \<or> found (childFields field))"

lemma validated_object_never_panics:
  assumes "recovers G" "validated G ec sel T childFields"
    and "\<And>field. lib_Name G field = ''__typename'' \<or> found (childFields field) \<Longrightarrow> never_panics (f field)"
  shows "never_panics (exec_object G ec ctx sel T f)"
  using assms(2,3) by (intro never_panics_exec_object[OF assms(1)]) (simp add: validated_def)

lemmas object_field_defs =
  field_CancelTaskPayload_task_id_def field_CancelTaskPayload_status_def field_SubmitTaskResponse_task_id_def
  field_Task_id_def field_Task_status_def field_Task_last_error_def field_Task_created_at_def
  field_Task_started_at_def field_Task_finished_at_def field_Task_shard_count_def field_Task_shards_def
  field_TaskShard_id_def field_TaskShard_script_name_def field_TaskShard_status_def
  field_TaskShard_output_oss_key_def field_TaskShard_output_sha256_def field_TaskShard_last_error_def
  field_TaskShard_started_at_def field_TaskShard_finished_at_def field_Tenant_id_def field_Tenant_name_def
  field_Tenant_primary_backend_name_def field_Tenant_max_agents_def field___Type_kind_def field___Type_name_def
  field___Type_description_def field___Type_specifiedByURL_def field___Type_fields_def field___Type_interfaces_def
  field___Type_possibleTypes_def field___Type_enumValues_def field___Type_inputFields_def field___Type_ofType_def
  field___Type_isOneOf_def

lemma objects_never_panic:
  assumes G: "recovers G"
  shows "validated G ec sel ''CancelTaskPayload'' (childFields_CancelTaskPayload G ec c) \<Longrightarrow> never_panics (exec_CancelTaskPayload G ec ctx sel payload)"
    and "validated G ec sel ''SubmitTaskResponse'' (childFields_SubmitTaskResponse G ec c) \<Longrightarrow> never_panics (exec_SubmitTaskResponse G ec ctx sel resp)"
    and "validated G ec sel ''Task'' (childFields_Task G ec c) \<Longrightarrow> never_panics (exec_Task G ec ctx sel task)"
    and "validated G ec sel ''TaskShard'' (childFields_TaskShard G ec c) \<Longrightarrow> never_panics (exec_TaskShard G ec ctx sel shard)"
    and "validated G ec sel ''Tenant'' (childFields_Tenant G ec c) \<Longrightarrow> never_panics (exec_Tenant G ec ctx sel tenant)"
    and "validated G ec sel ''__Type'' (childFields___Type G ec c) \<Longrightarrow> never_panics (type_object typ G ec ctx sel obj)"
  unfolding exec_CancelTaskPayload_def exec_SubmitTaskResponse_def exec_Task_def exec_TaskShard_def exec_Tenant_def type_object_def
  by (rule validated_object_never_panics[OF G], assumption,
      auto simp: childFields_CancelTaskPayload_def childFields_SubmitTaskResponse_def childFields_Task_def childFields_TaskShard_def
        childFields_Tenant_def childFields___Type_def found_None object_field_defs fieldContext___Type_fields_def fieldContext___Type_enumValues_def
      intro!: never_panics_branch never_panics_ResolveField[OF G] never_panics_context_with_args never_panics_ret split: if_split_asm)+

end
