(* ===== verification/Gql_Requests.thy ===== *)
theory Gql_Requests
  imports Gql_Moves Gql_Values
begin

text \<open>
  What a request makes of the resolvers: with which arguments they are called, how often, in which order, and what
  becomes of their results. The documented behaviour of the library that this rests on are two predicates: a field's
  resolver is called once, in a context that has the arguments its initialiser has read (\<open>invokes_resolvers\<close>), and
  an error of the resolver makes the field null (\<open>answers_fields\<close>).
\<close>

section \<open>Computations that move the world\<close>

text \<open>\<open>runs w m y w'\<close>: from the world \<open>w\<close> the computation returns \<open>y\<close> and leaves \<open>w'\<close>; \<open>leads\<close> leaves the result open.\<close>

definition runs :: "world \<Rightarrow> ('l, 'a) x \<Rightarrow> 'a \<Rightarrow> world \<Rightarrow> bool" where
  "runs w m y w' \<longleftrightarrow> (\<forall>s. ex_world s = w \<longrightarrow> (\<exists>s'. m s = (Inr y, s') \<and> ex_world s' = w'))"

definition leads :: "world \<Rightarrow> ('l, 'a) x \<Rightarrow> world \<Rightarrow> bool" where
  "leads w m w' \<longleftrightarrow> (\<forall>s. ex_world s = w \<longrightarrow> (\<exists>y s'. m s = (Inr y, s') \<and> ex_world s' = w'))"

text \<open>A computation that may panic but keeps the world.\<close>

definition keeps_world :: "('l, 'a) x \<Rightarrow> bool" where
  "keeps_world m \<longleftrightarrow> (\<forall>s. ex_world (snd (m s)) = ex_world s)"

lemma runs_yields: "runs w m y w \<longleftrightarrow> yields w m y"
  by (simp add: runs_def yields_def)

lemma runs_leads: "runs w m y w' \<Longrightarrow> leads w m w'"
  by (auto simp: runs_def leads_def)

lemma runs_bindE: "runs w m v w1 \<Longrightarrow> runs w1 (f v) y w2 \<Longrightarrow> runs w (bindE m f) y w2"
  unfolding runs_def by (metis bindE_run(1))

lemma leads_bindE: "leads w m w1 \<Longrightarrow> (\<And>v. leads w1 (f v) w2) \<Longrightarrow> leads w (bindE m f) w2"
  unfolding leads_def by (metis bindE_run(1))

lemma runs_leads_bindE: "runs w m v w1 \<Longrightarrow> leads w1 (f v) w2 \<Longrightarrow> leads w (bindE m f) w2"
  unfolding leads_def runs_def by (metis bindE_run(1))

lemma leads_ret: "leads w (ret v) w"
  by (simp add: leads_def)

lemma runs_in_world: "runs w (in_world m) (fst (m w)) (snd (m w))"
  by (simp add: runs_def in_world_def split: prod.split)

lemma runs_ret: "runs w (ret v) v w"
  by (simp add: runs_def)

lemma runs_mapR: "runs w m v w' \<Longrightarrow> runs w (mapR f m) (f v) w'"
  unfolding mapR_def by (rule runs_bindE, assumption, rule runs_ret)

lemma keeps_world_within: "within (world_rel (=)) m \<Longrightarrow> keeps_world m"
  by (auto simp: evolves_def world_rel_def keeps_world_def)

section \<open>Reading arguments\<close>

lemma yields_recovering: "yields w m y \<Longrightarrow> yields w (recovering m h) y"
  unfolding yields_def recovering_def by fastforce

lemma yields_bindR: "yields w m (Inr v) \<Longrightarrow> yields w (f v) r \<Longrightarrow> yields w (bindR m f) r"
  unfolding bindR_def by (rule yields_bindE, assumption, simp only: sum.case)

lemma yields_boxed: "yields w (f c v) (Inr y) \<Longrightarrow> yields w (boxed box f c v) (Inr (box y))"
  unfolding boxed_def mapR_def by (rule yields_bindE, assumption, simp only: map_sum.simps, rule yields_ret)

text \<open>An argument that is given, and one that is not.\<close>

lemma yields_arg:
  assumes "reads_arguments G" "raw k = Some v" "\<And>c. yields w (f c v) (Inr y)" "yields w (g (box y)) r"
  shows "yields w (bindR (lib_ProcessArgField G ctx raw k z (boxed box f)) g) r"
proof (rule yields_bindR[where v = "box y"])
  have "yields w (boxed box f c v) (Inr (box y))" for c by (rule yields_boxed) (rule assms(3))
  then show "yields w (lib_ProcessArgField G ctx raw k z (boxed box f)) (Inr (box y))"
    using assms(1,2) unfolding reads_arguments_def yields_def by metis
qed (rule assms(4))

lemma yields_no_arg:
  assumes "reads_arguments G" "raw k = None" "yields w (g z) r"
  shows "yields w (bindR (lib_ProcessArgField G ctx raw k z f) g) r"
proof (rule yields_bindR[where v = z])
  show "yields w (lib_ProcessArgField G ctx raw k z f) (Inr z)"
    using assms(1,2) unfolding reads_arguments_def yields_def by metis
qed (rule assms(3))

lemma yields_scalars:
  assumes "decodes_scalars G"
  shows "yields w (unmarshalNString2string G c (AnyString t)) (Inr t)"
    and "yields w (unmarshalOString2string_ptr G c (AnyString t)) (Inr (Some t))"
    and "yields w (unmarshalOString2string_ptr G c AnyNil) (Inr None)"
    and "uuid_Parse (env w) t = Inr u \<Longrightarrow> yields w (unmarshalNUUID2UUID G c (AnyString t)) (Inr u)"
  using assms
  by (auto simp: decodes_scalars_def unmarshalNString2string_def unmarshalOString2string_ptr_def unmarshalNUUID2UUID_def
      unmarshalInputUUID_def UnmarshalUUID_def mapR_def yields_ret bindE_def yields_def)

lemma yields_SubmitTask_args:
  assumes "reads_arguments G" "decodes_scalars G" "raw ''input'' = Some (AnyMap m)"
    and "\<And>k. k \<in> dom (encode_SubmitTaskInput input) \<Longrightarrow> m k = encode_SubmitTaskInput input k"
  shows "yields w (field_Mutation_SubmitTask_args G ctx raw) (Inr [''input'' \<mapsto> AnySubmitTaskInput input])"
  unfolding field_Mutation_SubmitTask_args_def
proof (rule yields_arg[OF assms(1), where v = "AnyMap m" and y = input])
  show "yields w (unmarshalNSubmitTaskInput G c (AnyMap m)) (Inr input)" for c
    by (simp add: unmarshalNSubmitTaskInput_def decode_SubmitTaskInput[OF assms(2,4)] yields_ret del: run_simps)
qed (rule assms(3), rule yields_ret)

lemma yields_CreateTenant_args:
  assumes "reads_arguments G" "decodes_scalars G" "raw ''input'' = Some (AnyMap m)"
    and "\<And>k. k \<in> dom (encode_CreateTenantInput input) \<Longrightarrow> m k = encode_CreateTenantInput input k"
  shows "yields w (field_Mutation_CreateTenant_args G ctx raw) (Inr [''input'' \<mapsto> AnyCreateTenantInput input])"
  unfolding field_Mutation_CreateTenant_args_def
proof (rule yields_arg[OF assms(1), where v = "AnyMap m" and y = input])
  show "yields w (unmarshalNCreateTenantInput G c (AnyMap m)) (Inr input)" for c
    by (simp add: unmarshalNCreateTenantInput_def decode_CreateTenantInput[OF assms(2,4)] yields_ret del: run_simps)
qed (rule assms(3), rule yields_ret)

lemma yields_task_args:
  assumes G: "reads_arguments G" "decodes_scalars G"
    and raw: "raw ''tenant_name'' = Some (AnyString tenantName)" "raw ''task_id'' = Some (AnyString text)"
    and u: "uuid_Parse (env w) text = Inr taskID"
  shows "yields w (field_Mutation_CancelTask_args G ctx raw) (Inr [''tenant_name'' \<mapsto> AnyString tenantName, ''task_id'' \<mapsto> AnyUUID taskID])"
    and "yields w (field_Query_GetTaskByID_args G ctx raw) (Inr [''tenant_name'' \<mapsto> AnyString tenantName, ''task_id'' \<mapsto> AnyUUID taskID])"
  unfolding field_Mutation_CancelTask_args_def field_Query_GetTaskByID_args_def
  by (rule yields_arg[OF G(1)], rule raw, rule yields_scalars(1)[OF G(2)],
      rule yields_arg[OF G(1)], rule raw, rule yields_scalars(4)[OF G(2) u], rule yields_ret)+

text \<open>The optional argument \<open>status\<close>: absent, null or a string.\<close>

definition gives_status :: "any_map \<Rightarrow> string option \<Rightarrow> bool" where
  "gives_status raw status \<longleftrightarrow> (case status of
       None \<Rightarrow> raw ''status'' \<in> {None, Some AnyNil}
     | Some t \<Rightarrow> raw ''status'' = Some (AnyString t))"

lemma yields_list_args:
  assumes G: "reads_arguments G" "decodes_scalars G"
    and raw: "raw ''tenant_name'' = Some (AnyString tenantName)" "gives_status raw status"
  shows "yields w (field_Query_GetTaskList_args G ctx raw) (Inr [''tenant_name'' \<mapsto> AnyString tenantName, ''status'' \<mapsto> AnyStringPtr status])"
  unfolding field_Query_GetTaskList_args_def
proof (rule yields_arg[OF G(1)], rule raw, rule yields_scalars(1)[OF G(2)], cases "raw ''status''")
  case None
  then have "status = None" using raw(2) by (auto simp: gives_status_def split: option.split_asm)
  then show "yields w (bindR (lib_ProcessArgField G ctx raw ''status'' (AnyStringPtr None) (boxed AnyStringPtr (unmarshalOString2string_ptr G)))
      (\<lambda>arg1. ret (Inr [''tenant_name'' \<mapsto> AnyString tenantName, ''status'' \<mapsto> arg1])))
      (Inr [''tenant_name'' \<mapsto> AnyString tenantName, ''status'' \<mapsto> AnyStringPtr status])"
    by (simp only:) (rule yields_no_arg[OF G(1)], rule None, rule yields_ret)
next
  case (Some v)
  have given: "yields w (unmarshalOString2string_ptr G c v) (Inr status)" for c
    using raw(2) Some yields_scalars(2,3)[OF G(2)] by (auto simp: gives_status_def split: option.split_asm)
  show "yields w (bindR (lib_ProcessArgField G ctx raw ''status'' (AnyStringPtr None) (boxed AnyStringPtr (unmarshalOString2string_ptr G)))
      (\<lambda>arg1. ret (Inr [''tenant_name'' \<mapsto> AnyString tenantName, ''status'' \<mapsto> arg1])))
      (Inr [''tenant_name'' \<mapsto> AnyString tenantName, ''status'' \<mapsto> AnyStringPtr status])"
    by (rule yields_arg[OF G(1)], rule Some, rule given, rule yields_ret)
qed

lemma yields_context_with_args:
  assumes "lib_ArgumentMap G field (oc_Variables (OperationContext ec)) = Inr raw" "\<And>c. yields w (args_of c raw) (Inr args)"
  shows "\<exists>fc'. fc_Args fc' = args \<and> yields w (context_with_args G ec ctx field fc args_of) (Some fc', None)"
proof (intro exI conjI)
  let ?c = "lib_WithFieldContext G ctx fc"
  have "yields w (bindE (or_panic (Inr raw)) (\<lambda>rawArgs. bindE (args_of ?c rawArgs) (\<lambda>r. case r of
      Inl err \<Rightarrow> bindE (ec_Error G ?c err) (\<lambda>_. ret (Some fc, Some err))
    | Inr args \<Rightarrow> ret (Some (fc\<lparr>fc_Args := args\<rparr>), None)))) (Some (fc\<lparr>fc_Args := args\<rparr>), None)"
    by (rule yields_bindE[where v = raw], simp add: or_panic_def yields_ret del: run_simps,
        rule yields_bindE, rule assms(2), simp only: sum.case, rule yields_ret)
  then show "yields w (context_with_args G ec ctx field fc args_of) (Some (fc\<lparr>fc_Args := args\<rparr>), None)"
    unfolding context_with_args_def Let_def assms(1) by (rule yields_recovering)
qed simp

section \<open>Mutations\<close>

text \<open>
  The library reads the arguments, calls the resolver once in a context that has them, and marshals the result; a panic of the resolver or the
  marshaler is recovered. The middleware of the root fields and the dispatch of no function add nothing.
\<close>

definition invokes_resolvers :: "('c, 'f, 's, 'l) gqlgen \<Rightarrow> bool" where
  "invokes_resolvers G \<longleftrightarrow>
     (\<forall>ctx oc field init res mar nn w w' args.
        (\<forall>c. \<exists>fc. fc_Args fc = args \<and> yields w (init c field) (Some fc, None)) \<longrightarrow>
        (\<forall>c fc. lib_GetFieldContext G c = Some fc \<longrightarrow> fc_Args fc = args \<longrightarrow> leads w (res c) w') \<longrightarrow>
        (\<forall>c sel v m. mar c sel v = Some m \<longrightarrow> keeps_world m) \<longrightarrow>
        leads w (lib_ResolveField G ctx oc field init res mar True nn) w') \<and>
     (\<forall>ctx f w w'. (\<forall>c. leads w (f c) w') \<longrightarrow> leads w (lib_RootResolverMiddleware G ctx f) w') \<and>
     (\<forall>ctx w. leads w (lib_Dispatch G ctx []) w)"

lemma invokes_resolversD:
  assumes "invokes_resolvers G"
  shows "(\<And>c. \<exists>fc. fc_Args fc = args \<and> yields w (init c field) (Some fc, None)) \<Longrightarrow>
      (\<And>c fc. lib_GetFieldContext G c = Some fc \<Longrightarrow> fc_Args fc = args \<Longrightarrow> leads w (res c) w') \<Longrightarrow>
      (\<And>c sel v m. mar c sel v = Some m \<Longrightarrow> keeps_world m) \<Longrightarrow>
      leads w (lib_ResolveField G ctx oc field init res mar True nn) w'"
    and "(\<And>c. leads w (f c) w') \<Longrightarrow> leads w (lib_RootResolverMiddleware G ctx f) w'"
    and "leads w (lib_Dispatch G ctx []) w"
  using assms unfolding invokes_resolvers_def by blast+

text \<open>What a field of a mutation asks for, and what the server does then.\<close>

datatype mutation_call = CallSubmitTask SubmitTaskInput | CallCancelTask string uuid | CallCreateTenant CreateTenantInput

primrec run_call :: "(Tenant \<Rightarrow> error + gql_Tenant) \<Rightarrow> (string \<Rightarrow> uuid \<Rightarrow> unit w) option \<Rightarrow> mutation_call \<Rightarrow> world \<Rightarrow> world" where
  "run_call copyTenant notify (CallSubmitTask input) w = snd (resolver_SubmitTask input w)"
| "run_call copyTenant notify (CallCancelTask tenantName taskID) w = snd (resolver_CancelTask notify tenantName taskID w)"
| "run_call copyTenant notify (CallCreateTenant input) w = snd (resolver_CreateTenant copyTenant input w)"

text \<open>
  A field asks for a call in the world \<open>w\<close>, by its name and its arguments. Inputs are encoded as the client sends them, other keys do
  not matter; the task is given by a text that the server parses.
\<close>

definition asks_for :: "('c, 'f, 's, 'l) gqlgen \<Rightarrow> 's operation_context \<Rightarrow> world \<Rightarrow> 'f \<Rightarrow> mutation_call \<Rightarrow> bool" where
  "asks_for G oc w field call \<longleftrightarrow> (\<exists>raw. lib_ArgumentMap G field (oc_Variables oc) = Inr raw \<and>
     (case call of
        CallSubmitTask input \<Rightarrow> lib_Name G field = ''SubmitTask'' \<and>
          (\<exists>m. raw ''input'' = Some (AnyMap m) \<and> (\<forall>k\<in>dom (encode_SubmitTaskInput input). m k = encode_SubmitTaskInput input k))
      | CallCancelTask tenantName taskID \<Rightarrow> lib_Name G field = ''CancelTask'' \<and> raw ''tenant_name'' = Some (AnyString tenantName) \<and>
          (\<exists>text. raw ''task_id'' = Some (AnyString text) \<and> uuid_Parse (env w) text = Inr taskID)
      | CallCreateTenant input \<Rightarrow> lib_Name G field = ''CreateTenant'' \<and>
          (\<exists>m. raw ''input'' = Some (AnyMap m) \<and> (\<forall>k\<in>dom (encode_CreateTenantInput input). m k = encode_CreateTenantInput input k))))"

text \<open>The fields ask for the calls, each in the world that the calls before it have left.\<close>

fun ask_for :: "('c, 'f, 's, 'l) gqlgen \<Rightarrow> 's operation_context \<Rightarrow> (mutation_call \<Rightarrow> world \<Rightarrow> world) \<Rightarrow> world \<Rightarrow>
    'f list \<Rightarrow> mutation_call list \<Rightarrow> bool" where
  "ask_for G oc run w [] [] \<longleftrightarrow> True"
| "ask_for G oc run w (field # rest) (call # calls) \<longleftrightarrow> asks_for G oc w field call \<and> ask_for G oc run (run call w) rest calls"
| "ask_for G oc run w _ _ \<longleftrightarrow> False"

lemma runs_field_Arg:
  "lib_GetFieldContext G c = Some fc \<Longrightarrow> fc_Args fc key = Some v \<Longrightarrow> as v = Some y \<Longrightarrow> runs w (field_Arg G c key as) y w"
  by (simp add: field_Arg_def assert_type_def runs_def)

lemma keeps_world_objects:
  fixes G :: "('c, 'f, 's, 'l) gqlgen"
  assumes "calls_back G"
  shows "at_type any_SubmitTaskResponse (marshalNSubmitTaskResponse_ptr G ec) c sel v = Some m \<Longrightarrow> keeps_world m"
    and "at_type any_CancelTaskPayload (marshalNCancelTaskPayload_ptr G ec) c sel v = Some m \<Longrightarrow> keeps_world m"
    and "at_type any_Tenant (marshalNTenant_ptr G ec) c sel v = Some m \<Longrightarrow> keeps_world m"
proof -
  have A: "admissible (world_rel (=) :: 'l exec \<Rightarrow> _)" by (rule admissible_world_rel) (auto intro: reflpI transpI)
  have L: "callback_laws G (world_rel (=))" using assms A by (simp add: calls_back_def)
  have "within (world_rel (=)) (marshalNSubmitTaskResponse_ptr G ec c sel x)"
    "within (world_rel (=)) (marshalNCancelTaskPayload_ptr G ec c sel y)"
    "within (world_rel (=)) (marshalNTenant_ptr G ec c sel z)" for c sel x y z
    unfolding marshalNSubmitTaskResponse_ptr_def marshalNCancelTaskPayload_ptr_def marshalNTenant_ptr_def
    by (intro within_exec_rules within_objects A L)+
  then show "at_type any_SubmitTaskResponse (marshalNSubmitTaskResponse_ptr G ec) c sel v = Some m \<Longrightarrow> keeps_world m"
    and "at_type any_CancelTaskPayload (marshalNCancelTaskPayload_ptr G ec) c sel v = Some m \<Longrightarrow> keeps_world m"
    and "at_type any_Tenant (marshalNTenant_ptr G ec) c sel v = Some m \<Longrightarrow> keeps_world m"
    by (auto simp: at_type_def intro: keeps_world_within)
qed

lemma leads_field:
  assumes "invokes_resolvers G" "lib_ArgumentMap G field (oc_Variables (OperationContext ec)) = Inr raw"
    and "\<And>c. yields w (args_of c raw) (Inr args)"
    and "\<And>c fc. lib_GetFieldContext G c = Some fc \<Longrightarrow> fc_Args fc = args \<Longrightarrow> runs w (res c) r w'"
    and "\<And>c sel v m. mar c sel v = Some m \<Longrightarrow> keeps_world m"
  shows "leads w (lib_ResolveField G ctx oc field (\<lambda>ctx field. context_with_args G ec ctx field (fc0 field) args_of) res mar True nn) w'"
proof (rule invokes_resolversD(1)[OF assms(1), where args = args])
  show "\<exists>fc. fc_Args fc = args \<and> yields w (context_with_args G ec c field (fc0 field) args_of) (Some fc, None)" for c
    by (rule yields_context_with_args[OF assms(2)]) (rule assms(3))
  show "leads w (res c) w'" if "lib_GetFieldContext G c = Some fc" "fc_Args fc = args" for c fc
    by (rule runs_leads[OF assms(4)[OF that]])
qed (rule assms(5))

lemma runs_one_Arg:
  assumes "lib_GetFieldContext G c = Some fc" "fc_Args fc key = Some v" "as v = Some y"
  shows "runs w (bindE (field_Arg G c key as) (\<lambda>input. mapR (map_sum id box) (in_world (f input))))
    (map_sum id box (fst (f y w))) (snd (f y w))"
  by (rule runs_bindE, rule runs_field_Arg, (rule assms)+, rule runs_mapR, rule runs_in_world)

lemma runs_two_Args:
  assumes "lib_GetFieldContext G c = Some fc" "fc_Args fc key = Some v" "as v = Some y" "fc_Args fc key' = Some v'" "as' v' = Some y'"
  shows "runs w (bindE (field_Arg G c key as) (\<lambda>p. bindE (field_Arg G c key' as') (\<lambda>q. mapR (map_sum id box) (in_world (f p q)))))
    (map_sum id box (fst (f y y' w))) (snd (f y y' w))"
  by (rule runs_bindE, rule runs_field_Arg, rule assms(1), rule assms(2), rule assms(3),
      rule runs_bindE, rule runs_field_Arg, rule assms(1), rule assms(4), rule assms(5), rule runs_mapR, rule runs_in_world)

lemma runs_two_Args_to:
  assumes "lib_GetFieldContext G c = Some fc" "fc_Args fc key = Some v" "as v = Some y" "fc_Args fc key' = Some v'" "as' v' = Some y'"
    and "f y y' w = (r, w')"
  shows "runs w (bindE (field_Arg G c key as) (\<lambda>p. bindE (field_Arg G c key' as') (\<lambda>q. mapR (map_sum id box) (in_world (f p q)))))
    (map_sum id box r) w'"
proof -
  have "r = fst (f y y' w)" "w' = snd (f y y' w)" using assms(6) by simp_all
  then show ?thesis by (simp only:) (rule runs_two_Args, rule assms(1), rule assms(2), rule assms(3), rule assms(4), rule assms(5))
qed

lemma SubmitTask_field_runs:
  assumes G: "calls_back G" "invokes_resolvers G" "reads_arguments G" "decodes_scalars G"
    and raw: "lib_ArgumentMap G field (oc_Variables (OperationContext ec)) = Inr raw" "raw ''input'' = Some (AnyMap m)"
      "\<forall>k\<in>dom (encode_SubmitTaskInput input). m k = encode_SubmitTaskInput input k"
  shows "leads w (field_Mutation_SubmitTask G ec ctx field) (snd (Mutation_SubmitTask (Resolvers ec) input w))"
  unfolding field_Mutation_SubmitTask_def fieldContext_Mutation_SubmitTask_def
proof (rule leads_field[OF G(2) raw(1)])
  show "yields w (field_Mutation_SubmitTask_args G c raw) (Inr [''input'' \<mapsto> AnySubmitTaskInput input])" for c
    by (rule yields_SubmitTask_args[where m = m]) (use G raw in auto)
qed (rule runs_one_Arg, assumption, simp, simp, rule keeps_world_objects[OF G(1)])

lemma CreateTenant_field_runs:
  assumes G: "calls_back G" "invokes_resolvers G" "reads_arguments G" "decodes_scalars G"
    and raw: "lib_ArgumentMap G field (oc_Variables (OperationContext ec)) = Inr raw" "raw ''input'' = Some (AnyMap m)"
      "\<forall>k\<in>dom (encode_CreateTenantInput input). m k = encode_CreateTenantInput input k"
  shows "leads w (field_Mutation_CreateTenant G ec ctx field) (snd (Mutation_CreateTenant (Resolvers ec) input w))"
  unfolding field_Mutation_CreateTenant_def fieldContext_Mutation_CreateTenant_def
proof (rule leads_field[OF G(2) raw(1)])
  show "yields w (field_Mutation_CreateTenant_args G c raw) (Inr [''input'' \<mapsto> AnyCreateTenantInput input])" for c
    by (rule yields_CreateTenant_args[where m = m]) (use G raw in auto)
qed (rule runs_one_Arg, assumption, simp, simp, rule keeps_world_objects[OF G(1)])

lemma CancelTask_field_runs:
  assumes G: "calls_back G" "invokes_resolvers G" "reads_arguments G" "decodes_scalars G"
    and raw: "lib_ArgumentMap G field (oc_Variables (OperationContext ec)) = Inr raw" "raw ''tenant_name'' = Some (AnyString tenantName)"
      "raw ''task_id'' = Some (AnyString text)" "uuid_Parse (env w) text = Inr taskID"
  shows "leads w (field_Mutation_CancelTask G ec ctx field) (snd (Mutation_CancelTask (Resolvers ec) tenantName taskID w))"
  unfolding field_Mutation_CancelTask_def fieldContext_Mutation_CancelTask_def
proof (rule leads_field[OF G(2) raw(1)])
  show "yields w (field_Mutation_CancelTask_args G c raw) (Inr [''tenant_name'' \<mapsto> AnyString tenantName, ''task_id'' \<mapsto> AnyUUID taskID])" for c
    by (rule yields_task_args(1)[OF G(3,4) raw(2-4)])
qed (rule runs_two_Args, assumption, simp, simp, simp, simp, rule keeps_world_objects[OF G(1)])

text \<open>A whole mutation: the fields in order, then the data is written.\<close>

lemma leads_run_fields:
  assumes "\<And>w field call. asks_for G oc w field call \<Longrightarrow> leads w (f field) (run call w)" "ask_for G oc run w xs calls"
  shows "leads w (run_fields f xs) (fold run calls w)"
  using assms(2)
proof (induction xs calls arbitrary: w rule: list_induct2')
  case (4 field xs call calls)
  then have "leads w (f field) (run call w)" "leads (run call w) (run_fields f xs) (fold run calls (run call w))"
    using assms(1) by simp_all
  then show ?case by (auto simp del: run_simps intro!: leads_bindE leads_ret split: prod.split)
qed (simp_all add: leads_def)

lemma mutation_leads:
  fixes G :: "('c, 'f, 's, 'l) gqlgen"
  assumes G: "calls_back G" "invokes_resolvers G" "reads_arguments G" "decodes_scalars G"
    and R: "Resolvers ec = graph_Resolver copyTenant copyTask notify"
    and asks: "ask_for G (OperationContext ec) (run_call copyTenant notify) w (lib_CollectFields G (OperationContext ec) sel [''Mutation'']) calls"
  shows "leads w (exec_Mutation G ec ctx sel) (fold (run_call copyTenant notify) calls w)"
proof -
  define f where "f field = (let innerCtx = lib_WithRootFieldContext G (lib_WithFieldContext G ctx (root_context ''Mutation'')) (lib_Name G field) field in
        if lib_Name G field = ''__typename'' then optional (ret (lib_MarshalString G ''Mutation''))
        else if lib_Name G field = ''SubmitTask'' then
          required (lib_RootResolverMiddleware G innerCtx (\<lambda>ctx. field_Mutation_SubmitTask G ec ctx field))
        else if lib_Name G field = ''CancelTask'' then
          required (lib_RootResolverMiddleware G innerCtx (\<lambda>ctx. field_Mutation_CancelTask G ec ctx field))
        else if lib_Name G field = ''CreateTenant'' then
          required (lib_RootResolverMiddleware G innerCtx (\<lambda>ctx. field_Mutation_CreateTenant G ec ctx field))
        else unknown_field (lib_Name G field))" for field
  have req: "leads w (required m) w'" if "leads w m w'" for m :: "('l, 'f marshaler) x" and w w'
    unfolding required_def by (rule leads_bindE[OF that]) (rule leads_ret)
  have "leads w (f field) (run_call copyTenant notify call w)" if "asks_for G (OperationContext ec) w field call" for w field call
  proof -
    have res: "snd (Mutation_SubmitTask (Resolvers ec) i w) = snd (resolver_SubmitTask i w)"
      "snd (Mutation_CreateTenant (Resolvers ec) j w) = snd (resolver_CreateTenant copyTenant j w)"
      "snd (Mutation_CancelTask (Resolvers ec) t u w) = snd (resolver_CancelTask notify t u w)" for i j t u w
      by (simp_all add: R graph_Resolver_def)
    note call = SubmitTask_field_runs[OF G, where ec = ec, unfolded res] CreateTenant_field_runs[OF G, where ec = ec, unfolded res]
      CancelTask_field_runs[OF G, where ec = ec, unfolded res]
    from that show ?thesis
      by (cases call) (auto simp: asks_for_def f_def Let_def intro!: req invokes_resolversD(2)[OF G(2)],
        (rule call, assumption+)+)
  qed
  then have fields: "leads w (run_fields f (lib_CollectFields G (OperationContext ec) sel [''Mutation''])) (fold (run_call copyTenant notify) calls w)"
    using leads_run_fields[OF _ asks] by blast
  have "exec_Mutation G ec ctx sel = exec_object G ec (lib_WithFieldContext G ctx (root_context ''Mutation'')) sel ''Mutation'' f"
    unfolding exec_Mutation_def f_def Let_def ..
  then show ?thesis
    using fields invokes_resolversD(3)[OF G(2)]
    by (auto simp: exec_object_def Let_def simp del: run_simps intro!: leads_bindE leads_ret split: prod.split)
qed

section \<open>Queries\<close>

text \<open>
  A field whose resolver has an error is null. Otherwise, unless the result is the nil interface, the field has what the marshaler
  makes of it for the selections of the field.
\<close>

definition answers_fields :: "('c, 'f, 's, 'l) gqlgen \<Rightarrow> ('f \<Rightarrow> 's) \<Rightarrow> bool" where
  "answers_fields G selections \<longleftrightarrow>
     (\<forall>ctx oc field init res mar nn w w' args r y.
        (\<forall>c. \<exists>fc. fc_Args fc = args \<and> yields w (init c field) (Some fc, None)) \<longrightarrow>
        (\<forall>c fc. lib_GetFieldContext G c = Some fc \<longrightarrow> fc_Args fc = args \<longrightarrow> runs w (res c) r w') \<longrightarrow>
        (case r of
           Inl err \<Rightarrow> y = MNull
         | Inr v \<Rightarrow> \<not> is_nil v \<and> (\<forall>c. lib_GetFieldContext G c \<noteq> None \<longrightarrow>
             (\<exists>m. mar c (selections field) v = Some m \<and> yields w' m y))) \<longrightarrow>
        runs w (lib_ResolveField G ctx oc field init res mar True nn) y w')"

lemma answers_field:
  assumes "answers_fields G selections" "lib_ArgumentMap G field (oc_Variables (OperationContext ec)) = Inr raw"
    and "\<And>c. yields w (args_of c raw) (Inr args)"
    and "\<And>c fc. lib_GetFieldContext G c = Some fc \<Longrightarrow> fc_Args fc = args \<Longrightarrow> runs w (res c) (map_sum id box r) w'"
    and "\<And>v. r = Inr v \<Longrightarrow> \<not> is_nil (box v) \<and> as (box v) = Some v"
    and "\<And>c v. r = Inr v \<Longrightarrow> lib_GetFieldContext G c \<noteq> None \<Longrightarrow> yields w' (mar c (selections field) v) (f v)"
  shows "runs w (lib_ResolveField G ctx oc field (\<lambda>ctx field. context_with_args G ec ctx field (fc0 field) args_of) res (at_type as mar) True nn)
    (case r of Inl err \<Rightarrow> MNull | Inr v \<Rightarrow> f v) w'"
proof (rule assms(1)[unfolded answers_fields_def, rule_format, where args = args and r = "map_sum id box r"])
  show "\<exists>fc. fc_Args fc = args \<and> yields w (context_with_args G ec c field (fc0 field) args_of) (Some fc, None)" for c
    by (rule yields_context_with_args[OF assms(2)]) (rule assms(3))
  show "runs w (res c) (map_sum id box r) w'" if "lib_GetFieldContext G c = Some fc" "fc_Args fc = args" for c fc
    by (rule assms(4)[OF that])
  show "case map_sum id box r of Inl err \<Rightarrow> (case r of Inl err \<Rightarrow> MNull | Inr v \<Rightarrow> f v) = MNull
    | Inr v \<Rightarrow> \<not> is_nil v \<and> (\<forall>c. lib_GetFieldContext G c \<noteq> None \<longrightarrow>
        (\<exists>m. at_type as mar c (selections field) v = Some m \<and> yields w' m (case r of Inl err \<Rightarrow> MNull | Inr v \<Rightarrow> f v)))"
    using assms(5,6) by (cases r) (auto simp: at_type_def)
qed

lemma fst_mapR: "fst (mapR f m s) = map_sum id f (fst (m s))"
  by (auto simp: mapR_def bindE_def split: prod.split sum.split)

text \<open>What a client gets for a task and for a list of tasks, given the answer of the resolver and the world it has left.\<close>

definition task_answer ::
  "('c, 'f, 's, 'l) gqlgen \<Rightarrow> ('f \<Rightarrow> 's) \<Rightarrow> 's operation_context \<Rightarrow> 'f \<Rightarrow> (error + gql_Task) \<times> world \<Rightarrow> 'f marshaler" where
  "task_answer G selections oc field = (\<lambda>(r, w). case r of
     Inl err \<Rightarrow> MNull
   | Inr task \<Rightarrow> complete_task G selections w oc (selections field) task)"

definition tasks_answer ::
  "('c, 'f, 's, 'l) gqlgen \<Rightarrow> ('f \<Rightarrow> 's) \<Rightarrow> 's operation_context \<Rightarrow> 'f \<Rightarrow> (error + gql_Task list) \<times> world \<Rightarrow> 'f marshaler" where
  "tasks_answer G selections oc field = (\<lambda>(r, w). case r of
     Inl err \<Rightarrow> MNull
   | Inr listed \<Rightarrow> complete_list (map (complete_task G selections w oc (selections field)) listed))"

lemma runs_GetTaskByID:
  assumes G: "answers_fields G selections" "completes_fields G selections" "reads_arguments G" "decodes_scalars G"
    and R: "Resolvers ec = graph_Resolver copyTenant copyTask notify"
    and raw: "lib_ArgumentMap G field (oc_Variables (OperationContext ec)) = Inr raw" "raw ''tenant_name'' = Some (AnyString tenantName)"
      "raw ''task_id'' = Some (AnyString text)" "uuid_Parse (env w) text = Inr taskID"
    and sel: "selects_task G selections (OperationContext ec) (selections field)"
  shows "runs w (field_Query_GetTaskByID G ec ctx field)
    (task_answer G selections (OperationContext ec) field (resolver_GetTaskByID copyTask tenantName taskID w))
    (snd (resolver_GetTaskByID copyTask tenantName taskID w))"
proof -
  let ?r = "fst (resolver_GetTaskByID copyTask tenantName taskID w)" and ?w = "snd (resolver_GetTaskByID copyTask tenantName taskID w)"
  let ?args = "[''tenant_name'' \<mapsto> AnyString tenantName, ''task_id'' \<mapsto> AnyUUID taskID]"
  have res: "Query_GetTaskByID (Resolvers ec) tenantName taskID w = (map_sum id Some ?r, ?w)"
    by (rule prod_eqI) (simp_all add: R graph_Resolver_def fst_mapR)
  have "runs w (field_Query_GetTaskByID G ec ctx field)
      (case map_sum id Some ?r of Inl err \<Rightarrow> MNull | Inr v \<Rightarrow> complete_task G selections ?w (OperationContext ec) (selections field) (the v)) ?w"
    unfolding field_Query_GetTaskByID_def fieldContext_Query_GetTaskByID_def
  proof (rule answers_field[OF G(1) raw(1), where args = ?args and box = AnyTask])
    show "yields w (field_Query_GetTaskByID_args G c raw) (Inr ?args)" for c
      by (rule yields_task_args(2)[OF G(3,4) raw(2-4)])
    show "runs w (bindE (field_Arg G c ''tenant_name'' any_string) (\<lambda>tenant_name. bindE (field_Arg G c ''task_id'' any_UUID) (\<lambda>task_id.
        mapR (map_sum id AnyTask) (in_world (Query_GetTaskByID (Resolvers ec) tenant_name task_id))))) (map_sum id AnyTask (map_sum id Some ?r)) ?w"
      if "lib_GetFieldContext G c = Some fc" "fc_Args fc = ?args" for c fc
      by (rule runs_two_Args_to, rule that(1), simp add: that(2), simp, simp add: that(2), simp, rule res)
    show "yields ?w (marshalNTask_ptr G ec c (selections field) v) (complete_task G selections ?w (OperationContext ec) (selections field) (the v))"
      if "map_sum id Some ?r = Inr v" for c v
      using that yields_exec_Task[OF G(2) sel] by (cases ?r) (auto simp: marshalNTask_ptr_def)
  qed simp
  moreover have "(case map_sum id Some ?r of Inl err \<Rightarrow> MNull | Inr v \<Rightarrow> complete_task G selections ?w (OperationContext ec) (selections field) (the v)) =
      task_answer G selections (OperationContext ec) field (resolver_GetTaskByID copyTask tenantName taskID w)"
    by (simp add: task_answer_def split: sum.split prod.split)
  ultimately show ?thesis by simp
qed

lemma runs_GetTaskList:
  assumes G: "answers_fields G selections" "completes_fields G selections" "reads_arguments G" "decodes_scalars G"
    and R: "Resolvers ec = graph_Resolver copyTenant copyTask notify"
    and raw: "lib_ArgumentMap G field (oc_Variables (OperationContext ec)) = Inr raw" "raw ''tenant_name'' = Some (AnyString tenantName)"
      "gives_status raw status"
    and sel: "selects_task G selections (OperationContext ec) (selections field)"
  shows "runs w (field_Query_GetTaskList G ec ctx field)
    (tasks_answer G selections (OperationContext ec) field (resolver_GetTaskList copyTask tenantName status w))
    (snd (resolver_GetTaskList copyTask tenantName status w))"
proof -
  let ?r = "fst (resolver_GetTaskList copyTask tenantName status w)" and ?w = "snd (resolver_GetTaskList copyTask tenantName status w)"
  let ?args = "[''tenant_name'' \<mapsto> AnyString tenantName, ''status'' \<mapsto> AnyStringPtr status]"
  let ?f = "\<lambda>v. complete_list (map (nullable (complete_task G selections ?w (OperationContext ec) (selections field))) v)"
  have res: "Query_GetTaskList (Resolvers ec) tenantName status w = (map_sum id (map Some) ?r, ?w)"
    by (rule prod_eqI) (simp_all add: R graph_Resolver_def fst_mapR)
  have "runs w (field_Query_GetTaskList G ec ctx field) (case map_sum id (map Some) ?r of Inl err \<Rightarrow> MNull | Inr v \<Rightarrow> ?f v) ?w"
    unfolding field_Query_GetTaskList_def fieldContext_Query_GetTaskList_def
  proof (rule answers_field[OF G(1) raw(1), where args = ?args and box = AnyTasks])
    show "yields w (field_Query_GetTaskList_args G c raw) (Inr ?args)" for c
      by (rule yields_list_args[OF G(3,4) raw(2,3)])
    show "runs w (bindE (field_Arg G c ''tenant_name'' any_string) (\<lambda>tenant_name. bindE (field_Arg G c ''status'' any_string_ptr) (\<lambda>status.
        mapR (map_sum id AnyTasks) (in_world (Query_GetTaskList (Resolvers ec) tenant_name status))))) (map_sum id AnyTasks (map_sum id (map Some) ?r)) ?w"
      if "lib_GetFieldContext G c = Some fc" "fc_Args fc = ?args" for c fc
      by (rule runs_two_Args_to, rule that(1), simp add: that(2), simp, simp add: that(2), simp, rule res)
    show "yields ?w (marshalNTask_slice G ec c (selections field) v) (?f v)" for c v
      unfolding marshalNTask_slice_def
    proof (rule yields_marshal_slice[OF G(2)])
      fix c and task :: "gql_Task option"
      show "yields ?w (marshalNTask_ptr G ec c (selections field) task)
          (nullable (complete_task G selections ?w (OperationContext ec) (selections field)) task)"
        using yields_exec_Task[OF G(2) sel]
        by (cases task) (auto simp: marshalNTask_ptr_def nullable_def intro!: yields_bindE[OF yields_null_error] yields_ret)
    qed
  qed simp
  moreover have "(case map_sum id (map Some) ?r of Inl err \<Rightarrow> MNull | Inr v \<Rightarrow> ?f v) =
      tasks_answer G selections (OperationContext ec) field (resolver_GetTaskList copyTask tenantName status w)"
    by (simp add: tasks_answer_def nullable_def comp_def split: sum.split prod.split)
  ultimately show ?thesis by simp
qed

end
