(* ===== verification/Gql_Depth.thy ===== *)
theory Gql_Depth
  imports Gql_Exec
begin

text \<open>
  The recursion of \<open>___Type\<close> ends. A field is marshaled with its own selections, which are nested less deep than
  the selection set the field was collected from (\<open>descends\<close>); so the function nests no deeper than the query,
  and a stack that is deeper than the query is as good as any other.
\<close>

definition descends :: "('c, 'f, 's, 'l) gqlgen \<Rightarrow> ('f \<Rightarrow> 's) \<Rightarrow> ('s \<Rightarrow> nat) \<Rightarrow> bool" where
  "descends G selections depth \<longleftrightarrow>
     (\<forall>oc sel ts field. field \<in> set (lib_CollectFields G oc sel ts) \<longrightarrow> depth (selections field) < depth sel) \<and>
     (\<forall>ctx oc field init res mar mar' rc nn.
        (\<forall>c v. mar c (selections field) v = mar' c (selections field) v) \<longrightarrow>
        lib_ResolveField G ctx oc field init res mar rc nn = lib_ResolveField G ctx oc field init res mar' rc nn)"

text \<open>Two functions for the type objects that agree on the selections of less than a given depth.\<close>

definition agree ::
  "('s \<Rightarrow> nat) \<Rightarrow> nat \<Rightarrow> ('c \<Rightarrow> 's \<Rightarrow> iref \<Rightarrow> ('l, 'f marshaler) x) \<Rightarrow> ('c \<Rightarrow> 's \<Rightarrow> iref \<Rightarrow> ('l, 'f marshaler) x) \<Rightarrow> bool" where
  "agree depth n typ typ' \<longleftrightarrow> (\<forall>c sel obj. depth sel < n \<longrightarrow> typ c sel obj = typ' c sel obj)"

lemma agreeD: "agree depth n typ typ' \<Longrightarrow> depth sel < n \<Longrightarrow> typ c sel = typ' c sel"
  by (auto simp: agree_def)

lemma agree_mono: "agree depth n typ typ' \<Longrightarrow> m \<le> n \<Longrightarrow> agree depth m typ typ'"
  by (auto simp: agree_def)

lemma descends_collected:
  "descends G selections depth \<Longrightarrow> field \<in> set (lib_CollectFields G oc sel ts) \<Longrightarrow> depth (selections field) < depth sel"
  by (simp add: descends_def)

lemma resolve_cong:
  assumes "descends G selections depth" and "\<And>c. mar c (selections field) = mar' c (selections field)"
  shows "lib_ResolveField G ctx oc field init res (at_type as mar) rc nn =
    lib_ResolveField G ctx oc field init res (at_type as mar') rc nn"
  using assms(1)[unfolded descends_def, THEN conjunct2, rule_format, where field = field and mar = "at_type as mar" and mar' = "at_type as mar'"]
    assms(2) by (simp add: at_type_def)

lemma run_fields_cong: "(\<And>field. field \<in> set xs \<Longrightarrow> f field = g field) \<Longrightarrow> run_fields f xs = run_fields g xs"
  by (induction xs) simp_all

lemma exec_object_cong:
  assumes "\<And>field. field \<in> set (lib_CollectFields G (OperationContext ec) sel [t]) \<Longrightarrow> f field = g field"
  shows "exec_object G ec ctx sel t f = exec_object G ec ctx sel t g"
proof -
  have "run_fields f (lib_CollectFields G (OperationContext ec) sel [t]) = run_fields g (lib_CollectFields G (OperationContext ec) sel [t])"
    by (rule run_fields_cong) (rule assms)
  then show ?thesis unfolding exec_object_def Let_def by (simp only:)
qed

section \<open>Congruence\<close>

lemma type_marshalers_cong:
  assumes "agree depth n typ typ'" "depth sel < n"
  shows "marshalN__Type_ptr typ G ec c sel = marshalN__Type_ptr typ' G ec c sel"
    "marshalO__Type_ptr typ G ec c sel = marshalO__Type_ptr typ' G ec c sel"
    "marshalN__Type_slice typ G ec c sel = marshalN__Type_slice typ' G ec c sel"
    "marshalO__Type_slice typ G ec c sel = marshalO__Type_slice typ' G ec c sel"
proof -
  have t: "typ c sel = typ' c sel" for c by (rule agreeD[OF assms])
  then have "marshalN__Type typ G ec c sel = marshalN__Type typ' G ec c sel" for c
    by (simp add: marshalN__Type_def fun_eq_iff)
  then show "marshalN__Type_ptr typ G ec c sel = marshalN__Type_ptr typ' G ec c sel"
    "marshalO__Type_ptr typ G ec c sel = marshalO__Type_ptr typ' G ec c sel"
    "marshalN__Type_slice typ G ec c sel = marshalN__Type_slice typ' G ec c sel"
    "marshalO__Type_slice typ G ec c sel = marshalO__Type_slice typ' G ec c sel"
    using t by (auto simp: marshalN__Type_ptr_def marshalO__Type_ptr_def marshalN__Type_slice_def
      marshalO__Type_slice_def intro!: ext split: option.split)
qed

lemma InputValue_cong:
  assumes G: "descends G selections depth" and a: "agree depth (depth sel) typ typ'"
  shows "exec___InputValue typ G ec ctx sel obj = exec___InputValue typ' G ec ctx sel obj"
  unfolding exec___InputValue_def
proof (rule exec_object_cong, goal_cases)
  case (1 field)
  then have "field___InputValue_type typ G ec ctx field obj = field___InputValue_type typ' G ec ctx field obj"
    unfolding field___InputValue_type_def
    by (intro resolve_cong[OF G] type_marshalers_cong[OF a] descends_collected[OF G])
  then show ?case by simp
qed

lemma input_value_slices_cong:
  assumes G: "descends G selections depth" and a: "agree depth n typ typ'" and d: "depth sel < n"
  shows "marshalN__InputValue_slice typ G ec c sel = marshalN__InputValue_slice typ' G ec c sel"
    "marshalO__InputValue_slice typ G ec c sel = marshalO__InputValue_slice typ' G ec c sel"
proof -
  have "exec___InputValue typ G ec c sel obj = exec___InputValue typ' G ec c sel obj" for c obj
    by (rule InputValue_cong[OF G agree_mono[OF a]]) (use d in simp)
  then have "marshalN__InputValue typ G ec c sel = marshalN__InputValue typ' G ec c sel" for c
    by (simp add: marshalN__InputValue_def fun_eq_iff)
  then show "marshalN__InputValue_slice typ G ec c sel = marshalN__InputValue_slice typ' G ec c sel"
    "marshalO__InputValue_slice typ G ec c sel = marshalO__InputValue_slice typ' G ec c sel"
    by (auto simp: marshalN__InputValue_slice_def marshalO__InputValue_slice_def intro!: ext split: option.split)
qed

lemma Field_cong:
  assumes G: "descends G selections depth" and a: "agree depth (depth sel) typ typ'"
  shows "exec___Field typ G ec ctx sel obj = exec___Field typ' G ec ctx sel obj"
  unfolding exec___Field_def
proof (rule exec_object_cong, goal_cases)
  case (1 field)
  then have d: "depth (selections field) < depth sel" by (rule descends_collected[OF G])
  have "field___Field_type typ G ec ctx field obj = field___Field_type typ' G ec ctx field obj"
    "field___Field_args typ G ec ctx field obj = field___Field_args typ' G ec ctx field obj"
    unfolding field___Field_type_def field___Field_args_def
    by (intro resolve_cong[OF G] type_marshalers_cong[OF a d] input_value_slices_cong[OF G a d])+
  then show ?case by simp
qed

lemma type_object_cong:
  assumes G: "descends G selections depth" and a: "agree depth (depth sel) typ typ'"
  shows "type_object typ G ec ctx sel obj = type_object typ' G ec ctx sel obj"
  unfolding type_object_def
proof (rule exec_object_cong, goal_cases)
  case (1 field)
  then have d: "depth (selections field) < depth sel" by (rule descends_collected[OF G])
  have "exec___Field typ G ec c (selections field) obj = exec___Field typ' G ec c (selections field) obj" for c obj
    by (rule Field_cong[OF G agree_mono[OF a]]) (use d in simp)
  then have "marshalN__Field typ G ec c (selections field) = marshalN__Field typ' G ec c (selections field)" for c
    by (simp add: marshalN__Field_def fun_eq_iff)
  then have "marshalO__Field_slice typ G ec c (selections field) = marshalO__Field_slice typ' G ec c (selections field)" for c
    by (auto simp: marshalO__Field_slice_def intro!: ext split: option.split)
  then have "field___Type_fields typ G ec ctx field obj = field___Type_fields typ' G ec ctx field obj"
    "field___Type_interfaces typ G ec ctx field obj = field___Type_interfaces typ' G ec ctx field obj"
    "field___Type_possibleTypes typ G ec ctx field obj = field___Type_possibleTypes typ' G ec ctx field obj"
    "field___Type_inputFields typ G ec ctx field obj = field___Type_inputFields typ' G ec ctx field obj"
    "field___Type_ofType typ G ec ctx field obj = field___Type_ofType typ' G ec ctx field obj"
    unfolding field___Type_fields_def field___Type_interfaces_def field___Type_possibleTypes_def
      field___Type_inputFields_def field___Type_ofType_def
    by (intro resolve_cong[OF G] type_marshalers_cong[OF a d] input_value_slices_cong[OF G a d]; assumption)+
  then show ?case by simp
qed

lemma exec___Type_stack:
  assumes G: "descends G selections depth"
  shows "depth sel < n \<Longrightarrow> depth sel < m \<Longrightarrow> exec___Type n G ec ctx sel obj = exec___Type m G ec ctx sel obj"
proof (induction n arbitrary: m ctx sel obj)
  case (Suc n)
  then obtain k where m: "m = Suc k" by (cases m) auto
  have "agree depth (depth sel) (exec___Type n G ec) (exec___Type k G ec)"
    unfolding agree_def by (intro allI impI Suc.IH) (use Suc.prems m in linarith)+
  then show ?case unfolding m exec___Type.simps by (rule type_object_cong[OF G])
qed simp

lemma exec___Type_unfold:
  assumes G: "descends G selections depth" and "depth sel < n"
  shows "exec___Type n G ec ctx sel obj = type_object (exec___Type n G ec) G ec ctx sel obj"
proof -
  obtain k where n: "n = Suc k" using assms(2) by (cases n) auto
  have a: "agree depth (depth sel) (exec___Type k G ec) (exec___Type n G ec)"
    unfolding agree_def by (intro allI impI exec___Type_stack[OF G]) (use assms(2) n in linarith)+
  have "exec___Type n G ec ctx sel obj = type_object (exec___Type k G ec) G ec ctx sel obj"
    by (simp only: n exec___Type.simps)
  also have "\<dots> = type_object (exec___Type n G ec) G ec ctx sel obj"
    by (rule type_object_cong[OF G a])
  finally show ?thesis .
qed

section \<open>Whole queries\<close>

lemma Directive_cong:
  assumes G: "descends G selections depth" and a: "agree depth (depth sel) typ typ'"
  shows "exec___Directive typ G ec ctx sel obj = exec___Directive typ' G ec ctx sel obj"
  unfolding exec___Directive_def
proof (rule exec_object_cong, goal_cases)
  case (1 field)
  then have d: "depth (selections field) < depth sel" by (rule descends_collected[OF G])
  have "field___Directive_args typ G ec ctx field obj = field___Directive_args typ' G ec ctx field obj"
    unfolding field___Directive_args_def by (intro resolve_cong[OF G] input_value_slices_cong[OF G a d])
  then show ?case by simp
qed

lemma Schema_cong:
  assumes G: "descends G selections depth" and a: "agree depth (depth sel) typ typ'"
  shows "exec___Schema typ G ec ctx sel obj = exec___Schema typ' G ec ctx sel obj"
  unfolding exec___Schema_def
proof (rule exec_object_cong, goal_cases)
  case (1 field)
  then have d: "depth (selections field) < depth sel" by (rule descends_collected[OF G])
  have "exec___Directive typ G ec c (selections field) obj = exec___Directive typ' G ec c (selections field) obj" for c obj
    by (rule Directive_cong[OF G agree_mono[OF a]]) (use d in simp)
  then have "marshalN__Directive typ G ec c (selections field) = marshalN__Directive typ' G ec c (selections field)" for c
    by (simp add: marshalN__Directive_def fun_eq_iff)
  then have "marshalN__Directive_slice typ G ec c (selections field) = marshalN__Directive_slice typ' G ec c (selections field)" for c
    by (intro ext) (simp add: marshalN__Directive_slice_def)
  then have "field___Schema_types typ G ec ctx field obj = field___Schema_types typ' G ec ctx field obj"
    "field___Schema_queryType typ G ec ctx field obj = field___Schema_queryType typ' G ec ctx field obj"
    "field___Schema_mutationType typ G ec ctx field obj = field___Schema_mutationType typ' G ec ctx field obj"
    "field___Schema_subscriptionType typ G ec ctx field obj = field___Schema_subscriptionType typ' G ec ctx field obj"
    "field___Schema_directives typ G ec ctx field obj = field___Schema_directives typ' G ec ctx field obj"
    unfolding field___Schema_types_def field___Schema_queryType_def field___Schema_mutationType_def
      field___Schema_subscriptionType_def field___Schema_directives_def
    by (intro resolve_cong[OF G] type_marshalers_cong[OF a d]; assumption)+
  then show ?case by simp
qed

text \<open>Nothing but the recursion looks at the depth of the stack.\<close>

lemma select_StackDepth:
  "OperationContext (ec\<lparr>StackDepth := n\<rparr>) = OperationContext ec" "Resolvers (ec\<lparr>StackDepth := n\<rparr>) = Resolvers ec"
  by simp_all

lemma exec_object_StackDepth: "exec_object G (ec\<lparr>StackDepth := n\<rparr>) = exec_object G ec"
  by (simp add: exec_object_def fun_eq_iff)

lemma context_StackDepth: "context_with_args G (ec\<lparr>StackDepth := n\<rparr>) = context_with_args G ec"
  by (simp add: context_with_args_def fun_eq_iff)

lemma own_fields_StackDepth:
  "field_Query_GetTaskByID G (ec\<lparr>StackDepth := n\<rparr>) = field_Query_GetTaskByID G ec"
  "field_Query_GetTaskList G (ec\<lparr>StackDepth := n\<rparr>) = field_Query_GetTaskList G ec"
  unfolding gql_defs fun_eq_iff exec_object_StackDepth context_StackDepth select_StackDepth by simp_all

lemma intro_fields_StackDepth:
  "field_Query___type typ G (ec\<lparr>StackDepth := n\<rparr>) = field_Query___type typ G ec"
  "field_Query___schema typ G (ec\<lparr>StackDepth := n\<rparr>) = field_Query___schema typ G ec"
  "type_object typ G (ec\<lparr>StackDepth := n\<rparr>) = type_object typ G ec"
  unfolding gql_defs fun_eq_iff exec_object_StackDepth context_StackDepth select_StackDepth by simp_all

lemma exec___Type_StackDepth: "exec___Type k G (ec\<lparr>StackDepth := n\<rparr>) = exec___Type k G ec"
  by (induction k) (intro ext, simp add: intro_fields_StackDepth)+

lemma intro_fields_cong:
  assumes G: "descends G selections depth" and a: "agree depth (Suc (depth (selections field))) typ typ'"
  shows "field_Query___type typ G ec ctx field = field_Query___type typ' G ec ctx field"
    "field_Query___schema typ G ec ctx field = field_Query___schema typ' G ec ctx field"
proof -
  have "exec___Schema typ G ec c (selections field) obj = exec___Schema typ' G ec c (selections field) obj" for c obj
    by (rule Schema_cong[OF G agree_mono[OF a]]) simp
  then have "marshalO__Schema_ptr typ G ec c (selections field) = marshalO__Schema_ptr typ' G ec c (selections field)" for c
    by (intro ext) (simp add: marshalO__Schema_ptr_def split: option.split)
  then show "field_Query___type typ G ec ctx field = field_Query___type typ' G ec ctx field"
    "field_Query___schema typ G ec ctx field = field_Query___schema typ' G ec ctx field"
    unfolding field_Query___type_def field_Query___schema_def
    by (intro resolve_cong[OF G] type_marshalers_cong[OF a]; simp)+
qed

lemma query_fields_cong: "(\<And>field. field \<in> set xs \<Longrightarrow> f field = g field) \<Longrightarrow> query_fields f xs = query_fields g xs"
  by (induction xs) simp_all

lemma exec_Query_StackDepth:
  assumes G: "descends G selections depth" and n: "depth sel \<le> n" "depth sel \<le> m"
  shows "exec_Query G (ec\<lparr>StackDepth := n\<rparr>) ctx sel = exec_Query G (ec\<lparr>StackDepth := m\<rparr>) ctx sel"
proof -
  let ?fields = "lib_CollectFields G (OperationContext ec) sel [''Query'']"
  have "query_field G (ec\<lparr>StackDepth := n\<rparr>) c field = query_field G (ec\<lparr>StackDepth := m\<rparr>) c field"
    if "field \<in> set ?fields" for c field
  proof -
    have "depth (selections field) < depth sel" using descends_collected[OF G that] .
    then have "agree depth (Suc (depth (selections field))) (exec___Type n G ec) (exec___Type m G ec)"
      unfolding agree_def by (intro allI impI exec___Type_stack[OF G]) (use n in linarith)+
    from intro_fields_cong[OF G this] show ?thesis
      by (simp add: query_field_def Let_def own_fields_StackDepth intro_fields_StackDepth exec___Type_StackDepth)
  qed
  then have "query_fields (query_field G (ec\<lparr>StackDepth := n\<rparr>) c) ?fields = query_fields (query_field G (ec\<lparr>StackDepth := m\<rparr>) c) ?fields" for c
    by (rule query_fields_cong)
  then show ?thesis by (simp add: exec_Query_def Let_def)
qed

end
