(* ===== verification/Demo_Gql.thy ===== *)
theory Demo_Gql
  imports Gql_Requests Gql_Depth Demo
begin

text \<open>
  A library for the executor in miniature: it has the behaviour the properties of the executor assume, so the
  assumptions can hold, and it computes, so the properties can be seen on concrete requests. A field carries its
  name, its arguments and its selections; a context is the innermost field context; what the library keeps are
  the errors of the response and whether a one-shot handler has answered.
\<close>

datatype dfield = DField (df_name: string) (df_args: any_map) (df_sel: "dfield list")

type_synonym dlib = "error list \<times> bool"
type_synonym dctx = "dfield field_context option"
type_synonym 'a dx = "(dlib, 'a) x"

definition demo_log :: "error \<Rightarrow> unit dx" where
  "demo_log e = modifyE (\<lambda>s. s\<lparr>ex_lib := (fst (ex_lib s) @ [e], snd (ex_lib s))\<rparr>)"

definition demo_ResolveField ::
  "dctx \<Rightarrow> dfield list operation_context \<Rightarrow> dfield \<Rightarrow> (dctx \<Rightarrow> dfield \<Rightarrow> dfield fc_result dx) \<Rightarrow>
   (dctx \<Rightarrow> (error + go_any) dx) \<Rightarrow> (dctx \<Rightarrow> dfield list \<Rightarrow> go_any \<Rightarrow> dfield marshaler dx option) \<Rightarrow> bool \<Rightarrow> bool \<Rightarrow>
   dfield marshaler dx" where
  "demo_ResolveField ctx oc field init res mar rc nn =
     bindE (init ctx field) (\<lambda>(fc, err). case err of
         Some e \<Rightarrow> ret MNull
       | None \<Rightarrow>
           recovering
             (bindE (res fc) (\<lambda>r. case r of
                Inl e \<Rightarrow> bindE (demo_log e) (\<lambda>_. ret MNull)
              | Inr v \<Rightarrow>
                  if is_nil v then ret MNull
                  else (case mar fc (df_sel field) v of
                    None \<Rightarrow> bindE (demo_log (External ''unexpected type'')) (\<lambda>_. ret MNull)
                  | Some m \<Rightarrow> m)))
             (\<lambda>p. if rc then bindE (demo_log p) (\<lambda>_. ret MNull) else raise p))"

primrec demo_slice :: "(nat \<Rightarrow> 'a dx) \<Rightarrow> nat list \<Rightarrow> 'a list dx" where
  "demo_slice f [] = ret []"
| "demo_slice f (i # is) = bindE (f i) (\<lambda>v. bindE (demo_slice f is) (\<lambda>vs. ret (v # vs)))"

primrec demo_Dispatch :: "dctx \<Rightarrow> (nat \<times> (dctx \<Rightarrow> 'a dx)) list \<Rightarrow> (nat \<times> 'a) list dx" where
  "demo_Dispatch ctx [] = ret []"
| "demo_Dispatch ctx (d # ds) = bindE (snd d ctx) (\<lambda>v. bindE (demo_Dispatch ctx ds) (\<lambda>vs. ret ((fst d, v) # vs)))"

text \<open>JSON text, without the quoting of field names.\<close>

fun demo_write :: "dfield marshaler \<Rightarrow> error + string" where
  "demo_write MNil = Inl nil_dereference"
| "demo_write MNull = Inr ''null''"
| "demo_write (MWriter r) = r"
| "demo_write (MArray vs) = Inr (''['' @ concat (map (\<lambda>v. case_sum error_Error id (demo_write v) @ '','') vs) @ '']'')"
| "demo_write (MFieldSet fs vs) =
     Inr (''{'' @ concat (map2 (\<lambda>f t. df_name f @ '':'' @ t @ '','') fs (map (\<lambda>v. case_sum error_Error id (demo_write v)) vs)) @ ''}'')"

fun demo_string :: "go_any \<Rightarrow> error + string" where
  "demo_string (AnyString t) = Inr t" | "demo_string _ = Inl (External ''not a string'')"

fun demo_int :: "go_any \<Rightarrow> error + int" where
  "demo_int (AnyInt i) = Inr i" | "demo_int _ = Inl (External ''not an int'')"

fun demo_bool :: "go_any \<Rightarrow> error + bool" where
  "demo_bool (AnyBool b) = Inr b" | "demo_bool _ = Inl (External ''not a bool'')"

fun demo_upload :: "go_any \<Rightarrow> error + (string + string)" where
  "demo_upload (AnyUpload u) = Inr u" | "demo_upload _ = Inl (External ''not an upload'')"

text \<open>A schema with one type, which refers to itself.\<close>

definition demo_introspection :: introspection where
  "demo_introspection =
     \<lparr>IntrospectType = (\<lambda>name. Inr (Some 0)), IntrospectSchema = Inr (Some 0),
      Directive_Name = (\<lambda>_. ''d''), Directive_Description = (\<lambda>_. None), Directive_IsRepeatable = (\<lambda>_. False),
      Directive_Locations = (\<lambda>_. []), Directive_Args = (\<lambda>_. None), EnumValue_Name = (\<lambda>_. ''e''),
      EnumValue_Description = (\<lambda>_. None), EnumValue_IsDeprecated = (\<lambda>_. False), EnumValue_DeprecationReason = (\<lambda>_. None),
      Field_Name = (\<lambda>_. ''f''), Field_Description = (\<lambda>_. None), Field_Args = (\<lambda>_. None), Field_Type = (\<lambda>_. Some 0),
      Field_IsDeprecated = (\<lambda>_. False), Field_DeprecationReason = (\<lambda>_. None), InputValue_Name = (\<lambda>_. ''i''),
      InputValue_Description = (\<lambda>_. None), InputValue_Type = (\<lambda>_. Some 0), InputValue_DefaultValue = (\<lambda>_. None),
      InputValue_IsDeprecated = (\<lambda>_. False), InputValue_DeprecationReason = (\<lambda>_. None), Schema_Description = (\<lambda>_. None),
      Schema_Types = (\<lambda>_. Some [0]), Schema_QueryType = (\<lambda>_. Some 0), Schema_MutationType = (\<lambda>_. None),
      Schema_SubscriptionType = (\<lambda>_. None), Schema_Directives = (\<lambda>_. None), Type_Kind = (\<lambda>_. ''OBJECT''),
      Type_Name = (\<lambda>_. Some ''Query''), Type_Description = (\<lambda>_. None), Type_SpecifiedByURL = (\<lambda>_. None),
      Type_Fields = (\<lambda>_ _. Some [0]), Type_Interfaces = (\<lambda>_. None), Type_PossibleTypes = (\<lambda>_. None),
      Type_EnumValues = (\<lambda>_ _. None), Type_InputFields = (\<lambda>_. None), Type_OfType = (\<lambda>_. Some 0), Type_IsOneOf = (\<lambda>_. False)\<rparr>"

definition demo_gqlgen :: "dfield list operation_context \<Rightarrow> (dctx, dfield, dfield list, dlib) gqlgen" where
  "demo_gqlgen oc =
     \<lparr>lib_CollectFields = (\<lambda>_ sel _. sel), lib_GetOperationContext = (\<lambda>_. oc), lib_Name = df_name,
      lib_ArgumentMap = (\<lambda>f _. Inr (df_args f)), lib_GetFieldContext = (\<lambda>c. c), lib_WithFieldContext = (\<lambda>_ fc. Some fc),
      lib_WithRootFieldContext = (\<lambda>c _ _. c), lib_WithPathField = (\<lambda>c _. c), lib_WithPathIndex = (\<lambda>c _. c),
      lib_GetPath = (\<lambda>_. []), lib_WithUnmarshalerMap = (\<lambda>c _ _. c),
      lib_NewScalarFieldContext = (\<lambda>obj f im ir _. (Some \<lparr>fc_Object = obj, fc_Field = Some f, fc_IsMethod = im,
         fc_IsResolver = ir, fc_Child = None, fc_Args = Map.empty\<rparr>, None)),
      lib_ErrorOnPath = (\<lambda>_ e. e), lib_HasFieldError = (\<lambda>_ _ l. fst l \<noteq> []),
      lib_AddErrorf = (\<lambda>_ m l. (fst l @ [Errorf m []], snd l)), lib_Error = (\<lambda>_ e l. (fst l @ [e], snd l)),
      lib_Recover = (\<lambda>_ p. p), lib_set_Result = (\<lambda>_ _ l. l), lib_CoerceList = (\<lambda>v. [v]),
      lib_UnmarshalString = demo_string, lib_UnmarshalBoolean = demo_bool, lib_UnmarshalInt = demo_int,
      lib_UnmarshalTime = (\<lambda>_. Inr 0), lib_UnmarshalUpload = demo_upload,
      lib_MarshalString = (\<lambda>t. MWriter (Inr t)), lib_MarshalBoolean = (\<lambda>b. MWriter (Inr (if b then ''true'' else ''false''))),
      lib_MarshalInt = (\<lambda>i. MWriter (Inr (replicate (nat i) CHR ''1''))),
      lib_MarshalTime = (\<lambda>t. if t = 0 then MNull else MWriter (Inr ''time'')),
      lib_MarshalUpload = (\<lambda>_. MWriter (Inr ''upload'')), lib_MarshalGQL = demo_write,
      lib_ProcessArgField = (\<lambda>c raw k z f. case raw k of None \<Rightarrow> ret (Inr z) | Some v \<Rightarrow> f c v),
      lib_ResolveField = demo_ResolveField,
      lib_MarshalSliceConcurrently = (\<lambda>c n _ _ f. demo_slice (f (Some (root_context []))) [0..<n]),
      lib_RootResolverMiddleware = (\<lambda>c f. f c), lib_Dispatch = demo_Dispatch,
      lib_ProcessDeferredGroup = (\<lambda>_ _ _ _. ret ()), lib_DeferredResults = raise (External ''no deferred result''),
      lib_ErrorResponse = (\<lambda>_ m. (data_response [])\<lparr>rsp_Data := None, rsp_Errors := [Errorf m []]\<rparr>),
      lib_OneShot = (\<lambda>resp _. bindE (getsE (\<lambda>s. snd (ex_lib s))) (\<lambda>answered.
         if answered then ret None
         else bindE (modifyE (\<lambda>s. s\<lparr>ex_lib := (fst (ex_lib s), True)\<rparr>)) (\<lambda>_. ret (Some resp)))),
      lib_introspection = demo_introspection\<rparr>"

lemma demo_library [simp]:
  "lib_CollectFields (demo_gqlgen oc) oc' sel ts = sel"
  "lib_GetOperationContext (demo_gqlgen oc) c = oc"
  "lib_Name (demo_gqlgen oc) = df_name"
  "lib_MarshalString (demo_gqlgen oc) t = MWriter (Inr t)"
  "lib_MarshalTime (demo_gqlgen oc) d = (if d = 0 then MNull else MWriter (Inr ''time''))"
  "lib_MarshalInt (demo_gqlgen oc) i = MWriter (Inr (replicate (nat i) CHR ''1''))"
  "lib_MarshalGQL (demo_gqlgen oc) = demo_write"
  "lib_Dispatch (demo_gqlgen oc) = demo_Dispatch"
  "lib_WithPathField (demo_gqlgen oc) c k = c"
  "lib_ErrorOnPath (demo_gqlgen oc) c e = e"
  by (simp_all add: demo_gqlgen_def)

section \<open>It behaves as assumed\<close>

lemma within_demo_log: "admissible R \<Longrightarrow> within R (demo_log e)"
  unfolding demo_log_def by (rule within_lib)

lemma within_demo_ResolveField:
  assumes A: "admissible R" and "\<And>c f. within R (init c f)" "\<And>c. within R (res c)"
    and m: "\<And>c sel v m. mar c sel v = Some m \<Longrightarrow> within R m"
  shows "within R (demo_ResolveField ctx oc field init res mar rc nn)"
  unfolding demo_ResolveField_def by (intro within_rules within_demo_log assms; assumption)

lemma within_demo_slice: "admissible R \<Longrightarrow> (\<And>i. within R (f i)) \<Longrightarrow> within R (demo_slice f is)"
  by (induction "is") (simp_all del: run_simps, (intro within_rules; assumption)+)

lemma within_demo_Dispatch:
  "admissible R \<Longrightarrow> (\<And>i d c. (i, d) \<in> set ds \<Longrightarrow> within R (d c)) \<Longrightarrow> within R (demo_Dispatch ctx ds)"
proof (induction ds)
  case (Cons d ds)
  then have "within R (snd d ctx)" "within R (demo_Dispatch ctx ds)" by (cases d, force)+
  then show ?case using Cons.prems(1) by (simp only: demo_Dispatch.simps) (intro within_rules; assumption)
qed (simp only: demo_Dispatch.simps, intro within_rules)

lemma demo_calls_back: "calls_back (demo_gqlgen oc)"
  unfolding calls_back_def callback_laws_def demo_gqlgen_def
  by (auto simp del: run_simps intro!: within_demo_ResolveField within_demo_slice within_demo_Dispatch within_rules)

lemma demo_completes_field:
  assumes "\<not> is_nil v" "\<And>c. \<exists>fc. yields w (init c field) (Some fc, None)" "\<And>c. yields w (res c) (Inr v)"
    and "\<And>c. c \<noteq> None \<Longrightarrow> \<exists>m. mar c (df_sel field) v = Some m \<and> yields w m y"
  shows "yields w (demo_ResolveField ctx oc field init res mar rc nn) y"
proof -
  obtain fc where fc: "yields w (init ctx field) (Some fc, None)" using assms(2) by blast
  obtain m where m: "mar (Some fc) (df_sel field) v = Some m" "yields w m y" using assms(4)[of "Some fc"] by blast
  have "yields w (bindE (res (Some fc)) (\<lambda>r. case r of
      Inl e \<Rightarrow> bindE (demo_log e) (\<lambda>_. ret MNull)
    | Inr v \<Rightarrow>
        if is_nil v then ret MNull
        else (case mar (Some fc) (df_sel field) v of
          None \<Rightarrow> bindE (demo_log (External ''unexpected type'')) (\<lambda>_. ret MNull) | Some m \<Rightarrow> m))) y"
    by (rule yields_bindE[OF assms(3)]) (simp add: m assms(1))
  then show ?thesis
    unfolding demo_ResolveField_def by (intro yields_bindE[OF fc]) (simp add: yields_recovering)
qed

lemma yields_demo_slice:
  "(\<And>i. i < length ys \<Longrightarrow> yields w (f (i + n)) (ys ! i)) \<Longrightarrow> yields w (demo_slice f [n..<n + length ys]) ys"
proof (induction ys arbitrary: n)
  case (Cons y ys)
  have "yields w (demo_slice f [Suc n..<Suc n + length ys]) ys"
    using Cons.prems[of "Suc _"] by (intro Cons.IH) simp
  moreover have "yields w (f n) y" using Cons.prems[of 0] by simp
  ultimately have "yields w (demo_slice f (n # [Suc n..<Suc n + length ys])) (y # ys)"
    by (simp only: demo_slice.simps) (rule yields_bindE, assumption, rule yields_bindE, assumption, rule yields_ret)
  moreover have "[n..<n + length (y # ys)] = n # [Suc n..<Suc n + length ys]"
    by (simp add: upt_conv_Cons del: upt_Suc)
  ultimately show ?case by (simp only:)
qed (simp add: yields_ret)

lemma demo_completes: "completes_fields (demo_gqlgen oc) df_sel"
  unfolding completes_fields_def demo_gqlgen_def gqlgen.simps
proof (intro conjI allI impI, goal_cases)
  case (1 w ctx oc field init res mar rc nn v y)
  then show ?case by (intro demo_completes_field[where v = v]) blast+
next
  case (2 w ctx lim om f ys)
  then show ?case using yields_demo_slice[of ys w "f (Some (root_context []))" 0] by simp
qed (simp_all add: yields_def)

text \<open>The resolver is called once, in the context that was initialised.\<close>

lemma leads_recovering:
  assumes "\<And>s. ex_world s = w \<Longrightarrow> ex_world (snd (m s)) = w'" "\<And>p. leads w' (h p) w'"
  shows "leads w (recovering m h) w'"
  unfolding leads_def
proof (intro allI impI)
  fix s :: "'a exec" assume "ex_world s = w"
  then have "ex_world (snd (m s)) = w'" by (rule assms(1))
  moreover obtain r t where "m s = (r, t)" by fastforce
  ultimately show "\<exists>y s'. recovering m h s = (Inr y, s') \<and> ex_world s' = w'"
    using assms(2) by (cases r) (auto simp: recovering_def leads_def)
qed

lemma leads_demo_log: "leads w (bindE (demo_log e) (\<lambda>_. ret v)) w"
  by (simp add: leads_def demo_log_def bindE_def)

lemma demo_invokes: "invokes_resolvers (demo_gqlgen oc)"
  unfolding invokes_resolvers_def demo_gqlgen_def gqlgen.simps
proof (intro conjI allI impI, goal_cases)
  case (1 ctx oc field init res mar nn w w' args)
  obtain fc where fc: "fc_Args fc = args" "runs w (init ctx field) (Some fc, None) w" using 1(1) unfolding runs_yields by blast
  have res: "leads w (res (Some fc)) w'" using 1(2) fc(1) by blast
  let ?m = "bindE (res (Some fc)) (\<lambda>r. case r of
      Inl e \<Rightarrow> bindE (demo_log e) (\<lambda>_. ret MNull)
    | Inr v \<Rightarrow>
        if is_nil v then ret MNull
        else (case mar (Some fc) (df_sel field) v of
          None \<Rightarrow> bindE (demo_log (External ''unexpected type'')) (\<lambda>_. ret MNull) | Some m \<Rightarrow> m))"
  have moved: "ex_world (snd (?m s)) = w'" if s: "ex_world s = w" for s
  proof -
    obtain r s1 where r: "res (Some fc) s = (Inr r, s1)" "ex_world s1 = w'" using res s unfolding leads_def by blast
    have "ex_world (snd (m s1)) = w'" if "mar (Some fc) (df_sel field) v = Some m" for v m
      using 1(3) that r(2) unfolding keeps_world_def by blast
    then show ?thesis using r
      by (auto simp: bindE_def demo_log_def split: sum.split option.split)
  qed
  have "leads w (recovering ?m (\<lambda>p. if True then bindE (demo_log p) (\<lambda>_. ret MNull) else raise p)) w'"
    by (rule leads_recovering, erule moved, simp only: if_True, rule leads_demo_log)
  then show ?case
    unfolding demo_ResolveField_def by (intro runs_leads_bindE[OF fc(2)]) simp
qed (auto simp: leads_def)

lemma demo_answers: "answers_fields (demo_gqlgen oc) df_sel"
  unfolding answers_fields_def demo_gqlgen_def gqlgen.simps
proof (intro allI impI, goal_cases)
  case (1 ctx oc field init res mar nn w w' args r y)
  obtain fc where fc: "fc_Args fc = args" "runs w (init ctx field) (Some fc, None) w" using 1(1) unfolding runs_yields by blast
  have res: "runs w (res (Some fc)) r w'" using 1(2) fc(1) by blast
  let ?k = "\<lambda>r. case r of
      Inl e \<Rightarrow> bindE (demo_log e) (\<lambda>_. ret MNull)
    | Inr v \<Rightarrow>
        if is_nil v then ret MNull
        else (case mar (Some fc) (df_sel field) v of
          None \<Rightarrow> bindE (demo_log (External ''unexpected type'')) (\<lambda>_. ret MNull) | Some m \<Rightarrow> m)"
  have "runs w' (?k r) y w'"
  proof (cases r)
    case (Inl e)
    then show ?thesis using 1(3) by (simp add: runs_def demo_log_def bindE_def)
  next
    case (Inr v)
    then have v: "\<not> is_nil v" "\<exists>m. mar (Some fc) (df_sel field) v = Some m \<and> yields w' m y" using 1(3) by auto
    then show ?thesis using Inr by (auto simp: runs_yields)
  qed
  then have "runs w (bindE (res (Some fc)) ?k) y w'" by (rule runs_bindE[OF res])
  then have "runs w (recovering (bindE (res (Some fc)) ?k) h) y w'" for h
    unfolding runs_def recovering_def by fastforce
  then show ?case unfolding demo_ResolveField_def by (intro runs_bindE[OF fc(2)]) simp
qed

lemma demo_reads_arguments: "reads_arguments (demo_gqlgen oc)"
  by (auto simp: reads_arguments_def demo_gqlgen_def)

lemma demo_decodes_scalars: "decodes_scalars (demo_gqlgen oc)"
  by (simp add: decodes_scalars_def demo_gqlgen_def)

lemma demo_recovers: "recovers (demo_gqlgen oc)"
proof -
  have "never_panics (recovering m (\<lambda>p. bindE (demo_log p) (\<lambda>_. ret MNull)))" for m :: "dfield marshaler dx"
    by (rule never_panics_recovering) (simp add: never_panics_def demo_log_def bindE_def)
  then show ?thesis
    by (auto simp: recovers_def demo_gqlgen_def demo_ResolveField_def
        intro!: never_panics_bindE never_panics_ret split: option.split)
qed

lemma demo_descends: "descends (demo_gqlgen oc) df_sel (size_list size)"
  unfolding descends_def
proof (intro conjI allI impI, goal_cases)
  case (1 oc sel ts field)
  then have "field \<in> set sel" by (simp add: demo_gqlgen_def)
  then have "size field \<le> size_list size sel" by (rule size_list_estimation') simp
  then show ?case by (cases field) simp
next
  case (2 ctx oc field init res mar mar' rc nn)
  then show ?case
    by (simp add: demo_gqlgen_def demo_ResolveField_def cong: if_cong option.case_cong sum.case_cong prod.case_cong)
qed

end
