(* ===== verification/Props_Graphql.thy ===== *)
theory Props_Graphql
  imports Demo_Gql
begin

text \<open>
  The GraphQL executor: what a request may do to the server, what a client gets back for a task, and how
  the generated code deals with inputs, arguments, unknown fields and the nesting of introspection queries.
\<close>

section \<open>Requests and the server\<close>

text \<open>
  Whatever a request selects, it changes the server only as a sequence of steps of the transition system does, so
  every invariant of the server's steps holds across requests.
\<close>

lemma graphql_requests_are_server_steps:
  assumes "calls_back G"
    and "Exec depth G (graphql_schema copyTenant copyTask (Some NotifyCancelShard)) ctx s = (Inr handler, s')"
  shows "(server_step cfg server)\<^sup>*\<^sup>* (ex_world t) (ex_world (snd (handler c t)))"
proof (rule handler_moves_world[OF assms(1) _ _ assms(2)])
  show "reflp (server_step cfg server)\<^sup>*\<^sup>*" "transp (server_step cfg server)\<^sup>*\<^sup>*" by (auto intro!: reflpI transpI)
  show "resolvers_within (world_rel (server_step cfg server)\<^sup>*\<^sup>*) (es_Resolvers (graphql_schema copyTenant copyTask (Some NotifyCancelShard)))"
    "query_resolvers_within (world_rel (server_step cfg server)\<^sup>*\<^sup>*) (es_Resolvers (graphql_schema copyTenant copyTask (Some NotifyCancelShard)))"
    using graph_Resolver_steps by (simp_all add: graphql_schema_def NewExecutableSchema_def)
qed

text \<open>
  C21: a mutation does what it asks for, and nothing else. If its fields ask for certain calls, by their names and with
  the arguments the client has encoded, then the server runs exactly the resolvers of these calls, each once, with these
  arguments and in the order of the request; the world after the request is the one they leave. Reading the
  arguments, marshalling the results and writing the response change nothing.
\<close>

theorem mutations_run_in_order:
  assumes "calls_back G" and "invokes_resolvers G" and "reads_arguments G" and "decodes_scalars G"
    and "lib_GetOperationContext G ctx = oc" and "oc_Operation oc = ''mutation''"
    and "Exec depth G (graphql_schema copyTenant copyTask notify) ctx s = (Inr handler, s1)"
    and "ask_for G oc (run_call copyTenant notify) (ex_world s1) (lib_CollectFields G oc (oc_SelectionSet oc) [''Mutation'']) calls"
  shows "ex_world (snd (handler c s1)) = fold (run_call copyTenant notify) calls (ex_world s1)"
proof -
  define ec where "ec = \<lparr>OperationContext = oc, Resolvers = graph_Resolver copyTenant copyTask notify, StackDepth = depth\<rparr>"
  let ?c = "lib_WithUnmarshalerMap G c (unmarshalInputCreateTenantInput G) (unmarshalInputSubmitTaskInput G)"
  have ec: "OperationContext ec = oc" "Resolvers ec = graph_Resolver copyTenant copyTask notify"
    by (simp_all add: ec_def)
  have handler: "handler = mutation_handler G ec" and first: "ex_first s1"
    using assms(5-7) by (simp_all add: Exec_Inr_iff ec_def newExecutionContext_def graphql_schema_def NewExecutableSchema_def)
  have "leads (ex_world s1) (exec_Mutation G ec ?c (oc_SelectionSet oc)) (fold (run_call copyTenant notify) calls (ex_world s1))"
    by (rule mutation_leads[OF assms(1-4) ec(2)]) (simp add: ec(1) assms(8))
  moreover have "ex_world (s1\<lparr>ex_first := False\<rparr>) = ex_world s1" by simp
  ultimately obtain data s2 where run: "exec_Mutation G ec ?c (oc_SelectionSet oc) (s1\<lparr>ex_first := False\<rparr>) = (Inr data, s2)"
      "ex_world s2 = fold (run_call copyTenant notify) calls (ex_world s1)"
    unfolding leads_def by blast
  have "ex_world (snd (MarshalGQL G data s2)) = ex_world s2"
    by (simp add: MarshalGQL_def or_panic_def split: marshaler.split sum.split)
  then show ?thesis
    using run first unfolding handler
    by (auto simp: mutation_handler_def bindE_def ec(1) split: prod.split sum.split)
qed

text \<open>A request that creates a tenant and submits a task for it.\<close>

definition demo_mutation :: "dfield list operation_context" where
  "demo_mutation =
     \<lparr>oc_Operation = ''mutation'',
      oc_SelectionSet =
        [DField ''CreateTenant'' [''input'' \<mapsto> AnyMap (encode_CreateTenantInput
            \<lparr>in_Name = ''acme'', in_PrimaryBackendName = ''kubernetes'', in_MaxAgents = 2\<rparr>)] [DField ''name'' Map.empty []],
         DField ''SubmitTask'' [''input'' \<mapsto> AnyMap (encode_SubmitTaskInput
            \<lparr>in_TenantName = ''acme'', in_BundleZip = Inr ''zip'', in_CompletionHookURL = None\<rparr>)] [DField ''task_id'' Map.empty []]],
      oc_Variables = Map.empty\<rparr>"

definition demo_copyTenant :: "Tenant \<Rightarrow> error + gql_Tenant" where
  "demo_copyTenant t = Inr \<lparr>gql_tenant_ID = ID t, gql_tenant_Name = tenant_Name t,
     gql_tenant_PrimaryBackendName = tenant_PrimaryBackendName t, gql_tenant_MaxAgents = tenant_MaxAgents t\<rparr>"

definition demo_copyTask :: "Task \<Rightarrow> error + gql_Task" where
  "demo_copyTask t = Inr \<lparr>gql_task_ID = ID t, gql_task_Status = task_Status t, gql_task_LastError = task_LastError t,
     gql_task_CreatedAt = CreatedAt t, gql_task_StartedAt = task_StartedAt t, gql_task_FinishedAt = task_FinishedAt t,
     gql_task_ShardCount = task_ShardCount t,
     gql_task_Shards = map (\<lambda>sh. Some \<lparr>gql_shard_ID = ID sh, gql_shard_ScriptName = shard_ScriptName sh,
       gql_shard_Status = shard_Status sh, gql_shard_OutputOssKey = None, gql_shard_OutputSha256 = None,
       gql_shard_LastError = None, gql_shard_StartedAt = None, gql_shard_FinishedAt = None\<rparr>) (task_Shards t)\<rparr>"

definition demo_exec :: "dlib exec" where
  "demo_exec = \<lparr>ex_world = demo_world, ex_lib = ([], False), ex_Invalids = 0, ex_Deferred = 0, ex_PendingDeferred = 0, ex_first = True\<rparr>"

definition demo_request :: "dfield list operation_context \<Rightarrow> world \<Rightarrow> dctx \<Rightarrow> response option dx" where
  "demo_request oc w = (case fst (Exec 3 (demo_gqlgen oc) (graphql_schema demo_copyTenant demo_copyTask (Some NotifyCancelShard)
      :: unit executableSchema) None (demo_exec\<lparr>ex_world := w\<rparr>)) of Inr handler \<Rightarrow> handler | Inl _ \<Rightarrow> (\<lambda>_. raise nil_dereference))"

lemma demo_Exec:
  "Exec 3 (demo_gqlgen oc) (graphql_schema demo_copyTenant demo_copyTask (Some NotifyCancelShard) :: unit executableSchema)
     None (demo_exec\<lparr>ex_world := w\<rparr>) = (Inr (demo_request oc w), demo_exec\<lparr>ex_world := w\<rparr>)"
  by (simp add: demo_request_def Exec_def Let_def demo_exec_def bindE_def)

theorem mutations_run_in_order_witness:
  "ex_world (snd (demo_request demo_mutation demo_world None demo_exec)) =
     snd (resolver_SubmitTask \<lparr>in_TenantName = ''acme'', in_BundleZip = Inr ''zip'', in_CompletionHookURL = None\<rparr>
       (snd (resolver_CreateTenant demo_copyTenant \<lparr>in_Name = ''acme'', in_PrimaryBackendName = ''kubernetes'', in_MaxAgents = 2\<rparr> demo_world)))"
proof -
  let ?create = "\<lparr>in_Name = ''acme'', in_PrimaryBackendName = ''kubernetes'', in_MaxAgents = 2\<rparr> :: CreateTenantInput"
    and ?submit = "\<lparr>in_TenantName = ''acme'', in_BundleZip = Inr ''zip'', in_CompletionHookURL = None\<rparr> :: SubmitTaskInput"
  have oc: "lib_GetOperationContext (demo_gqlgen demo_mutation) None = demo_mutation" "oc_Operation demo_mutation = ''mutation''"
    by (simp_all add: demo_mutation_def)
  have asks: "ask_for (demo_gqlgen demo_mutation) demo_mutation (run_call demo_copyTenant (Some NotifyCancelShard)) w
      (lib_CollectFields (demo_gqlgen demo_mutation) demo_mutation (oc_SelectionSet demo_mutation) [''Mutation''])
      [CallCreateTenant ?create, CallSubmitTask ?submit]" for w
    by (simp add: demo_mutation_def asks_for_def) (simp add: demo_gqlgen_def)
  have start: "demo_exec\<lparr>ex_world := demo_world\<rparr> = demo_exec" by (simp add: demo_exec_def)
  show ?thesis
    using mutations_run_in_order[OF demo_calls_back demo_invokes demo_reads_arguments demo_decodes_scalars oc
        demo_Exec[of demo_mutation demo_world] asks, of None]
    unfolding start by (simp add: demo_exec_def)
qed

text \<open>
  C22: a request that is not a mutation only reads. No row, no agent, no timer and no stream of the server changes,
  nothing is sent or uploaded: all that remains of it is the number of calls made to the environment.
\<close>

theorem queries_only_read:
  assumes "calls_back G" and "oc_Operation (lib_GetOperationContext G ctx) \<noteq> ''mutation''"
    and "Exec depth G (graphql_schema copyTenant copyTask notify) ctx s = (Inr handler, s')"
  shows "\<exists>n. ex_world (snd (handler c t)) = (ex_world t)\<lparr>tick := n\<rparr>"
proof -
  have "reads_only (ex_world t) (ex_world (snd (handler c t)))"
  proof (rule handler_moves_world[OF assms(1) _ _ assms(3)])
    show "reflp reads_only" "transp reads_only"
      by (auto intro!: reflpI transpI reads_only_refl elim: reads_only_trans)
    show "query_resolvers_within (world_rel reads_only) (es_Resolvers (graphql_schema copyTenant copyTask notify))"
      using graph_Resolver_reads by (simp add: graphql_schema_def NewExecutableSchema_def)
  qed (use assms(2) in simp)
  then show ?thesis by (simp add: reads_only_def)
qed

definition demo_query :: "dfield list operation_context" where
  "demo_query =
     \<lparr>oc_Operation = ''query'',
      oc_SelectionSet =
        [DField ''GetTaskList'' [''tenant_name'' \<mapsto> AnyString ''acme''] [DField ''id'' Map.empty [],
           DField ''shards'' Map.empty [DField ''status'' Map.empty []]]],
      oc_Variables = Map.empty\<rparr>"

theorem queries_only_read_witness:
  "\<exists>n. ex_world (snd (demo_request demo_query demo_ready None demo_exec)) = demo_world\<lparr>tick := n\<rparr>"
proof -
  have "oc_Operation (lib_GetOperationContext (demo_gqlgen demo_query) None) \<noteq> ''mutation''"
    by (simp add: demo_query_def)
  from queries_only_read[OF demo_calls_back this demo_Exec, of demo_ready None demo_exec]
  show ?thesis by (simp add: demo_exec_def)
qed

text \<open>A query for the name of the query type only.\<close>

definition demo_empty :: "dfield list operation_context" where
  "demo_empty = \<lparr>oc_Operation = ''query'', oc_SelectionSet = [DField ''__typename'' Map.empty []], oc_Variables = Map.empty\<rparr>"

text \<open>
  C23: the response handler of a query or a mutation answers once: if its first call returns a response, every
  later call returns nil at once and does nothing, so the response stream of an operation ends.
\<close>

theorem response_stream_ends:
  assumes "calls_back G" and "oc_Operation (lib_GetOperationContext G ctx) \<in> {''query'', ''mutation''}"
    and "Exec depth G e ctx s = (Inr handler, s1)" and "handler c1 s1 = (Inr r, s2)"
  shows "r \<noteq> None \<and> handler c2 s2 = (Inr None, s2)"
proof -
  let ?ec = "newExecutionContext depth (lib_GetOperationContext G ctx) e"
  have s1: "ex_first s1" "ex_PendingDeferred s1 = 0"
    and h: "handler = query_handler G ?ec \<or> handler = mutation_handler G ?ec"
    using assms(2,3) by (auto simp: Exec_Inr_iff)
  have "r \<noteq> None \<and> \<not> ex_first s2 \<and> ex_PendingDeferred s2 = 0"
    using first_call[OF assms(1) s1(1)] h assms(4) s1(2) by metis
  then show ?thesis using later_call h by metis
qed

lemma demo_empty_response:
  "demo_request demo_empty demo_world None demo_exec =
     (Inr (Some (data_response ''{__typename:Query,}'')), demo_exec\<lparr>ex_first := False\<rparr>)"
  using demo_Exec[of demo_empty demo_world]
  by (simp add: Exec_Inr_iff demo_empty_def query_handler_def exec_Query_def query_field_def slot_delayed_def
      slot_values_def store_values_def MarshalGQL_def or_panic_def data_response_def demo_exec_def newExecutionContext_def
      Let_def bindE_def process_deferred_def)

theorem response_stream_ends_witness:
  "demo_request demo_empty demo_world None (demo_exec\<lparr>ex_first := False\<rparr>) = (Inr None, demo_exec\<lparr>ex_first := False\<rparr>)"
proof -
  have 1: "oc_Operation (lib_GetOperationContext (demo_gqlgen demo_empty) None) \<in> {''query'', ''mutation''}"
    by (simp add: demo_empty_def)
  have 2: "demo_request demo_empty demo_world None (demo_exec\<lparr>ex_world := demo_world\<rparr>) =
      (Inr (Some (data_response ''{__typename:Query,}'')), demo_exec\<lparr>ex_first := False\<rparr>)"
    using demo_empty_response by (simp add: demo_exec_def)
  show ?thesis using response_stream_ends[OF demo_calls_back 1 demo_Exec 2, of None] by simp
qed

section \<open>What a client gets back\<close>

text \<open>
  C24: for a task the executor answers what the GraphQL specification asks for: the requested fields in the order
  of the request, each with the value the resolver's task has for it, shards included; a null in a non-null field
  makes the object null, a null shard makes the list of shards null, and so on upwards. The server is
  left as it is.
\<close>

theorem task_is_completed:
  assumes "completes_fields G selections" and "selects_task G selections (OperationContext ec) sel"
  shows "\<exists>s'. exec_Task G ec ctx sel task s =
      (Inr (complete_task G selections (ex_world s) (OperationContext ec) sel task), s') \<and> ex_world s' = ex_world s"
  using yields_exec_Task[OF assms, of "ex_world s"] by (simp add: yields_def)

definition demo_shown_task :: gql_Task where
  "demo_shown_task =
     \<lparr>gql_task_ID = 7, gql_task_Status = ''RUNNING'', gql_task_LastError = [], gql_task_CreatedAt = 5,
      gql_task_StartedAt = None, gql_task_FinishedAt = None, gql_task_ShardCount = 1,
      gql_task_Shards = [Some \<lparr>gql_shard_ID = 8, gql_shard_ScriptName = ''a.sh'', gql_shard_Status = ''LEASED'',
        gql_shard_OutputOssKey = None, gql_shard_OutputSha256 = None, gql_shard_LastError = None,
        gql_shard_StartedAt = None, gql_shard_FinishedAt = None\<rparr>]\<rparr>"

definition demo_task_sel :: "dfield list" where
  "demo_task_sel = [DField ''status'' Map.empty [], DField ''started_at'' Map.empty [],
     DField ''shards'' Map.empty [DField ''status'' Map.empty [], DField ''last_error'' Map.empty []]]"

definition demo_ec :: "dfield list executionContext" where
  "demo_ec = \<lparr>OperationContext = demo_query, Resolvers = graph_Resolver demo_copyTenant demo_copyTask None, StackDepth = 5\<rparr>"

theorem task_is_completed_witness:
  "\<exists>s'. exec_Task (demo_gqlgen demo_query) demo_ec None demo_task_sel demo_shown_task demo_exec =
     (Inr (MFieldSet demo_task_sel
        [MWriter (Inr ''RUNNING''), MNull,
         MArray [MFieldSet [DField ''status'' Map.empty [], DField ''last_error'' Map.empty []] [MWriter (Inr ''LEASED''), MNull]]]), s')"
proof -
  have sel: "selects_task (demo_gqlgen demo_query) df_sel (OperationContext demo_ec) demo_task_sel"
    by (simp add: selects_task_def selects_shard_def demo_task_sel_def task_fields_def task_nonNull_def shard_fields_def
        shard_nonNull_def)
  have "complete_task (demo_gqlgen demo_query) df_sel w oc demo_task_sel demo_shown_task =
      MFieldSet demo_task_sel [MWriter (Inr ''RUNNING''), MNull,
        MArray [MFieldSet [DField ''status'' Map.empty [], DField ''last_error'' Map.empty []] [MWriter (Inr ''LEASED''), MNull]]]" for w oc
    by (simp add: complete_task_def complete_object_def task_value_def demo_task_sel_def demo_shown_task_def complete_list_def
        complete_shard_def shard_value_def nullable_def task_nonNull_def shard_nonNull_def Let_def)
  then show ?thesis using task_is_completed[OF demo_completes sel, of None demo_shown_task demo_exec] by auto
qed

text \<open>
  C25: no panic for a field the schema knows. If \<open>childFields_T\<close> finds every collected field (or it is
  \<open>__typename\<close>), then the executor of \<open>T\<close> returns: the two tables of field names in the generated code agree,
  for the objects of the schema and for the type objects of introspection.
\<close>

theorem known_fields_never_panic:
  assumes "recovers G"
  shows "(validated G ec sel ''CancelTaskPayload'' (childFields_CancelTaskPayload G ec c) \<longrightarrow>
        (\<exists>v s'. exec_CancelTaskPayload G ec ctx sel payload s = (Inr v, s'))) \<and>
    (validated G ec sel ''SubmitTaskResponse'' (childFields_SubmitTaskResponse G ec c) \<longrightarrow>
        (\<exists>v s'. exec_SubmitTaskResponse G ec ctx sel resp s = (Inr v, s'))) \<and>
    (validated G ec sel ''Task'' (childFields_Task G ec c) \<longrightarrow> (\<exists>v s'. exec_Task G ec ctx sel task s = (Inr v, s'))) \<and>
    (validated G ec sel ''TaskShard'' (childFields_TaskShard G ec c) \<longrightarrow>
        (\<exists>v s'. exec_TaskShard G ec ctx sel shard s = (Inr v, s'))) \<and>
    (validated G ec sel ''Tenant'' (childFields_Tenant G ec c) \<longrightarrow> (\<exists>v s'. exec_Tenant G ec ctx sel tenant s = (Inr v, s'))) \<and>
    (validated G ec sel ''__Type'' (childFields___Type G ec c) \<longrightarrow> (\<exists>v s'. type_object typ G ec ctx sel obj s = (Inr v, s')))"
  by (intro conjI impI) (blast dest: objects_never_panic[OF assms, unfolded never_panics_def])+

theorem known_fields_never_panic_witness:
  "\<exists>v s'. exec_TaskShard (demo_gqlgen demo_query) demo_ec None [DField ''status'' Map.empty [], DField ''__typename'' Map.empty []]
     (the (hd (gql_task_Shards demo_shown_task))) demo_exec = (Inr v, s')"
proof -
  have "validated (demo_gqlgen demo_query) demo_ec [DField ''status'' Map.empty [], DField ''__typename'' Map.empty []] ''TaskShard''
      (childFields_TaskShard (demo_gqlgen demo_query) demo_ec None)"
    by (simp add: validated_def found_def childFields_TaskShard_def fieldContext_TaskShard_status_def demo_gqlgen_def)
  then show ?thesis using known_fields_never_panic[OF demo_recovers, of demo_query demo_ec _ None None] by blast
qed

section \<open>Inputs and arguments\<close>

text \<open>
  C26: the inputs of the two mutations arrive as the client sent them: the argument map the resolver is called with
  holds exactly the input that was encoded in the variables, whatever other keys the variables have. An optional
  field that is absent or null is nil.
\<close>

theorem mutation_inputs_round_trip:
  assumes "reads_arguments G" "decodes_scalars G"
    and "\<And>k. k \<in> dom (encode_SubmitTaskInput input) \<Longrightarrow> m k = encode_SubmitTaskInput input k"
    and "\<And>k. k \<in> dom (encode_CreateTenantInput tenant) \<Longrightarrow> n k = encode_CreateTenantInput tenant k"
  shows "field_Mutation_SubmitTask_args G ctx [''input'' \<mapsto> AnyMap m] s = (Inr (Inr [''input'' \<mapsto> AnySubmitTaskInput input]), s) \<and>
    field_Mutation_CreateTenant_args G ctx [''input'' \<mapsto> AnyMap n] s = (Inr (Inr [''input'' \<mapsto> AnyCreateTenantInput tenant]), s)"
proof
  have "boxed AnySubmitTaskInput (unmarshalNSubmitTaskInput G) c (AnyMap m) = ret (Inr (AnySubmitTaskInput input))" for c
    by (simp add: boxed_def unmarshalNSubmitTaskInput_def decode_SubmitTaskInput[OF assms(2,3)] del: run_simps)
  then show "field_Mutation_SubmitTask_args G ctx [''input'' \<mapsto> AnyMap m] s = (Inr (Inr [''input'' \<mapsto> AnySubmitTaskInput input]), s)"
    unfolding field_Mutation_SubmitTask_args_def by (intro ProcessArgField_given[OF assms(1)]) simp_all
  have "boxed AnyCreateTenantInput (unmarshalNCreateTenantInput G) c (AnyMap n) = ret (Inr (AnyCreateTenantInput tenant))" for c
    by (simp add: boxed_def unmarshalNCreateTenantInput_def decode_CreateTenantInput[OF assms(2,4)] del: run_simps)
  then show "field_Mutation_CreateTenant_args G ctx [''input'' \<mapsto> AnyMap n] s = (Inr (Inr [''input'' \<mapsto> AnyCreateTenantInput tenant]), s)"
    unfolding field_Mutation_CreateTenant_args_def by (intro ProcessArgField_given[OF assms(1)]) simp_all
qed

theorem mutation_inputs_round_trip_witness:
  "let input = \<lparr>in_TenantName = ''acme'', in_BundleZip = Inr ''zip'', in_CompletionHookURL = Some ''http://h''\<rparr>;
       tenant = \<lparr>in_Name = ''acme'', in_PrimaryBackendName = ''kubernetes'', in_MaxAgents = 2\<rparr> in
     field_Mutation_SubmitTask_args (demo_gqlgen demo_mutation) None
       [''input'' \<mapsto> AnyMap ((encode_SubmitTaskInput input)(''comment'' \<mapsto> AnyNil))] demo_exec =
       (Inr (Inr [''input'' \<mapsto> AnySubmitTaskInput input]), demo_exec) \<and>
     field_Mutation_CreateTenant_args (demo_gqlgen demo_mutation) None [''input'' \<mapsto> AnyMap (encode_CreateTenantInput tenant)] demo_exec =
       (Inr (Inr [''input'' \<mapsto> AnyCreateTenantInput tenant]), demo_exec)"
  unfolding Let_def
  by (rule mutation_inputs_round_trip[OF demo_reads_arguments demo_decodes_scalars])
    (auto simp: encode_SubmitTaskInput_def encode_CreateTenantInput_def)

text \<open>
  C27: the two queries answer what their resolvers find. The resolver is called once, with the tenant, the task or the status that the
  request gives (a status that is absent or null is nil); the field then has the task, or the list of tasks, completed as the
  GraphQL specification asks for, or is null if the resolver had an error. The world is the one the resolver leaves.
\<close>

theorem query_fields_answer:
  assumes "answers_fields G selections" and "completes_fields G selections" and "reads_arguments G" and "decodes_scalars G"
    and "ec = newExecutionContext depth oc (graphql_schema copyTenant copyTask notify)"
    and "lib_ArgumentMap G field (oc_Variables oc) = Inr raw" and "raw ''tenant_name'' = Some (AnyString tenantName)"
    and "selects_task G selections oc (selections field)"
  shows "(raw ''task_id'' = Some (AnyString text) \<longrightarrow> uuid_Parse (env (ex_world s)) text = Inr taskID \<longrightarrow>
      (\<exists>s'. field_Query_GetTaskByID G ec ctx field s =
          (Inr (task_answer G selections oc field (resolver_GetTaskByID copyTask tenantName taskID (ex_world s))), s') \<and>
        ex_world s' = snd (resolver_GetTaskByID copyTask tenantName taskID (ex_world s)))) \<and>
    (gives_status raw status \<longrightarrow>
      (\<exists>s'. field_Query_GetTaskList G ec ctx field s =
          (Inr (tasks_answer G selections oc field (resolver_GetTaskList copyTask tenantName status (ex_world s))), s') \<and>
        ex_world s' = snd (resolver_GetTaskList copyTask tenantName status (ex_world s))))"
proof (intro conjI impI)
  have ec: "OperationContext ec = oc" "Resolvers ec = graph_Resolver copyTenant copyTask notify"
    by (simp_all add: assms(5) newExecutionContext_def graphql_schema_def NewExecutableSchema_def)
  show "\<exists>s'. field_Query_GetTaskByID G ec ctx field s =
      (Inr (task_answer G selections oc field (resolver_GetTaskByID copyTask tenantName taskID (ex_world s))), s') \<and>
    ex_world s' = snd (resolver_GetTaskByID copyTask tenantName taskID (ex_world s))"
    if "raw ''task_id'' = Some (AnyString text)" "uuid_Parse (env (ex_world s)) text = Inr taskID"
    using runs_GetTaskByID[OF assms(1-4) ec(2), unfolded ec(1), OF assms(6,7) that assms(8)] unfolding runs_def by blast
  show "\<exists>s'. field_Query_GetTaskList G ec ctx field s =
      (Inr (tasks_answer G selections oc field (resolver_GetTaskList copyTask tenantName status (ex_world s))), s') \<and>
    ex_world s' = snd (resolver_GetTaskList copyTask tenantName status (ex_world s))"
    if "gives_status raw status"
    using runs_GetTaskList[OF assms(1-4) ec(2), unfolded ec(1), OF assms(6,7) that assms(8)] unfolding runs_def by blast
qed

theorem query_fields_answer_witness:
  "\<exists>s'. field_Query_GetTaskList (demo_gqlgen demo_query)
      (newExecutionContext 3 demo_query (graphql_schema demo_copyTenant demo_copyTask None :: unit executableSchema)) None
      (DField ''GetTaskList'' [''tenant_name'' \<mapsto> AnyString ''acme''] [DField ''status'' Map.empty []]) (demo_exec\<lparr>ex_world := demo_ready\<rparr>) =
    (Inr (MArray [MFieldSet [DField ''status'' Map.empty []] [MWriter (Inr ''WAITING_FOR_AGENTS'')]]), s')"
proof -
  let ?f = "DField ''GetTaskList'' [''tenant_name'' \<mapsto> AnyString ''acme''] [DField ''status'' Map.empty []]"
  have raw: "lib_ArgumentMap (demo_gqlgen demo_query) ?f (oc_Variables demo_query) = Inr [''tenant_name'' \<mapsto> AnyString ''acme'']"
    by (simp add: demo_gqlgen_def)
  have sel: "selects_task (demo_gqlgen demo_query) df_sel demo_query (df_sel ?f)"
    by (simp add: selects_task_def task_fields_def task_nonNull_def)
  have "map_sum id (map gql_task_Status) (fst (resolver_GetTaskList demo_copyTask ''acme'' None demo_ready)) = Inr [''WAITING_FOR_AGENTS'']"
    by code_simp
  then obtain task where task: "fst (resolver_GetTaskList demo_copyTask ''acme'' None demo_ready) = Inr [task]"
    "gql_task_Status task = ''WAITING_FOR_AGENTS''"
    by (cases "fst (resolver_GetTaskList demo_copyTask ''acme'' None demo_ready)") auto
  have "complete_task (demo_gqlgen demo_query) df_sel w demo_query (df_sel ?f) task =
      MFieldSet [DField ''status'' Map.empty []] [MWriter (Inr ''WAITING_FOR_AGENTS'')]" for w
    by (simp add: complete_task_def complete_object_def task_value_def task(2))
  then have "tasks_answer (demo_gqlgen demo_query) df_sel demo_query ?f (resolver_GetTaskList demo_copyTask ''acme'' None demo_ready) =
      MArray [MFieldSet [DField ''status'' Map.empty []] [MWriter (Inr ''WAITING_FOR_AGENTS'')]]"
    using task(1) by (cases "resolver_GetTaskList demo_copyTask ''acme'' None demo_ready") (simp add: tasks_answer_def complete_list_def)
  then show ?thesis
    using query_fields_answer[OF demo_answers demo_completes demo_reads_arguments demo_decodes_scalars refl raw _ sel,
        of "''acme''" "[]" "demo_exec\<lparr>ex_world := demo_ready\<rparr>" 0 3 demo_copyTenant demo_copyTask None None None]
    by (auto simp: gives_status_def)
qed

section \<open>Introspection\<close>

text \<open>
  The recursive function for type objects satisfies the recursion equation of the source as soon as \<open>StackDepth\<close> is more than the depth
  of the selection, and the whole answer to a query is then the same for every such depth.
\<close>

lemma introspection_needs_no_more_stack:
  assumes "descends G selections depth"
  shows "(depth sel < n \<longrightarrow> exec___Type n G ec ctx sel obj = type_object (exec___Type n G ec) G ec ctx sel obj) \<and>
    (depth sel \<le> n \<longrightarrow> depth sel \<le> m \<longrightarrow>
       exec_Query G (ec\<lparr>StackDepth := n\<rparr>) ctx sel = exec_Query G (ec\<lparr>StackDepth := m\<rparr>) ctx sel)"
  using exec___Type_unfold[OF assms] exec_Query_StackDepth[OF assms] by blast

end
