(* ===== verification/Registry_Store.thy ===== *)
theory Registry_Store
  imports Reliable System
begin

text \<open>
  The in-memory registry of agents under every entry point. \<open>agent_registry\<close> is the interface: a relation
  on registries that registering a new agent and changing the state of a known one respect. Inside it
  every entry point is shown to move the registry along that relation only. The services that do not know the
  registry at all are covered by \<open>beside_services\<close>.
\<close>

section \<open>Services that leave a part of the memory alone\<close>

locale beside_services = beside_rows view for view :: "world \<Rightarrow> 'v" +
  assumes view_out: "view (s\<lparr>sent := a\<rparr>) = view s" "view (s\<lparr>hooks_pending := b\<rparr>) = view s"
    "view (s\<lparr>hook_posts := c\<rparr>) = view s" "view (s\<lparr>uploads := d\<rparr>) = view s" "view (s\<lparr>k8s_log := e\<rparr>) = view s"
    "view (s\<lparr>streams := f\<rparr>) = view s"
begin

lemma keeps_outside:
  "evolves view (=) uuid_New" "evolves view (=) (stream_send ref msg)" "evolves view (=) aliyun_NewOss"
  "evolves view (=) (UploadBytes key bytes)" "evolves view (=) (GetObjectURL key)" "evolves view (=) (SignPutURL key n)"
  "evolves view (=) (k8s_do call)" "evolves view (=) (update_clusters p f)" "evolves view (=) (liftE r)"
  "evolves view (=) (delete_stream agentID)" "evolves view (=) (dispatchCompletionHookAsync payload)"
  by (rule evolvesI, simp add: uuid_New_def stream_send_def aliyun_NewOss_def UploadBytes_def GetObjectURL_def SignPutURL_def
      k8s_do_def view_tick view_out update_clusters_def update_stmt_def stmt_def view_db liftE_def delete_stream_def
      dispatchCompletionHookAsync_def split: sum.splits option.splits)+

lemma keeps_reads:
  "evolves view (=) (tenant_orm_GetById u)" "evolves view (=) (tenant_orm_GetByName name)" "evolves view (=) (task_orm_GetByID u)"
  "evolves view (=) (task_shard_orm_GetByID u)" "evolves view (=) (GetShardTaskOwner u)" "evolves view (=) (GetActiveTaskShardByAgent a)"
  "evolves view (=) GetPendingTaskList" "evolves view (=) (CountActiveTasks u)" "evolves view (=) (ListTasksByTenant u status)"
  "evolves view (=) (FindOrphanShards ids)" "evolves view (=) (cluster_orm_GetByTenant u)" "evolves view (=) GetActiveClusterList"
  unfolding tenant_orm_GetById_def tenant_orm_GetByName_def task_orm_GetByID_def task_shard_orm_GetByID_def
    GetShardTaskOwner_def GetActiveTaskShardByAgent_def GetPendingTaskList_def CountActiveTasks_def
    ListTasksByTenant_def FindOrphanShards_def cluster_orm_GetByTenant_def GetActiveClusterList_def
  by (intro keeps_intros)+

lemmas keeps_basic = keeps_intros keeps_outside keeps_reads

lemma keeps_hook_delivery: "evolves view (=) (run_completion_hook payload)"
proof -
  have "evolves view (=) (modifyE (\<lambda>s. (tick_world s)\<lparr>hook_posts := hook_posts s @ x\<rparr>))" for x
    by (rule evolves_modifyE) (simp add: view_out view_tick)
  then show ?thesis
    unfolding run_completion_hook_def dispatchCompletionHook_def recordCompletionHookResult_def by (intro keeps_basic)
qed

lemma keeps_ReportShardStatus: "evolves view (=) (ReportShardStatus params)"
  unfolding ReportShardStatus_def by (intro keeps_basic keeps_report_body)

lemma keeps_LoadValidatedShard: "evolves view (=) (LoadValidatedShard shardID agentID tenantID backendName)"
  unfolding LoadValidatedShard_def by (intro keeps_basic)

lemma keeps_ValidateShardReport: "evolves view (=) (ValidateShardReport shardID agentID tenantID backendName st act)"
  unfolding ValidateShardReport_def by (intro keeps_basic keeps_LoadValidatedShard)

lemma keeps_RollbackAssignedShard: "evolves view (=) (RollbackAssignedShard shardID task)"
  unfolding RollbackAssignedShard_def by (intro keeps_basic keeps_RollbackShardWithTask)

lemma keeps_RollbackOrphanShardsForAgent: "evolves view (=) (RollbackOrphanShardsForAgent agentID)"
proof -
  have "evolves view (=) (rollback_agent_loop shards n)" for shards n
    by (induction shards arbitrary: n; unfold rollback_agent_loop.simps RollbackToQueued_def;
        intro keeps_basic keeps_transitionStatus; simp?)
  then show ?thesis unfolding RollbackOrphanShardsForAgent_def by (intro keeps_basic)
qed

lemma keeps_RollbackTimedOutShard: "evolves view (=) (RollbackTimedOutShard shardID agentID tenantID backendName)"
  unfolding RollbackTimedOutShard_def by (intro keeps_basic keeps_LoadValidatedShard keeps_RollbackShardWithTask)

lemma keeps_CleanupOrphanShards: "evolves view (=) (CleanupOrphanShards threshold)"
proof -
  have "evolves view (=) (cleanup_orphans_loop cutoff shards n)" for cutoff shards n
    by (induction shards arbitrary: n; unfold cleanup_orphans_loop.simps cleanup_orphan_def;
        intro keeps_basic keeps_RollbackShardWithTask; simp?)
  then show ?thesis
    unfolding CleanupOrphanShards_def task_shard_orm_CleanupOrphanShards_def by (intro keeps_basic)
qed

lemma keeps_SubmitTask: "evolves view (=) (SubmitTask params)"
  unfolding SubmitTask_def submit_body_def task_orm_Create_def task_shard_orm_Create_def BeforeCreate_def
  by (intro keeps_basic)

lemma keeps_NotifyCancelShard: "evolves view (=) (NotifyCancelShard agentID shardID)"
  unfolding NotifyCancelShard_def SendWithContext_def by (intro keeps_basic)

lemma keeps_CancelTask: "evolves view (=) (CancelTask (Some NotifyCancelShard) tenantName taskID)"
proof -
  have "evolves view (=) (notify_loop NotifyCancelShard ps)" for ps
    by (induction ps; unfold notify_loop.simps; intro keeps_basic keeps_NotifyCancelShard; simp?)
  then show ?thesis unfolding CancelTask_def by (intro keeps_basic keeps_cancel_body) auto
qed

lemma keeps_resolvers:
  "evolves view (=) (resolver_CreateTenant copyT inputT)" "evolves view (=) (resolver_SubmitTask inputS)"
  "evolves view (=) (resolver_CancelTask (Some NotifyCancelShard) tenantName taskID)"
  "evolves view (=) (resolver_GetTaskByID copyObj tenantName taskID)" "evolves view (=) (resolver_GetTaskList copyObj tenantName status)"
  unfolding resolver_CreateTenant_def resolver_SubmitTask_def resolver_CancelTask_def resolver_GetTaskByID_def
    resolver_GetTaskList_def tenant_orm_Create_def BeforeCreate_def GetTask_def ListTasks_def
  by (intro keeps_basic keeps_SubmitTask keeps_CancelTask)+

text \<open>What the recycler and the poller ask of a provider here: that it leaves the view alone.\<close>

definition provider_keeps :: "Provider \<Rightarrow> bool" where
  "provider_keeps p \<longleftrightarrow> (\<forall>t n. evolves view (=) (ProvisionCluster p t) \<and> evolves view (=) (ScaleCluster p t n) \<and>
     evolves view (=) (DestroyCluster p t))"

definition registry_keeps :: "Registry \<Rightarrow> bool" where
  "registry_keeps reg \<longleftrightarrow> (\<forall>name p. registry_Get reg name = Inr p \<longrightarrow> provider_keeps p)"

lemma registry_keepsD:
  assumes "registry_keeps reg" "registry_Get reg name = Inr p"
  shows "evolves view (=) (ProvisionCluster p t)" "evolves view (=) (ScaleCluster p t n)" "evolves view (=) (DestroyCluster p t)"
  using assms by (auto simp: registry_keeps_def provider_keeps_def)

lemma keeps_logged: "evolves view (=) m \<Longrightarrow> evolves view (=) (logged m)"
  unfolding logged_def by (intro keeps_intros)

lemma keeps_recycle_tick:
  assumes reg: "registry_keeps reg"
  shows "evolves view (=) (recycle_tick adv idle reg)"
proof -
  have busy: "evolves view (=) (recycle_busy a c)" for a c
    unfolding recycle_busy_def IsExpired_def IsNearBoundary_def RenewBilling_def UpdateIdleSince_def Let_def
    by (intro keeps_basic keeps_logged)
  have idle: "evolves view (=) (recycle_idle reg a i c)" for a i c
    unfolding recycle_idle_def start_idle_timer_def terminate_if_idle_def IsExpired_def IsNearBoundary_def IsIdleExpired_def UpdateIdleSince_def
      TerminateCluster_def UpdateStatus_def
    by (intro keeps_basic keeps_logged registry_keepsD[OF reg])
  have "evolves view (=) (recycle_loop reg a i found)" for a i found
    by (induction found; unfold recycle_loop.simps recycle_cluster_def; intro keeps_basic busy idle; simp?)
  then show ?thesis unfolding recycle_tick_def by (intro keeps_basic)
qed

lemma keeps_poll_tick:
  assumes reg: "registry_keeps reg"
  shows "evolves view (=) (poll_tick n reg)"
proof -
  have create: "evolves view (=) (GetOrCreateActiveCluster c)" for c
    unfolding GetOrCreateActiveCluster_def cluster_orm_Create_def BeforeCreate_def Let_def by (intro keeps_basic)
  have "evolves view (=) (provision_tenant reg n tenant)" for tenant
    unfolding provision_tenant_def by (intro keeps_basic create registry_keepsD[OF reg])
  then have "evolves view (=) (poll_tenant reg n tenantID ids)" for tenantID ids
    unfolding poll_tenant_def MarkActive_def UpdateStatus_def MarkTasksStatus_def by (intro keeps_basic keeps_logged)
  then show ?thesis unfolding poll_tick_def poll_groups_def Let_def by (intro keeps_basic)
qed

lemma keeps_k8s_answer:
  "evolves view (=) m1 \<Longrightarrow> (\<And>m. evolves view (=) (m2 m)) \<Longrightarrow> (\<And>m. evolves view (=) (m3 m)) \<Longrightarrow>
   (\<And>m. evolves view (=) (m4 m)) \<Longrightarrow> evolves view (=) (case_k8s_answer m1 m2 m3 m4 a)"
  by (cases a) auto

lemma keeps_main_registry: "registry_keeps (main_registry cfg)"
proof -
  have "provider_keeps (K8sProvider k)" for k
    unfolding provider_keeps_def K8sProvider_def k8_ProvisionCluster_def k8_ScaleCluster_def
      k8_DestroyCluster_def k8_ensure_namespace_def k8_ensure_statefulset_def Let_def Provider.simps
    by (intro allI conjI keeps_basic keeps_k8s_answer)
  then show ?thesis
    by (auto simp: registry_keeps_def main_registry_def registry_Register_def NewRegistry_def registry_Get_def split: if_split_asm)
qed

end

section \<open>The registry of agents\<close>

definition same_identity :: "Agent \<Rightarrow> Agent \<Rightarrow> bool" where
  "same_identity a b \<longleftrightarrow> agent_TenantID a = agent_TenantID b \<and> agent_BackendName a = agent_BackendName b"

lemma same_identity_simps [simp]:
  "same_identity a a"
  "same_identity a (b\<lparr>agent_Status := st\<rparr>) = same_identity a b"
  "same_identity a (b\<lparr>agent_CurrentShardID := sid\<rparr>) = same_identity a b"
  "same_identity a (b\<lparr>agent_LastHeartbeatAt := at\<rparr>) = same_identity a b"
  "same_identity a (b\<lparr>agent_PreDisconnectStatus := pre\<rparr>) = same_identity a b"
  by (simp_all add: same_identity_def)

text \<open>What the heartbeat callback does with the agent it has read, once it knows whether it is stale.\<close>

definition heartbeat_verdict :: "timeout_callback \<Rightarrow> string \<Rightarrow> Agent \<Rightarrow> bool \<Rightarrow> unit w" where
  "heartbeat_verdict cb agentID agent stale =
     (if stale then ResetHeartbeat agentID
      else if agent_Status agent = AgentStatusDisconnected \<or> agent_Status agent = AgentStatusTimedOut then ret ()
      else if agent_Status agent = AgentStatusUnresponsive then
        bindE (put_agent agentID (agent\<lparr>agent_Status := AgentStatusTimedOut, agent_CurrentShardID := None\<rparr>)) (\<lambda>_.
        call_timeout cb agentID ''heartbeat_timed_out'')
      else bindE (put_agent agentID (agent\<lparr>agent_Status := AgentStatusUnresponsive\<rparr>)) (\<lambda>_. ResetHeartbeat agentID))"

lemma onHeartbeatTimeout_known:
  assumes "map_of (agents s) agentID = Some agent"
  shows "\<exists>stale s2. onHeartbeatTimeout cb agentID s = heartbeat_verdict cb agentID agent stale s2 \<and>
    agents s2 = agents s \<and> db s2 = db s \<and> env s2 = env s \<and> rt_timers s2 = rt_timers s \<and> heartbeatTimeout s2 = heartbeatTimeout s \<and>
    timers s2 = AList.delete agentID (timers s) \<and> tick s \<le> tick s2 \<and>
    (stale \<longleftrightarrow> (case agent_LastHeartbeatAt agent of None \<Rightarrow> False
       | Some t \<Rightarrow> time_Sub (now_at (env s) (tick s)) (t * Second) < heartbeatTimeout s))"
proof (cases "agent_LastHeartbeatAt agent")
  case None
  have "onHeartbeatTimeout cb agentID s = heartbeat_verdict cb agentID agent False (s\<lparr>timers := AList.delete agentID (timers s)\<rparr>)"
    using assms None by (simp add: onHeartbeatTimeout_def heartbeat_verdict_def forget_timer_def bindE_app)
  then show ?thesis using None by (intro exI[of _ False]) auto
next
  case (Some t)
  let ?stale = "time_Sub (now_at (env s) (tick s)) (t * Second) < heartbeatTimeout s"
  have "onHeartbeatTimeout cb agentID s = heartbeat_verdict cb agentID agent ?stale (tick_world (s\<lparr>timers := AList.delete agentID (timers s)\<rparr>))"
    using assms Some by (simp add: onHeartbeatTimeout_def heartbeat_verdict_def forget_timer_def bindE_app time_Now_def)
  then show ?thesis using Some by (intro exI[of _ ?stale]) auto
qed

text \<open>
  \<open>R\<close> relates two contents of the registry. It holds when an agent is added under a free name, and when the
  entry of a known agent is replaced by one of the same tenant and backend.
\<close>

locale agent_registry =
  fixes R :: "(string \<times> Agent) list \<Rightarrow> (string \<times> Agent) list \<Rightarrow> bool"
  assumes registry_refl: "R al al"
    and registry_trans: "R al bl \<Longrightarrow> R bl cl \<Longrightarrow> R al cl"
    and registry_new: "map_of al a = None \<Longrightarrow> R al (AList.update a x al)"
    and registry_change: "map_of al a = Some x \<Longrightarrow> same_identity x y \<Longrightarrow> R al (AList.update a y al)"

sublocale agent_registry \<subseteq> evolution agents R
  by unfold_locales (auto intro: registry_refl registry_trans)

interpretation agents_store: beside_services agents
  by unfold_locales simp_all

context agent_registry
begin

lemma weaken: "evolves agents (=) m \<Longrightarrow> evolves agents R m"
  unfolding evolves_def by (metis registry_refl)

lemma reg_timers:
  "evolves agents R (ResetHeartbeat agentID)" "evolves agents R (BeginGrace agentID)"
  "evolves agents R (CancelTimer agentID)" "evolves agents R (forget_timer agentID)"
  unfolding ResetHeartbeat_def BeginGrace_def CancelTimer_def forget_timer_def
  by (rule evolves_modifyE, simp add: after_func_def stop_timer_def split: option.splits)+

lemma reg_GetAgent: "evolves agents R (GetAgent agentID)"
  by (rule evolvesI) (simp add: GetAgent_def registry_refl split: option.splits)

lemma reg_HeartbeatAgent: "evolves agents R (HeartbeatAgent agentID status sid)"
  by (rule evolvesI)
    (auto simp: HeartbeatAgent_def bindE_app put_agent_def time_Now_def intro: registry_refl registry_change split: option.splits)

lemma reg_DisconnectAgent: "evolves agents R (DisconnectAgent agentID)"
  by (rule evolvesI)
    (auto simp: DisconnectAgent_def bindE_app put_agent_def Let_def intro: registry_refl registry_change split: option.splits)

lemma reg_RegisterAgent: "evolves agents R (RegisterAgent agentID tenantID backendName)"
proof (rule evolvesI)
  fix s
  show "R (agents s) (agents (snd (RegisterAgent agentID tenantID backendName s)))"
  proof (cases "map_of (agents s) agentID")
    case None
    then show ?thesis by (simp add: RegisterAgent_def bindE_app put_agent_def time_Now_def Let_def registry_new)
  next
    case (Some x)
    then show ?thesis
      by (auto simp: RegisterAgent_def bindE_app put_agent_def time_Now_def Let_def same_identity_def
          intro: registry_refl registry_change)
  qed
qed

text \<open>A callback that replaces the entry it has read, and goes on.\<close>

lemma reg_put_then:
  assumes "map_of (agents s) a = Some x" "same_identity x y" "evolves agents R m"
  shows "R (agents s) (agents (snd (bindE (put_agent a y) (\<lambda>_. m) s)))"
proof -
  let ?s = "s\<lparr>agents := AList.update a y (agents s)\<rparr>"
  have "R (agents ?s) (agents (snd (m ?s)))" using assms(3) unfolding evolves_def by blast
  then show ?thesis using registry_change[OF assms(1,2)] by (auto simp: put_agent_def bindE_app intro: registry_trans)
qed

lemma reg_onHeartbeatTimeout:
  assumes "\<And>f a reason. cb = Some f \<Longrightarrow> evolves agents R (f a reason)"
  shows "evolves agents R (onHeartbeatTimeout cb agentID)"
proof (rule evolvesI)
  fix s :: world
  have cb: "evolves agents R (call_timeout cb a reason)" for a reason
    unfolding call_timeout_def using assms by (auto intro: evolves_ret split: option.splits)
  show "R (agents s) (agents (snd (onHeartbeatTimeout cb agentID s)))"
  proof (cases "map_of (agents s) agentID")
    case None
    then show ?thesis
      by (simp add: onHeartbeatTimeout_def forget_timer_def bindE_app registry_refl)
  next
    case (Some agent)
    obtain stale s2 where eq: "onHeartbeatTimeout cb agentID s = heartbeat_verdict cb agentID agent stale s2"
      and s2: "agents s2 = agents s"
      using onHeartbeatTimeout_known[OF Some] by blast
    have known: "map_of (agents s2) agentID = Some agent" using Some s2 by simp
    have reset: "R (agents s2) (agents (snd (ResetHeartbeat agentID s2)))"
      using reg_timers(1) unfolding evolves_def by blast
    show ?thesis
      unfolding eq s2[symmetric] heartbeat_verdict_def
      by (simp add: reset registry_refl reg_put_then[OF known] cb reg_timers)
  qed
qed

lemma reg_onGraceExpired:
  assumes "\<And>f a reason. cb = Some f \<Longrightarrow> evolves agents R (f a reason)"
  shows "evolves agents R (onGraceExpired cb agentID)"
  unfolding onGraceExpired_def call_timeout_def by (intro evolves_intros reg_timers assms)

lemma reg_HandleAgentTimeout: "evolves agents R (HandleAgentTimeout agentID reason)"
  unfolding HandleAgentTimeout_def
  by (intro evolves_intros reg_GetAgent reg_HeartbeatAgent weaken[OF agents_store.keeps_RollbackTimedOutShard])

lemma reg_run_callback:
  "evolves agents R (run_callback (Some HandleAgentTimeout) c)" "evolves agents R (run_callback None c)"
  unfolding run_callback_def
  by (cases "snd c"; auto intro!: evolves_intros evolves_modifyE reg_onHeartbeatTimeout reg_onGraceExpired reg_HandleAgentTimeout)+

section \<open>Control streams\<close>

lemma reg_sess_Send: "evolves agents R (sess_Send sess msg)"
  unfolding sess_Send_def by (rule weaken[OF agents_store.keeps_outside(2)])

lemma reg_TryAssignShard: "evolves agents R (TryAssignShard server sess)"
  unfolding TryAssignShard_def assign_leased_def undo_assignment_def Let_def
  by (intro evolves_intros reg_HeartbeatAgent reg_sess_Send weaken[OF agents_store.keeps_LeaseNextShard]
      weaken[OF agents_store.keeps_outside(3)] weaken[OF agents_store.keeps_outside(5)] weaken[OF agents_store.keeps_outside(6)]
      weaken[OF agents_store.keeps_RollbackAssignedShard])

lemma reg_resetAgentAndAssign: "evolves agents R (resetAgentAndAssign server sess)"
  unfolding resetAgentAndAssign_def by (intro evolves_intros reg_HeartbeatAgent reg_TryAssignShard)

lemma reg_HandleHeartbeat: "evolves agents R (HandleHeartbeat server sess heartbeat)"
  unfolding HandleHeartbeat_def Let_def
  by (intro evolves_intros reg_HeartbeatAgent reg_timers reg_TryAssignShard weaken[OF agents_store.keeps_RollbackOrphanShardsForAgent])

lemma reg_reports:
  "evolves agents R (parse_shard_id text)" "evolves agents R (moved_on sess text)"
  "evolves agents R (LoadValidatedShard shardID agentID tenantID backendName)"
  "evolves agents R (ValidateShardReport shardID agentID tenantID backendName st act)" "evolves agents R (ReportShardStatus params)"
  unfolding parse_shard_id_def moved_on_def
  by (intro evolves_intros reg_GetAgent weaken[OF agents_store.keeps_LoadValidatedShard]
      weaken[OF agents_store.keeps_ValidateShardReport] weaken[OF agents_store.keeps_ReportShardStatus])+

lemma reg_handle_message: "evolves agents R (handle_message server sess message)"
  unfolding handle_message_def HandleShardStarted_def HandleShardFailed_def HandleShardResultReady_def Let_def
  by (cases message) (auto intro!: evolves_intros reg_reports reg_HandleHeartbeat reg_resetAgentAndAssign reg_HeartbeatAgent
      reg_sess_Send simp del: run_simps)

lemma reg_start_session: "evolves agents R (start_session server sess)"
  unfolding start_session_def HandleReconnectedAgent_def
  by (intro evolves_intros reg_GetAgent reg_HeartbeatAgent reg_TryAssignShard weaken[OF agents_store.keeps_RollbackOrphanShardsForAgent])

lemma reg_register_first: "evolves agents R (register_first server message)"
  unfolding register_first_def
  by (cases message) (auto intro!: evolves_intros reg_RegisterAgent reg_timers evolves_modifyE simp del: run_simps)

lemma reg_end_session: "evolves agents R (end_session agentID)"
  unfolding end_session_def
  by (intro evolves_intros reg_timers reg_DisconnectAgent weaken[OF agents_store.keeps_outside(10)])

lemma reg_control_loop: "evolves agents R (control_loop server sess inbox)"
proof (induction inbox)
  case Nil
  then show ?case by (subst control_loop.simps) (intro evolves_intros evolves_modifyE, auto intro: evolves_intros simp del: run_simps)
next
  case (Cons x inbox)
  then show ?case
    by (subst control_loop.simps, cases x)
      (auto intro!: evolves_intros evolves_modifyE reg_handle_message simp del: run_simps)
qed

text \<open>Every step of the server moves the registry along \<open>R\<close>.\<close>

lemma server_step_registry:
  assumes "server_step cfg server s s'"
  shows "R (agents s) (agents s')"
proof -
  have run: "R (agents s) (agents (snd (m s)))" if "evolves agents R m" for m :: "'x w"
    using that unfolding evolves_def by blast
  note store = weaken[OF agents_store.keeps_resolvers(1)] weaken[OF agents_store.keeps_resolvers(2)]
    weaken[OF agents_store.keeps_resolvers(3)] weaken[OF agents_store.keeps_resolvers(4)] weaken[OF agents_store.keeps_resolvers(5)]
    weaken[OF agents_store.keeps_poll_tick[OF agents_store.keeps_main_registry]]
    weaken[OF agents_store.keeps_recycle_tick[OF agents_store.keeps_main_registry]]
    weaken[OF agents_store.keeps_CleanupOrphanShards]
  show ?thesis
    using assms
  proof (cases rule: server_step.cases)
    case (fire ref)
    then show ?thesis by (auto simp: runtime_fire_def registry_refl split: option.splits)
  next
    case (hook payload)
    let ?s = "s\<lparr>hooks_pending := remove1 payload (hooks_pending s)\<rparr>"
    have "R (agents ?s) (agents (snd (run_completion_hook payload ?s)))"
      using weaken[OF agents_store.keeps_hook_delivery] unfolding evolves_def by blast
    then show ?thesis using hook by simp
  qed (simp_all add: run store reg_register_first reg_start_session reg_handle_message reg_end_session reg_run_callback reg_HandleAgentTimeout registry_refl)
qed

end

text \<open>The relation for the model: no agent is forgotten, and none changes its tenant or backend.\<close>

definition identities_kept :: "(string \<times> Agent) list \<Rightarrow> (string \<times> Agent) list \<Rightarrow> bool" where
  "identities_kept al bl \<longleftrightarrow> (\<forall>a x. map_of al a = Some x \<longrightarrow> (\<exists>y. map_of bl a = Some y \<and> same_identity x y))"

interpretation identities: agent_registry identities_kept
proof unfold_locales
  show "identities_kept al al" for al by (simp add: identities_kept_def)
  show "identities_kept al cl" if ab: "identities_kept al bl" and bc: "identities_kept bl cl" for al bl cl
    unfolding identities_kept_def
  proof (intro allI impI)
    fix a x assume "map_of al a = Some x"
    then obtain y where y: "map_of bl a = Some y" "same_identity x y" using ab by (auto simp: identities_kept_def)
    then obtain z where "map_of cl a = Some z" "same_identity y z" using bc by (auto simp: identities_kept_def)
    then show "\<exists>z. map_of cl a = Some z \<and> same_identity x z" using y(2) by (auto simp: same_identity_def)
  qed
  show "identities_kept al (AList.update a x al)" if "map_of al a = None" for al a x
    using that by (auto simp: identities_kept_def)
  show "identities_kept al (AList.update a y al)" if "map_of al a = Some x" "same_identity x y" for al a x y
    using that by (auto simp: identities_kept_def)
qed

end
