(* ===== verification/Props_Agents.thy ===== *)
theory Props_Agents
  imports Registry_Store Orphan_Results Demo_States
begin

text \<open>
  Agents: their identity in the registry, the life of a control stream, who may report on a shard,
  and what the timers do.
\<close>

section \<open>Identity\<close>

text \<open>
  C29: a registered agent keeps its tenant and its backend, and is never forgotten, whatever the server does: no
  step replaces the entry of an agent by one of another tenant or backend, or removes it.
\<close>

theorem agents_keep_identity:
  assumes "server_step cfg server s s'" and "map_of (agents s) agentID = Some x"
  shows "\<exists>y. map_of (agents s') agentID = Some y \<and> agent_TenantID y = agent_TenantID x \<and> agent_BackendName y = agent_BackendName x"
  using identities.server_step_registry[OF assms(1)] assms(2) by (fastforce simp: identities_kept_def same_identity_def)

definition demo_agent :: Agent where
  "demo_agent = \<lparr>agent_ID = ''agent-1'', agent_TenantID = 7, agent_BackendName = ''kubernetes'', agent_Status = AgentStatusRunning,
     agent_PreDisconnectStatus = [], agent_CurrentShardID = Some (demo_uuid_String 30), agent_LastHeartbeatAt = Some 50\<rparr>"

theorem agents_keep_identity_witness:
  "\<exists>y. map_of (agents (snd (end_session ''agent-1'' (demo_ready\<lparr>agents := [(''agent-1'', demo_agent)]\<rparr>)))) ''agent-1'' = Some y \<and>
     agent_TenantID y = 7"
  using agents_keep_identity[OF server_step.finish[of demo_config demo_server "demo_ready\<lparr>agents := [(''agent-1'', demo_agent)]\<rparr>" "''agent-1''"],
      of "''agent-1''" demo_agent]
  by (auto simp: demo_agent_def)

section \<open>Control streams\<close>

text \<open>What a successful registration and the end of a session leave behind.\<close>

lemma RegisterAgent_known:
  assumes "RegisterAgent agentID tenantID backendName s = (Inr (), s')"
  shows "\<exists>x. map_of (agents s') agentID = Some x \<and> agent_TenantID x = tenantID \<and> agent_BackendName x = backendName"
  using assms
  by (cases "map_of (agents s) agentID")
    (auto simp: RegisterAgent_def bindE_app Let_def put_agent_def split: if_split_asm)

lemma register_first_known:
  assumes "register_first server message s = (Inr sess, s')"
  shows "\<exists>x. map_of (agents s') (sess_agentID sess) = Some x \<and> agent_TenantID x = sess_tenantID sess \<and>
    agent_BackendName x = sess_backend sess"
proof -
  obtain register where msg: "message = AM_Register register"
    using assms by (cases message) (auto simp: register_first_def)
  obtain tenantID s1 where reg: "RegisterAgent (reg_AgentId register) tenantID (reg_BackendName register) s = (Inr (), s1)"
    and s': "agents s' = agents s1" "sess_agentID sess = reg_AgentId register" "sess_tenantID sess = tenantID"
      "sess_backend sess = reg_BackendName register"
    using assms unfolding msg
    by (auto simp: register_first_def forward CancelTimer_def ResetHeartbeat_def after_func_def stop_timer_def
        split: if_split_asm sum.split_asm prod.split_asm option.split_asm)
  then show ?thesis using RegisterAgent_known[OF reg] by simp
qed

lemma end_session_run:
  assumes "map_of (agents s) agentID = Some x"
  shows "\<exists>s' ref y. end_session agentID s = (Inr (), s') \<and> map_of (streams s') agentID = None \<and>
    map_of (agents s') agentID = Some y \<and> agent_Status y = AgentStatusDisconnected \<and> same_identity x y \<and>
    agent_CurrentShardID y = agent_CurrentShardID x \<and>
    map_of (timers s') agentID = Some ref \<and> map_of (rt_timers s') ref = Some \<lparr>timer_agent = agentID, timer_calls = GraceTimer,
      timer_at = now_at (env s) (tick s) + gracePeriod s\<rparr> \<and> gracePeriod s' = gracePeriod s \<and> env s' = env s"
  using assms
  by (auto simp: end_session_def delete_stream_def BeginGrace_def DisconnectAgent_def put_agent_def forward Let_def
      after_func_def stop_timer_def same_identity_def split: option.split)

text \<open>
  C30: however a control stream ends (the agent closes it, a message is refused, the context is done, a
  handler fails), the agent that opened it is left disconnected under its tenant and backend, the stream is no longer
  registered, and a grace timer is running that its entry in \<open>timers\<close> refers to.
\<close>

theorem stream_ends_disconnected:
  assumes "register_first server message s = (Inr sess, s1)"
    and "OpenControlStream server (Received message # inbox) s = (r, s')"
  shows "map_of (streams s') (sess_agentID sess) = None \<and>
    (\<exists>x. map_of (agents s') (sess_agentID sess) = Some x \<and> agent_Status x = AgentStatusDisconnected \<and>
       agent_TenantID x = sess_tenantID sess \<and> agent_BackendName x = sess_backend sess) \<and>
    (\<exists>ref n. map_of (timers s') (sess_agentID sess) = Some ref \<and>
       map_of (rt_timers s') ref = Some \<lparr>timer_agent = sess_agentID sess, timer_calls = GraceTimer,
         timer_at = now_at (env s') n + gracePeriod s'\<rparr>)"
proof -
  let ?m = "bindE (start_session server sess) (\<lambda>_. control_loop server sess inbox)"
  obtain r2 s2 where run: "?m s1 = (r2, s2)" by fastforce
  have "evolves agents identities_kept ?m"
    by (intro identities.evolves_intros identities.reg_start_session identities.reg_control_loop)
  then have kept: "identities_kept (agents s1) (agents s2)" using run unfolding evolves_def by (metis snd_conv)
  obtain x where x: "map_of (agents s2) (sess_agentID sess) = Some x" "agent_TenantID x = sess_tenantID sess"
    "agent_BackendName x = sess_backend sess"
    using register_first_known[OF assms(1)] kept by (fastforce simp: identities_kept_def same_identity_def)
  obtain s3 ref y where 3: "end_session (sess_agentID sess) s2 = (Inr (), s3)" "map_of (streams s3) (sess_agentID sess) = None"
    "map_of (agents s3) (sess_agentID sess) = Some y" "agent_Status y = AgentStatusDisconnected" "same_identity x y"
    "map_of (timers s3) (sess_agentID sess) = Some ref"
    "map_of (rt_timers s3) ref = Some \<lparr>timer_agent = sess_agentID sess, timer_calls = GraceTimer,
       timer_at = now_at (env s2) (tick s2) + gracePeriod s2\<rparr>" "gracePeriod s3 = gracePeriod s2" "env s3 = env s2"
    using end_session_run[OF x(1)] by blast
  have "s' = s3" using assms run 3(1) by (auto simp: OpenControlStream_def forward split: sum.split_asm)
  then show ?thesis using 3 x by (auto simp: same_identity_def)
qed

theorem stream_ends_disconnected_witness:
  "\<exists>r s' x. OpenControlStream demo_server (Received demo_register # [Received demo_idle, RecvFailed ''reset'']) demo_ready = (r, s') \<and>
     map_of (agents s') ''agent-1'' = Some x \<and> agent_Status x = AgentStatusDisconnected \<and> agent_BackendName x = ''kubernetes''"
proof -
  obtain r s' where run: "OpenControlStream demo_server (Received demo_register # [Received demo_idle, RecvFailed ''reset'']) demo_ready = (r, s')"
    by fastforce
  have "case fst (register_first demo_server demo_register demo_ready) of Inl _ \<Rightarrow> False
    | Inr sess \<Rightarrow> sess_agentID sess = ''agent-1'' \<and> sess_backend sess = ''kubernetes''" by code_simp
  then obtain sess s1 where reg: "register_first demo_server demo_register demo_ready = (Inr sess, s1)"
    "sess_agentID sess = ''agent-1''" "sess_backend sess = ''kubernetes''"
    by (cases "register_first demo_server demo_register demo_ready") (auto split: sum.split_asm)
  show ?thesis using stream_ends_disconnected[OF reg(1) run] reg(2,3) run by auto
qed

section \<open>Who may report on a shard\<close>

lemma GetShardTaskOwner_run:
  assumes "reliable s" "distinct (map ID (tasks (db s)))" "t \<in> set (tasks (db s))"
    and "distinct (map ID (tenants (db s)))" "n \<in> set (tenants (db s))" "ID n = task_TenantID t"
  shows "GetShardTaskOwner (ID t) s = (Inr \<lparr>owner_TaskID = ID t, owner_TenantID = task_TenantID t,
    owner_PrimaryBackendName = tenant_PrimaryBackendName n\<rparr>, tick_world s)"
proof -
  let ?rows = "[(q, m). q \<leftarrow> tasks (db s), ID q = ID t, m \<leftarrow> tenants (db s), ID m = task_TenantID q]"
  have "(t, n) \<in> set ?rows" using assms(3,5,6) by auto
  moreover have "p = (t, n)" if "p \<in> set ?rows" for p
    using that distinct_map_same[OF assms(2) _ assms(3)] distinct_map_same[OF assms(4) _ assms(5)] assms(6) by auto
  ultimately obtain ps where "?rows = (t, n) # ps" by (cases ?rows) auto
  then show ?thesis using assms(1) by (simp add: GetShardTaskOwner_def forward)
qed

text \<open>The rows behind a shard: its task and the tenant of the task.\<close>

definition owned_by :: "database \<Rightarrow> TaskShard \<Rightarrow> Task \<Rightarrow> Tenant \<Rightarrow> bool" where
  "owned_by d r t n \<longleftrightarrow> r \<in> set (task_shards d) \<and> t \<in> set (tasks d) \<and> ID t = shard_TaskID r \<and>
     n \<in> set (tenants d) \<and> ID n = task_TenantID t \<and> distinct (map ID (tenants d))"

definition may_report :: "TaskShard \<Rightarrow> Task \<Rightarrow> Tenant \<Rightarrow> string \<Rightarrow> uuid \<Rightarrow> string \<Rightarrow> bool" where
  "may_report r t n agentID tenantID backendName \<longleftrightarrow>
     (go_string (shard_AssignedAgentID r) = agentID \<or> shard_Status r \<in> {ShardStatusCancelled, ShardStatusFailed, ShardStatusSucceeded}) \<and>
     task_TenantID t = tenantID \<and> tenant_PrimaryBackendName n = backendName"

lemma LoadValidatedShard_run:
  assumes "reliable s" "db_inv {} (db s)" "owned_by (db s) r t n" "ID r \<noteq> uuid_Nil"
  shows "\<exists>res s'. LoadValidatedShard (ID r) agentID tenantID backendName s = (res, s') \<and> db s' = db s \<and> sent s' = sent s \<and>
    agents s' = agents s \<and> env s' = env s \<and> reliable s' \<and>
    (if may_report r t n agentID tenantID backendName then res = Inr r
     else \<exists>e. res = Inl e \<and> status_Code e = PermissionDenied)"
proof -
  have r: "r \<in> set (task_shards (db s))" "t \<in> set (tasks (db s))" "ID t = shard_TaskID r" "n \<in> set (tenants (db s))"
    "ID n = task_TenantID t" "distinct (map ID (tenants (db s)))"
    using assms(3) by (auto simp: owned_by_def)
  have "live r" using db_invD(3)[OF assms(2) r(1)] by (simp add: shard_row_ok_def)
  then have load: "first_row (filter (\<lambda>q. live q \<and> ID q = ID r) (task_shards (db s))) = Inr r"
    by (intro first_row_filter[OF db_invD(2)[OF assms(2)] r(1)]) auto
  have owner: "GetShardTaskOwner (shard_TaskID r) (tick_world s) = (Inr \<lparr>owner_TaskID = ID t, owner_TenantID = task_TenantID t,
    owner_PrimaryBackendName = tenant_PrimaryBackendName n\<rparr>, tick_world (tick_world s))"
    using GetShardTaskOwner_run[of "tick_world s" t n] assms(1) db_invD(1)[OF assms(2)] r by simp
  show ?thesis
    using assms(1,4) load owner
    by (auto simp: LoadValidatedShard_def forward task_shard_orm_GetByID_def may_report_def)
qed

text \<open>
  C31: a report on a shard is accepted exactly from the agent it is assigned to, of the task's tenant and its backend;
  when the shard has finished, from any agent of that tenant and backend. Every other report is refused as
  permission denied. The check itself changes no row.
\<close>

theorem reports_are_authorised:
  assumes "reliable s" and "db_inv {} (db s)" and "owned_by (db s) r t n" and "ID r \<noteq> uuid_Nil"
  shows "\<exists>res s'. LoadValidatedShard (ID r) agentID tenantID backendName s = (res, s') \<and> db s' = db s \<and>
    (if may_report r t n agentID tenantID backendName then res = Inr r
     else \<exists>e. res = Inl e \<and> status_Code e = PermissionDenied)"
  using LoadValidatedShard_run[OF assms] by blast

lemma demo_owned: "owned_by (db demo_ready) (demo_shard 30 ''a.sh'') demo_task demo_tenant"
  by (simp add: owned_by_def demo_ready_def demo_db_def demo_shard_def new_shard_def demo_task_def new_task_def demo_tenant_def)

theorem reports_are_authorised_witness:
  "\<exists>e s'. LoadValidatedShard 30 ''agent-2'' 7 ''kubernetes'' demo_ready = (Inl e, s') \<and> status_Code e = PermissionDenied"
proof -
  have "\<not> may_report (demo_shard 30 ''a.sh'') demo_task demo_tenant ''agent-2'' 7 ''kubernetes''"
    by (simp add: may_report_def demo_shard_def new_shard_def)
  moreover have "ID (demo_shard 30 ''a.sh'') = 30" by (simp add: demo_shard_def)
  ultimately show ?thesis
    using reports_are_authorised[OF demo_reliable(1) demo_ready_inv demo_owned, of "''agent-2''" 7 "''kubernetes''"] by auto
qed

text \<open>
  A result for a shard that has been put back in the queue: the agent is not the assigned one any more and gets
  permission denied. The comments of the handler speak of an acknowledgement here.
\<close>

lemma requeued_result_is_refused:
  assumes "reliable s" and "db_inv {} (db s)" and "owned_by (db s) r t n" and "ID r \<noteq> uuid_Nil"
    and "shard_Status r = ShardStatusQueued" and "shard_AssignedAgentID r = None" and "sess_agentID sess \<noteq> []"
    and "uuid_Parse (env s) (srr_ShardId ready) = Inr (ID r)"
  shows "\<exists>e s'. handle_message server sess (AM_ShardResultReady ready) s = (Inl e, s') \<and> status_Code e = PermissionDenied \<and>
    db s' = db s \<and> sent s' = sent s"
proof -
  have "\<not> may_report r t n (sess_agentID sess) (sess_tenantID sess) (sess_backend sess)"
    using assms(5-7) by (auto simp: may_report_def)
  then obtain e s' where "LoadValidatedShard (ID r) (sess_agentID sess) (sess_tenantID sess) (sess_backend sess) s = (Inl e, s')"
    "status_Code e = PermissionDenied" "db s' = db s" "sent s' = sent s"
    using LoadValidatedShard_run[OF assms(1-4), of "sess_agentID sess" "sess_tenantID sess" "sess_backend sess"] by auto
  then show ?thesis
    using assms(8) by (simp add: handle_message_def HandleShardResultReady_def parse_shard_id_def forward)
qed

section \<open>Who may open a stream\<close>

text \<open>
  The checks on the first message, in their order: a name, a tenant identifier, the token, and no conflict with
  the agent that has the name already.
\<close>

definition registration_conflict :: "Agent \<Rightarrow> uuid \<Rightarrow> string \<Rightarrow> bool" where
  "registration_conflict x tenantID backendName \<longleftrightarrow>
     agent_TenantID x \<noteq> tenantID \<or> agent_BackendName x \<noteq> backendName \<or> agent_Status x \<in> {AgentStatusRunning, AgentStatusIdle}"

definition registration_refusal :: "Server \<Rightarrow> Register \<Rightarrow> world \<Rightarrow> code option" where
  "registration_refusal server reg s =
     (if reg_AgentId reg = [] then Some InvalidArgument
      else case uuid_Parse (env s) (reg_TenantId reg) of
        Inl m \<Rightarrow> Some InvalidArgument
      | Inr tenantID \<Rightarrow>
          if reg_Token reg \<noteq> srv_expectedToken server then Some Unauthenticated
          else case map_of (agents s) (reg_AgentId reg) of
            None \<Rightarrow> None
          | Some x \<Rightarrow> if registration_conflict x tenantID (reg_BackendName reg) then Some PermissionDenied else None)"

text \<open>
  What a registered agent starts with: one that was disconnected, timed out or unresponsive gets back its shard and, if it was
  running, its running status; any other is idle.
\<close>

definition starts_as :: "Agent option \<Rightarrow> Agent \<Rightarrow> bool" where
  "starts_as known y \<longleftrightarrow> (case known of
       Some x \<Rightarrow>
         if agent_Status x \<in> {AgentStatusDisconnected, AgentStatusTimedOut, AgentStatusUnresponsive}
         then agent_CurrentShardID y = agent_CurrentShardID x \<and>
           agent_Status y = (if agent_PreDisconnectStatus x \<in> {[], AgentStatusDisconnected, AgentStatusIdle, AgentStatusTimedOut,
               AgentStatusUnresponsive} then AgentStatusIdle else agent_PreDisconnectStatus x)
         else agent_CurrentShardID y = None \<and> agent_Status y = AgentStatusIdle
     | None \<Rightarrow> agent_CurrentShardID y = None \<and> agent_Status y = AgentStatusIdle)"

lemma RegisterAgent_refused:
  assumes "map_of (agents s) agentID = Some x" "registration_conflict x tenantID backendName"
  shows "\<exists>e. RegisterAgent agentID tenantID backendName s = (Inl e, tick_world s) \<and> errors_Is e ErrAgentIdentityConflict"
  using assms by (auto simp: RegisterAgent_def bindE_app time_Now_def Let_def registration_conflict_def)

lemma RegisterAgent_accepted:
  assumes "\<And>x. map_of (agents s) agentID = Some x \<Longrightarrow> \<not> registration_conflict x tenantID backendName"
  shows "\<exists>y. RegisterAgent agentID tenantID backendName s = (Inr (), (tick_world s)\<lparr>agents := AList.update agentID y (agents s)\<rparr>) \<and>
    agent_TenantID y = tenantID \<and> agent_BackendName y = backendName \<and> starts_as (map_of (agents s) agentID) y"
  using assms
  by (cases "map_of (agents s) agentID")
    (auto simp: RegisterAgent_def bindE_app time_Now_def Let_def put_agent_def registration_conflict_def recovery_status_def starts_as_def)

text \<open>
  C32: a control stream is opened exactly for a registration that passes the checks. One that does not is
  refused with the code of the first check that fails, and leaves the server exactly as it was (no agent, timer, stream, row or
  message), even if the agent goes on sending. One that does makes the name belong to the agent, with its stream
  and a running heartbeat timer; an agent that comes back gets back its shard and its status.
\<close>

theorem registration_gate:
  "case registration_refusal server reg s of
     Some code \<Rightarrow> \<exists>e n. OpenControlStream server (Received (AM_Register reg) # inbox) s = (Inl e, s\<lparr>tick := n\<rparr>) \<and> status_Code e = code
   | None \<Rightarrow> \<exists>sess s' y ref at. register_first server (AM_Register reg) s = (Inr sess, s') \<and> db s' = db s \<and>
       sess_agentID sess = reg_AgentId reg \<and> uuid_Parse (env s) (reg_TenantId reg) = Inr (sess_tenantID sess) \<and>
       sess_backend sess = reg_BackendName reg \<and> map_of (streams s') (reg_AgentId reg) = Some (sess_stream sess) \<and>
       map_of (agents s') (reg_AgentId reg) = Some y \<and> agent_TenantID y = sess_tenantID sess \<and>
       agent_BackendName y = reg_BackendName reg \<and> starts_as (map_of (agents s) (reg_AgentId reg)) y \<and>
       map_of (timers s') (reg_AgentId reg) = Some ref \<and>
       map_of (rt_timers s') ref = Some \<lparr>timer_agent = reg_AgentId reg, timer_calls = HeartbeatTimer, timer_at = at\<rparr>"
proof (cases "reg_AgentId reg = [] \<or> (\<exists>m. uuid_Parse (env s) (reg_TenantId reg) = Inl m) \<or> reg_Token reg \<noteq> srv_expectedToken server")
  case True
  have same: "\<exists>n. s = s\<lparr>tick := n\<rparr>" by (rule exI[of _ "tick s"]) simp
  show ?thesis using True same
    by (auto simp: registration_refusal_def OpenControlStream_def register_first_def bindE_app split: sum.split)
next
  case False
  then obtain tenantID where ok: "reg_AgentId reg \<noteq> []" "uuid_Parse (env s) (reg_TenantId reg) = Inr tenantID"
    "reg_Token reg = srv_expectedToken server"
    by (cases "uuid_Parse (env s) (reg_TenantId reg)") auto
  show ?thesis
  proof (cases "\<exists>x. map_of (agents s) (reg_AgentId reg) = Some x \<and> registration_conflict x tenantID (reg_BackendName reg)")
    case True
    then obtain x e where "map_of (agents s) (reg_AgentId reg) = Some x" "registration_conflict x tenantID (reg_BackendName reg)"
      "RegisterAgent (reg_AgentId reg) tenantID (reg_BackendName reg) s = (Inl e, tick_world s)" "errors_Is e ErrAgentIdentityConflict"
      using RegisterAgent_refused by blast
    then show ?thesis using ok
      by (auto simp: registration_refusal_def OpenControlStream_def register_first_def forward tick_world_def)
  next
    case False
    then have "\<And>x. map_of (agents s) (reg_AgentId reg) = Some x \<Longrightarrow> \<not> registration_conflict x tenantID (reg_BackendName reg)" by blast
    then obtain y where y: "RegisterAgent (reg_AgentId reg) tenantID (reg_BackendName reg) s =
        (Inr (), (tick_world s)\<lparr>agents := AList.update (reg_AgentId reg) y (agents s)\<rparr>)"
      "agent_TenantID y = tenantID" "agent_BackendName y = reg_BackendName reg" "starts_as (map_of (agents s) (reg_AgentId reg)) y"
      using RegisterAgent_accepted by blast
    have "registration_refusal server reg s = None"
      using ok False by (auto simp: registration_refusal_def split: option.split)
    then show ?thesis using ok y
      by (auto simp: register_first_def forward CancelTimer_def ResetHeartbeat_def after_func_def stop_timer_def split: option.split)
  qed
qed

section \<open>Timers\<close>

lemma HandleAgentTimeout_idle:
  assumes "map_of (agents s) agentID = Some x" "agent_CurrentShardID x = None"
  shows "db (snd (HandleAgentTimeout agentID reason s)) = db s"
  using assms by (simp add: HandleAgentTimeout_def forward GetAgent_def HeartbeatAgent_def put_agent_def)

text \<open>
  \<open>onHeartbeatTimeout\<close> clears the agent's current shard before it calls \<open>HandleAgentTimeout\<close>, which then, unless a heartbeat
  has set the shard again in between, finds nothing to roll back: run without interruption the callback changes no row.
\<close>

lemma heartbeat_timeout_requeues_nothing:
  "db (snd (onHeartbeatTimeout (Some HandleAgentTimeout) agentID s)) = db s"
proof (cases "map_of (agents s) agentID")
  case None
  then show ?thesis by (simp add: onHeartbeatTimeout_def forward forget_timer_def)
next
  case (Some x)
  obtain stale s2 where eq: "onHeartbeatTimeout (Some HandleAgentTimeout) agentID s = heartbeat_verdict (Some HandleAgentTimeout) agentID x stale s2"
    and s2: "db s2 = db s"
    using onHeartbeatTimeout_known[OF Some] by blast
  have reset: "db (snd (ResetHeartbeat agentID w)) = db w" for w
    by (simp add: ResetHeartbeat_def after_func_def stop_timer_def split: option.split)
  show ?thesis
    unfolding eq heartbeat_verdict_def
    by (simp add: s2 reset forward put_agent_def call_timeout_def HandleAgentTimeout_idle)
qed

text \<open>The agent has been silent for the heartbeat timeout; an agent without a heartbeat has been silent always.\<close>

definition silent :: "world \<Rightarrow> Agent \<Rightarrow> bool" where
  "silent s x \<longleftrightarrow> (case agent_LastHeartbeatAt x of None \<Rightarrow> True
     | Some t \<Rightarrow> heartbeatTimeout s \<le> time_Sub (now_at (env s) (tick s)) (t * Second))"

text \<open>What becomes of the entry of an agent when its heartbeat timer has fired.\<close>

definition after_heartbeat_timeout :: "world \<Rightarrow> Agent \<Rightarrow> Agent" where
  "after_heartbeat_timeout s x =
     (if \<not> silent s x \<or> agent_Status x \<in> {AgentStatusDisconnected, AgentStatusTimedOut} then x
      else if agent_Status x = AgentStatusUnresponsive
      then x\<lparr>agent_Status := AgentStatusTimedOut, agent_CurrentShardID := None\<rparr>
      else x\<lparr>agent_Status := AgentStatusUnresponsive\<rparr>)"

lemma HandleAgentTimeout_no_shard:
  assumes "map_of (agents s) agentID = Some x" "agent_CurrentShardID x = None"
  shows "HandleAgentTimeout agentID ''heartbeat_timed_out'' s = (Inr (), s)"
  using assms by (simp add: HandleAgentTimeout_def forward GetAgent_def)

lemma ResetHeartbeat_run:
  "\<exists>s'. ResetHeartbeat agentID s = (Inr (), s') \<and> agents s' = agents s \<and> map_of (timers s') agentID = Some (tick s) \<and>
     map_of (rt_timers s') (tick s) = Some \<lparr>timer_agent = agentID, timer_calls = HeartbeatTimer,
       timer_at = now_at (env s) (tick s) + heartbeatTimeout s\<rparr>"
  by (auto simp: ResetHeartbeat_def after_func_def stop_timer_def split: option.split)

text \<open>
  C33: an agent that falls silent is given up in two stages. When its heartbeat timer has fired, an idle or running agent that
  has been silent for the timeout becomes unresponsive and keeps its shard, and the timer is started once more; an
  unresponsive one is timed out and has no timer any more. If a heartbeat has arrived in the meantime the agent is
  left as it is and the timer started again; a disconnected agent is left to its grace timer. No
  other agent changes.
\<close>

theorem silent_agent_is_given_up:
  assumes "map_of (agents s) agentID = Some x"
  shows "\<exists>s'. onHeartbeatTimeout (Some HandleAgentTimeout) agentID s = (Inr (), s') \<and>
    map_of (agents s') agentID = Some (after_heartbeat_timeout s x) \<and>
    (\<forall>other. other \<noteq> agentID \<longrightarrow> map_of (agents s') other = map_of (agents s) other) \<and>
    (if silent s x \<and> agent_Status x \<in> {AgentStatusDisconnected, AgentStatusTimedOut, AgentStatusUnresponsive}
     then map_of (timers s') agentID = None
     else \<exists>ref n. map_of (timers s') agentID = Some ref \<and> map_of (rt_timers s') ref = Some \<lparr>timer_agent = agentID,
       timer_calls = HeartbeatTimer, timer_at = now_at (env s) n + heartbeatTimeout s\<rparr>)"
proof -
  have not_stale: "(case agent_LastHeartbeatAt x of None \<Rightarrow> False
      | Some t \<Rightarrow> time_Sub (now_at (env s) (tick s)) (t * Second) < heartbeatTimeout s) \<longleftrightarrow> \<not> silent s x"
    by (auto simp: silent_def split: option.split)
  obtain stale s2 where run: "onHeartbeatTimeout (Some HandleAgentTimeout) agentID s = heartbeat_verdict (Some HandleAgentTimeout) agentID x stale s2"
    and s2: "agents s2 = agents s" "env s2 = env s" "heartbeatTimeout s2 = heartbeatTimeout s" "timers s2 = AList.delete agentID (timers s)"
    and st: "stale \<longleftrightarrow> \<not> silent s x"
    using onHeartbeatTimeout_known[OF assms, of "Some HandleAgentTimeout"] unfolding not_stale by blast
  let ?u = "s2\<lparr>agents := AList.update agentID (x\<lparr>agent_Status := AgentStatusUnresponsive\<rparr>) (agents s2)\<rparr>"
    and ?t = "s2\<lparr>agents := AList.update agentID (x\<lparr>agent_Status := AgentStatusTimedOut, agent_CurrentShardID := None\<rparr>) (agents s2)\<rparr>"
  consider (early) "\<not> silent s x" | (gone) "silent s x" "agent_Status x \<in> {AgentStatusDisconnected, AgentStatusTimedOut}"
    | (second) "silent s x" "agent_Status x = AgentStatusUnresponsive"
    | (first) "silent s x" "agent_Status x \<notin> {AgentStatusDisconnected, AgentStatusTimedOut, AgentStatusUnresponsive}" by auto
  then show ?thesis
  proof cases
    case early
    then show ?thesis using ResetHeartbeat_run[of agentID s2] s2 assms st unfolding run
      by (auto simp: heartbeat_verdict_def after_heartbeat_timeout_def)
  next
    case gone
    then show ?thesis using s2 assms st unfolding run by (auto simp: heartbeat_verdict_def after_heartbeat_timeout_def)
  next
    case second
    have "HandleAgentTimeout agentID ''heartbeat_timed_out'' ?t = (Inr (), ?t)"
      by (rule HandleAgentTimeout_no_shard[of _ _ "x\<lparr>agent_Status := AgentStatusTimedOut, agent_CurrentShardID := None\<rparr>"]) simp_all
    then show ?thesis using second s2 st unfolding run
      by (auto simp: heartbeat_verdict_def after_heartbeat_timeout_def put_agent_def forward call_timeout_def)
  next
    case first
    then show ?thesis using ResetHeartbeat_run[of agentID ?u] s2 st unfolding run
      by (auto simp: heartbeat_verdict_def after_heartbeat_timeout_def put_agent_def forward)
  qed
qed

theorem silent_agent_is_given_up_witness:
  "\<exists>s'. onHeartbeatTimeout (Some HandleAgentTimeout) ''agent-1'' (demo_ready\<lparr>agents := [(''agent-1'', demo_agent\<lparr>agent_LastHeartbeatAt := None\<rparr>)]\<rparr>) = (Inr (), s') \<and>
     map_of (agents s') ''agent-1'' = Some (demo_agent\<lparr>agent_Status := AgentStatusUnresponsive, agent_LastHeartbeatAt := None\<rparr>) \<and>
     map_of (timers s') ''agent-1'' \<noteq> None"
  using silent_agent_is_given_up[of "demo_ready\<lparr>agents := [(''agent-1'', demo_agent\<lparr>agent_LastHeartbeatAt := None\<rparr>)]\<rparr>"
      "''agent-1''" "demo_agent\<lparr>agent_LastHeartbeatAt := None\<rparr>"]
  by (auto simp: after_heartbeat_timeout_def silent_def demo_agent_def)

text \<open>
  C34: when the grace period of a disconnected agent is over, its shard goes back to the queue, no other shard or task
  changes, and the agent is timed out without a shard.
\<close>

theorem grace_expiry_requeues_shard:
  assumes "reliable s" and "db_inv {} (db s)" and "owned_by (db s) r t n" and "ID r \<noteq> uuid_Nil"
    and "shard_Status r \<in> {ShardStatusLeased, ShardStatusRunning}" and "shard_AssignedAgentID r = Some agentID"
    and "map_of (agents s) agentID = Some x" and "agent_Status x = AgentStatusDisconnected"
    and "agent_TenantID x = task_TenantID t" and "agent_BackendName x = tenant_PrimaryBackendName n"
    and "agent_CurrentShardID x = Some text" and "text \<noteq> []" and "uuid_Parse (env s) text = Inr (ID r)"
  shows "\<exists>s'. onGraceExpired (Some HandleAgentTimeout) agentID s = (Inr (), s') \<and> tasks (db s') = tasks (db s) \<and>
    (\<exists>r'\<in>set (task_shards (db s')). ID r' = ID r \<and> shard_Status r' = ShardStatusQueued \<and> shard_AssignedAgentID r' = None) \<and>
    (\<forall>q\<in>set (task_shards (db s)). ID q \<noteq> ID r \<longrightarrow> q \<in> set (task_shards (db s'))) \<and>
    (\<exists>y. map_of (agents s') agentID = Some y \<and> agent_Status y = AgentStatusTimedOut \<and> agent_CurrentShardID y = None)"
proof -
  let ?s = "s\<lparr>timers := AList.delete agentID (timers s)\<rparr>"
  have own: "r \<in> set (task_shards (db s))" "t \<in> set (tasks (db s))" "ID t = shard_TaskID r"
    using assms(3) by (auto simp: owned_by_def)
  have ok: "live r" "live t" using db_invD(3)[OF assms(2) own(1)] db_invD(5)[OF assms(2) own(2)]
    by (simp_all add: shard_row_ok_def task_row_ok_def)
  have "may_report r t n agentID (agent_TenantID x) (agent_BackendName x)" using assms(6,9,10) by (simp add: may_report_def)
  then obtain s1 where 1: "LoadValidatedShard (ID r) agentID (agent_TenantID x) (agent_BackendName x) ?s = (Inr r, s1)"
    "db s1 = db s" "agents s1 = agents s" "reliable s1"
    using LoadValidatedShard_run[of ?s r t n agentID "agent_TenantID x" "agent_BackendName x"] assms(1-4) by auto
  have load: "first_row (filter (\<lambda>q. live q \<and> ID q = shard_TaskID r) (tasks (db s))) = Inr t"
    by (rule first_row_filter[OF db_invD(1)[OF assms(2)] own(2)]) (use own ok in auto)
  have same: "task_Status q = task_Status t" if "q \<in> set (tasks (db s))" "ID q = ID t" for q
    using distinct_map_same[OF db_invD(1)[OF assms(2)] that(1) own(2) that(2)] by simp
  have st: "shard_Status r \<in> set shard_active_statuses" using assms(5) by (simp add: shard_active_statuses_def)
  obtain s2 at where 2: "transaction (RollbackShardWithTask (ID r) shard_active_statuses t) (tick_world s1) = (Inr (), s2)"
    and d: "db s2 = set_task_shards (upd_where (\<lambda>q. live q \<and> ID q = ID r \<and> shard_Status q \<in> set shard_active_statuses)
      (requeued_shard at) (task_shards (db s))) (db s)"
    using RollbackShardWithTask_run[of "tick_world s1" r shard_active_statuses t] 1(2,4) own(1) ok(1) st same by auto
  have rb: "RollbackTimedOutShard (ID r) agentID (agent_TenantID x) (agent_BackendName x) ?s = (Inr (), s2)"
    using 1 2 load by (simp add: RollbackTimedOutShard_def forward)
  have ag: "agents s2 = agents s"
    using agents_store.keeps_RollbackTimedOutShard[unfolded evolves_def, rule_format, of ?s "ID r" agentID "agent_TenantID x" "agent_BackendName x"] rb
    by simp
  have "requeued (\<lambda>_. True) {ID r} (task_shards (db s)) (task_shards (db s2))"
    unfolding d by (simp, rule requeue_one[OF db_invD(2)[OF assms(2)] own(1)]) (use ok st in auto)
  note rq = requeued_result[OF this own(1), of True] requeued_kept[OF this]
  have row: "\<exists>r'\<in>set (task_shards (db s2)). ID r' = ID r \<and> shard_Status r' = ShardStatusQueued \<and> shard_AssignedAgentID r' = None"
    using rq(1) by simp
  let ?s3 = "(tick_world s2)\<lparr>agents := AList.update agentID (x\<lparr>agent_Status := AgentStatusTimedOut, agent_CurrentShardID := None,
    agent_LastHeartbeatAt := Some (time_Unix (now_at (env s2) (tick s2)))\<rparr>) (agents s2)\<rparr>"
  have "HandleAgentTimeout agentID ''grace_expired'' ?s = (Inr (), ?s3)"
    using assms(7,11-13) ag by (simp add: HandleAgentTimeout_def forward GetAgent_def rb HeartbeatAgent_def put_agent_def)
  then have run: "onGraceExpired (Some HandleAgentTimeout) agentID s = (Inr (), ?s3)"
    using assms(7,8) by (simp add: onGraceExpired_def forget_timer_def forward call_timeout_def)
  show ?thesis
    unfolding run by (rule exI[of _ ?s3], intro conjI) (use row rq(2) d in simp_all)
qed

definition demo_gone :: world where
  "demo_gone = demo_running\<lparr>agents := [(''agent-1'', demo_agent\<lparr>agent_Status := AgentStatusDisconnected\<rparr>)]\<rparr>"

theorem grace_expiry_requeues_shard_witness:
  "\<exists>s'. onGraceExpired (Some HandleAgentTimeout) ''agent-1'' demo_gone = (Inr (), s') \<and>
     (\<exists>r'\<in>set (task_shards (db s')). ID r' = 30 \<and> shard_Status r' = ShardStatusQueued \<and> shard_AssignedAgentID r' = None)"
proof -
  let ?r = "hd (task_shards (db demo_running))" and ?t = "hd (tasks (db demo_running))"
  have own: "owned_by (db demo_gone) ?r ?t demo_tenant"
    by (simp add: owned_by_def demo_gone_def demo_running_def demo_shard_def new_shard_def demo_task_def new_task_def demo_tenant_def)
  have r: "ID ?r = 30" "ID ?r \<noteq> uuid_Nil" "shard_Status ?r \<in> {ShardStatusLeased, ShardStatusRunning}"
    "shard_AssignedAgentID ?r = Some ''agent-1''" "demo_uuid_String 30 \<noteq> []" by code_simp+
  have parse: "uuid_Parse (env demo_gone) (demo_uuid_String 30) = Inr (ID ?r)" by code_simp
  have ok: "reliable demo_gone" "db_inv {} (db demo_gone)" using demo_running_facts by (simp_all add: demo_gone_def)
  have x: "map_of (agents demo_gone) ''agent-1'' = Some (demo_agent\<lparr>agent_Status := AgentStatusDisconnected\<rparr>)"
    by (simp add: demo_gone_def)
  have fields: "task_TenantID ?t = 7" "tenant_PrimaryBackendName demo_tenant = ''kubernetes''" by code_simp+
  obtain s' where "onGraceExpired (Some HandleAgentTimeout) ''agent-1'' demo_gone = (Inr (), s')"
    "\<exists>r'\<in>set (task_shards (db s')). ID r' = ID ?r \<and> shard_Status r' = ShardStatusQueued \<and> shard_AssignedAgentID r' = None"
    using grace_expiry_requeues_shard[OF ok own r(2-4) x _ _ _ _ r(5) parse] fields by (auto simp: demo_agent_def)
  then show ?thesis unfolding r(1) by blast
qed

text \<open>
  A heartbeat callback that was already started when the timer was replaced drops the entry of the new timer and
  starts another one. The new timer keeps running, the map no longer refers to it, and \<open>CancelTimer\<close> does not stop it.
\<close>

lemma stale_callback_leaks_timer:
  assumes "map_of (agents s) agentID = Some x" and "agent_LastHeartbeatAt x = Some t"
    and "time_Sub (now_at (env s) (tick s)) (t * Second) < heartbeatTimeout s"
    and "map_of (timers s) agentID = Some ref" and "map_of (rt_timers s) ref = Some timer" and "ref < tick s"
    and "onHeartbeatTimeout cb agentID s = (r, s')"
  shows "\<exists>ref' timer'. ref' \<noteq> ref \<and> map_of (timers s') agentID = Some ref' \<and> map_of (rt_timers s') ref' = Some timer' \<and>
    map_of (rt_timers s') ref = Some timer \<and> map_of (rt_timers (snd (CancelTimer agentID s'))) ref = Some timer"
proof -
  obtain stale s2 where eq: "onHeartbeatTimeout cb agentID s = heartbeat_verdict cb agentID x stale s2"
    and s2: "rt_timers s2 = rt_timers s" "timers s2 = AList.delete agentID (timers s)" "stale" "tick s \<le> tick s2"
    using onHeartbeatTimeout_known[OF assms(1), of cb] assms(2,3) by auto
  have run: "s' = after_func HeartbeatTimer (heartbeatTimeout s2) agentID s2"
    using assms(7) s2(2,3) unfolding eq by (auto simp: heartbeat_verdict_def ResetHeartbeat_def stop_timer_def)
  have filtered: "map_of (filter (\<lambda>(q, _). q \<noteq> n) ts) ref = map_of ts ref" if "n \<noteq> ref" for n and ts :: "(nat \<times> Timer) list"
    using that by (induction ts) auto
  show ?thesis
    using assms(5,6) s2(1,4) unfolding run
    by (simp add: after_func_def CancelTimer_def stop_timer_def filtered)
qed

end
