(* ===== verification/Background_Loops.thy ===== *)
theory Background_Loops
  imports System Reliable
begin

text \<open>
  The three goroutines \<open>PollPendingTasks\<close>, \<open>RecycleClusters\<close> and \<open>CleanupOrphanShardsLoop\<close> as loops: their bodies never
  fail, a loop ends when its context is done, and what it does in between is a sequence of steps of the server.
\<close>

section \<open>Operations that never fail\<close>

definition never_fails :: "'a w \<Rightarrow> bool" where
  "never_fails m \<longleftrightarrow> (\<forall>s. \<exists>x s'. m s = (Inr x, s'))"

lemma never_fails_basic:
  "never_fails (ret x)" "never_fails (getsE f)" "never_fails (modifyE g)" "never_fails (tryE m)" "never_fails time_Now"
  by (auto simp: never_fails_def tryE_app split: prod.split)

lemma never_fails_bind:
  assumes "never_fails m" "\<And>x. never_fails (f x)"
  shows "never_fails (bindE m f)"
  unfolding never_fails_def
proof
  fix s
  obtain x s1 where 1: "m s = (Inr x, s1)" using assms(1) unfolding never_fails_def by blast
  obtain y s2 where "f x s1 = (Inr y, s2)" using assms(2)[of x] unfolding never_fails_def by blast
  then show "\<exists>x s'. bindE m f s = (Inr x, s')" using 1 by (simp add: bindE_app)
qed

lemma never_fails_logged: "never_fails (logged m)"
  unfolding logged_def by (intro never_fails_bind never_fails_basic)

lemma never_fails_cases:
  "(\<not> b \<Longrightarrow> never_fails m2) \<Longrightarrow> (b \<Longrightarrow> never_fails m1) \<Longrightarrow> never_fails (if b then m1 else m2)"
  "(\<And>e. never_fails (g e)) \<Longrightarrow> (\<And>x. never_fails (h x)) \<Longrightarrow> never_fails (case r of Inl e \<Rightarrow> g e | Inr x \<Rightarrow> h x)"
  "never_fails n \<Longrightarrow> (\<And>x. never_fails (h' x)) \<Longrightarrow> never_fails (case opt of None \<Rightarrow> n | Some x \<Rightarrow> h' x)"
  by (auto split: sum.split option.split)

lemmas never_fails_intros = never_fails_bind never_fails_logged never_fails_basic never_fails_cases

lemma never_fails_forE: "(\<And>x. never_fails (f x)) \<Longrightarrow> never_fails (forE xs f)"
  by (induction xs; unfold forE.simps; intro never_fails_intros; simp)

lemma never_fails_ticks:
  "never_fails (poll_tick n reg)" "never_fails (recycle_tick adv idle reg)"
proof -
  show "never_fails (poll_tick n reg)"
    unfolding poll_tick_def poll_groups_def poll_tenant_def Let_def by (intro never_fails_intros never_fails_forE)
  have "never_fails (recycle_loop reg a i cs)" for a i cs
    by (induction cs; unfold recycle_loop.simps recycle_cluster_def recycle_busy_def recycle_idle_def start_idle_timer_def terminate_if_idle_def IsExpired_def
        IsNearBoundary_def IsIdleExpired_def; intro never_fails_intros; simp)
  then show "never_fails (recycle_tick adv idle reg)"
    unfolding recycle_tick_def by (intro never_fails_intros)
qed

section \<open>Ticker loops\<close>

lemma ticker_loop_returns:
  assumes "never_fails body"
  shows "\<exists>b s'. ticker_loop body events s = (Inr b, s') \<and> (CtxDone \<in> set events \<longrightarrow> b)"
proof (induction events arbitrary: s)
  case (Cons event events)
  obtain b s1 where 1: "body s = (Inr b, s1)" using assms unfolding never_fails_def by blast
  then show ?case using Cons.IH[of s1] by (cases event) (auto simp: bindE_app)
qed auto

lemma ticker_loop_steps:
  assumes "\<And>s. R\<^sup>*\<^sup>* s (snd (body s))"
  shows "R\<^sup>*\<^sup>* s (snd (ticker_loop body events s))"
proof (induction events arbitrary: s)
  case (Cons event events)
  show ?case
  proof (cases event)
    case TickerC
    obtain r s1 where 1: "body s = (r, s1)" by fastforce
    then have "R\<^sup>*\<^sup>* s s1" using assms[of s] by simp
    moreover have "R\<^sup>*\<^sup>* s1 (snd (case r of Inl e \<Rightarrow> (Inl e, s1) | Inr b \<Rightarrow> (if b then ret True else ticker_loop body events) s1))"
      using Cons.IH[of s1] by (auto split: sum.split)
    ultimately show ?thesis using TickerC 1 by (auto simp: bindE_app intro: rtranclp_trans split: sum.splits)
  qed simp
qed simp

end
