(* ===== verification/Recycler_Results.thy ===== *)
theory Recycler_Results
  imports System Reliable
begin

text \<open>
  What a tick of the recycler may do to the rows of the clusters, whatever the database and the Kubernetes API answer.
\<close>

section \<open>The allowed changes\<close>

text \<open>The part of the state the recycler's decisions and effects are about.\<close>

definition recycler_view :: "world \<Rightarrow> env \<times> Task list \<times> Cluster list \<times> k8s_call list" where
  "recycler_view s = (env s, tasks (db s), clusters (db s), k8s_log s)"

definition active_tasks :: "Task list \<Rightarrow> uuid \<Rightarrow> nat" where
  "active_tasks ts tenantID = length (filter (\<lambda>r. task_TenantID r = tenantID \<and> task_Status r \<in> set active_task_statuses) ts)"

definition destroy_call :: "Config \<Rightarrow> env \<Rightarrow> uuid \<Rightarrow> k8s_call" where
  "destroy_call cfg e tenantID = K8s_DeleteStatefulSet (k8_Namespace (k8_config cfg)) (clusterName (uuid_String e tenantID))"

text \<open>
  One row: it keeps its status, or it is terminated for a cluster of \<open>C\<close> that was active, of a tenant without active
  tasks, and whose resources were deleted by one of the \<open>calls\<close>.
\<close>

definition row_recycled :: "Config \<Rightarrow> Cluster set \<Rightarrow> env \<Rightarrow> Task list \<Rightarrow> k8s_call list \<Rightarrow> Cluster \<Rightarrow> Cluster \<Rightarrow> bool" where
  "row_recycled cfg C e ts calls q q' \<longleftrightarrow> ID q' = ID q \<and> cluster_TenantID q' = cluster_TenantID q \<and>
     (cluster_Status q' = cluster_Status q \<or>
      cluster_Status q' = ClusterStatusTerminated \<and>
        (\<exists>c\<in>C. ID c = ID q \<and> cluster_Status c = ClusterStatusActive \<and> active_tasks ts (cluster_TenantID c) = 0 \<and>
           destroy_call cfg e (cluster_TenantID c) \<in> set calls))"

definition recycled ::
  "Config \<Rightarrow> Cluster set \<Rightarrow> env \<times> Task list \<times> Cluster list \<times> k8s_call list \<Rightarrow>
   env \<times> Task list \<times> Cluster list \<times> k8s_call list \<Rightarrow> bool" where
  "recycled cfg C v v' = (case (v, v') of ((e, ts, cs, l), (e', ts', cs', l')) \<Rightarrow>
     e' = e \<and> ts' = ts \<and> (\<exists>calls. l' = l @ calls \<and> list_all2 (row_recycled cfg C e ts calls) cs cs'))"

text \<open>The same, provided the tenant of the cluster has no active task.\<close>

definition recycled_idle :: "Config \<Rightarrow> Cluster set \<Rightarrow> Cluster \<Rightarrow> env \<times> Task list \<times> Cluster list \<times> k8s_call list \<Rightarrow>
   env \<times> Task list \<times> Cluster list \<times> k8s_call list \<Rightarrow> bool" where
  "recycled_idle cfg C c v v' \<longleftrightarrow> (active_tasks (fst (snd v)) (cluster_TenantID c) = 0 \<longrightarrow> recycled cfg C v v')"

lemma row_recycled_mono: "row_recycled cfg C e ts calls q q' \<Longrightarrow> set calls \<subseteq> set calls' \<Longrightarrow> row_recycled cfg C e ts calls' q q'"
  by (auto simp: row_recycled_def)

lemma recycled_refl: "recycled cfg C v v"
  by (auto simp: recycled_def row_recycled_def list_all2_same split: prod.split)

lemma recycled_trans:
  assumes "recycled cfg C u v" "recycled cfg C v w"
  shows "recycled cfg C u w"
proof -
  obtain e ts cs l where u: "u = (e, ts, cs, l)" by (cases u) auto
  obtain calls cs1 where v: "v = (e, ts, cs1, l @ calls)" and 1: "list_all2 (row_recycled cfg C e ts calls) cs cs1"
    using assms(1) u by (auto simp: recycled_def split: prod.splits)
  obtain calls' cs2 where w: "w = (e, ts, cs2, l @ calls @ calls')" and 2: "list_all2 (row_recycled cfg C e ts calls') cs1 cs2"
    using assms(2) v by (auto simp: recycled_def split: prod.splits)
  have "row_recycled cfg C e ts (calls @ calls') q q''"
    if "row_recycled cfg C e ts calls q q'" "row_recycled cfg C e ts calls' q' q''" for q q' q''
    using that by (auto simp: row_recycled_def)
  then have "list_all2 (row_recycled cfg C e ts (calls @ calls')) cs cs2"
    using list_all2_trans[OF _ 1 2] by blast
  then show ?thesis by (simp add: recycled_def u w)
qed

interpretation recycling: evolution recycler_view "recycled cfg C" for cfg C
  by unfold_locales (auto intro: recycled_refl recycled_trans)

interpretation idling: evolution recycler_view "recycled_idle cfg C c" for cfg C c
proof unfold_locales
  show "recycled_idle cfg C c v v" for v by (simp add: recycled_idle_def recycled_refl)
  show "recycled_idle cfg C c u w" if "recycled_idle cfg C c u v" "recycled_idle cfg C c v w" for u v w
    using that recycled_trans[of cfg C u v w] by (auto simp: recycled_idle_def recycled_def split: prod.splits)
qed

section \<open>The steps of a tick\<close>

lemma recycled_same: "recycler_view s' = recycler_view s \<Longrightarrow> recycled cfg C (recycler_view s) (recycler_view s')"
  by (simp add: recycled_refl)

lemma recycling_reads:
  "evolves recycler_view (recycled cfg C) (select f)" "evolves recycler_view (recycled cfg C) (select_first g)"
  "evolves recycler_view (recycled cfg C) time_Now" "evolves recycler_view (recycled cfg C) orm_GetDB"
  by (rule recycling.evolvesI, rule recycled_same, simp add: recycler_view_def select_def select_first_def stmt_def orm_GetDB_def
      split: option.splits)+

lemma recycling_update:
  assumes "\<And>r. ID (f r) = ID r \<and> cluster_TenantID (f r) = cluster_TenantID r \<and> cluster_Status (f r) = cluster_Status r"
  shows "evolves recycler_view (recycled cfg C) (update_clusters p f)"
  by (rule recycling.evolvesI)
    (auto simp: recycler_view_def recycled_def update_clusters_def update_stmt_def stmt_def upd_where_def row_recycled_def
      list.rel_map list_all2_same assms split: option.splits)

lemma idling_weaken: "evolves recycler_view (recycled cfg C) m \<Longrightarrow> evolves recycler_view (recycled_idle cfg C c) m"
  by (simp add: evolves_def recycled_idle_def)

lemma recycling_logged: "evolves recycler_view (recycled cfg C) m \<Longrightarrow> evolves recycler_view (recycled cfg C) (logged m)"
  unfolding logged_def by (intro recycling.evolves_intros)

lemma recycling_busy: "evolves recycler_view (recycled cfg C) (recycle_busy adv c)"
  unfolding recycle_busy_def UpdateIdleSince_def IsExpired_def IsNearBoundary_def RenewBilling_def Let_def
  by (intro recycling.evolves_intros recycling_logged recycling_reads recycling_update) simp_all

lemma select_answer: "db_fault (env s) (tick s) = None \<Longrightarrow> select f s = (Inr (f (db s)), tick_world s)"
  by (simp add: select_Inr_iff)

lemma update_clusters_run [simp]:
  "reliable s \<Longrightarrow> update_clusters p f s = (Inr (affected (\<lambda>r. live r \<and> p r) (clusters (db s))),
     (tick_world s)\<lparr>db := set_clusters (upd_where (\<lambda>r. live r \<and> p r)
        (\<lambda>r. (f r)\<lparr>UpdatedAt := now_at (env s) (tick s)\<rparr>) (clusters (db s))) (db s)\<rparr>)"
  by (simp add: update_clusters_def update_stmt_def stmt_def)

text \<open>Destroying the resources and marking the row.\<close>

lemma recycling_terminate:
  assumes "c \<in> C" "cluster_Status c = ClusterStatusActive" "cluster_TenantID c' = cluster_TenantID c" "ID c' = ID c"
  shows "evolves recycler_view (recycled_idle cfg C c)
    (bindE (tryE (DestroyCluster (K8sProvider (k8_config cfg)) (tenant_of_id (cluster_TenantID c')))) (\<lambda>r.
       case r of Inl err \<Rightarrow> ret () | Inr _ \<Rightarrow> logged (TerminateCluster (ID c'))))"
proof (rule idling.evolvesI)
  fix s :: world
  let ?m = "bindE (tryE (DestroyCluster (K8sProvider (k8_config cfg)) (tenant_of_id (cluster_TenantID c')))) (\<lambda>r.
       case r of Inl err \<Rightarrow> ret () | Inr _ \<Rightarrow> logged (TerminateCluster (ID c')))"
  let ?call = "destroy_call cfg (env s) (cluster_TenantID c)"
  let ?s1 = "(tick_world s)\<lparr>k8s_log := k8s_log s @ [?call]\<rparr>"
  have destroy: "\<exists>r. DestroyCluster (K8sProvider (k8_config cfg)) (tenant_of_id (cluster_TenantID c')) s = (r, ?s1)"
    using assms(3) by (simp add: K8sProvider_def k8_DestroyCluster_def forward k8s_do_def tenant_of_id_def destroy_call_def split: k8s_answer.split)
  have same: "recycled cfg C (recycler_view s) (recycler_view ?s1)"
    by (auto simp: recycled_def recycler_view_def row_recycled_def list_all2_same)
  have mark: "recycled cfg C (recycler_view s) (recycler_view (snd (logged (TerminateCluster (ID c')) ?s1)))"
    if "active_tasks (tasks (db s)) (cluster_TenantID c) = 0"
  proof -
    have "row_recycled cfg C (env s) (tasks (db s)) [?call] q
        (if live q \<and> ID q = ID c' then q\<lparr>cluster_Status := ClusterStatusTerminated, UpdatedAt := now\<rparr> else q)" for q now
      using assms that by (auto simp: row_recycled_def)
    then show ?thesis
      using same
      by (auto simp: logged_def TerminateCluster_def UpdateStatus_def update_clusters_def update_stmt_def stmt_def forward
          recycler_view_def recycled_def upd_where_def list.rel_map list_all2_same split: option.split)
  qed
  obtain r where r: "DestroyCluster (K8sProvider (k8_config cfg)) (tenant_of_id (cluster_TenantID c')) s = (r, ?s1)"
    using destroy by blast
  have "snd (?m s) = (case r of Inl err \<Rightarrow> ?s1 | Inr _ \<Rightarrow> snd (logged (TerminateCluster (ID c')) ?s1))"
    by (simp add: forward r split: sum.split)
  then show "recycled_idle cfg C c (recycler_view s) (recycler_view (snd (?m s)))"
    using same mark by (simp add: recycled_idle_def recycler_view_def split: sum.split)
qed

lemma idling_terminate:
  assumes "c \<in> C" "cluster_Status c = ClusterStatusActive" "cluster_TenantID c' = cluster_TenantID c" "ID c' = ID c"
  shows "evolves recycler_view (recycled_idle cfg C c) (terminate_if_idle (main_registry cfg) adv idle c')"
proof -
  have "evolves recycler_view (recycled_idle cfg C c)
      (case registry_Get (main_registry cfg) (cluster_BackendName c') of
         Inl err \<Rightarrow> ret ()
       | Inr provider \<Rightarrow>
           bindE (tryE (DestroyCluster provider (tenant_of_id (cluster_TenantID c')))) (\<lambda>r.
           case r of Inl err \<Rightarrow> ret () | Inr _ \<Rightarrow> logged (TerminateCluster (ID c'))))"
    using recycling_terminate[OF assms, of cfg]
    by (auto simp: registry_Get_def main_registry_def registry_Register_def NewRegistry_def intro: idling.evolves_ret)
  then show ?thesis
    unfolding terminate_if_idle_def IsIdleExpired_def IsNearBoundary_def IsExpired_def
    by (intro idling.evolves_bindE idling.evolves_if idling.evolves_ret idling.evolves_option
        idling_weaken[OF recycling_reads(3)])
qed

lemma idling_idle:
  assumes "c \<in> C" "cluster_Status c = ClusterStatusActive"
  shows "evolves recycler_view (recycled_idle cfg C c) (recycle_idle (main_registry cfg) adv idle c)"
  unfolding recycle_idle_def
proof (rule idling.evolves_bind_result)
  have "evolves recycler_view (recycled cfg C) (start_idle_timer c)"
    unfolding start_idle_timer_def UpdateIdleSince_def
    by (intro recycling.evolves_intros recycling_logged recycling_reads recycling_update) simp_all
  then show "evolves recycler_view (recycled_idle cfg C c) (start_idle_timer c)" by (rule idling_weaken)
next
  fix s x s'
  assume "start_idle_timer c s = (Inr x, s')"
  then have "cluster_TenantID x = cluster_TenantID c" "ID x = ID c"
    by (auto simp: start_idle_timer_def forward split: option.split_asm prod.split_asm sum.split_asm)
  then show "evolves recycler_view (recycled_idle cfg C c) (terminate_if_idle (main_registry cfg) adv idle x)"
    by (rule idling_terminate[OF assms])
qed

lemma recycling_cluster:
  assumes "c \<in> C"
  shows "evolves recycler_view (recycled cfg C) (recycle_cluster (main_registry cfg) adv idle c)"
proof (rule recycling.evolvesI)
  fix s :: world
  let ?n = "active_tasks (tasks (db s)) (cluster_TenantID c)"
  consider (skip) "cluster_Status c \<noteq> ClusterStatusActive \<or> db_fault (env s) (tick s) \<noteq> None"
    | (busy) "cluster_Status c = ClusterStatusActive" "db_fault (env s) (tick s) = None" "0 < ?n"
    | (idle) "cluster_Status c = ClusterStatusActive" "db_fault (env s) (tick s) = None" "?n = 0" by auto
  then show "recycled cfg C (recycler_view s) (recycler_view (snd (recycle_cluster (main_registry cfg) adv idle c s)))"
  proof cases
    case skip
    then show ?thesis
      by (intro recycled_same) (auto simp: recycle_cluster_def forward CountActiveTasks_def select_def stmt_def recycler_view_def
          split: option.split)
  next
    case busy
    then have "recycle_cluster (main_registry cfg) adv idle c s = recycle_busy adv c (tick_world s)"
      by (simp add: recycle_cluster_def forward CountActiveTasks_def select_answer active_tasks_def)
    then show ?thesis using recycling_busy[of cfg C adv c, unfolded evolves_def, rule_format, of "tick_world s"]
      by (simp add: recycler_view_def)
  next
    case idle
    then have "recycle_cluster (main_registry cfg) adv idle c s = recycle_idle (main_registry cfg) adv idle c (tick_world s)"
      by (simp add: recycle_cluster_def forward CountActiveTasks_def select_answer active_tasks_def)
    then show ?thesis using idling_idle[OF assms idle(1), of cfg adv idle, unfolded evolves_def, rule_format, of "tick_world s"] idle(3)
      by (simp add: recycler_view_def recycled_idle_def)
  qed
qed

lemma recycling_loop: "set cs \<subseteq> C \<Longrightarrow> evolves recycler_view (recycled cfg C) (recycle_loop (main_registry cfg) adv idle cs)"
  by (induction cs; unfold recycle_loop.simps; intro recycling.evolves_intros recycling_cluster; simp)

lemma recycle_tick_recycled:
  assumes "recycle_tick adv idle (main_registry cfg) s = (r, s')"
  shows "recycled cfg (set (clusters (db s))) (recycler_view s) (recycler_view s')"
proof (cases "db_open s \<and> db_fault (env s) (tick s) = None")
  case False
  then have "recycler_view s' = recycler_view s"
    using assms by (auto simp: recycle_tick_def forward orm_GetDB_def GetActiveClusterList_def select_def stmt_def recycler_view_def
        split: option.split_asm if_split_asm)
  then show ?thesis by (rule recycled_same)
next
  case True
  let ?found = "filter (\<lambda>r. live r \<and> cluster_Status r \<in> {ClusterStatusActive, ClusterStatusProvisioning}) (clusters (db s))"
  have "recycle_loop (main_registry cfg) (seconds adv) (seconds idle) ?found (tick_world s) = (r, s')"
    using assms True by (simp add: recycle_tick_def forward orm_GetDB_def GetActiveClusterList_def select_answer)
  then show ?thesis
    using recycling_loop[of ?found "set (clusters (db s))" cfg "seconds adv" "seconds idle", unfolded evolves_def, rule_format, of "tick_world s"]
    by (simp add: recycler_view_def)
qed

end
