(* ===== verification/Poll_Results.thy ===== *)
theory Poll_Results
  imports Recycler_Results
begin

text \<open>
  One tenant in a tick of the poller, on a database that answers: what becomes of its pending tasks in each branch.
\<close>

section \<open>Provisioning leaves the tasks alone\<close>

definition tasks_view :: "world \<Rightarrow> env \<times> bool \<times> Tenant list \<times> Task list" where
  "tasks_view s = (env s, db_open s, tenants (db s), tasks (db s))"

interpretation provisioning: evolution tasks_view "(=)"
  by unfold_locales auto

lemma provisioning_basic:
  "evolves tasks_view (=) (select f)" "evolves tasks_view (=) (select_first g)" "evolves tasks_view (=) time_Now"
  "evolves tasks_view (=) uuid_New" "evolves tasks_view (=) (k8s_do call)" "evolves tasks_view (=) (update_clusters p h)"
  "evolves tasks_view (=) (insert_stmt clusters set_clusters clash r)"
  by (rule provisioning.evolvesI, simp add: tasks_view_def select_def select_first_def stmt_def uuid_New_def k8s_do_def
      update_clusters_def update_stmt_def insert_stmt_def Let_def split: option.splits sum.splits)+

lemma provisioning_answer:
  "evolves tasks_view (=) m1 \<Longrightarrow> (\<And>m. evolves tasks_view (=) (m2 m)) \<Longrightarrow> (\<And>m. evolves tasks_view (=) (m3 m)) \<Longrightarrow>
   (\<And>m. evolves tasks_view (=) (m4 m)) \<Longrightarrow> evolves tasks_view (=) (case_k8s_answer m1 m2 m3 m4 a)"
  by (cases a) auto

lemma provisioning_create: "evolves tasks_view (=) (cluster_orm_Create c)"
  unfolding cluster_orm_Create_def BeforeCreate_def by (intro provisioning.evolves_intros provisioning_basic)

lemma provisioning_tenant: "evolves tasks_view (=) (provision_tenant (main_registry cfg) n tenant)"
proof -
  have create: "evolves tasks_view (=) (GetOrCreateActiveCluster c)" for c
    unfolding GetOrCreateActiveCluster_def cluster_orm_GetByTenant_def cluster_orm_Create_def BeforeCreate_def Let_def
    by (intro provisioning.evolves_intros provisioning_basic)
  have "evolves tasks_view (=) (ProvisionCluster (K8sProvider k) t)" "evolves tasks_view (=) (ScaleCluster (K8sProvider k) t i)" for k t i
    unfolding K8sProvider_def k8_ProvisionCluster_def k8_ScaleCluster_def k8_ensure_namespace_def k8_ensure_statefulset_def
      Let_def Provider.simps
    by (intro provisioning.evolves_intros provisioning_basic provisioning_answer)+
  then show ?thesis
    unfolding provision_tenant_def registry_Get_def main_registry_def registry_Register_def NewRegistry_def
    by (auto intro!: provisioning.evolves_intros provisioning_basic create simp del: run_simps)
qed

section \<open>Marking the tasks\<close>

text \<open>The pending rows among \<open>ids\<close> have the new status and error, the others are as before.\<close>

definition marked :: "uuid list \<Rightarrow> string \<Rightarrow> string \<Rightarrow> Task list \<Rightarrow> Task list \<Rightarrow> bool" where
  "marked ids status lastError = list_all2 (\<lambda>t t'.
     if live t \<and> ID t \<in> set ids \<and> task_Status t = TaskStatusPending
     then \<exists>at. t' = t\<lparr>task_Status := status, task_LastError := lastError, UpdatedAt := at\<rparr> else t' = t)"

lemma MarkTasksStatus_run:
  assumes "reliable s"
  shows "\<exists>s'. logged (MarkTasksStatus ids status lastError) s = (Inr (), s') \<and> marked ids status lastError (tasks (db s)) (tasks (db s')) \<and>
    k8s_log s' = k8s_log s \<and> clusters (db s') = clusters (db s)"
proof (cases "ids = []")
  case True
  then show ?thesis by (simp add: logged_def MarkTasksStatus_def forward marked_def list_all2_same)
next
  case False
  then show ?thesis using assms
    by (auto simp: logged_def MarkTasksStatus_def forward marked_def upd_where_def list.rel_map list_all2_same)
qed

section \<open>The cluster of the tenant\<close>

definition has_cluster :: "(string \<Rightarrow> bool) \<Rightarrow> uuid \<Rightarrow> database \<Rightarrow> bool" where
  "has_cluster p tenantID d \<longleftrightarrow> (\<exists>r\<in>set (clusters d). live r \<and> cluster_TenantID r = tenantID \<and> p (cluster_Status r))"

abbreviation not_terminated :: "string \<Rightarrow> bool" where
  "not_terminated st \<equiv> st \<noteq> ClusterStatusTerminated"

lemma first_row_mem: "first_row rs = Inr r \<Longrightarrow> r \<in> set rs"
  by (auto simp: first_row_def split: list.split_asm)

lemma set_latest_first [simp]: "set (latest_first rs) = set rs"
  by (simp add: latest_first_def)

lemma has_cluster_update:
  assumes "found \<in> set (clusters d)" "live found" "ID found = u"
    and "\<And>r. live (f r) = live r \<and> cluster_TenantID (f r) = cluster_TenantID r" "p (cluster_Status (f found))"
  shows "has_cluster p (cluster_TenantID found) (set_clusters (upd_where (\<lambda>r. live r \<and> ID r = u) f (clusters d)) d)"
  unfolding has_cluster_def
proof (rule bexI[of _ "f found"])
  show "f found \<in> set (clusters (set_clusters (upd_where (\<lambda>r. live r \<and> ID r = u) f (clusters d)) d))"
    using assms(1-3) by (auto simp: set_upd_where)
qed (use assms in auto)

lemma cluster_Create_run:
  assumes "cluster_orm_Create c s = (Inr x, s')" "cluster_Status c \<noteq> ClusterStatusTerminated" "DeletedAt c = None"
  shows "has_cluster not_terminated (cluster_TenantID c) (db s')"
  using assms
  by (auto simp: cluster_orm_Create_def BeforeCreate_def forward insert_stmt_Inr_iff has_cluster_def live_def
      split: if_split_asm sum.split_asm prod.split_asm)

text \<open>The branch after a duplicate key: the tenant's row is found, and reactivated if it was terminated.\<close>

lemma reactivate_run:
  assumes "reliable s" "cluster_Status c \<noteq> ClusterStatusTerminated"
    and "bindE (mapErr (\<lambda>fetchErr. createErr)
       (select_first (\<lambda>d. latest_first (filter (\<lambda>r. live r \<and> cluster_TenantID r = cluster_TenantID c) (clusters d))))) (\<lambda>found.
       if cluster_Status found = ClusterStatusTerminated then
         let new = (\<lambda>q. q\<lparr>cluster_Status := cluster_Status c, cluster_BackendName := cluster_BackendName c,
                           cluster_BillingCycleSeconds := cluster_BillingCycleSeconds c,
                           cluster_NextBillingBoundaryAt := cluster_NextBillingBoundaryAt c\<rparr>) in
         bindE (update_clusters (\<lambda>r. ID r = ID found) new) (\<lambda>_. ret (new found))
       else ret found) s = (Inr x, s')"
  shows "has_cluster not_terminated (cluster_TenantID c) (db s')"
proof -
  let ?F = "latest_first (filter (\<lambda>r. live r \<and> cluster_TenantID r = cluster_TenantID c) (clusters (db s)))"
  obtain found where found: "first_row ?F = Inr found"
    using assms(1,3) by (cases "first_row ?F") (auto simp: forward)
  then have mem: "found \<in> set (clusters (db s))" "live found" "cluster_TenantID found = cluster_TenantID c"
    using first_row_mem[OF found] by auto
  show ?thesis
  proof (cases "cluster_Status found = ClusterStatusTerminated")
    case False
    then have "db s' = db s" using assms(1,3) found by (auto simp: forward)
    then show ?thesis using mem False by (auto simp: has_cluster_def)
  next
    case True
    let ?f = "\<lambda>r. r\<lparr>cluster_Status := cluster_Status c, cluster_BackendName := cluster_BackendName c,
        cluster_BillingCycleSeconds := cluster_BillingCycleSeconds c, cluster_NextBillingBoundaryAt := cluster_NextBillingBoundaryAt c,
        UpdatedAt := now_at (env s) (Suc (tick s))\<rparr>"
    have "db s' = set_clusters (upd_where (\<lambda>r. live r \<and> ID r = ID found) ?f (clusters (db s))) (db s)"
      using assms(1,3) found True by (auto simp: forward Let_def)
    moreover have "has_cluster not_terminated (cluster_TenantID found)
        (set_clusters (upd_where (\<lambda>r. live r \<and> ID r = ID found) ?f (clusters (db s))) (db s))"
      by (rule has_cluster_update[OF mem(1,2)]) (use assms(2) in \<open>auto simp: live_def\<close>)
    ultimately show ?thesis using mem(3) by simp
  qed
qed

lemma GetOrCreate_run:
  assumes "reliable s" "GetOrCreateActiveCluster c s = (Inr x, s')" "cluster_Status c \<noteq> ClusterStatusTerminated" "DeletedAt c = None"
  shows "has_cluster not_terminated (cluster_TenantID c) (db s')"
proof -
  let ?L = "latest_first (filter (\<lambda>r. live r \<and> cluster_TenantID r = cluster_TenantID c \<and> cluster_Status r \<noteq> ClusterStatusTerminated)
    (clusters (db s)))"
  have get: "cluster_orm_GetByTenant (cluster_TenantID c) s = (first_row ?L, tick_world s)"
    using assms(1) by (simp add: cluster_orm_GetByTenant_def)
  obtain r2 s2 where create: "cluster_orm_Create c (tick_world s) = (r2, s2)" by fastforce
  have ok: "reliable s2"
    using provisioning.evolvesD[OF provisioning_create create] assms(1) by (simp add: tasks_view_def reliable_def)
  consider (existing) e where "first_row ?L = Inr e" | (created) e y where "first_row ?L = Inl e" "r2 = Inr y"
    | (failed) e ce where "first_row ?L = Inl e" "r2 = Inl ce" by (cases "first_row ?L"; cases r2) auto
  then show ?thesis
  proof cases
    case existing
    then have "db s' = db s" using assms(2) get by (auto simp: GetOrCreateActiveCluster_def forward)
    then show ?thesis using first_row_mem[OF existing] by (auto simp: has_cluster_def)
  next
    case created
    then show ?thesis
      using assms(2) get create cluster_Create_run[of c "tick_world s" y s2] assms(3,4) by (simp add: GetOrCreateActiveCluster_def forward)
  next
    case failed
    show ?thesis
      by (rule reactivate_run[OF ok assms(3), of ce x s'])
        (use assms(2) get create failed in \<open>simp add: GetOrCreateActiveCluster_def bindE_app[of "tryE m" for m] tryE_app split: if_split_asm\<close>)
  qed
qed

interpretation provider_calls: evolution db "(=)"
  by unfold_locales auto

lemma provider_calls_keep_db:
  "evolves db (=) (ProvisionCluster (K8sProvider k) t)" "evolves db (=) (ScaleCluster (K8sProvider k) t i)"
proof -
  have call: "evolves db (=) (k8s_do c)" for c by (rule provider_calls.evolvesI) (simp add: k8s_do_def)
  have answer: "evolves db (=) m1 \<Longrightarrow> (\<And>m. evolves db (=) (m2 m)) \<Longrightarrow> (\<And>m. evolves db (=) (m3 m)) \<Longrightarrow>
      (\<And>m. evolves db (=) (m4 m)) \<Longrightarrow> evolves db (=) (case_k8s_answer m1 m2 m3 m4 a)" for m1 m2 m3 and m4 :: "string \<Rightarrow> unit w" and a
    by (cases a) auto
  show "evolves db (=) (ProvisionCluster (K8sProvider k) t)" "evolves db (=) (ScaleCluster (K8sProvider k) t i)"
    unfolding K8sProvider_def k8_ProvisionCluster_def k8_ScaleCluster_def k8_ensure_namespace_def k8_ensure_statefulset_def
      Let_def Provider.simps
    by (intro provider_calls.evolves_intros call answer)+
qed

text \<open>After the calls to the provider, which do not touch the tables, the cluster is still there.\<close>

lemma provision_tenant_cluster:
  assumes "reliable s" "provision_tenant (main_registry cfg) n tenant s = (Inr (), s')"
  shows "has_cluster not_terminated (ID tenant) (db s')"
proof -
  obtain k x s1 where get: "GetOrCreateActiveCluster (new_cluster tenant n (now_at (env s) (tick s))) (tick_world s) = (Inr x, s1)"
    and rest: "bindE (mapErr (\<lambda>err. Errorf ''ensure: %v'' [error_Error err]) (ProvisionCluster (K8sProvider k) tenant)) (\<lambda>_.
          mapErr (\<lambda>err. Errorf ''scale: %v'' [error_Error err])
            (ScaleCluster (K8sProvider k) tenant (tenant_MaxAgents tenant))) s1 = (Inr (), s')"
    using assms(2)
    by (auto simp: provision_tenant_def registry_Get_def main_registry_def registry_Register_def NewRegistry_def bindE_app[of time_Now]
        bindE_Inr_iff split: if_split_asm)
  have "has_cluster not_terminated (ID tenant) (db s1)"
    using GetOrCreate_run[OF _ get] assms(1) by (simp add: new_cluster_def ClusterStatusProvisioning_def ClusterStatusTerminated_def)
  moreover have "evolves db (=) (bindE (mapErr (\<lambda>err. Errorf ''ensure: %v'' [error_Error err]) (ProvisionCluster (K8sProvider k) tenant)) (\<lambda>_.
          mapErr (\<lambda>err. Errorf ''scale: %v'' [error_Error err])
            (ScaleCluster (K8sProvider k) tenant (tenant_MaxAgents tenant))))"
    by (intro provider_calls.evolves_intros provider_calls_keep_db)
  from provider_calls.evolvesD[OF this rest] have "db s' = db s1" by simp
  ultimately show ?thesis by simp
qed

section \<open>The tenant\<close>

lemma MarkActive_run:
  assumes "reliable s" "has_cluster not_terminated tenantID (db s)"
  shows "\<exists>s'. bindE (tryE (cluster_orm_GetByTenant tenantID)) (\<lambda>r3.
      case r3 of Inl getErr \<Rightarrow> ret () | Inr existingCluster \<Rightarrow> logged (MarkActive (ID existingCluster))) s = (Inr (), s') \<and>
    reliable s' \<and> tasks (db s') = tasks (db s) \<and> has_cluster (\<lambda>st. st = ClusterStatusActive) tenantID (db s')"
proof -
  let ?L = "latest_first (filter (\<lambda>r. live r \<and> cluster_TenantID r = tenantID \<and> cluster_Status r \<noteq> ClusterStatusTerminated) (clusters (db s)))"
  have "set ?L \<noteq> {}" using assms(2) by (auto simp: has_cluster_def)
  then obtain c where c: "first_row ?L = Inr c" by (cases ?L) (auto simp: first_row_def)
  then have mem: "c \<in> set (clusters (db s))" "live c" "cluster_TenantID c = tenantID" using first_row_mem[OF c] by auto
  let ?f = "\<lambda>r. r\<lparr>cluster_Status := ClusterStatusActive, UpdatedAt := now_at (env s) (Suc (tick s))\<rparr>"
  have "has_cluster (\<lambda>st. st = ClusterStatusActive) (cluster_TenantID c)
      (set_clusters (upd_where (\<lambda>r. live r \<and> ID r = ID c) ?f (clusters (db s))) (db s))"
    by (rule has_cluster_update[OF mem(1,2)]) (auto simp: live_def)
  then show ?thesis using assms(1) c mem(3)
    by (simp add: forward cluster_orm_GetByTenant_def logged_def MarkActive_def UpdateStatus_def)
qed

lemma poll_tenant_run:
  assumes s: "reliable s" "ctx_Err (env s) (tick s) = None" and ids: "distinct (map ID (tenants (db s)))"
    and tenant: "tenant \<in> set (tenants (db s))" "live tenant"
  shows "\<exists>s'. poll_tenant (main_registry cfg) n (ID tenant) task_ids s = (Inr (), s') \<and>
    (if tenant_MaxAgents tenant \<le> 0
     then marked task_ids TaskStatusFailed ''tenant max_agents is 0'' (tasks (db s)) (tasks (db s')) \<and> k8s_log s' = k8s_log s \<and>
       clusters (db s') = clusters (db s)
     else case fst (provision_tenant (main_registry cfg) n tenant (tick_world s)) of
         Inl err \<Rightarrow> marked task_ids TaskStatusPending (error_Error err) (tasks (db s)) (tasks (db s'))
       | Inr _ \<Rightarrow> marked task_ids TaskStatusWaitingForAgents [] (tasks (db s)) (tasks (db s')) \<and>
           has_cluster (\<lambda>st. st = ClusterStatusActive) (ID tenant) (db s'))"
proof -
  have load: "first_row (filter (\<lambda>r. live r \<and> ID r = ID tenant) (tenants (db s))) = Inr tenant"
    by (rule first_row_filter[OF ids tenant(1)]) (use tenant in auto)
  show ?thesis
  proof (cases "tenant_MaxAgents tenant \<le> 0")
    case True
    have "poll_tenant (main_registry cfg) n (ID tenant) task_ids s =
        logged (MarkTasksStatus task_ids TaskStatusFailed ''tenant max_agents is 0'') (tick_world s)"
      using s load True by (simp add: poll_tenant_def forward tenant_orm_GetById_def)
    then show ?thesis using True MarkTasksStatus_run[of "tick_world s" task_ids TaskStatusFailed "''tenant max_agents is 0''"] s(1) by auto
  next
    case False
    obtain r2 s2 where prov: "provision_tenant (main_registry cfg) n tenant (tick_world s) = (r2, s2)" by fastforce
    have "tasks_view s2 = tasks_view (tick_world s)"
      using provisioning.evolvesD[OF provisioning_tenant prov] by simp
    then have s2: "reliable s2" "tasks (db s2) = tasks (db s)" using s(1) by (simp_all add: tasks_view_def reliable_def)
    show ?thesis
    proof (cases r2)
      case (Inl err)
      have "poll_tenant (main_registry cfg) n (ID tenant) task_ids s = logged (MarkTasksStatus task_ids TaskStatusPending (error_Error err)) s2"
        using s load False prov Inl by (simp add: poll_tenant_def forward tenant_orm_GetById_def)
      then show ?thesis using False prov Inl MarkTasksStatus_run[OF s2(1), of task_ids TaskStatusPending "error_Error err"] s2(2) by auto
    next
      case (Inr u)
      have "has_cluster not_terminated (ID tenant) (db s2)"
        using provision_tenant_cluster[of "tick_world s" cfg n tenant s2] s(1) prov Inr by simp
      then obtain s3 where 3: "bindE (tryE (cluster_orm_GetByTenant (ID tenant))) (\<lambda>r3.
          case r3 of Inl getErr \<Rightarrow> ret () | Inr existingCluster \<Rightarrow> logged (MarkActive (ID existingCluster))) s2 = (Inr (), s3)"
        "reliable s3" "tasks (db s3) = tasks (db s2)" "has_cluster (\<lambda>st. st = ClusterStatusActive) (ID tenant) (db s3)"
        using MarkActive_run[OF s2(1)] by blast
      obtain s4 where 4: "logged (MarkTasksStatus task_ids TaskStatusWaitingForAgents []) s3 = (Inr (), s4)"
        "marked task_ids TaskStatusWaitingForAgents [] (tasks (db s3)) (tasks (db s4))" "clusters (db s4) = clusters (db s3)"
        using MarkTasksStatus_run[OF 3(2)] by blast
      have "poll_tenant (main_registry cfg) n (ID tenant) task_ids s = (Inr (), s4)"
        using s load False prov Inr 3(1) 4(1) by (simp add: poll_tenant_def forward tenant_orm_GetById_def split: sum.split_asm prod.split_asm)
      then show ?thesis using False prov Inr 3(3,4) 4(2,3) s2(2) by (auto simp: has_cluster_def)
    qed
  qed
qed

end
