(* ===== verification/Props_Clusters.thy ===== *)
theory Props_Clusters
  imports Background_Loops Poll_Results Demo_States
begin

text \<open>
  The background loops, and what they do with the clusters.
\<close>

section \<open>The loops\<close>

text \<open>
  C35: the poller, the recycler and the orphan cleanup never fail, and each of them ends when its context is done, at
  the latest at the next \<open>select\<close>. Until then everything they do is a sequence of steps of the server.
\<close>

theorem loops_end_with_context:
  assumes "m \<in> {PollPendingTasks (BillingCycleSeconds (cfg_Cluster cfg)) (main_registry cfg),
      RecycleClusters (BillingAdvanceSeconds (cfg_Cluster cfg)) (IdleThresholdSeconds (cfg_Cluster cfg)) (main_registry cfg),
      CleanupOrphanShardsLoop}"
  shows "\<exists>returned s'. m events s = (Inr returned, s') \<and> (CtxDone \<in> set events \<longrightarrow> returned) \<and> (server_step cfg server)\<^sup>*\<^sup>* s s'"
proof -
  let ?poll = "bindE (poll_tick (BillingCycleSeconds (cfg_Cluster cfg)) (main_registry cfg)) (\<lambda>_. ret False)"
  let ?recycle = "recycle_tick (BillingAdvanceSeconds (cfg_Cluster cfg)) (IdleThresholdSeconds (cfg_Cluster cfg)) (main_registry cfg)"
  let ?cleanup = "bindE (logged (CleanupOrphanShards (10 * Minute))) (\<lambda>_. ret False)"
  have "never_fails ?poll" "never_fails ?recycle" "never_fails ?cleanup"
    by (intro never_fails_intros never_fails_ticks)+
  moreover have "(server_step cfg server)\<^sup>*\<^sup>* w (snd (b w))" if "b \<in> {?poll, ?recycle, ?cleanup}" for b w
  proof -
    have "snd (?poll w) = snd (poll_tick (BillingCycleSeconds (cfg_Cluster cfg)) (main_registry cfg) w)"
      "snd (?cleanup w) = snd (CleanupOrphanShards (10 * Minute) w)"
      by (auto simp: logged_def forward split: prod.split sum.split)
    then have "server_step cfg server w (snd (b w))"
      using that server_step.poll[of cfg server w] server_step.recycle[of cfg server w] server_step.cleanup[of cfg server w] by auto
    then show ?thesis by blast
  qed
  ultimately have loop: "\<exists>returned s'. ticker_loop b events s = (Inr returned, s') \<and> (CtxDone \<in> set events \<longrightarrow> returned) \<and>
      (server_step cfg server)\<^sup>*\<^sup>* s s'" if "b \<in> {?poll, ?recycle, ?cleanup}" for b
    using that ticker_loop_returns[of b events s] ticker_loop_steps[of "server_step cfg server" b s events]
    by (metis empty_iff insert_iff snd_conv)
  have "PollPendingTasks (BillingCycleSeconds (cfg_Cluster cfg)) (main_registry cfg) events s =
      (if db_open s then ticker_loop ?poll events s else (Inr True, s))"
    by (simp add: PollPendingTasks_def forward orm_GetDB_def)
  then show ?thesis
    using assms loop[of ?poll] loop[of ?recycle] loop[of ?cleanup]
    by (auto simp: RecycleClusters_def[abs_def] CleanupOrphanShardsLoop_def[abs_def])
qed

theorem loops_end_with_context_witness:
  "\<exists>s'. CleanupOrphanShardsLoop [TickerC, CtxDone, TickerC] demo_running = (Inr True, s') \<and>
     (server_step demo_config demo_server)\<^sup>*\<^sup>* demo_running s'"
  using loops_end_with_context[of CleanupOrphanShardsLoop demo_config "[TickerC, CtxDone, TickerC]" demo_running demo_server] by auto

section \<open>The recycler\<close>

lemma list_all2_right: "list_all2 P xs ys \<Longrightarrow> y \<in> set ys \<Longrightarrow> \<exists>x\<in>set xs. P x y"
  by (induction rule: list_all2_induct) auto

text \<open>
  C36: whatever the database and the Kubernetes API answer, a tick of the recycler terminates a cluster only if it was
  active, its tenant has no active task, and the tick has asked Kubernetes to delete the tenant's StatefulSet. No
  other status of a cluster changes.
\<close>

theorem recycler_spares_busy_tenants:
  assumes "distinct (map ID (clusters (db s)))" and "recycle_tick adv idle (main_registry cfg) s = (r, s')"
    and "c \<in> set (clusters (db s))" and "c' \<in> set (clusters (db s'))" and "ID c' = ID c"
    and "cluster_Status c' \<noteq> cluster_Status c"
  shows "cluster_Status c = ClusterStatusActive \<and> cluster_Status c' = ClusterStatusTerminated \<and>
    (\<forall>t\<in>set (tasks (db s)). task_TenantID t = cluster_TenantID c \<longrightarrow> task_Status t \<notin> set active_task_statuses) \<and>
    (\<exists>calls. k8s_log s' = k8s_log s @ calls \<and> destroy_call cfg (env s) (cluster_TenantID c) \<in> set calls)"
proof -
  obtain calls where log: "k8s_log s' = k8s_log s @ calls"
    and rows: "list_all2 (row_recycled cfg (set (clusters (db s))) (env s) (tasks (db s)) calls) (clusters (db s)) (clusters (db s'))"
    using recycle_tick_recycled[OF assms(2)] by (auto simp: recycled_def recycler_view_def)
  obtain q where q: "q \<in> set (clusters (db s))" "row_recycled cfg (set (clusters (db s))) (env s) (tasks (db s)) calls q c'"
    using list_all2_right[OF rows assms(4)] by blast
  have "q = c" by (rule distinct_map_same[OF assms(1) q(1) assms(3)]) (use q(2) assms(5) in \<open>simp add: row_recycled_def\<close>)
  then obtain d where d: "d \<in> set (clusters (db s))" "ID d = ID c" "cluster_Status d = ClusterStatusActive"
    "active_tasks (tasks (db s)) (cluster_TenantID d) = 0" "destroy_call cfg (env s) (cluster_TenantID d) \<in> set calls"
    "cluster_Status c' = ClusterStatusTerminated"
    using q(2) assms(6) by (auto simp: row_recycled_def)
  have "d = c" by (rule distinct_map_same[OF assms(1) d(1) assms(3) d(2)])
  then show ?thesis using d log by (auto simp: active_tasks_def filter_empty_conv)
qed

definition demo_cluster :: Cluster where
  "demo_cluster = \<lparr>ID = 50, CreatedAt = 0, UpdatedAt = 0, DeletedAt = None, cluster_TenantID = 7, cluster_Status = ClusterStatusActive,
     cluster_BackendName = ''kubernetes'', cluster_BillingCycleSeconds = 3600, cluster_NextBillingBoundaryAt = 60 * Second,
     cluster_IdleSince = Some 0\<rparr>"

definition demo_idle_cluster :: world where
  "demo_idle_cluster = demo_world\<lparr>db := empty_db\<lparr>tenants := [demo_tenant], clusters := [demo_cluster]\<rparr>\<rparr>"

theorem recycler_spares_busy_tenants_witness:
  "\<exists>r s' calls. recycle_tick 180 60 (main_registry demo_config) demo_idle_cluster = (r, s') \<and>
     k8s_log s' = calls \<and> destroy_call demo_config demo_env 7 \<in> set calls"
proof -
  obtain r s' where run: "recycle_tick 180 60 (main_registry demo_config) demo_idle_cluster = (r, s')" by fastforce
  have "map cluster_Status (clusters (db (snd (recycle_tick 180 60 (main_registry demo_config) demo_idle_cluster)))) = [ClusterStatusTerminated]"
    "map ID (clusters (db (snd (recycle_tick 180 60 (main_registry demo_config) demo_idle_cluster)))) = [50]"
    by code_simp+
  then obtain c' where c': "c' \<in> set (clusters (db s'))" "ID c' = ID demo_cluster" "cluster_Status c' \<noteq> cluster_Status demo_cluster"
    using run by (auto simp: demo_cluster_def)
  have facts: "distinct (map ID (clusters (db demo_idle_cluster)))" "demo_cluster \<in> set (clusters (db demo_idle_cluster))"
    "env demo_idle_cluster = demo_env" "k8s_log demo_idle_cluster = []" "cluster_TenantID demo_cluster = 7"
    by (simp_all add: demo_idle_cluster_def demo_world_def demo_cluster_def)
  show ?thesis
    using recycler_spares_busy_tenants[OF facts(1) run facts(2) c'] run facts(3-5) by auto
qed

lemma upd_where_mem: "r \<in> set rs \<Longrightarrow> p r \<Longrightarrow> f r \<in> set (upd_where p f rs)"
  by (auto simp: set_upd_where)

text \<open>A cluster that is running and not idle, with the billing data of \<open>c\<close> at the boundary \<open>at\<close>.\<close>

definition running_cluster :: "database \<Rightarrow> Cluster \<Rightarrow> time \<Rightarrow> bool" where
  "running_cluster d c at \<longleftrightarrow> (\<exists>c'\<in>set (clusters d). live c' \<and> ID c' = ID c \<and> cluster_Status c' = ClusterStatusActive \<and>
     cluster_IdleSince c' = None \<and> cluster_NextBillingBoundaryAt c' = at \<and>
     cluster_BillingCycleSeconds c' = cluster_BillingCycleSeconds c)"

lemma clear_idle_run:
  assumes "reliable s" "c \<in> set (clusters (db s))" "live c" "cluster_Status c = ClusterStatusActive"
  shows "\<exists>s1. (if cluster_IdleSince c \<noteq> None then logged (UpdateIdleSince (ID c) None) else ret ()) s = (Inr (), s1) \<and>
    reliable s1 \<and> k8s_log s1 = k8s_log s \<and> env s1 = env s \<and> tick s1 = tick s + (if cluster_IdleSince c = None then 0 else 1) \<and>
    map ID (clusters (db s1)) = map ID (clusters (db s)) \<and> running_cluster (db s1) c (cluster_NextBillingBoundaryAt c)"
proof (cases "cluster_IdleSince c")
  case None
  then show ?thesis using assms by (auto simp: running_cluster_def)
next
  case (Some t)
  let ?f = "\<lambda>r. r\<lparr>cluster_IdleSince := None, UpdatedAt := now_at (env s) (tick s)\<rparr>"
  have "?f c \<in> set (upd_where (\<lambda>r. live r \<and> ID r = ID c) ?f (clusters (db s)))"
    using assms(2,3) by (intro upd_where_mem) auto
  then have "running_cluster (set_clusters (upd_where (\<lambda>r. live r \<and> ID r = ID c) ?f (clusters (db s))) (db s)) c
      (cluster_NextBillingBoundaryAt c)"
    using assms(3,4) by (auto simp: running_cluster_def live_def intro!: bexI[of _ "?f c"])
  then show ?thesis using Some assms(1)
    by (simp add: logged_def UpdateIdleSince_def forward map_upd_where)
qed

lemma RenewBilling_run:
  assumes "reliable s" "distinct (map ID (clusters (db s)))" "running_cluster (db s) c at"
  shows "\<exists>s'. logged (RenewBilling (ID c)) s = (Inr (), s') \<and> k8s_log s' = k8s_log s \<and>
    running_cluster (db s') c (at + seconds (cluster_BillingCycleSeconds c))"
proof -
  obtain q where q: "q \<in> set (clusters (db s))" "live q" "ID q = ID c" "cluster_Status q = ClusterStatusActive"
    "cluster_IdleSince q = None" "cluster_NextBillingBoundaryAt q = at" "cluster_BillingCycleSeconds q = cluster_BillingCycleSeconds c"
    using assms(3) by (auto simp: running_cluster_def)
  have load: "first_row (filter (\<lambda>r. live r \<and> ID r = ID c) (clusters (db s))) = Inr q"
    by (rule first_row_filter[OF assms(2) q(1)]) (use q in auto)
  let ?f = "\<lambda>r. r\<lparr>cluster_NextBillingBoundaryAt := at + seconds (cluster_BillingCycleSeconds c), UpdatedAt := now_at (env s) (Suc (tick s))\<rparr>"
  have "?f q \<in> set (upd_where (\<lambda>r. live r \<and> ID r = ID c) ?f (clusters (db s)))"
    using q(1-3) by (intro upd_where_mem) auto
  then have "running_cluster (set_clusters (upd_where (\<lambda>r. live r \<and> ID r = ID c) ?f (clusters (db s))) (db s)) c
      (at + seconds (cluster_BillingCycleSeconds c))"
    using q by (auto simp: running_cluster_def live_def intro!: bexI[of _ "?f q"])
  then show ?thesis using assms(1) load q(6,7)
    by (simp add: logged_def RenewBilling_def forward Let_def)
qed

text \<open>
  A tick leaves an active cluster with active tasks running: no call goes to Kubernetes, its status stays, its idle
  timer is cleared, and the billing boundary moves by exactly one cycle if it is over or within the advance
  threshold, and not otherwise.
\<close>

lemma busy_cluster_is_renewed:
  assumes "reliable s" and "distinct (map ID (clusters (db s)))" and "c \<in> set (clusters (db s))" and "live c"
    and "cluster_Status c = ClusterStatusActive" and "0 < active_tasks (tasks (db s)) (cluster_TenantID c)"
    and "n = tick s + (if cluster_IdleSince c = None then 1 else 2)"
  shows "\<exists>s'. recycle_cluster registry adv idle c s = (Inr (), s') \<and> k8s_log s' = k8s_log s \<and>
    running_cluster (db s') c (cluster_NextBillingBoundaryAt c +
      (if cluster_NextBillingBoundaryAt c < now_at (env s) n \<or>
          time_Sub (cluster_NextBillingBoundaryAt c) (now_at (env s) (Suc n)) \<le> adv
       then seconds (cluster_BillingCycleSeconds c) else 0))"
proof -
  have start: "recycle_cluster registry adv idle c s = recycle_busy adv c (tick_world s)"
    using assms(1,5,6) by (simp add: recycle_cluster_def forward CountActiveTasks_def active_tasks_def)
  obtain s1 where 1: "(if cluster_IdleSince c \<noteq> None then logged (UpdateIdleSince (ID c) None) else ret ()) (tick_world s) = (Inr (), s1)"
    "reliable s1" "k8s_log s1 = k8s_log s" "env s1 = env s" "tick s1 = n" "map ID (clusters (db s1)) = map ID (clusters (db s))"
    "running_cluster (db s1) c (cluster_NextBillingBoundaryAt c)"
    using clear_idle_run[of "tick_world s" c] assms(1,3-5,7) by auto
  have renew: "\<exists>s'. logged (RenewBilling (ID c)) w = (Inr (), s') \<and> k8s_log s' = k8s_log w \<and>
      running_cluster (db s') c (cluster_NextBillingBoundaryAt c + seconds (cluster_BillingCycleSeconds c))"
    if "reliable w" "db w = db s1" for w
    using RenewBilling_run[OF that(1), of c "cluster_NextBillingBoundaryAt c"] that(2) 1(6,7) assms(2) by simp
  show ?thesis
    using 1 renew[of "tick_world s1"] renew[of "tick_world (tick_world s1)"]
    by (auto simp: start recycle_busy_def bindE_app IsExpired_def IsNearBoundary_def)
qed

definition demo_busy_cluster :: world where
  "demo_busy_cluster = demo_ready\<lparr>db := demo_db\<lparr>clusters := [demo_cluster]\<rparr>\<rparr>"

section \<open>The Kubernetes provider\<close>

lemma sint_word_of_int_small: "0 \<le> i \<Longrightarrow> i < 2 ^ 31 \<Longrightarrow> sint (word_of_int i :: 32 word) = i"
  by (simp add: int_word_sint)

lemma k8_replicas_range:
  "1 \<le> sint (k8_replicas tenant)" "sint (k8_replicas tenant) < 2 ^ 31"
  "1 \<le> tenant_MaxAgents tenant \<and> tenant_MaxAgents tenant < 2 ^ 31 \<Longrightarrow> sint (k8_replicas tenant) = tenant_MaxAgents tenant"
proof -
  show "1 \<le> sint (k8_replicas tenant)" by (simp add: k8_replicas_def Let_def)
  show "sint (k8_replicas tenant) < 2 ^ 31" using sint_lt[of "k8_replicas tenant"] by simp
  show "sint (k8_replicas tenant) = tenant_MaxAgents tenant" if "1 \<le> tenant_MaxAgents tenant \<and> tenant_MaxAgents tenant < 2 ^ 31"
    using that by (simp add: k8_replicas_def Let_def sint_word_of_int_small)
qed

text \<open>
  C37: provisioning makes at most four calls, all in the configured namespace. A StatefulSet it creates has the tenant's
  name and token and asks for at least one and at most 2147483647 agents: for the tenant's maximum, if that is a
  positive number of 32 bits.
\<close>

theorem provisioned_replicas_bounds:
  assumes "k8_ProvisionCluster k tenant s = (r, s')"
  shows "\<exists>calls. k8s_log s' = k8s_log s @ calls \<and> length calls \<le> 4 \<and>
    (\<forall>ns sts. K8s_CreateStatefulSet ns sts \<in> set calls \<longrightarrow>
       ns = k8_Namespace k \<and> sts_Name sts = clusterName (uuid_String (env s) (ID tenant)) \<and>
       (''RORCHESTRATOR_AGENT_TOKEN'', k8_AgentToken k) \<in> set (sts_Env sts) \<and>
       1 \<le> sint (sts_Replicas sts) \<and> sint (sts_Replicas sts) < 2 ^ 31 \<and>
       (1 \<le> tenant_MaxAgents tenant \<and> tenant_MaxAgents tenant < 2 ^ 31 \<longrightarrow> sint (sts_Replicas sts) = tenant_MaxAgents tenant))"
proof -
  let ?sts = "k8_statefulset k (uuid_String (env s) (ID tenant)) tenant"
  have range: "1 \<le> sint (sts_Replicas ?sts)" "sint (sts_Replicas ?sts) < 2 ^ 31"
    "1 \<le> tenant_MaxAgents tenant \<and> tenant_MaxAgents tenant < 2 ^ 31 \<longrightarrow> sint (sts_Replicas ?sts) = tenant_MaxAgents tenant"
    using k8_replicas_range[of tenant] by (simp_all add: k8_statefulset_def Let_def)
  have names: "sts_Name ?sts = clusterName (uuid_String (env s) (ID tenant))" "(''RORCHESTRATOR_AGENT_TOKEN'', k8_AgentToken k) \<in> set (sts_Env ?sts)"
    by (simp_all add: k8_statefulset_def Let_def k8_envs_def)
  obtain calls where calls: "k8s_log s' = k8s_log s @ calls" "length calls \<le> 4"
    "\<And>ns sts. K8s_CreateStatefulSet ns sts \<in> set calls \<Longrightarrow> ns = k8_Namespace k \<and> sts = ?sts"
    using assms
    by (auto simp: k8_ProvisionCluster_def k8_ensure_namespace_def k8_ensure_statefulset_def k8s_do_def forward Let_def
        split: k8s_answer.split_asm)
  have "ns = k8_Namespace k \<and> sts_Name sts = clusterName (uuid_String (env s) (ID tenant)) \<and>
       (''RORCHESTRATOR_AGENT_TOKEN'', k8_AgentToken k) \<in> set (sts_Env sts) \<and>
       1 \<le> sint (sts_Replicas sts) \<and> sint (sts_Replicas sts) < 2 ^ 31 \<and>
       (1 \<le> tenant_MaxAgents tenant \<and> tenant_MaxAgents tenant < 2 ^ 31 \<longrightarrow> sint (sts_Replicas sts) = tenant_MaxAgents tenant)"
    if "K8s_CreateStatefulSet ns sts \<in> set calls" for ns sts
    using calls(3)[OF that] range names by (elim conjE) (simp only: simp_thms)
  then show ?thesis using calls(1,2) by blast
qed

theorem provisioned_replicas_bounds_witness:
  "\<exists>r s' calls. k8_ProvisionCluster (k8_config demo_config) demo_tenant demo_ready = (r, s') \<and>
     k8s_log s' = calls \<and> length calls \<le> 4"
proof -
  obtain r s' where run: "k8_ProvisionCluster (k8_config demo_config) demo_tenant demo_ready = (r, s')" by fastforce
  show ?thesis using provisioned_replicas_bounds[OF run] run by (auto simp: demo_ready_def demo_world_def)
qed

text \<open>Two tenants whose identifiers begin with the same eight characters share their StatefulSet.\<close>

lemma clusterName_collision: "take 8 a = take 8 b \<Longrightarrow> clusterName a = clusterName b"
  by (simp add: clusterName_def)

section \<open>The poller\<close>

text \<open>
  C38: what a tick of the poller does for a tenant with pending tasks. If the tenant may have no agents they fail, and no
  cluster and no Kubernetes object is touched. If the cluster cannot be provisioned they stay pending with the
  reason. Otherwise they wait for agents, and the tenant has an active cluster. No task that is not pending
  changes.
\<close>

theorem poll_tenant_outcome:
  assumes "reliable s" and "ctx_Err (env s) (tick s) = None" and "distinct (map ID (tenants (db s)))"
    and "tenant \<in> set (tenants (db s))" and "live tenant"
  shows "\<exists>s'. poll_tenant (main_registry cfg) billingCycleSeconds (ID tenant) task_ids s = (Inr (), s') \<and>
    (if tenant_MaxAgents tenant \<le> 0
     then marked task_ids TaskStatusFailed ''tenant max_agents is 0'' (tasks (db s)) (tasks (db s')) \<and> k8s_log s' = k8s_log s \<and>
       clusters (db s') = clusters (db s)
     else case fst (provision_tenant (main_registry cfg) billingCycleSeconds tenant (tick_world s)) of
         Inl err \<Rightarrow> marked task_ids TaskStatusPending (error_Error err) (tasks (db s)) (tasks (db s'))
       | Inr _ \<Rightarrow> marked task_ids TaskStatusWaitingForAgents [] (tasks (db s)) (tasks (db s')) \<and>
           has_cluster (\<lambda>st. st = ClusterStatusActive) (ID tenant) (db s'))"
  by (rule poll_tenant_run[OF assms])

definition demo_pending :: world where
  "demo_pending = demo_ready\<lparr>db := demo_db\<lparr>tasks := [demo_task\<lparr>task_Status := TaskStatusPending\<rparr>]\<rparr>\<rparr>"

theorem poll_tenant_outcome_witness:
  "\<exists>s'. poll_tenant (main_registry demo_config) 3600 (ID demo_tenant) [20] demo_pending = (Inr (), s') \<and>
     marked [20] TaskStatusWaitingForAgents [] (tasks (db demo_pending)) (tasks (db s')) \<and>
     has_cluster (\<lambda>st. st = ClusterStatusActive) (ID demo_tenant) (db s')"
proof -
  have s: "reliable demo_pending" "ctx_Err (env demo_pending) (tick demo_pending) = None" "distinct (map ID (tenants (db demo_pending)))"
    "demo_tenant \<in> set (tenants (db demo_pending))" "live demo_tenant" "\<not> tenant_MaxAgents demo_tenant \<le> 0"
    by (simp_all add: demo_pending_def demo_db_def demo_env_def demo_tenant_def live_def)
  have "case fst (provision_tenant (main_registry demo_config) 3600 demo_tenant (tick_world demo_pending)) of Inl _ \<Rightarrow> False | Inr _ \<Rightarrow> True"
    by code_simp
  then obtain u where "fst (provision_tenant (main_registry demo_config) 3600 demo_tenant (tick_world demo_pending)) = Inr u"
    by (cases "fst (provision_tenant (main_registry demo_config) 3600 demo_tenant (tick_world demo_pending))") auto
  then show ?thesis
    using poll_tenant_outcome[OF s(1-5), of demo_config 3600 "[20]"] s(6) by auto
qed

end
