(* ===== verification/Props_Config.thy ===== *)
theory Props_Config
  imports Demo
begin

text \<open>
  The configuration: numbers survive the round trip through the environment, and what \<open>LoadFromEnv\<close> accepts is usable.
\<close>

section \<open>Numbers in the environment\<close>

lemma envOrInt_loop_append:
  "envOrInt_loop (xs @ ys) v = (case envOrInt_loop xs v of None \<Rightarrow> None | Some w \<Rightarrow> envOrInt_loop ys w)"
  by (induction xs arbitrary: v) auto

lemma envOrInt_loop_digit: "d < 10 \<Longrightarrow> envOrInt_loop [digit_char d] v = Some (v * 10 + word_of_nat d)"
  by (simp add: digit_char_def less_eq_char_def)

text \<open>The decimal text of a number reads back as the number modulo the width of \<open>int\<close>.\<close>

lemma envOrInt_loop_nat_text: "envOrInt_loop (nat_text n) 0 = Some (word_of_nat n)"
proof (induction n rule: nat_text.induct)
  case (1 n)
  show ?case
  proof (cases "n < 10")
    case True
    then show ?thesis by (subst nat_text.simps) (simp only: if_True envOrInt_loop_digit, simp)
  next
    case False
    have "word_of_nat (n div 10) * 10 + word_of_nat (n mod 10) = (word_of_nat n :: 64 word)"
      by (metis div_mult_mod_eq of_nat_add of_nat_mult of_nat_numeral)
    then show ?thesis using 1[OF False] False
      by (subst nat_text.simps) (simp only: if_False envOrInt_loop_append option.case envOrInt_loop_digit mod_less_divisor zero_less_numeral)
  qed
qed

lemma nat_text_nonempty: "nat_text n \<noteq> []"
  by (subst nat_text.simps) simp

text \<open>
  A positive number of 63 bits that is put into a variable in decimal is what \<open>envOrInt\<close> reads, whatever the
  fallback. A number outside that range wraps silently instead of being refused.
\<close>

lemma env_int_roundtrip:
  assumes "0 < n" and "getenv key = int_text n"
  shows "(n < 2 ^ 63 \<longrightarrow> envOrInt getenv key fallback = n) \<and>
    (n mod 2 ^ 64 \<noteq> 0 \<longrightarrow> envOrInt getenv key fallback = sint (word_of_int n :: 64 word))"
proof -
  have "getenv key = nat_text (nat n)" using assms by (simp add: int_text_def)
  then have loop: "envOrInt_loop (getenv key) 0 = Some (word_of_int n)" and "getenv key \<noteq> []"
    using envOrInt_loop_nat_text[of "nat n"] nat_text_nonempty assms(1) by simp_all
  then have run: "envOrInt getenv key fallback = (if (word_of_int n :: 64 word) = 0 then fallback else sint (word_of_int n :: 64 word))"
    by (simp add: envOrInt_def Let_def)
  have zero: "(word_of_int n :: 64 word) = 0 \<longleftrightarrow> n mod 2 ^ 64 = 0"
    by (simp add: word_of_int_eq_0_iff dvd_eq_mod_eq_0)
  have "sint (word_of_int n :: 64 word) = n \<and> n mod 2 ^ 64 \<noteq> 0" if "n < 2 ^ 63"
    using that assms(1) by (simp add: int_word_sint)
  then show ?thesis using run zero by auto
qed

section \<open>The accepted configurations\<close>

lemma sprintf_plain: "CHR ''%'' \<notin> set f \<Longrightarrow> sprintf f args w = f"
  by (induction f args w rule: sprintf.induct) auto

lemma check_required_iff:
  "check_required getenv keys = None \<longleftrightarrow> (\<forall>k\<in>set keys. getenv k \<noteq> [])"
  "check_required getenv keys = Some e \<Longrightarrow> \<exists>pre key post. keys = pre @ key # post \<and> getenv key = [] \<and>
     (\<forall>k\<in>set pre. getenv k \<noteq> []) \<and> e = Errorf (key @ '' is required'') []"
  by (auto simp: check_required_def filter_empty_conv filter_eq_Cons_iff split: list.split_asm list.split)

lemma env_positive:
  "envOr getenv key fallback \<noteq> [] \<longleftrightarrow> getenv key \<noteq> [] \<or> fallback \<noteq> []"
  "0 < fallback' \<Longrightarrow> fallback' < 2 ^ 63 \<Longrightarrow> positive_or (envOrInt getenv key fallback') fallback' \<in> {1 ..< 2 ^ 63}"
  "0 < d \<Longrightarrow> 0 < envOrDuration p getenv key d"
proof -
  have "envOrInt getenv key fallback' < 2 ^ 63" if "fallback' < 2 ^ 63"
    using that sint_lt[where 'a = 64] by (auto simp: envOrInt_def Let_def split: option.split)
  then show "0 < fallback' \<Longrightarrow> fallback' < 2 ^ 63 \<Longrightarrow> positive_or (envOrInt getenv key fallback') fallback' \<in> {1 ..< 2 ^ 63}"
    by (auto simp: positive_or_def)
qed (auto simp: envOr_def envOrDuration_def split: option.split)

text \<open>
  C39: \<open>LoadFromEnv\<close> accepts an environment exactly when the five database variables and the agent token are set; the
  error names the first one that is missing. In an accepted configuration the addresses, the image, the namespace and the
  token are not empty, the billing cycle and the advance are positive numbers of 63 bits, and both timeouts are positive.
\<close>

theorem loaded_config_is_usable:
  "case LoadFromEnv p getenv of
     Inl e \<Rightarrow> \<exists>pre key post. required_vars @ [''CLUSTER_AGENT_TOKEN''] = pre @ key # post \<and> getenv key = [] \<and>
       (\<forall>k\<in>set pre. getenv k \<noteq> []) \<and> error_Error e = key @ '' is required''
   | Inr cfg \<Rightarrow> (\<forall>k\<in>set (required_vars @ [''CLUSTER_AGENT_TOKEN'']). getenv k \<noteq> []) \<and>
       HTTPAddr (cfg_Server cfg) \<noteq> [] \<and> GRPCAddr (cfg_Server cfg) \<noteq> [] \<and> AgentToken (cfg_Cluster cfg) \<noteq> [] \<and>
       AgentImage (cfg_Cluster cfg) \<noteq> [] \<and> kube_Namespace (Kubernetes (cfg_Cluster cfg)) \<noteq> [] \<and>
       BillingCycleSeconds (cfg_Cluster cfg) \<in> {1 ..< 2 ^ 63} \<and> BillingAdvanceSeconds (cfg_Cluster cfg) \<in> {1 ..< 2 ^ 63} \<and>
       0 < AgentHeartbeatTimeout (cfg_Cluster cfg) \<and> 0 < AgentDisconnectGrace (cfg_Cluster cfg)"
proof (cases "LoadFromEnv p getenv")
  case (Inl e)
  have plain: "CHR ''%'' \<notin> set (key @ '' is required'')" if "key \<in> set (required_vars @ [''CLUSTER_AGENT_TOKEN''])" for key
    using that by (auto simp: required_vars_def)
  consider (vars) "check_required getenv required_vars = Some e"
    | (token) "check_required getenv required_vars = None" "check_required getenv [''CLUSTER_AGENT_TOKEN''] = Some e"
    using Inl by (auto simp: LoadFromEnv_def split: option.split_asm)
  then obtain pre key post where key: "required_vars @ [''CLUSTER_AGENT_TOKEN''] = pre @ key # post" "getenv key = []"
    "\<forall>k\<in>set pre. getenv k \<noteq> []" "e = Errorf (key @ '' is required'') []"
  proof cases
    case vars
    obtain pre key post where "required_vars = pre @ key # post" "getenv key = []" "\<forall>k\<in>set pre. getenv k \<noteq> []"
      "e = Errorf (key @ '' is required'') []"
      using check_required_iff(2)[OF vars] by blast
    then show thesis using that[of pre key "post @ [''CLUSTER_AGENT_TOKEN'']"] by simp
  next
    case token
    then show thesis using that[of required_vars "''CLUSTER_AGENT_TOKEN''" "[]"] check_required_iff
      by (auto simp: check_required_def split: if_split_asm)
  qed
  have "key \<in> set (required_vars @ [''CLUSTER_AGENT_TOKEN''])" unfolding key(1) by simp
  then have "error_Error e = key @ '' is required''" using key(4) sprintf_plain[OF plain] by simp
  then show ?thesis unfolding Inl sum.case using key(1-3) by blast
next
  case (Inr cfg)
  have vars: "\<forall>k\<in>set required_vars. getenv k \<noteq> []" "getenv ''CLUSTER_AGENT_TOKEN'' \<noteq> []"
    using Inr by (auto simp: LoadFromEnv_def check_required_iff(1) split: option.split_asm)
  have cfg: "HTTPAddr (cfg_Server cfg) = envOr getenv ''SERVER_HTTP_ADDR'' '':8089''" "GRPCAddr (cfg_Server cfg) = envOr getenv ''SERVER_GRPC_ADDR'' '':9090''"
    "AgentToken (cfg_Cluster cfg) = getenv ''CLUSTER_AGENT_TOKEN''"
    "AgentImage (cfg_Cluster cfg) = envOr getenv ''CLUSTER_AGENT_IMAGE'' ''r-orchestrator/agent:latest''"
    "kube_Namespace (Kubernetes (cfg_Cluster cfg)) = envOr getenv ''CLUSTER_KUBERNETES_NAMESPACE'' ''r-agents''"
    "BillingCycleSeconds (cfg_Cluster cfg) = positive_or (envOrInt getenv ''CLUSTER_BILLING_CYCLE_SECONDS'' 3600) 3600"
    "BillingAdvanceSeconds (cfg_Cluster cfg) = positive_or (envOrInt getenv ''CLUSTER_BILLING_ADVANCE_SECONDS'' 180) 180"
    "AgentHeartbeatTimeout (cfg_Cluster cfg) = envOrDuration p getenv ''CLUSTER_AGENT_HEARTBEAT_TIMEOUT'' (90 * Second)"
    "AgentDisconnectGrace (cfg_Cluster cfg) = envOrDuration p getenv ''CLUSTER_AGENT_DISCONNECT_GRACE'' (5 * Minute)"
    using Inr by (auto simp: LoadFromEnv_def split: option.split_asm)
  show ?thesis unfolding Inr sum.case cfg
    using vars env_positive(1) env_positive(2)[of 3600] env_positive(2)[of 180] env_positive(3)
    by (intro conjI) (simp_all add: Second_def Minute_def)
qed

theorem loaded_config_is_usable_witness:
  "\<exists>cfg. LoadFromEnv demo_parsers demo_getenv = Inr cfg \<and> BillingCycleSeconds (cfg_Cluster cfg) \<in> {1 ..< 2 ^ 63}"
proof -
  have "case LoadFromEnv demo_parsers demo_getenv of Inl _ \<Rightarrow> False | Inr _ \<Rightarrow> True" by code_simp
  then obtain cfg where cfg: "LoadFromEnv demo_parsers demo_getenv = Inr cfg" by (auto split: sum.split_asm)
  show ?thesis using loaded_config_is_usable[where p = demo_parsers and getenv = demo_getenv] cfg by simp
qed

end
