(* ===== verification/Server_Run.thy ===== *)
theory Server_Run
  imports Server_Main "HOL-Library.Sublist"
begin

text \<open>
  The second half of \<open>main\<close> in \<open>cmd/server/main.go\<close>: the goroutines it starts, the wait for a signal or a
  failing server, and the shutdown. The statements of \<open>main\<close> are a list, \<open>main_program\<close>; the process is
  what is left of it together with the goroutines, the wait group, the channel of errors, and what has
  been asked of the two servers. \<open>perform\<close> is one step of \<open>main\<close>, of a goroutine, or of the surroundings; the
  scheduler may take the steps in any order. What the goroutines do to the world of the server is
  the business of \<open>server_step\<close>.
\<close>

section \<open>Processes\<close>

datatype goroutine = Poller | Cleaner | Recycler | ServeGRPC | ServeHTTP | ShutdownHTTP | StopGRPC

datatype statement =
    WgAdd int
  | Go goroutine
  | Select
  | WithTimeout
  | AfterFunc
  | CloseListener
  | WgWait

text \<open>From \<open>wg.Add(5)\<close> to \<open>wg.Wait()\<close>.\<close>

definition main_program :: "statement list" where
  "main_program =
     [WgAdd 5, Go Poller, Go Cleaner, Go Recycler, Go ServeGRPC, Go ServeHTTP, Select,
      WgAdd 2, WithTimeout, Go ShutdownHTTP, Go StopGRPC, AfterFunc, CloseListener, WgWait]"

text \<open>
  A goroutine is not started, runs, is inside \<open>Shutdown\<close> or \<open>GracefulStop\<close>, or has ended. A goroutine that serves
  runs until its library call returns.
\<close>

datatype progress = Fresh | Running | Inside | Ended

text \<open>
  \<open>p_Done\<close>: the context of \<open>main\<close> is done. \<open>p_errs\<close> is the channel \<open>server_errs\<close>, of capacity 2. \<open>p_pending\<close>: \<open>shutdown_ctx\<close>
  waits for its timeout, \<open>p_deadline\<close>: it has expired. \<open>p_timer\<close>: the forced stop is armed, \<open>p_forced\<close>: \<open>Stop\<close> was called.
\<close>

record process =
  p_todo :: "statement list"
  p_go :: "goroutine \<Rightarrow> progress"
  p_wg :: int
  p_Done :: bool
  p_errs :: "error list"
  p_serve_err :: "error option"
  p_pending :: bool
  p_deadline :: bool
  p_timer :: bool
  p_forced :: bool

definition main_start :: process where
  "main_start =
     \<lparr>p_todo = main_program, p_go = (\<lambda>_. Fresh), p_wg = 0, p_Done = False, p_errs = [], p_serve_err = None,
      p_pending = False, p_deadline = False, p_timer = False, p_forced = False\<rparr>"

section \<open>Steps\<close>

text \<open>
  \<open>Main\<close> is the next statement of \<open>main\<close>, \<open>TakeError\<close> the other branch of its \<open>select\<close>. \<open>Signal\<close> is a signal of the
  operating system, \<open>Call g\<close> the call of \<open>Shutdown\<close> or \<open>GracefulStop\<close>, \<open>Return g err\<close> the return of the call a
  goroutine makes, with the rest of its body. \<open>Deadline\<close> and \<open>Fire\<close> are the passing of the ten seconds.
\<close>

datatype action = Main | TakeError | Signal | Call goroutine | Return goroutine "error option" | Deadline | Fire

fun run_statement :: "statement \<Rightarrow> process \<Rightarrow> process option" where
  "run_statement (WgAdd n) p = Some (p\<lparr>p_wg := p_wg p + n\<rparr>)"
| "run_statement (Go g) p = Some (p\<lparr>p_go := (p_go p)(g := Running)\<rparr>)"
| "run_statement Select p = (if p_Done p then Some p else None)"
| "run_statement WithTimeout p = Some (p\<lparr>p_pending := True\<rparr>)"
| "run_statement AfterFunc p = Some (p\<lparr>p_timer := True\<rparr>)"
| "run_statement CloseListener p = Some p"
| "run_statement WgWait p = (if p_wg p = 0 then Some p else None)"

text \<open>\<open>defer wg.Done()\<close>: a counter below zero would panic, which is no step here.\<close>

definition wg_Done :: "goroutine \<Rightarrow> process \<Rightarrow> process option" where
  "wg_Done g p = (if 0 < p_wg p then Some (p\<lparr>p_go := (p_go p)(g := Ended), p_wg := p_wg p - 1\<rparr>) else None)"

text \<open>
  The goroutine of a server: an error other than \<open>closed\<close> is sent on the channel, and the send waits while the
  channel is full.
\<close>

definition serve_returns :: "sentinel \<Rightarrow> string \<Rightarrow> goroutine \<Rightarrow> error option \<Rightarrow> process \<Rightarrow> process option" where
  "serve_returns closed text g err p = (case err of
       Some e \<Rightarrow>
         if errors_Is e closed then wg_Done g p
         else if length (p_errs p) < 2 then wg_Done g (p\<lparr>p_errs := p_errs p @ [Wrapf text [] e]\<rparr>)
         else None
     | None \<Rightarrow> wg_Done g p)"

text \<open>
  What the libraries may do. A background loop returns when its context is done. \<open>Serve\<close> and \<open>ListenAndServe\<close> may fail at any
  time; they return without an error of their own only if the server was asked to stop. \<open>Shutdown\<close> returns when
  its context expires, \<open>GracefulStop\<close> after \<open>Stop\<close>; both may return before if there is nothing left to
  wait for (\<open>drained\<close>).
\<close>

definition asked_to_stop :: "goroutine \<Rightarrow> process \<Rightarrow> bool" where
  "asked_to_stop g p =
     (if g = ServeGRPC then p_go p StopGRPC \<in> {Inside, Ended} \<or> p_forced p else p_go p ShutdownHTTP \<in> {Inside, Ended})"

definition fails :: "sentinel \<Rightarrow> error option \<Rightarrow> bool" where
  "fails closed err = (case err of None \<Rightarrow> False | Some e \<Rightarrow> \<not> errors_Is e closed)"

fun goroutine_returns :: "bool \<Rightarrow> goroutine \<Rightarrow> error option \<Rightarrow> process \<Rightarrow> process option" where
  "goroutine_returns drained ServeGRPC err p =
     (if p_go p ServeGRPC = Running \<and> (fails ErrServerStopped err \<or> asked_to_stop ServeGRPC p)
      then serve_returns ErrServerStopped ''serve control grpc: %w'' ServeGRPC err p else None)"
| "goroutine_returns drained ServeHTTP err p =
     (if p_go p ServeHTTP = Running \<and> (fails ErrServerClosed err \<or> asked_to_stop ServeHTTP p)
      then serve_returns ErrServerClosed ''serve http: %w'' ServeHTTP err p else None)"
| "goroutine_returns drained ShutdownHTTP err p =
     (if p_go p ShutdownHTTP = Inside \<and> (drained \<or> p_deadline p) then wg_Done ShutdownHTTP p else None)"
| "goroutine_returns drained StopGRPC err p =
     (if p_go p StopGRPC = Inside \<and> (drained \<or> p_forced p) then wg_Done StopGRPC p else None)"
| "goroutine_returns drained g err p = (if p_go p g = Running \<and> p_Done p then wg_Done g p else None)"

fun perform :: "bool \<Rightarrow> action \<Rightarrow> process \<Rightarrow> process option" where
  "perform drained Main p = (case p_todo p of
       [] \<Rightarrow> None
     | st # rest \<Rightarrow> map_option (\<lambda>q. q\<lparr>p_todo := rest\<rparr>) (run_statement st p))"
| "perform drained TakeError p = (case (p_todo p, p_errs p) of
       (Select # rest, e # es) \<Rightarrow> Some (p\<lparr>p_todo := rest, p_errs := es, p_serve_err := Some e, p_Done := True\<rparr>)
     | _ \<Rightarrow> None)"
| "perform drained Signal p = (if p_Done p then None else Some (p\<lparr>p_Done := True\<rparr>))"
| "perform drained (Call g) p =
     (if g \<in> {ShutdownHTTP, StopGRPC} \<and> p_go p g = Running then Some (p\<lparr>p_go := (p_go p)(g := Inside)\<rparr>) else None)"
| "perform drained (Return g err) p = goroutine_returns drained g err p"
| "perform drained Deadline p = (if p_pending p then Some (p\<lparr>p_pending := False, p_deadline := True\<rparr>) else None)"
| "perform drained Fire p = (if p_timer p then Some (p\<lparr>p_timer := False, p_forced := True\<rparr>) else None)"

text \<open>
  The actions that need no goodwill: no signal, no failing server, no connection that ends by itself. A stopped
  \<open>ListenAndServe\<close> returns \<open>ErrServerClosed\<close>, a stopped \<open>Serve\<close> returns nil.
\<close>

definition stopped_result :: "goroutine \<Rightarrow> error option" where
  "stopped_result g = (if g = ServeHTTP then Some (Sentinel ErrServerClosed) else None)"

definition due :: "action \<Rightarrow> bool" where
  "due a = (case a of Signal \<Rightarrow> False | Return g err \<Rightarrow> err = stopped_result g | _ \<Rightarrow> True)"

inductive due_step :: "process \<Rightarrow> process \<Rightarrow> bool" where
  "due a \<Longrightarrow> perform False a p = Some q \<Longrightarrow> due_step p q"

inductive main_step :: "process \<Rightarrow> process \<Rightarrow> bool" where
  "perform drained a p = Some q \<Longrightarrow> main_step p q"

inductive main_reachable :: "process \<Rightarrow> bool" where
  start: "main_reachable main_start"
| step: "main_reachable p \<Longrightarrow> main_step p q \<Longrightarrow> main_reachable q"

text \<open>A sequence of actions, for the executions of one schedule.\<close>

primrec run_actions :: "action list \<Rightarrow> process \<Rightarrow> process option" where
  "run_actions [] p = Some p"
| "run_actions (a # as) p = (case perform True a p of None \<Rightarrow> None | Some q \<Rightarrow> run_actions as q)"

lemma run_actions_reachable: "main_reachable p \<Longrightarrow> run_actions as p = Some q \<Longrightarrow> main_reachable q"
proof (induction as arbitrary: p)
  case (Cons a as)
  then obtain r where "perform True a p = Some r" "run_actions as r = Some q" by (auto split: option.split_asm)
  then show ?case using Cons main_reachable.step main_step.intros by blast
qed simp

section \<open>The invariant\<close>

instance goroutine :: finite
proof
  have "(UNIV :: goroutine set) = {Poller, Cleaner, Recycler, ServeGRPC, ServeHTTP, ShutdownHTTP, StopGRPC}"
    by (auto intro: goroutine.exhaust)
  then show "finite (UNIV :: goroutine set)" by (metis finite.emptyI finite_insert)
qed

primrec added :: "statement list \<Rightarrow> int" where
  "added [] = 0"
| "added (st # rest) = (case st of WgAdd n \<Rightarrow> n | _ \<Rightarrow> 0) + added rest"

primrec gos :: "statement list \<Rightarrow> goroutine list" where
  "gos [] = []"
| "gos (st # rest) = (case st of Go g \<Rightarrow> [g] | _ \<Rightarrow> []) @ gos rest"

definition alive :: "(goroutine \<Rightarrow> progress) \<Rightarrow> goroutine set" where
  "alive f = {g. f g \<noteq> Ended}"

text \<open>
  The wait group counts the goroutines that have not ended, less those that are still to be added; each
  goroutine is fresh as long as its \<open>go\<close> statement is to come; and there is room in the channel for
  every server that has not ended.
\<close>

definition process_inv :: "process \<Rightarrow> bool" where
  "process_inv p \<longleftrightarrow>
     suffix (p_todo p) main_program \<and>
     (\<forall>g. p_go p g = Fresh \<longleftrightarrow> Go g \<in> set (p_todo p)) \<and>
     Inside \<notin> p_go p ` {Poller, Cleaner, Recycler, ServeGRPC, ServeHTTP} \<and>
     p_wg p + added (p_todo p) = int (card (alive (p_go p))) \<and>
     length (p_errs p) + card (alive (p_go p) \<inter> {ServeGRPC, ServeHTTP}) \<le> 2 \<and>
     (Select \<notin> set (p_todo p) \<longrightarrow> p_Done p) \<and>
     (WithTimeout \<notin> set (p_todo p) \<longrightarrow> p_pending p \<or> p_deadline p) \<and>
     (AfterFunc \<notin> set (p_todo p) \<longrightarrow> p_timer p \<or> p_forced p)"

lemma process_invD:
  assumes "process_inv p"
  shows "suffix (p_todo p) main_program" "p_go p g = Fresh \<longleftrightarrow> Go g \<in> set (p_todo p)"
    "Inside \<notin> p_go p ` {Poller, Cleaner, Recycler, ServeGRPC, ServeHTTP}"
    "p_wg p + added (p_todo p) = int (card (alive (p_go p)))" "length (p_errs p) + card (alive (p_go p) \<inter> {ServeGRPC, ServeHTTP}) \<le> 2"
    "Select \<notin> set (p_todo p) \<Longrightarrow> p_Done p" "WithTimeout \<notin> set (p_todo p) \<Longrightarrow> p_pending p \<or> p_deadline p"
    "AfterFunc \<notin> set (p_todo p) \<Longrightarrow> p_timer p \<or> p_forced p"
  using assms by (auto simp: process_inv_def)

lemma process_inv_start: "process_inv main_start"
proof -
  have "alive (p_go main_start) = {Poller, Cleaner, Recycler, ServeGRPC, ServeHTTP, ShutdownHTTP, StopGRPC}"
    by (auto simp: alive_def main_start_def intro: goroutine.exhaust)
  moreover have "Go g \<in> set main_program" for g by (cases g) (simp_all add: main_program_def)
  ultimately show ?thesis
    unfolding process_inv_def by (auto simp: main_start_def) (simp_all add: main_program_def)
qed

lemma set_gos: "set (gos sts) = {g. Go g \<in> set sts}"
  by (induction sts) (auto split: statement.splits)

lemma suffixes_of_main:
  "list_all (\<lambda>n. added (drop n main_program) \<le> int (length (gos (drop n main_program))) \<and> distinct (gos (drop n main_program))) [0..<14]"
  by code_simp

lemma added_le: "added (drop n main_program) \<le> int (card {g. Go g \<in> set (drop n main_program)})"
proof (cases "n < 14")
  case True
  then show ?thesis
    using suffixes_of_main by (simp add: list_all_iff distinct_card flip: set_gos)
next
  case False
  then show ?thesis by (simp add: main_program_def)
qed

lemma wg_positive:
  assumes "process_inv p" "p_go p g \<noteq> Fresh" "p_go p g \<noteq> Ended"
  shows "0 < p_wg p"
proof -
  let ?fresh = "{h. Go h \<in> set (p_todo p)}"
  have fresh: "?fresh = {h. p_go p h = Fresh}" by (simp add: process_invD(2)[OF assms(1)])
  have "insert g ?fresh \<subseteq> alive (p_go p)" "g \<notin> ?fresh" unfolding fresh using assms(2,3) by (auto simp: alive_def)
  then have "card ?fresh + 1 \<le> card (alive (p_go p))"
    using card_mono[of "alive (p_go p)" "insert g ?fresh"] by simp
  moreover have "added (p_todo p) \<le> int (card ?fresh)" using process_invD(1)[OF assms(1)] added_le by (metis append_eq_conv_conj suffix_def)
  ultimately show ?thesis using process_invD(4)[OF assms(1)] by linarith
qed

section \<open>Every step keeps the invariant\<close>

lemma alive_upd [simp]: "alive (f(g := x)) = (if x = Ended then alive f - {g} else insert g (alive f))"
  by (auto simp: alive_def)

lemma process_inv_end:
  assumes inv: "process_inv p" and g: "p_go p g \<noteq> Fresh" "p_go p g \<noteq> Ended"
    and errs: "length es + card ((alive (p_go p) - {g}) \<inter> {ServeGRPC, ServeHTTP}) \<le> 2"
  shows "process_inv (p\<lparr>p_errs := es, p_go := (p_go p)(g := Ended), p_wg := p_wg p - 1\<rparr>)"
proof -
  have "card (alive (p_go p)) = Suc (card (alive (p_go p) - {g}))"
    using g(2) by (intro card.remove) (auto simp: alive_def)
  then show ?thesis
    using process_invD[OF inv] g errs unfolding process_inv_def by auto
qed

lemma wg_Done_inv:
  assumes inv: "process_inv p" and g: "p_go p g \<noteq> Fresh" "p_go p g \<noteq> Ended" and "wg_Done g p = Some q"
  shows "process_inv q"
proof -
  have "card ((alive (p_go p) - {g}) \<inter> {ServeGRPC, ServeHTTP}) \<le> card (alive (p_go p) \<inter> {ServeGRPC, ServeHTTP})"
    by (intro card_mono) auto
  then show ?thesis
    using process_inv_end[OF inv g, of "p_errs p"] process_invD(5)[OF inv] assms(4)
    by (simp add: wg_Done_def split: if_split_asm)
qed

lemma serve_returns_inv:
  assumes inv: "process_inv p" and g: "p_go p g = Running" "g \<in> {ServeGRPC, ServeHTTP}"
    and "serve_returns closed text g err p = Some q"
  shows "process_inv q"
proof -
  have mem: "g \<in> alive (p_go p) \<inter> {ServeGRPC, ServeHTTP}" using g by (auto simp: alive_def)
  have "(alive (p_go p) - {g}) \<inter> {ServeGRPC, ServeHTTP} = alive (p_go p) \<inter> {ServeGRPC, ServeHTTP} - {g}" by auto
  then have "card (alive (p_go p) \<inter> {ServeGRPC, ServeHTTP}) = Suc (card ((alive (p_go p) - {g}) \<inter> {ServeGRPC, ServeHTTP}))"
    using card.remove[OF _ mem] by simp
  then show ?thesis
    using process_inv_end[OF inv, of g] wg_Done_inv[OF inv, of g] process_invD(5)[OF inv] assms(4) g(1)
    by (auto simp: serve_returns_def wg_Done_def split: option.split_asm if_split_asm)
qed

lemma goroutine_returns_inv:
  assumes "process_inv p" "goroutine_returns drained g err p = Some q"
  shows "process_inv q"
  using assms(2) serve_returns_inv[OF assms(1)] wg_Done_inv[OF assms(1), of g]
  by (cases g) (auto split: if_split_asm)

lemma distinct_main: "distinct main_program"
  by (simp add: main_program_def)

lemma process_inv_next:
  assumes inv: "process_inv p" and todo: "p_todo p = st # rest"
  shows "suffix rest main_program" "st \<notin> set rest"
proof -
  have suf: "suffix (st # rest) main_program" using process_invD(1)[OF inv] todo by simp
  then show "suffix rest main_program" by (rule suffix_ConsD)
  have "distinct (st # rest)" using suf distinct_main by (metis distinct_append suffix_def)
  then show "st \<notin> set rest" by simp
qed

lemma perform_MainE:
  assumes "perform drained Main p = Some q"
  obtains st rest r where "p_todo p = st # rest" "run_statement st p = Some r" "q = r\<lparr>p_todo := rest\<rparr>"
  using assms by (auto split: list.split_asm)

lemma perform_Main_inv:
  assumes inv: "process_inv p" and "perform drained Main p = Some q"
  shows "process_inv q"
proof -
  obtain st rest r where todo: "p_todo p = st # rest" and r: "run_statement st p = Some r" and q: "q = r\<lparr>p_todo := rest\<rparr>"
    using assms(2) by (rule perform_MainE)
  note next_st = process_inv_next[OF inv todo]
  show ?thesis
  proof (cases st)
    case (Go g)
    then have "p_go p g = Fresh" using process_invD(2)[OF inv, of g] todo by simp
    then have "insert g (alive (p_go p)) = alive (p_go p)" by (auto simp: alive_def)
    moreover have "((p_go p)(g := Running)) h = Fresh \<longleftrightarrow> Go h \<in> set rest" for h
      using process_invD(2)[OF inv, of h] todo Go next_st(2) by (cases "h = g") simp_all
    moreover have "Inside \<notin> (p_go p)(g := Running) ` {Poller, Cleaner, Recycler, ServeGRPC, ServeHTTP}"
      using process_invD(3)[OF inv] by auto
    ultimately show ?thesis
      using inv next_st(1) r[symmetric] q Go todo unfolding process_inv_def by (simp del: fun_upd_apply)
  qed (use inv next_st r[symmetric] q todo in \<open>simp_all add: process_inv_def split: if_split_asm\<close>)
qed

lemma process_inv_Call:
  assumes "process_inv p" "g \<in> {ShutdownHTTP, StopGRPC}" "p_go p g = Running"
  shows "process_inv (p\<lparr>p_go := (p_go p)(g := Inside)\<rparr>)"
proof -
  have "insert g (alive (p_go p)) = alive (p_go p)" using assms(3) by (auto simp: alive_def)
  moreover have "((p_go p)(g := Inside)) h = Fresh \<longleftrightarrow> p_go p h = Fresh" for h using assms(3) by simp
  moreover have "Inside \<notin> (p_go p)(g := Inside) ` {Poller, Cleaner, Recycler, ServeGRPC, ServeHTTP}"
    using assms(2) process_invD(3)[OF assms(1)] by auto
  ultimately show ?thesis using assms(1) unfolding process_inv_def by (simp del: fun_upd_apply)
qed

lemma perform_inv:
  assumes inv: "process_inv p" and step: "perform drained a p = Some q"
  shows "process_inv q"
proof (cases a)
  case Main
  then show ?thesis using perform_Main_inv[OF inv] step by simp
next
  case TakeError
  then obtain rest e es where q: "p_todo p = Select # rest" "p_errs p = e # es"
    "q = p\<lparr>p_todo := rest, p_errs := es, p_serve_err := Some e, p_Done := True\<rparr>"
    using step by (auto split: list.split_asm statement.split_asm)
  then show ?thesis using process_inv_next[OF inv q(1)] inv by (simp add: process_inv_def)
next
  case (Call g)
  then show ?thesis using process_inv_Call[OF inv, of g] step by (simp split: if_split_asm)
next
  case (Return g err)
  then show ?thesis using goroutine_returns_inv[OF inv] step by simp
qed (use inv step[symmetric] in \<open>simp_all add: process_inv_def split: if_split_asm\<close>)

lemma reachable_process_inv: "main_reachable p \<Longrightarrow> process_inv p"
proof (induction rule: main_reachable.induct)
  case (step p q)
  then show ?case using perform_inv by (auto elim: main_step.cases)
qed (rule process_inv_start)

section \<open>Every step leaves less to do\<close>

primrec rank :: "progress \<Rightarrow> nat" where
  "rank Fresh = 3" | "rank Running = 2" | "rank Inside = 1" | "rank Ended = 0"

definition work :: "process \<Rightarrow> nat" where
  "work p = 2 * length (p_todo p) + (\<Sum>g\<in>UNIV. rank (p_go p g)) + (if p_Done p then 0 else 1) +
     (if p_pending p then 1 else 0) + (if p_timer p then 1 else 0)"

lemma rank_upd:
  fixes f :: "goroutine \<Rightarrow> progress"
  assumes "rank x < rank (f g)"
  shows "(\<Sum>h\<in>UNIV. rank ((f(g := x)) h)) < (\<Sum>h\<in>UNIV. rank (f h))"
  by (rule sum_strict_mono_ex1) (use assms in auto)

lemma wg_Done_work: "p_go p g \<noteq> Ended \<Longrightarrow> wg_Done g (p\<lparr>p_errs := es\<rparr>) = Some q \<Longrightarrow> work q < work p"
  using rank_upd[of Ended "p_go p" g] by (cases "p_go p g") (auto simp: work_def wg_Done_def split: if_split_asm)

lemma goroutine_returns_work:
  assumes "goroutine_returns drained g err p = Some q"
  shows "work q < work p"
proof -
  have plain: "p_go p g \<noteq> Ended \<Longrightarrow> wg_Done g p = Some q \<Longrightarrow> work q < work p" using wg_Done_work[of p g "p_errs p" q] by simp
  show ?thesis
    using assms by (cases g) (auto simp: serve_returns_def intro: plain dest: wg_Done_work[rotated] split: if_split_asm option.split_asm)
qed

lemma perform_work:
  assumes inv: "process_inv p" and step: "perform drained a p = Some q"
  shows "work q < work p"
proof (cases a)
  case Main
  then obtain st rest r where st: "p_todo p = st # rest" "run_statement st p = Some r" "q = r\<lparr>p_todo := rest\<rparr>"
    using step by (metis perform_MainE)
  show ?thesis
  proof (cases st)
    case (Go g)
    then have "p_go p g = Fresh" using process_invD(2)[OF inv, of g] st by simp
    then show ?thesis using st(1,3) st(2)[symmetric] Go rank_upd[of Running "p_go p" g] by (simp add: work_def)
  qed (use st(1,3) st(2)[symmetric] in \<open>auto simp: work_def split: if_split_asm\<close>)
next
  case TakeError
  then show ?thesis using step by (auto simp: work_def split: list.split_asm statement.split_asm)
next
  case (Call g)
  then show ?thesis using step rank_upd[of Inside "p_go p" g] by (auto simp: work_def split: if_split_asm)
next
  case (Return g err)
  then show ?thesis using step goroutine_returns_work by simp
qed (use step in \<open>auto simp: work_def split: if_split_asm\<close>)

lemma main_step_work: "process_inv p \<Longrightarrow> main_step p q \<Longrightarrow> work q < work p"
  by (auto elim: main_step.cases dest: perform_work)

lemma no_infinite_run:
  assumes "main_reachable (f 0)"
  shows "\<exists>i. \<not> main_step (f i) (f (Suc i))"
proof (rule ccontr)
  assume "\<nexists>i. \<not> main_step (f i) (f (Suc i))"
  then have steps: "main_step (f i) (f (Suc i))" for i by blast
  have "main_reachable (f i)" for i by (induction i) (use assms steps main_reachable.step in blast)+
  then have less: "work (f (Suc i)) < work (f i)" for i using main_step_work reachable_process_inv steps by blast
  have "work (f i) + i \<le> work (f 0)" for i
  proof (induction i)
    case (Suc i)
    then show ?case using less[of i] by linarith
  qed simp
  from this[of "Suc (work (f 0))"] show False by simp
qed

section \<open>There is always something due\<close>

lemma wg_Done_defined: "process_inv p \<Longrightarrow> p_go p g \<notin> {Fresh, Ended} \<Longrightarrow> \<exists>q. wg_Done g p = Some q"
  using wg_positive[of p g] by (simp add: wg_Done_def)

lemma serve_returns_defined:
  assumes "process_inv p" "p_go p g = Running" "g \<in> {ServeGRPC, ServeHTTP}"
  shows "\<exists>q. serve_returns closed text g err p = Some q"
proof -
  have "g \<in> alive (p_go p) \<inter> {ServeGRPC, ServeHTTP}" using assms by (auto simp: alive_def)
  then have "0 < card (alive (p_go p) \<inter> {ServeGRPC, ServeHTTP})" by (metis card_gt_0_iff empty_iff finite)
  then have "length (p_errs p) < 2" using process_invD(5)[OF assms(1)] by linarith
  then show ?thesis
    using wg_positive[OF assms(1), of g] assms(2) by (auto simp: serve_returns_def wg_Done_def split: option.split)
qed

lemma wait_is_last: "suffix (WgWait # rest) main_program \<Longrightarrow> rest = []"
  by (auto simp: main_program_def suffix_def Cons_eq_append_conv)

lemma wait_progress:
  assumes inv: "process_inv p" and todo: "p_todo p = [WgWait]" and "p_wg p \<noteq> 0"
  shows "\<exists>a q. due a \<and> perform False a p = Some q"
proof -
  note D = process_invD[OF inv, unfolded todo]
  have fresh: "p_go p h \<noteq> Fresh" for h using D(2) by simp
  have "alive (p_go p) \<noteq> {}" using D(4) assms(3) by auto
  then obtain g where g: "p_go p g \<noteq> Ended" by (auto simp: alive_def)
  have ends: "\<exists>q. wg_Done g p = Some q" using wg_Done_defined[OF inv, of g] g fresh by simp
  have over: "p_Done p" and ctx: "p_pending p \<or> p_deadline p" and timer: "p_timer p \<or> p_forced p" using D(6-8) by simp_all
  consider (call) h where "h \<in> {ShutdownHTTP, StopGRPC}" "p_go p h = Running"
    | (deadline) "p_pending p" | (fire) "p_timer p"
    | (stopping) "p_go p ShutdownHTTP \<in> {Inside, Ended}" "p_go p StopGRPC \<in> {Inside, Ended}" "p_deadline p" "p_forced p"
    using fresh[of ShutdownHTTP] fresh[of StopGRPC] ctx timer
    by (cases "p_go p ShutdownHTTP"; cases "p_go p StopGRPC") auto
  then show ?thesis
  proof cases
    case call
    then show ?thesis by (intro exI[of _ "Call h"]) (auto simp: due_def)
  next
    case deadline
    then show ?thesis by (intro exI[of _ Deadline]) (simp add: due_def)
  next
    case fire
    then show ?thesis by (intro exI[of _ Fire]) (simp add: due_def)
  next
    case stopping
    have "p_go p g = Running \<or> p_go p g = Inside \<and> (g = ShutdownHTTP \<or> g = StopGRPC)"
      using g fresh[of g] D(3) by (cases "p_go p g"; cases g) auto
    then have "\<exists>q. goroutine_returns False g (stopped_result g) p = Some q"
      using stopping over ends serve_returns_defined[OF inv, of g] by (cases g) (auto simp: asked_to_stop_def)
    then show ?thesis by (intro exI[of _ "Return g (stopped_result g)"]) (auto simp: due_def)
  qed
qed

lemma main_progress:
  assumes inv: "process_inv p" and "p_Done p \<or> p_errs p \<noteq> []" and "p_todo p \<noteq> []"
  shows "\<exists>q. due_step p q"
proof -
  have main: "\<exists>q. due_step p q" if "perform False Main p \<noteq> None"
    using that due_step.intros[of Main] by (auto simp: due_def simp del: perform.simps)
  obtain st rest where todo: "p_todo p = st # rest" using assms(3) by (cases "p_todo p") auto
  show ?thesis
  proof (cases st)
    case Select
    then show ?thesis
      using main assms(2) todo due_step.intros[of TakeError p] by (cases "p_errs p"; cases "p_Done p") (auto simp: due_def)
  next
    case WgWait
    then have "p_todo p = [WgWait]" using wait_is_last process_invD(1)[OF inv] todo by simp
    then show ?thesis
    proof (cases "p_wg p = 0")
      case True
      then show ?thesis using main \<open>p_todo p = [WgWait]\<close> by simp
    next
      case False
      then show ?thesis using wait_progress[OF inv \<open>p_todo p = [WgWait]\<close>] due_step.intros by blast
    qed
  qed (use main todo in auto)
qed

section \<open>The end of the process\<close>

lemma due_step_main_step: "due_step p q \<Longrightarrow> main_step p q"
  by (auto elim!: due_step.cases intro: main_step.intros)

lemma wg_Done_fields:
  "wg_Done g p = Some q \<Longrightarrow> p_Done q = p_Done p \<and> p_errs q = p_errs p \<and> alive (p_go q) \<subseteq> alive (p_go p) \<and> p_todo q = p_todo p"
  by (auto simp: wg_Done_def split: if_split_asm)

lemma goroutine_returns_fields:
  assumes "goroutine_returns drained g err p = Some q"
  shows "p_Done q = p_Done p \<and> length (p_errs p) \<le> length (p_errs q) \<and> alive (p_go q) \<subseteq> alive (p_go p) \<and> p_todo q = p_todo p"
  using assms by (cases g) (auto simp: serve_returns_def dest!: wg_Done_fields split: if_split_asm option.split_asm)

lemma requested_step:
  assumes "main_step p q" "p_Done p \<or> p_errs p \<noteq> []"
  shows "p_Done q \<or> p_errs q \<noteq> []"
proof -
  obtain drained a where step: "perform drained a p = Some q" using assms(1) by (auto elim: main_step.cases)
  show ?thesis
  proof (cases a)
    case Main
    then obtain st rest r where st: "run_statement st p = Some r" "q = r\<lparr>p_todo := rest\<rparr>"
      using step by (metis perform_MainE)
    then show ?thesis using assms(2) by (cases st) (auto split: if_split_asm)
  next
    case (Return g err)
    then show ?thesis using goroutine_returns_fields[of drained g err p q] step assms(2) by auto
  qed (use step assms(2) in \<open>auto split: if_split_asm list.split_asm statement.split_asm\<close>)
qed

lemma returned_alone:
  assumes "main_reachable p" "p_todo p = []"
  shows "alive (p_go p) = {}"
  using assms
proof (induction rule: main_reachable.induct)
  case start
  then show ?case by (simp add: main_start_def main_program_def)
next
  case (step p q)
  obtain drained a where a: "perform drained a p = Some q" using step(2) by (auto elim: main_step.cases)
  have inv: "process_inv p" "process_inv q" using step(1,2) main_reachable.step reachable_process_inv by blast+
  show ?case
  proof (cases a)
    case Main
    then obtain st rest r where "p_todo p = st # rest" "run_statement st p = Some r" "q = r\<lparr>p_todo := rest\<rparr>"
      using a by (metis perform_MainE)
    then have st: "p_todo p = [st]" "run_statement st p = Some r" "q = r\<lparr>p_todo := []\<rparr>" using step(4) by simp_all
    have "st = WgWait" using process_invD(1)[OF inv(1)] st(1) by (auto simp: main_program_def suffix_def Cons_eq_append_conv)
    then have "p_wg p = 0" "p_go q = p_go p" using st by (auto split: if_split_asm)
    then show ?thesis using process_invD(4)[OF inv(1)] st(1) \<open>st = WgWait\<close> by simp
  next
    case TakeError
    then obtain rest where "p_todo p = Select # rest" "p_todo q = rest" using a by (auto split: list.split_asm statement.split_asm)
    then show ?thesis using process_invD(1)[OF inv(1)] step(4) by (auto simp: main_program_def suffix_def Cons_eq_append_conv)
  next
    case (Return g err)
    then show ?thesis using goroutine_returns_fields[of drained g err p q] a step by auto
  qed (use a step in \<open>auto simp: alive_def split: if_split_asm\<close>)
qed

lemma main_finishes:
  assumes "main_reachable p" "p_Done p \<or> p_errs p \<noteq> []"
  shows "\<exists>q. due_step\<^sup>*\<^sup>* p q \<and> main_reachable q \<and> p_todo q = []"
  using assms
proof (induction "work p" arbitrary: p rule: less_induct)
  case less
  note inv = reachable_process_inv[OF less(2)]
  show ?case
  proof (cases "p_todo p = []")
    case False
    then obtain q where q: "due_step p q" using main_progress[OF inv less(3)] by blast
    then have "main_step p q" by (rule due_step_main_step)
    then obtain r where "due_step\<^sup>*\<^sup>* q r" "main_reachable r" "p_todo r = []"
      using less(1)[OF main_step_work[OF inv]] main_reachable.step[OF less(2)] requested_step less(3) by blast
    then show ?thesis using q by (meson converse_rtranclp_into_rtranclp)
  qed (use less in blast)
qed

end
