(* ===== verification/Proto_Messages.thy ===== *)
theory Proto_Messages
  imports Control
begin

text \<open>
  The messages of the control protocol as protoc generates them (\<open>proto/control.pb.go\<close>): structures behind
  pointers, the payload of a message an interface that holds one wrapper, and accessors that
  accept nil. A pointer is an option. The other theories use the sums \<open>AgentMessage\<close> and \<open>ServerMessage\<close> of \<open>Model\<close>;
  \<open>agent_message\<close> and \<open>server_message\<close> say which message a structure stands for, and
  \<open>dispatch_is_handle_message\<close> that the chain of accessor calls in \<open>internal/control/server.go\<close> does what
  \<open>handle_message\<close> does.
\<close>

named_theorems pb_getters \<open>the accessors of the messages\<close>

section \<open>Structures\<close>

record CancelShard =
  cs_ShardId :: string

record ShardAccepted =
  sa_ShardId :: string

record ShardStarted =
  ss_ShardId :: string

record ShardResultStored =
  srs_ShardId :: string

datatype Drain = Drain

datatype Shutdown = Shutdown

datatype AgentMessage_Payload =
    AgentMessage_Register "Register option"
  | AgentMessage_Heartbeat "Heartbeat option"
  | AgentMessage_ShardAccepted "ShardAccepted option"
  | AgentMessage_ShardStarted "ShardStarted option"
  | AgentMessage_ShardFailed "ShardFailed option"
  | AgentMessage_ShardResultReady "ShardResultReady option"

datatype ServerMessage_Payload =
    ServerMessage_AssignShard "AssignShard option"
  | ServerMessage_Drain "Drain option"
  | ServerMessage_Shutdown "Shutdown option"
  | ServerMessage_CancelShard "CancelShard option"
  | ServerMessage_ShardResultStored "ShardResultStored option"

record pb_AgentMessage =
  am_Payload :: "AgentMessage_Payload option"

record pb_ServerMessage =
  sm_Payload :: "ServerMessage_Payload option"

section \<open>Accessors\<close>

definition AgentMessage_GetPayload :: "pb_AgentMessage option \<Rightarrow> AgentMessage_Payload option" where
  "AgentMessage_GetPayload x = (case x of Some m \<Rightarrow> am_Payload m | None \<Rightarrow> None)"

definition AgentMessage_GetRegister :: "pb_AgentMessage option \<Rightarrow> Register option" where [pb_getters]:
  "AgentMessage_GetRegister x = (case x of
       Some m \<Rightarrow> (case am_Payload m of Some (AgentMessage_Register v) \<Rightarrow> v | _ \<Rightarrow> None)
     | None \<Rightarrow> None)"

definition AgentMessage_GetHeartbeat :: "pb_AgentMessage option \<Rightarrow> Heartbeat option" where [pb_getters]:
  "AgentMessage_GetHeartbeat x = (case x of
       Some m \<Rightarrow> (case am_Payload m of Some (AgentMessage_Heartbeat v) \<Rightarrow> v | _ \<Rightarrow> None)
     | None \<Rightarrow> None)"

definition AgentMessage_GetShardAccepted :: "pb_AgentMessage option \<Rightarrow> ShardAccepted option" where [pb_getters]:
  "AgentMessage_GetShardAccepted x = (case x of
       Some m \<Rightarrow> (case am_Payload m of Some (AgentMessage_ShardAccepted v) \<Rightarrow> v | _ \<Rightarrow> None)
     | None \<Rightarrow> None)"

definition AgentMessage_GetShardStarted :: "pb_AgentMessage option \<Rightarrow> ShardStarted option" where [pb_getters]:
  "AgentMessage_GetShardStarted x = (case x of
       Some m \<Rightarrow> (case am_Payload m of Some (AgentMessage_ShardStarted v) \<Rightarrow> v | _ \<Rightarrow> None)
     | None \<Rightarrow> None)"

definition AgentMessage_GetShardFailed :: "pb_AgentMessage option \<Rightarrow> ShardFailed option" where [pb_getters]:
  "AgentMessage_GetShardFailed x = (case x of
       Some m \<Rightarrow> (case am_Payload m of Some (AgentMessage_ShardFailed v) \<Rightarrow> v | _ \<Rightarrow> None)
     | None \<Rightarrow> None)"

definition AgentMessage_GetShardResultReady :: "pb_AgentMessage option \<Rightarrow> ShardResultReady option" where [pb_getters]:
  "AgentMessage_GetShardResultReady x = (case x of
       Some m \<Rightarrow> (case am_Payload m of Some (AgentMessage_ShardResultReady v) \<Rightarrow> v | _ \<Rightarrow> None)
     | None \<Rightarrow> None)"

definition ServerMessage_GetPayload :: "pb_ServerMessage option \<Rightarrow> ServerMessage_Payload option" where
  "ServerMessage_GetPayload x = (case x of Some m \<Rightarrow> sm_Payload m | None \<Rightarrow> None)"

definition ServerMessage_GetAssignShard :: "pb_ServerMessage option \<Rightarrow> AssignShard option" where [pb_getters]:
  "ServerMessage_GetAssignShard x = (case x of
       Some m \<Rightarrow> (case sm_Payload m of Some (ServerMessage_AssignShard v) \<Rightarrow> v | _ \<Rightarrow> None)
     | None \<Rightarrow> None)"

definition ServerMessage_GetDrain :: "pb_ServerMessage option \<Rightarrow> Drain option" where [pb_getters]:
  "ServerMessage_GetDrain x = (case x of
       Some m \<Rightarrow> (case sm_Payload m of Some (ServerMessage_Drain v) \<Rightarrow> v | _ \<Rightarrow> None)
     | None \<Rightarrow> None)"

definition ServerMessage_GetShutdown :: "pb_ServerMessage option \<Rightarrow> Shutdown option" where [pb_getters]:
  "ServerMessage_GetShutdown x = (case x of
       Some m \<Rightarrow> (case sm_Payload m of Some (ServerMessage_Shutdown v) \<Rightarrow> v | _ \<Rightarrow> None)
     | None \<Rightarrow> None)"

definition ServerMessage_GetCancelShard :: "pb_ServerMessage option \<Rightarrow> CancelShard option" where [pb_getters]:
  "ServerMessage_GetCancelShard x = (case x of
       Some m \<Rightarrow> (case sm_Payload m of Some (ServerMessage_CancelShard v) \<Rightarrow> v | _ \<Rightarrow> None)
     | None \<Rightarrow> None)"

definition ServerMessage_GetShardResultStored :: "pb_ServerMessage option \<Rightarrow> ShardResultStored option" where [pb_getters]:
  "ServerMessage_GetShardResultStored x = (case x of
       Some m \<Rightarrow> (case sm_Payload m of Some (ServerMessage_ShardResultStored v) \<Rightarrow> v | _ \<Rightarrow> None)
     | None \<Rightarrow> None)"

definition Register_GetAgentId :: "Register option \<Rightarrow> string" where [pb_getters]:
  "Register_GetAgentId x = (case x of Some m \<Rightarrow> reg_AgentId m | None \<Rightarrow> [])"

definition Register_GetTenantId :: "Register option \<Rightarrow> string" where [pb_getters]:
  "Register_GetTenantId x = (case x of Some m \<Rightarrow> reg_TenantId m | None \<Rightarrow> [])"

definition Register_GetBackendName :: "Register option \<Rightarrow> string" where [pb_getters]:
  "Register_GetBackendName x = (case x of Some m \<Rightarrow> reg_BackendName m | None \<Rightarrow> [])"

definition Register_GetToken :: "Register option \<Rightarrow> string" where [pb_getters]:
  "Register_GetToken x = (case x of Some m \<Rightarrow> reg_Token m | None \<Rightarrow> [])"

definition Register_GetVersion :: "Register option \<Rightarrow> string" where [pb_getters]:
  "Register_GetVersion x = (case x of Some m \<Rightarrow> reg_Version m | None \<Rightarrow> [])"

definition Heartbeat_GetAgentId :: "Heartbeat option \<Rightarrow> string" where [pb_getters]:
  "Heartbeat_GetAgentId x = (case x of Some m \<Rightarrow> hb_AgentId m | None \<Rightarrow> [])"

definition Heartbeat_GetStatus :: "Heartbeat option \<Rightarrow> string" where [pb_getters]:
  "Heartbeat_GetStatus x = (case x of Some m \<Rightarrow> hb_Status m | None \<Rightarrow> [])"

definition Heartbeat_GetCurrentShardId :: "Heartbeat option \<Rightarrow> string" where [pb_getters]:
  "Heartbeat_GetCurrentShardId x = (case x of Some m \<Rightarrow> hb_CurrentShardId m | None \<Rightarrow> [])"

definition AssignShard_GetShardId :: "AssignShard option \<Rightarrow> string" where [pb_getters]:
  "AssignShard_GetShardId x = (case x of Some m \<Rightarrow> as_ShardId m | None \<Rightarrow> [])"

definition AssignShard_GetTaskId :: "AssignShard option \<Rightarrow> string" where [pb_getters]:
  "AssignShard_GetTaskId x = (case x of Some m \<Rightarrow> as_TaskId m | None \<Rightarrow> [])"

definition AssignShard_GetScriptName :: "AssignShard option \<Rightarrow> string" where [pb_getters]:
  "AssignShard_GetScriptName x = (case x of Some m \<Rightarrow> as_ScriptName m | None \<Rightarrow> [])"

definition AssignShard_GetBundleDownloadUrl :: "AssignShard option \<Rightarrow> string" where [pb_getters]:
  "AssignShard_GetBundleDownloadUrl x = (case x of Some m \<Rightarrow> as_BundleDownloadUrl m | None \<Rightarrow> [])"

definition AssignShard_GetOutputUploadUrl :: "AssignShard option \<Rightarrow> string" where [pb_getters]:
  "AssignShard_GetOutputUploadUrl x = (case x of Some m \<Rightarrow> as_OutputUploadUrl m | None \<Rightarrow> [])"

definition AssignShard_GetOutputOssKey :: "AssignShard option \<Rightarrow> string" where [pb_getters]:
  "AssignShard_GetOutputOssKey x = (case x of Some m \<Rightarrow> as_OutputOssKey m | None \<Rightarrow> [])"

definition AssignShard_GetTotalShards :: "AssignShard option \<Rightarrow> 32 word" where [pb_getters]:
  "AssignShard_GetTotalShards x = (case x of Some m \<Rightarrow> as_TotalShards m | None \<Rightarrow> 0)"

definition CancelShard_GetShardId :: "CancelShard option \<Rightarrow> string" where [pb_getters]:
  "CancelShard_GetShardId x = (case x of Some m \<Rightarrow> cs_ShardId m | None \<Rightarrow> [])"

definition ShardAccepted_GetShardId :: "ShardAccepted option \<Rightarrow> string" where [pb_getters]:
  "ShardAccepted_GetShardId x = (case x of Some m \<Rightarrow> sa_ShardId m | None \<Rightarrow> [])"

definition ShardStarted_GetShardId :: "ShardStarted option \<Rightarrow> string" where [pb_getters]:
  "ShardStarted_GetShardId x = (case x of Some m \<Rightarrow> ss_ShardId m | None \<Rightarrow> [])"

definition ShardFailed_GetShardId :: "ShardFailed option \<Rightarrow> string" where [pb_getters]:
  "ShardFailed_GetShardId x = (case x of Some m \<Rightarrow> sf_ShardId m | None \<Rightarrow> [])"

definition ShardFailed_GetErrorMessage :: "ShardFailed option \<Rightarrow> string" where [pb_getters]:
  "ShardFailed_GetErrorMessage x = (case x of Some m \<Rightarrow> sf_ErrorMessage m | None \<Rightarrow> [])"

definition ShardResultReady_GetShardId :: "ShardResultReady option \<Rightarrow> string" where [pb_getters]:
  "ShardResultReady_GetShardId x = (case x of Some m \<Rightarrow> srr_ShardId m | None \<Rightarrow> [])"

definition ShardResultReady_GetOutputOssKey :: "ShardResultReady option \<Rightarrow> string" where [pb_getters]:
  "ShardResultReady_GetOutputOssKey x = (case x of Some m \<Rightarrow> srr_OutputOssKey m | None \<Rightarrow> [])"

definition ShardResultReady_GetSha256 :: "ShardResultReady option \<Rightarrow> string" where [pb_getters]:
  "ShardResultReady_GetSha256 x = (case x of Some m \<Rightarrow> srr_Sha256 m | None \<Rightarrow> [])"

definition ShardResultStored_GetShardId :: "ShardResultStored option \<Rightarrow> string" where [pb_getters]:
  "ShardResultStored_GetShardId x = (case x of Some m \<Rightarrow> srs_ShardId m | None \<Rightarrow> [])"

section \<open>The messages they stand for\<close>

text \<open>A wrapper around a nil pointer is, to the accessors, no payload at all.\<close>

definition agent_message :: "pb_AgentMessage option \<Rightarrow> AgentMessage" where
  "agent_message x = (case AgentMessage_GetPayload x of
       Some (AgentMessage_Register (Some v)) \<Rightarrow> AM_Register v
     | Some (AgentMessage_Heartbeat (Some v)) \<Rightarrow> AM_Heartbeat v
     | Some (AgentMessage_ShardAccepted (Some v)) \<Rightarrow> AM_ShardAccepted (sa_ShardId v)
     | Some (AgentMessage_ShardStarted (Some v)) \<Rightarrow> AM_ShardStarted (ss_ShardId v)
     | Some (AgentMessage_ShardFailed (Some v)) \<Rightarrow> AM_ShardFailed v
     | Some (AgentMessage_ShardResultReady (Some v)) \<Rightarrow> AM_ShardResultReady v
     | _ \<Rightarrow> AM_None)"

fun server_message :: "ServerMessage \<Rightarrow> pb_ServerMessage" where
  "server_message (SM_AssignShard v) = \<lparr>sm_Payload = Some (ServerMessage_AssignShard (Some v))\<rparr>"
| "server_message SM_Drain = \<lparr>sm_Payload = Some (ServerMessage_Drain (Some Drain))\<rparr>"
| "server_message SM_Shutdown = \<lparr>sm_Payload = Some (ServerMessage_Shutdown (Some Shutdown))\<rparr>"
| "server_message (SM_CancelShard i) = \<lparr>sm_Payload = Some (ServerMessage_CancelShard (Some \<lparr>cs_ShardId = i\<rparr>))\<rparr>"
| "server_message (SM_ShardResultStored i) =
     \<lparr>sm_Payload = Some (ServerMessage_ShardResultStored (Some \<lparr>srs_ShardId = i\<rparr>))\<rparr>"

text \<open>The body of the receive loop of \<open>OpenControlStream\<close>, with the accessor calls of the source.\<close>

definition dispatch :: "Server \<Rightarrow> agentSession \<Rightarrow> pb_AgentMessage option \<Rightarrow> unit w" where
  "dispatch server sess message =
     (case AgentMessage_GetHeartbeat message of
        Some heartbeat \<Rightarrow> HandleHeartbeat server sess heartbeat
      | None \<Rightarrow>
     (case AgentMessage_GetShardAccepted message of
        Some shard_accepted \<Rightarrow> ret ()
      | None \<Rightarrow>
     (case AgentMessage_GetShardStarted message of
        Some shard_started \<Rightarrow> HandleShardStarted sess (ShardStarted_GetShardId (Some shard_started))
      | None \<Rightarrow>
     (case AgentMessage_GetShardResultReady message of
        Some shard_ready \<Rightarrow> HandleShardResultReady server sess shard_ready
      | None \<Rightarrow>
     (case AgentMessage_GetShardFailed message of
        Some shard_failed \<Rightarrow> HandleShardFailed server sess shard_failed
      | None \<Rightarrow> raise (Statusf InvalidArgument ''unsupported control message'' []))))))"

lemma dispatch_is_handle_message: "dispatch server sess message = handle_message server sess (agent_message message)"
  by (simp add: dispatch_def handle_message_def agent_message_def pb_getters AgentMessage_GetPayload_def
      split: option.split AgentMessage_Payload.split)

text \<open>The accessor \<open>register_first\<close> starts with finds exactly the register messages.\<close>

lemma GetRegister_iff: "AgentMessage_GetRegister message = Some r \<longleftrightarrow> agent_message message = AM_Register r"
  by (auto simp: agent_message_def pb_getters AgentMessage_GetPayload_def split: option.split AgentMessage_Payload.split)

text \<open>What the server sends can be read back: the accessors find the payload that was put in, and no other.\<close>

lemma server_message_read:
  fixes m
  defines "x \<equiv> Some (server_message m)"
  shows "ServerMessage_GetAssignShard x = Some a \<longleftrightarrow> m = SM_AssignShard a"
    "map_option cs_ShardId (ServerMessage_GetCancelShard x) = Some i \<longleftrightarrow> m = SM_CancelShard i"
    "map_option srs_ShardId (ServerMessage_GetShardResultStored x) = Some i \<longleftrightarrow> m = SM_ShardResultStored i"
    "ServerMessage_GetDrain x \<noteq> None \<longleftrightarrow> m = SM_Drain" "ServerMessage_GetShutdown x \<noteq> None \<longleftrightarrow> m = SM_Shutdown"
  unfolding x_def by (cases m; auto simp: pb_getters)+

end
