(* ===== verification/Control_Service.thy ===== *)
theory Control_Service
  imports Server_Main
begin

text \<open>
  The gRPC service of the control protocol: \<open>proto/control_grpc.pb.go\<close> and the registration in
  \<open>cmd/server/grpc_server.go\<close>. The gRPC library is not part of the repository: what it does with a description of a service
  (\<open>RegisterService\<close>) and how it opens a stream (\<open>NewStream\<close>) are arguments. A stream is, as in \<open>Control\<close>, the list of what
  \<open>Recv\<close> returns.
\<close>

section \<open>Descriptions of services\<close>

record ('srv, 'stream, 'r) StreamDesc =
  sd_StreamName :: string
  sd_Handler :: "'srv \<Rightarrow> 'stream \<Rightarrow> 'r"
  sd_ServerStreams :: bool
  sd_ClientStreams :: bool

record ('srv, 'stream, 'r) ServiceDesc =
  svc_ServiceName :: string
  svc_Methods :: "string list"
  svc_Streams :: "('srv, 'stream, 'r) StreamDesc list"
  svc_Metadata :: string

definition ControlService_OpenControlStream_FullMethodName :: string where
  "ControlService_OpenControlStream_FullMethodName = ''/rorchestrator.control.v1.ControlService/OpenControlStream''"

text \<open>\<open>ControlServiceServer\<close> is an interface with one method; a server of it is that method.\<close>

type_synonym ControlServiceServer = "recv_result list \<Rightarrow> unit w"

definition UnimplementedControlServiceServer_OpenControlStream :: ControlServiceServer where
  "UnimplementedControlServiceServer_OpenControlStream stream =
     raise (Statusf Unimplemented ''method OpenControlStream not implemented'' [])"

definition ControlService_OpenControlStream_Handler :: "ControlServiceServer \<Rightarrow> recv_result list \<Rightarrow> unit w" where
  "ControlService_OpenControlStream_Handler srv stream = srv stream"

definition ControlService_ServiceDesc :: "(ControlServiceServer, recv_result list, unit w) ServiceDesc" where
  "ControlService_ServiceDesc =
     \<lparr>svc_ServiceName = ''rorchestrator.control.v1.ControlService'', svc_Methods = [],
      svc_Streams = [\<lparr>sd_StreamName = ''OpenControlStream'', sd_Handler = ControlService_OpenControlStream_Handler,
        sd_ServerStreams = True, sd_ClientStreams = True\<rparr>],
      svc_Metadata = ''proto/control.proto''\<rparr>"

section \<open>Server and client\<close>

text \<open>The test of the embedding calls an empty method; it can only panic on a nil pointer, which \<open>control.Server\<close> has not.\<close>

definition RegisterControlServiceServer ::
  "((ControlServiceServer, recv_result list, unit w) ServiceDesc \<Rightarrow> ControlServiceServer \<Rightarrow> 'g \<Rightarrow> 'g) \<Rightarrow>
   'g \<Rightarrow> ControlServiceServer \<Rightarrow> 'g" where
  "RegisterControlServiceServer RegisterService s srv = RegisterService ControlService_ServiceDesc srv s"

text \<open>The whole of \<open>cmd/server/grpc_server.go\<close>: the control server, the callback it sets, and the gRPC server.\<close>

definition grpc_server ::
  "((ControlServiceServer, recv_result list, unit w) ServiceDesc \<Rightarrow> ControlServiceServer \<Rightarrow> 'g \<Rightarrow> 'g) \<Rightarrow>
   'g \<Rightarrow> bool \<Rightarrow> string \<Rightarrow> timeout_callback \<Rightarrow> Server \<times> timeout_callback \<times> 'g" where
  "grpc_server RegisterService grpc_NewServer dbOpen agent_token onTimeout =
     (let (controlServer, onTimeout') = NewGRPCServer dbOpen agent_token onTimeout in
      (controlServer, onTimeout', RegisterControlServiceServer RegisterService grpc_NewServer (OpenControlStream controlServer)))"

text \<open>The client: \<open>'o\<close> are the call options, \<open>NewStream\<close> the method of the connection.\<close>

definition controlServiceClient_OpenControlStream ::
  "((ControlServiceServer, recv_result list, unit w) StreamDesc \<Rightarrow> string \<Rightarrow> 'o list \<Rightarrow> error + 'stream) \<Rightarrow>
   'o \<Rightarrow> 'o list \<Rightarrow> error + 'stream" where
  "controlServiceClient_OpenControlStream NewStream StaticMethod opts =
     (case NewStream (hd (svc_Streams ControlService_ServiceDesc)) ControlService_OpenControlStream_FullMethodName
             (StaticMethod # opts) of
        Inl err \<Rightarrow> Inl err
      | Inr stream \<Rightarrow> Inr stream)"

section \<open>Both sides mean the same method\<close>

text \<open>
  A gRPC server routes the path \<open>/service/stream\<close> to the handler of that stream, with the server it was
  registered with.
\<close>

definition routes_services ::
  "((ControlServiceServer, recv_result list, unit w) ServiceDesc \<Rightarrow> ControlServiceServer \<Rightarrow> 'g \<Rightarrow> 'g) \<Rightarrow>
   ('g \<Rightarrow> string \<Rightarrow> (recv_result list \<Rightarrow> unit w) option) \<Rightarrow> bool" where
  "routes_services RegisterService route \<longleftrightarrow> (\<forall>desc srv g. \<forall>sd \<in> set (svc_Streams desc).
     distinct (map sd_StreamName (svc_Streams desc)) \<longrightarrow>
     route (RegisterService desc srv g) (''/'' @ svc_ServiceName desc @ ''/'' @ sd_StreamName sd) = Some (sd_Handler sd srv))"

lemma client_reaches_server:
  assumes "routes_services RegisterService route"
    and "grpc_server RegisterService g dbOpen token cb = (server, cb', g')"
  shows "route g' ControlService_OpenControlStream_FullMethodName = Some (OpenControlStream server)"
proof -
  let ?sd = "hd (svc_Streams ControlService_ServiceDesc)"
  have sd: "?sd \<in> set (svc_Streams ControlService_ServiceDesc)" "distinct (map sd_StreamName (svc_Streams ControlService_ServiceDesc))"
    by (simp_all add: ControlService_ServiceDesc_def)
  have path: "''/'' @ svc_ServiceName ControlService_ServiceDesc @ ''/'' @ sd_StreamName ?sd = ControlService_OpenControlStream_FullMethodName"
    by (simp add: ControlService_ServiceDesc_def ControlService_OpenControlStream_FullMethodName_def)
  have "sd_Handler ?sd srv = srv" for srv
    by (simp add: ControlService_ServiceDesc_def ControlService_OpenControlStream_Handler_def fun_eq_iff)
  then have "route (RegisterService ControlService_ServiceDesc srv g) ControlService_OpenControlStream_FullMethodName = Some srv" for srv
    using assms(1)[unfolded routes_services_def, rule_format, OF sd, of srv g] path by metis
  then show ?thesis using assms(2) by (auto simp: grpc_server_def RegisterControlServiceServer_def split: prod.split_asm)
qed

end
