(* ===== verification/Spec2Isabelle.thy ===== *)
theory Spec2Isabelle
  imports Props_Lifecycle Props_Scheduling Props_Api Props_Graphql Props_Agents Props_Clusters Props_Config Server_Run Proto_Messages Control_Service
begin

text \<open>
  A verification development of r-orchestrator, a multi-tenant orchestrator of batch tasks written in Go.

  \<^bold>\<open>The program.\<close> A client submits a bundle of scripts through GraphQL (\<open>src/graph\<close>: resolvers, and an executor generated
  by gqlgen that calls them). The server stores a task and one shard per script
  (\<open>src/internal/service/task_service\<close>, \<open>src/internal/orm\<close>). A poller makes sure that the tenant has a
  cluster of agents (\<open>poll_pending_tasks.go\<close>, \<open>src/internal/service/cluster_service\<close>, a Kubernetes provider under
  \<open>backend/k8\<close>); a recycler renews or destroys clusters. Agents open a bidirectional gRPC stream
  (\<open>src/internal/control\<close>), are entered in an in-memory registry with heartbeat and grace timers
  (\<open>src/internal/service/agent_service\<close>), are leased shards, and report their start, result or failure. A finished task
  posts a completion hook. \<open>src/cmd/server/main.go\<close> puts the parts together, runs three background loops and two
  servers, and shuts them down.

  \<^bold>\<open>The model.\<close> One theory per part, one definition per function, with the names of the source where Isabelle
  allows them. A function that has effects is a function from the state to a result and the new state (\<open>Prelude\<close>); its
  result is an error or a value, and every early return of the source is a branch. The composition of the source
  is kept: handlers call services, services call the tables.
    \<^item> \<open>Prelude\<close>: errors (\<open>errors.Is\<close>, wrapping, gRPC codes, \<open>fmt.Errorf\<close>), the combinators, the interface \<open>evolution\<close>.
    \<^item> \<open>Model\<close>: the rows, status constants, messages and Kubernetes objects (\<open>src/internal/model\<close>, \<open>src/proto\<close>).
    \<^item> \<open>World\<close>: the state, the clock, statements and transactions, ticker loops, the object store, the stream.
    \<^item> \<open>Orm\<close>: \<open>task_orm\<close>, \<open>task_shard_orm\<close>, \<open>tenant_orm\<close>. \<open>Go_Strings\<close>: the string, path and archive functions used.
    \<^item> \<open>Task_Reports\<close>, \<open>Task_Leases\<close>, \<open>Task_Api\<close>, \<open>Poller\<close>: \<open>task_service\<close>. \<open>Agent_Service\<close>: \<open>agent_service\<close>.
    \<^item> \<open>Control\<close>: \<open>internal/control\<close>. \<open>Proto_Messages\<close>: the generated structures and accessors of \<open>proto/control.pb.go\<close>, which
      agree with the messages of \<open>Model\<close>. \<open>Control_Service\<close>: \<open>proto/control_grpc.pb.go\<close> and its registration: the method a client
      calls is the one the server handles. \<open>Cluster\<close>, \<open>K8s_Provider\<close>: \<open>cluster_orm\<close>, \<open>cluster_service\<close> and its backend.
    \<^item> \<open>Config\<close>: \<open>internal/config\<close>, \<open>internal/auth\<close>. \<open>Graph_Api\<close>: the resolvers.
    \<^item> \<open>Gqlgen\<close>: values of type \<open>any\<close>, marshalers, the state of an execution, and the two GraphQL libraries as
      records of functions. \<open>Gql_Codec\<close>: scalars, inputs and arguments (\<open>graph/model/uuid.go\<close>, \<open>graph/generated/uuid.go\<close>,
      \<open>graph/generated/generated.go\<close>). \<open>Gql_Contexts\<close>: \<open>fieldContext_*\<close> and \<open>childFields_*\<close>. \<open>Gql_Objects\<close>,
      \<open>Gql_Introspection\<close>: the functions \<open>_T_f\<close>, \<open>_T\<close> and \<open>marshal*\<close> for the schema's objects and for introspection.
      \<open>Gql_Exec\<close>: \<open>_Mutation\<close>, \<open>_Query\<close>, \<open>Complexity\<close>, \<open>NewExecutableSchema\<close>, \<open>Exec\<close>. A leading underscore of
      the source is \<open>field\<close> for a field and \<open>exec\<close> for an object here.
    \<^item> \<open>Server_Main\<close>: \<open>cmd/server\<close> up to the start of the goroutines. \<open>Server_Run\<close>: the goroutines, the wait for a signal or a
      failing server, and the shutdown, as statements of \<open>main\<close> interleaved with goroutines.
    \<^item> \<open>System\<close>: the running server as a step relation \<open>server_step\<close>: a GraphQL request, the opening of a stream, one
      message, the end of a stream, a timer that fires, a timer callback (whole or in its two halves), the delivery of a hook, a tick of each
      background loop, in any order. \<open>reachable\<close> are the states from a start with empty tables.

  \<^bold>\<open>Code outside the repository.\<close> Every answer of the clock, the database driver, the UUID generator, the object store,
  the stream, the HTTP client, the Kubernetes API, contexts, and the standard library's parsers of URLs, archives and
  durations is a function in the field \<open>env\<close> of the state (or an argument), indexed by the number of calls made so far. A
  theorem without a hypothesis on \<open>env\<close> holds whatever that code does: every statement may fail, every upload, every send.
  The documented behaviour used as a hypothesis is: identifiers are not nil (\<open>uuid_ok\<close>), and, for theorems that an
  operation succeeds, the database is open and answers (\<open>reliable\<close>). \<open>Demo\<close> and \<open>Demo_States\<close> give a concrete
  environment and concrete states that satisfy them, on which the witnesses evaluate.

  The functions of \<open>gqlgen/graphql\<close> and \<open>gqlparser\<close> are the record \<open>gqlgen\<close>, an argument of the executor. What is assumed of
  them, where a theorem needs it: they touch the server only through the functions they are given (\<open>calls_back\<close>), they
  resolve, marshal and store each field once (\<open>completes_fields\<close>, \<open>answers_fields\<close>), they call a resolver once with the
  arguments that were read for it (\<open>invokes_resolvers\<close>), they decode scalars and pass on the arguments
  (\<open>decodes_scalars\<close>, \<open>reads_arguments\<close>), they recover from panics of a field's resolver and marshaler (\<open>recovers\<close>), and a field's selections
  are smaller than those it is collected from (\<open>descends\<close>). \<open>Demo_Gql\<close> is a library for which all of this holds.

  \<^bold>\<open>Interfaces.\<close> The locales state what one part promises another, and are interpreted on the model.
    \<^item> \<open>evolution\<close> (Prelude): a relation on a view of the state that is respected by composition; the handlers are
      followed through it. \<open>task_store\<close> (Atomic_Steps) extends it: the atomic units of the tables, from which all entry
      points are shown to be built. It is interpreted on the sequences of atomic units, which keep the invariant of the
      tables (Lifecycle, Lifecycle_Units); each unit is one event of the status machine of the shards (Row_Lifecycle, which
      interprets \<open>db_evolution\<close> for every event).
    \<^item> \<open>beside_rows\<close> (Reliable) and \<open>beside_services\<close> (Registry_Store): what the table operations and the services leave
      alone. \<open>agent_registry\<close> (Registry_Store): what may happen to the registry of agents.

  \<^bold>\<open>What is shown.\<close>
    \<^item> \<open>Props_Lifecycle\<close> (C1--C7): the tables are consistent in every reachable state and under every interleaving of
      atomic units; every entry point refines a sequence of atomic units; each unit moves a shard along at most one edge of
      one event, tasks follow their status machine, and results are final.
    \<^item> \<open>Props_Scheduling\<close> (C8--C15): which shard is leased, when a lease succeeds, that leases are exclusive; what a report
      does to shard, task and hook; that the queue of a tenant can be worked off and its tasks then are finished; what a failed
      assignment leaves; what the cleanup of orphans requeues.
      \<open>Report_Results\<close>, \<open>Queue_Results\<close>, \<open>Assign_Results\<close>, \<open>Orphan_Results\<close> hold the lemmas.
    \<^item> \<open>Props_Api\<close> (C16--C20, C28): the archive loop against its specification, submission, cancellation, the separation of
      tenants, and that a failing operation changes nothing.
    \<^item> \<open>Props_Graphql\<close> (C21--C27): a mutation runs exactly the resolvers it asks for, in order and with its arguments, a query
      only reads and answers what its resolver finds, a response stream ends, the
      answer for a task is the one the GraphQL specification prescribes, known fields never panic, inputs round-trip.
      The lemmas are in \<open>Gql_Moves\<close> (what the executor may do
      to the server, whatever the order of the callbacks), \<open>Gql_Values\<close> (what it returns), \<open>Gql_Requests\<close> (how the resolvers are
      called) and \<open>Gql_Depth\<close>.
    \<^item> \<open>Props_Agents\<close> (C29--C34): identity in the registry, the end of a stream, authorisation of reports, who may open a
      stream, and the timers. Lemmas beside them record the behaviours that differ from the comments of the code.
    \<^item> \<open>Props_Clusters\<close> (C35--C38): the background loops end with their context and are sequences of server steps; the
      recycler never takes a cluster from a tenant with active tasks; the bounds on replicas; the outcome of a poll. The
      lemmas are in \<open>Background_Loops\<close>, \<open>Recycler_Results\<close> and \<open>Poll_Results\<close>.
    \<^item> \<open>Props_Config\<close> (C39): the configurations that are accepted. This theory (C40): the shutdown of the process.

  \<^bold>\<open>Bounds and loops.\<close> All loops of the source are over lists or have a bound of their own: the retry loop of
  \<open>LeaseNextShard\<close> has the 100 attempts of the source, the search for \<open>.env\<close> its ten steps. The loops that run until
  their context is done are recursions over the list of events that \<open>select\<close> or \<open>Recv\<close> delivers. The one use of fuel is
  \<open>StackDepth\<close>, the nesting of the executor's only recursive function, \<open>___Type\<close>: by \<open>introspection_needs_no_more_stack\<close> every depth above
  that of the selection gives the same answer, and the recursion equation of the source holds there. Machine
  integers are words where the code converts or can overflow (\<open>int32\<close> counts, \<open>Invalids\<close> and \<open>Deferred\<close>, the accumulator
  of \<open>envOrInt\<close>, \<open>time.Duration\<close> products), unbounded otherwise.

  \<^bold>\<open>Not modelled.\<close> What protoc generates for encoding and reflection, which forwards to the protobuf library; the text of the GraphQL schema, which only gqlparser reads; how gin finds the route of a request; what is written to the
  log; test-only hooks; and everything that is not Go: the agent in \<open>src/agent\<close> (Rust), the Helm chart and the
  build files. Transactions are
  serialised: the row locks of the source are not modelled as such, and statements of different transactions do not
  interleave, while separate units of one handler do. The functions a query runs concurrently are run in an arbitrary
  order, one at a time. The callback variables \<open>onTimeout\<close> and \<open>notifyCancelShard\<close> are
  arguments of the operations that read them (\<open>startup_wiring\<close> shows their values).
\<close>

section \<open>The end of the server process\<close>

text \<open>
  C40: the shutdown completes. Once the context of \<open>main\<close> is done or a server has failed, \<open>main\<close> can always go on until it
  returns, by steps that need no further signal, no failing server and no agent or client that hangs up by itself: the
  deadlines of the shutdown are enough. It cannot go on forever either, however the goroutines are scheduled. And
  whenever it has returned, all seven goroutines have ended, so no loop works on behind it.
\<close>

theorem shutdown_completes:
  assumes "main_reachable p" and "p_Done p \<or> p_errs p \<noteq> []"
  shows "(\<exists>q. due_step\<^sup>*\<^sup>* p q \<and> p_todo q = []) \<and>
    (\<forall>f. f 0 = p \<longrightarrow> (\<exists>i. \<not> main_step (f i) (f (Suc i)))) \<and>
    (\<forall>q. main_step\<^sup>*\<^sup>* p q \<longrightarrow> p_todo q = [] \<longrightarrow> (\<forall>g. p_go q g = Ended))"
proof (intro conjI allI impI)
  show "\<exists>q. due_step\<^sup>*\<^sup>* p q \<and> p_todo q = []" using main_finishes[OF assms] by blast
next
  fix f :: "nat \<Rightarrow> process" assume "f 0 = p"
  then show "\<exists>i. \<not> main_step (f i) (f (Suc i))" using no_infinite_run assms(1) by blast
next
  fix q g assume "main_step\<^sup>*\<^sup>* p q" "p_todo q = []"
  moreover from this(1) have "main_reachable q" by (induction rule: rtranclp_induct) (auto intro: assms(1) main_reachable.step)
  ultimately show "p_go q g = Ended" using returned_alone[of q] by (auto simp: alive_def)
qed

text \<open>The five goroutines are started, and the HTTP server cannot listen.\<close>

definition demo_run :: "action list" where
  "demo_run = replicate 6 Main @ [Return ServeHTTP (Some (External ''address already in use''))]"

definition demo_process :: process where
  "demo_process = the (run_actions demo_run main_start)"

lemma demo_process_reachable: "main_reachable demo_process"
proof -
  have "run_actions demo_run main_start \<noteq> None" by code_simp
  then show ?thesis using run_actions_reachable[OF main_reachable.start] unfolding demo_process_def by force
qed

theorem shutdown_completes_witness:
  "\<exists>q. due_step\<^sup>*\<^sup>* demo_process q \<and> p_todo q = []"
proof -
  have "p_errs demo_process \<noteq> []" by code_simp
  then show ?thesis using shutdown_completes[OF demo_process_reachable] by blast
qed

end
